(* ===== verification/Prelude.thy ===== *)
theory Prelude
  imports Main "HOL-Library.State_Monad" "HOL-Library.Sublist"
begin

text \<open>
  The shared base of the development.

  \<^item> Go errors: an error value is its text together with the sentinels and API status
    classes that \<open>errors.Is\<close>, \<open>errors.As\<close> and the \<open>apierrors.Is...\<close> predicates find on its
    chain. Wrapping with \<open>%w\<close> keeps the classes, formatting with \<open>%v\<close> drops them.
  \<^item> Effects: a computation is a \<open>State_Monad\<close> action over a state that carries the world
    of an external party (the API server, the identity provider, a file system) and the
    trace of what the program did to it. The trace lets a property speak about the order
    and the arguments of calls under every behaviour of the external party.
  \<^item> The \<open>trace_rules\<close> collection: one rule per construct of the monad, so that a property
    of every emitted effect follows the structure of the program.
\<close>

named_theorems trace_rules \<open>rules for properties of every effect a computation emits\<close>
named_theorems post_rules \<open>rules for properties of the result and of the emitted effects\<close>
named_theorems go_defs \<open>definitions that unfold to plain data\<close>

section \<open>Errors\<close>

text \<open>
  The classes of an error the source tests for: API status reasons, context errors, the
  sentinels of the gateway's auth package and the typed error of go-oidc.
\<close>

datatype err_kind =
    NotFound | Forbidden | Timeout | ServiceUnavailable | AlreadyOwned
  | DeadlineExceeded | Canceled
  | Unauthenticated | AuthForbidden | TokenExpired | OIDCTokenExpired

record go_error =
  err_text :: string
  err_kinds :: "err_kind list"

type_synonym 'a res = "go_error + 'a"

text \<open>\<open>errors.New\<close> and \<open>fmt.Errorf\<close> without \<open>%w\<close>: no class.\<close>

definition new_error :: "string \<Rightarrow> go_error" where
  "new_error t = \<lparr>err_text = t, err_kinds = []\<rparr>"

text \<open>\<open>fmt.Errorf("prefix: %w", err)\<close>.\<close>

definition errorf_w :: "string \<Rightarrow> go_error \<Rightarrow> go_error" where
  "errorf_w p e = \<lparr>err_text = p @ '': '' @ err_text e, err_kinds = err_kinds e\<rparr>"

text \<open>\<open>errors.Is\<close>, \<open>errors.As\<close> and the \<open>apierrors\<close> predicates.\<close>

definition errors_is :: "go_error \<Rightarrow> err_kind \<Rightarrow> bool" where
  "errors_is e k \<longleftrightarrow> k \<in> set (err_kinds e)"

abbreviation is_not_found :: "go_error \<Rightarrow> bool" where
  "is_not_found e \<equiv> errors_is e NotFound"

lemma errors_is_new [simp]: "\<not> errors_is (new_error t) k"
  by (simp add: errors_is_def new_error_def)

lemma errors_is_wrap [simp]: "errors_is (errorf_w p e) k = errors_is e k"
  by (simp add: errors_is_def errorf_w_def)

lemma err_text_new [simp]: "err_text (new_error t) = t"
  by (simp add: new_error_def)

lemma err_text_wrap [simp]: "err_text (errorf_w p e) = p @ '': '' @ err_text e"
  by (simp add: errorf_w_def)

text \<open>A chain of checks that returns the first error passes when every check passes.\<close>

lemma check_if_None: "(if b then Some e else r) = None \<longleftrightarrow> \<not> b \<and> r = None"
  by simp

lemma check_option_None:
  "(case x of None \<Rightarrow> r | Some e \<Rightarrow> Some e) = None \<longleftrightarrow> x = None \<and> r = None"
  by (simp split: option.split)

lemma check_sum_None:
  "(case x of Inl e \<Rightarrow> Some (f e) | Inr _ \<Rightarrow> None) = None
   \<longleftrightarrow> (case x of Inl _ \<Rightarrow> False | Inr _ \<Rightarrow> True)"
  by (simp split: sum.split)

lemmas check_None = check_if_None check_option_None check_sum_None

section \<open>Traced effects\<close>

text \<open>
  \<open>world\<close> is the state of whatever is outside the program, \<open>trace\<close> the effects so far,
  oldest first.
\<close>

record ('w, 'e) sys =
  world :: 'w
  trace :: "'e list"

type_synonym ('w, 'e, 'a) io = "(('w, 'e) sys, 'a) state"

text \<open>Record an effect that needs no answer (a metric, an event, a log line).\<close>

definition emit :: "'e \<Rightarrow> ('w, 'e, unit) io" where
  "emit e = State (\<lambda>s. ((), s\<lparr>trace := trace s @ [e]\<rparr>))"

text \<open>
  Ask the external party: \<open>op\<close> is its answer and next world, \<open>ev\<close> the effect recorded for
  the answer it gave.
\<close>

definition ask :: "('w \<Rightarrow> 'a \<times> 'w) \<Rightarrow> ('a \<Rightarrow> 'e) \<Rightarrow> ('w, 'e, 'a) io" where
  "ask op ev = State (\<lambda>s. case op (world s) of
     (a, w') \<Rightarrow> (a, s\<lparr>world := w', trace := trace s @ [ev a]\<rparr>))"

text \<open>Ask without leaving a mark on the trace (reading the clock).\<close>

definition ask_silent :: "('w \<Rightarrow> 'a \<times> 'w) \<Rightarrow> ('w, 'e, 'a) io" where
  "ask_silent op = State (\<lambda>s. case op (world s) of (a, w') \<Rightarrow> (a, s\<lparr>world := w'\<rparr>))"

lemma run_emit [simp]: "run_state (emit e) s = ((), s\<lparr>trace := trace s @ [e]\<rparr>)"
  by (simp add: emit_def)

lemma run_ask [simp]:
  "run_state (ask op ev) s =
     (fst (op (world s)),
      s\<lparr>world := snd (op (world s)), trace := trace s @ [ev (fst (op (world s)))]\<rparr>)"
  by (simp add: ask_def split: prod.splits)

lemma run_ask_silent [simp]:
  "run_state (ask_silent op) s = (fst (op (world s)), s\<lparr>world := snd (op (world s))\<rparr>)"
  by (simp add: ask_silent_def split: prod.splits)

text \<open>What a run adds to the trace, and its result.\<close>

definition result_of :: "('w, 'e, 'a) io \<Rightarrow> ('w, 'e) sys \<Rightarrow> 'a" where
  "result_of m s = fst (run_state m s)"

definition effects_of :: "('w, 'e, 'a) io \<Rightarrow> ('w, 'e) sys \<Rightarrow> 'e list" where
  "effects_of m s = drop (length (trace s)) (trace (snd (run_state m s)))"

text \<open>
  \<open>ensures m Q\<close>: a run of \<open>m\<close> only appends to the trace, and result and appended effects
  satisfy \<open>Q\<close>, in every world.
\<close>

definition ensures :: "('w, 'e, 'a) io \<Rightarrow> ('a \<Rightarrow> 'e list \<Rightarrow> bool) \<Rightarrow> bool" where
  "ensures m Q \<longleftrightarrow> (\<forall>s. \<exists>t. trace (snd (run_state m s)) = trace s @ t
      \<and> Q (fst (run_state m s)) t)"

text \<open>\<open>emits m P\<close>: every effect a run of \<open>m\<close> appends satisfies \<open>P\<close>.\<close>

definition emits :: "('w, 'e, 'a) io \<Rightarrow> ('e \<Rightarrow> bool) \<Rightarrow> bool" where
  "emits m P \<longleftrightarrow> ensures m (\<lambda>_ t. list_all P t)"

lemma ensuresD:
  assumes "ensures m Q"
  shows "Q (result_of m s) (effects_of m s)"
  using assms by (auto simp: ensures_def result_of_def effects_of_def dest: spec [where x = s])

lemma ensures_trace:
  assumes "ensures m Q"
  shows "trace (snd (run_state m s)) = trace s @ effects_of m s"
  using assms by (auto simp: ensures_def effects_of_def dest: spec [where x = s])

lemma case_sum_Inr:
  "(case x of Inl e \<Rightarrow> Inl e | Inr m \<Rightarrow> Inr (g m)) = Inr y \<longleftrightarrow> (\<exists>m. x = Inr m \<and> y = g m)"
  by (auto split: sum.splits)

lemma ensures_mono: "ensures m Q \<Longrightarrow> (\<And>a t. Q a t \<Longrightarrow> R a t) \<Longrightarrow> ensures m R"
  unfolding ensures_def by blast

lemma ensures_return [post_rules]: "Q a [] \<Longrightarrow> ensures (State_Monad.return a) Q"
  by (simp add: ensures_def)

lemma ensures_bind:
  assumes "ensures m Q" and "\<And>a t. Q a t \<Longrightarrow> ensures (f a) (\<lambda>b u. R b (t @ u))"
  shows "ensures (State_Monad.bind m f) R"
  unfolding ensures_def
proof
  fix s
  obtain a s1 where r: "run_state m s = (a, s1)" by fastforce
  with assms(1) obtain t where t: "trace s1 = trace s @ t" "Q a t"
    by (auto simp: ensures_def dest: spec [where x = s])
  from assms(2) [OF t(2)] obtain u where
    "trace (snd (run_state (f a) s1)) = trace s1 @ u" "R (fst (run_state (f a) s1)) (t @ u)"
    by (auto simp: ensures_def dest: spec [where x = s1])
  with r t show "\<exists>t. trace (snd (run_state (m \<bind> f) s)) = trace s @ t
      \<and> R (fst (run_state (m \<bind> f) s)) t"
    by auto
qed

lemma ensures_conj:
  assumes "ensures m Q" and "ensures m R"
  shows "ensures m (\<lambda>a t. Q a t \<and> R a t)"
  unfolding ensures_def
proof
  fix s
  from assms(1) obtain t where "trace (snd (run_state m s)) = trace s @ t" "Q (fst (run_state m s)) t"
    by (auto simp: ensures_def dest: spec [where x = s])
  moreover from assms(2) obtain u where
    "trace (snd (run_state m s)) = trace s @ u" "R (fst (run_state m s)) u"
    by (auto simp: ensures_def dest: spec [where x = s])
  ultimately show "\<exists>t. trace (snd (run_state m s)) = trace s @ t
      \<and> Q (fst (run_state m s)) t \<and> R (fst (run_state m s)) t"
    by auto
qed

lemma ensures_emit: "Q () [e] \<Longrightarrow> ensures (emit e) Q"
  by (simp add: ensures_def)

lemma ensures_ask: "(\<And>a. Q a [ev a]) \<Longrightarrow> ensures (ask op ev) Q"
  by (simp add: ensures_def)

text \<open>The same with the answers the external party can give.\<close>

lemma ensures_ask_answer: "(\<And>w. Q (fst (op w)) [ev (fst (op w))]) \<Longrightarrow> ensures (ask op ev) Q"
  by (simp add: ensures_def)

lemma ensures_ask_bind [post_rules]:
  assumes "\<And>w. ensures (f (fst (op w))) (\<lambda>b u. R b (ev (fst (op w)) # u))"
  shows "ensures (State_Monad.bind (ask op ev) f) R"
  by (rule ensures_bind [OF ensures_ask_answer, where Q = "\<lambda>a t. \<exists>w. a = fst (op w) \<and> t = [ev a]"])
    (use assms in auto)

lemma ensures_ask_silent: "(\<And>a. Q a []) \<Longrightarrow> ensures (ask_silent op) Q"
  by (simp add: ensures_def)

lemma ensures_if [post_rules]:
  "(b \<Longrightarrow> ensures m Q) \<Longrightarrow> (\<not> b \<Longrightarrow> ensures n Q) \<Longrightarrow> ensures (if b then m else n) Q"
  by simp

lemma ensures_case_sum [post_rules]:
  "(\<And>a. x = Inl a \<Longrightarrow> ensures (f a) Q) \<Longrightarrow> (\<And>b. x = Inr b \<Longrightarrow> ensures (g b) Q)
   \<Longrightarrow> ensures (case x of Inl a \<Rightarrow> f a | Inr b \<Rightarrow> g b) Q"
  by (cases x) auto

lemma ensures_case_option [post_rules]:
  "(x = None \<Longrightarrow> ensures m Q) \<Longrightarrow> (\<And>a. x = Some a \<Longrightarrow> ensures (f a) Q)
   \<Longrightarrow> ensures (case x of None \<Rightarrow> m | Some a \<Rightarrow> f a) Q"
  by (cases x) auto

lemma ensures_case_prod [post_rules]:
  "(\<And>a b. x = (a, b) \<Longrightarrow> ensures (f a b) Q) \<Longrightarrow> ensures (case x of (a, b) \<Rightarrow> f a b) Q"
  by (cases x) auto

lemma ensures_let [post_rules]: "ensures (f x) Q \<Longrightarrow> ensures (let y = x in f y) Q"
  by simp

lemma emits_return [trace_rules, simp]: "emits (State_Monad.return a) P"
  by (simp add: emits_def ensures_return)

lemma emits_bind [trace_rules]:
  "emits m P \<Longrightarrow> (\<And>a. emits (f a) P) \<Longrightarrow> emits (State_Monad.bind m f) P"
  unfolding emits_def by (rule ensures_bind) (auto elim: ensures_mono)

lemma emits_emit [trace_rules]: "P e \<Longrightarrow> emits (emit e) P"
  by (simp add: emits_def ensures_emit)

lemma emits_ask [trace_rules]: "(\<And>a. P (ev a)) \<Longrightarrow> emits (ask op ev) P"
  by (simp add: emits_def ensures_ask)

lemma emits_ask_silent [trace_rules]: "emits (ask_silent op) P"
  by (simp add: emits_def ensures_ask_silent)

lemma emits_if [trace_rules]:
  "(b \<Longrightarrow> emits m P) \<Longrightarrow> (\<not> b \<Longrightarrow> emits n P) \<Longrightarrow> emits (if b then m else n) P"
  by simp

lemma emits_case_sum [trace_rules]:
  "(\<And>a. x = Inl a \<Longrightarrow> emits (f a) P) \<Longrightarrow> (\<And>b. x = Inr b \<Longrightarrow> emits (g b) P)
   \<Longrightarrow> emits (case x of Inl a \<Rightarrow> f a | Inr b \<Rightarrow> g b) P"
  by (cases x) auto

lemma emits_case_option [trace_rules]:
  "(x = None \<Longrightarrow> emits m P) \<Longrightarrow> (\<And>a. x = Some a \<Longrightarrow> emits (f a) P)
   \<Longrightarrow> emits (case x of None \<Rightarrow> m | Some a \<Rightarrow> f a) P"
  by (cases x) auto

lemma emits_case_prod [trace_rules]:
  "(\<And>a b. x = (a, b) \<Longrightarrow> emits (f a b) P) \<Longrightarrow> emits (case x of (a, b) \<Rightarrow> f a b) P"
  by (cases x) auto

lemma emits_let [trace_rules]: "emits (f x) P \<Longrightarrow> emits (let y = x in f y) P"
  by simp

lemma emitsD: "emits m P \<Longrightarrow> list_all P (effects_of m s)"
  unfolding emits_def by (rule ensuresD)

lemma emits_mono: "emits m P \<Longrightarrow> (\<And>e. P e \<Longrightarrow> Q e) \<Longrightarrow> emits m Q"
  unfolding emits_def by (erule ensures_mono) (auto simp: list_all_iff)

section \<open>Weakest preconditions\<close>

text \<open>
  \<open>wp m Q s\<close>: the run of \<open>m\<close> from \<open>s\<close> ends with a result and a state that satisfy \<open>Q\<close>. Every
  action is total, so this computes the run; the equations of \<open>wp_simps\<close> do it by rewriting.
\<close>

named_theorems wp_simps \<open>equations that push a postcondition through an action\<close>

definition wp :: "('w, 'e, 'a) io \<Rightarrow> ('a \<Rightarrow> ('w, 'e) sys \<Rightarrow> bool) \<Rightarrow> ('w, 'e) sys \<Rightarrow> bool" where
  "wp m Q s \<longleftrightarrow> Q (fst (run_state m s)) (snd (run_state m s))"

lemma wp_return [wp_simps]: "wp (State_Monad.return a) Q s \<longleftrightarrow> Q a s"
  by (simp add: wp_def)

lemma wp_bind [wp_simps]: "wp (State_Monad.bind m f) Q s \<longleftrightarrow> wp m (\<lambda>a s'. wp (f a) Q s') s"
  by (simp add: wp_def case_prod_beta)

lemma wp_emit [wp_simps]: "wp (emit e) Q s \<longleftrightarrow> Q () (s\<lparr>trace := trace s @ [e]\<rparr>)"
  by (simp add: wp_def)

lemma wp_ask [wp_simps]: "wp (ask op ev) Q s \<longleftrightarrow>
   Q (fst (op (world s))) (s\<lparr>world := snd (op (world s)), trace := trace s @ [ev (fst (op (world s)))]\<rparr>)"
  by (simp add: wp_def)

lemma wp_if [wp_simps]: "wp (if b then m else n) Q s \<longleftrightarrow> (if b then wp m Q s else wp n Q s)"
  by simp

lemma wp_case_option [wp_simps]:
  "wp (case x of None \<Rightarrow> m | Some a \<Rightarrow> f a) Q s \<longleftrightarrow> (case x of None \<Rightarrow> wp m Q s | Some a \<Rightarrow> wp (f a) Q s)"
  by (simp split: option.split)

lemma wp_case_sum [wp_simps]:
  "wp (case x of Inl a \<Rightarrow> f a | Inr b \<Rightarrow> g b) Q s \<longleftrightarrow> (case x of Inl a \<Rightarrow> wp (f a) Q s | Inr b \<Rightarrow> wp (g b) Q s)"
  by (simp split: sum.split)

lemma wp_mono: "wp m Q s \<Longrightarrow> (\<And>a s'. Q a s' \<Longrightarrow> R a s') \<Longrightarrow> wp m R s"
  by (simp add: wp_def)

lemma wp_run: "wp m (\<lambda>a s'. run_state m s = (a, s')) s"
  by (simp add: wp_def)

end
