(* ===== verification/Go_Time.thy ===== *)
theory Go_Time
  imports Go_Strings
begin

text \<open>
  Go's \<open>time.Duration\<close> (a signed count of nanoseconds) and \<open>time.ParseDuration\<close>. An instant
  is the number of nanoseconds since a fixed epoch; the zero value of \<open>metav1.Time\<close>, which
  \<open>IsZero\<close> recognises, is \<open>None\<close> where a field may hold it.

  \<open>ParseDuration\<close> follows the library function: sign, the special case \<open>0\<close>, then a sequence of
  decimal numbers with units, with the overflow checks of its 64-bit accumulators. The
  fraction of a number is added exactly; Go computes it in \<open>float64\<close> and truncates, which can
  differ in the last nanosecond.
\<close>

type_synonym duration = int
type_synonym instant = int

definition Second :: duration where "Second = 1000000000"
definition Minute :: duration where "Minute = 60 * Second"
definition Hour :: duration where "Hour = 60 * Minute"

lemmas duration_units = Second_def Minute_def Hour_def

text \<open>Division of durations truncates toward zero (\<open>idle / 4\<close>).\<close>

definition quot :: "int \<Rightarrow> int \<Rightarrow> int" where
  "quot a b = (if 0 \<le> a then a div b else - ((- a) div b))"

text \<open>\<open>Time.Sub\<close> saturates at the bounds of a 64-bit count.\<close>

definition time_sub :: "instant \<Rightarrow> instant \<Rightarrow> duration" where
  "time_sub t u = max (- (2 ^ 63)) (min (2 ^ 63 - 1) (t - u))"

text \<open>
  \<open>metav1.Time\<close> is written in RFC 3339 with whole seconds: what an instant is after it went over
  the wire.
\<close>

definition whole_seconds :: "instant \<Rightarrow> instant" where
  "whole_seconds t = t div Second * Second"

lemma whole_seconds_bounds: "whole_seconds t \<le> t" "t < whole_seconds t + Second"
proof -
  have "0 \<le> t mod Second" "t mod Second < Second" by (simp_all add: Second_def)
  moreover have "whole_seconds t = t - t mod Second" by (simp add: whole_seconds_def minus_mod_eq_div_mult)
  ultimately show "whole_seconds t \<le> t" "t < whole_seconds t + Second" by linarith+
qed

lemma whole_seconds_mono: "t \<le> u \<Longrightarrow> whole_seconds t \<le> whole_seconds u"
  by (simp add: whole_seconds_def zdiv_mono1 Second_def)

lemma whole_seconds_idem [simp]: "whole_seconds (whole_seconds t) = whole_seconds t"
  by (simp add: whole_seconds_def Second_def)

definition unit_map :: "(string \<times> nat) list" where
  "unit_map = [(''ns'', 1), (''us'', 1000), ([CHR 0xC2, CHR 0xB5, CHR ''s''], 1000),
     ([CHR 0xCE, CHR 0xBC, CHR ''s''], 1000), (''ms'', 1000000), (''s'', 1000000000),
     (''m'', 60 * 1000000000), (''h'', 3600 * 1000000000)]"

text \<open>\<open>leadingInt\<close>: \<open>None\<close> on overflow.\<close>

fun leadingInt :: "nat \<Rightarrow> string \<Rightarrow> (nat \<times> string) option" where
  "leadingInt x [] = Some (x, [])"
| "leadingInt x (c # cs) =
     (if \<not> is_digit c then Some (x, c # cs)
      else if x > 2 ^ 63 div 10 then None
      else let y = 10 * x + (code c - 48)
           in if y > 2 ^ 63 then None else leadingInt y cs)"

text \<open>\<open>leadingFraction\<close>: digits past the precision are consumed and ignored.\<close>

fun leadingFraction :: "bool \<Rightarrow> nat \<Rightarrow> nat \<Rightarrow> string \<Rightarrow> nat \<times> nat \<times> string" where
  "leadingFraction ov x sc [] = (x, sc, [])"
| "leadingFraction ov x sc (c # cs) =
     (if \<not> is_digit c then (x, sc, c # cs)
      else if ov then leadingFraction True x sc cs
      else if x > (2 ^ 63 - 1) div 10 then leadingFraction True x sc cs
      else let y = 10 * x + (code c - 48)
           in if y > 2 ^ 63 then leadingFraction True x sc cs
              else leadingFraction False y (10 * sc) cs)"

definition is_number_char :: "char \<Rightarrow> bool" where
  "is_number_char c \<longleftrightarrow> c = CHR ''.'' \<or> is_digit c"

text \<open>The optional fraction: its digits, their scale, whether there were any, and the rest.\<close>

definition fraction :: "string \<Rightarrow> nat \<times> nat \<times> bool \<times> string" where
  "fraction s = (case s of
     [] \<Rightarrow> (0, 1, False, [])
   | c # cs \<Rightarrow> if c = CHR ''.'' then
        (case leadingFraction False 0 1 cs of (f, sc, r) \<Rightarrow> (f, sc, length r \<noteq> length cs, r))
      else (0, 1, False, s))"

text \<open>
  One number with its unit: the nanoseconds it adds and the rest of the string, or the
  error text. \<open>orig\<close> is the whole argument, which the messages quote.
\<close>

definition duration_item :: "string \<Rightarrow> string \<Rightarrow> string + (nat \<times> string)" where
  "duration_item orig s =
     (let invalid = Inl (''time: invalid duration '' @ Quote orig) in
      if s = [] \<or> \<not> is_number_char (hd s) then invalid
      else case leadingInt 0 s of
        None \<Rightarrow> invalid
      | Some (v, s1) \<Rightarrow>
          (case fraction s1 of (f, sc, post, s2) \<Rightarrow>
             if length s1 = length s \<and> \<not> post then invalid
             else let u = takeWhile (\<lambda>c. \<not> is_number_char c) s2;
                      s3 = dropWhile (\<lambda>c. \<not> is_number_char c) s2
                  in if u = [] then Inl (''time: missing unit in duration '' @ Quote orig)
                     else case map_of unit_map u of
                       None \<Rightarrow> Inl (''time: unknown unit '' @ Quote u @ '' in duration '' @ Quote orig)
                     | Some unit \<Rightarrow>
                         if v > 2 ^ 63 div unit then invalid
                         else let w = v * unit + (if f > 0 then f * unit div sc else 0)
                              in if w > 2 ^ 63 then invalid else Inr (w, s3)))"

lemma length_leadingInt: "leadingInt x s = Some (v, r) \<Longrightarrow> length r \<le> length s"
  by (induction x s rule: leadingInt.induct) (auto simp: Let_def split: if_splits)

lemma length_leadingFraction: "leadingFraction ov x sc s = (v, sc', r) \<Longrightarrow> length r \<le> length s"
  by (induction s arbitrary: ov x sc) (fastforce simp: Let_def split: if_splits)+

lemma length_fraction: "fraction s = (f, sc, p, r) \<Longrightarrow> length r \<le> length s"
  by (auto simp: fraction_def split: list.splits if_splits prod.splits dest!: length_leadingFraction)

lemma duration_item_shorter:
  assumes "duration_item orig s = Inr (w, r)"
  shows "length r < length s"
proof -
  from assms obtain v s1 f sc p s2 where
    1: "leadingInt 0 s = Some (v, s1)" and 2: "fraction s1 = (f, sc, p, s2)"
    and r: "r = dropWhile (\<lambda>c. \<not> is_number_char c) s2"
    and u: "takeWhile (\<lambda>c. \<not> is_number_char c) s2 \<noteq> []"
    by (auto simp: duration_item_def Let_def split: if_splits option.splits prod.splits)
  from u have "length r < length s2"
    unfolding r using length_append [of "takeWhile (\<lambda>c. \<not> is_number_char c) s2"
        "dropWhile (\<lambda>c. \<not> is_number_char c) s2"]
    by (metis add_less_same_cancel2 length_greater_0_conv not_less takeWhile_dropWhile_id
        less_add_same_cancel2)
  also have "\<dots> \<le> length s" using length_leadingInt [OF 1] length_fraction [OF 2] by simp
  finally show ?thesis .
qed

function duration_loop :: "string \<Rightarrow> nat \<Rightarrow> string \<Rightarrow> string + nat" where
  "duration_loop orig d s =
     (if s = [] then Inr d
      else case duration_item orig s of
        Inl e \<Rightarrow> Inl e
      | Inr (w, r) \<Rightarrow>
          let d' = (d + w) mod 2 ^ 64
          in if d' > 2 ^ 63 then Inl (''time: invalid duration '' @ Quote orig)
             else duration_loop orig d' r)"
  by pat_completeness auto
termination
  by (relation "measure (\<lambda>(orig, d, s). length s)") (auto dest: duration_item_shorter)

declare duration_loop.simps [simp del]

definition ParseDuration :: "string \<Rightarrow> duration res" where
  "ParseDuration orig =
     (let neg = HasPrefix orig ''-'';
          s = (if neg \<or> HasPrefix orig ''+'' then drop 1 orig else orig);
          invalid = ''time: invalid duration '' @ Quote orig
      in if s = ''0'' then Inr 0
         else if s = [] then Inl (new_error invalid)
         else case duration_loop orig 0 s of
           Inl e \<Rightarrow> Inl (new_error e)
         | Inr d \<Rightarrow> if neg then Inr (- int d)
                    else if d > 2 ^ 63 - 1 then Inl (new_error invalid)
                    else Inr (int d))"

lemma duration_loop_bound:
  "d \<le> 2 ^ 63 \<Longrightarrow> duration_loop orig d s = Inr r \<Longrightarrow> r \<le> 2 ^ 63"
proof (induction orig d s rule: duration_loop.induct)
  case (1 orig d s)
  show ?case
  proof (cases "s = []")
    case True
    with "1.prems" show ?thesis by (simp add: duration_loop.simps [of orig d "[]"])
  next
    case False
    with "1.prems"(2) obtain w t where it: "duration_item orig s = Inr (w, t)"
      by (auto simp: duration_loop.simps [of orig d s] split: sum.splits)
    with False "1.prems"(2) have d': "\<not> (d + w) mod 2 ^ 64 > 2 ^ 63"
      and rec: "duration_loop orig ((d + w) mod 2 ^ 64) t = Inr r"
      by (auto simp: duration_loop.simps [of orig d s] Let_def split: if_splits)
    show ?thesis
      using "1.IH" [OF False it refl refl _ _ rec] d' by simp
  qed
qed

text \<open>A parsed duration is an \<open>int64\<close>.\<close>

lemma ParseDuration_int64:
  assumes "ParseDuration s = Inr d"
  shows "- (2 ^ 63) \<le> d \<and> d < 2 ^ 63"
proof -
  have "r \<le> 2 ^ 63" if "duration_loop s 0 t = Inr r" for t r
    using duration_loop_bound [of 0 s t r] that by simp
  with assms show ?thesis
    by (fastforce simp: ParseDuration_def Let_def split: if_splits sum.splits)
qed

lemma quot_bounds: "0 \<le> a \<Longrightarrow> 0 < b \<Longrightarrow> 0 \<le> quot a b \<and> quot a b \<le> a"
  using zdiv_mono2 [of a 1 b] by (simp add: quot_def pos_imp_zdiv_nonneg_iff)

end
