(* ===== verification/Api_Types.thy ===== *)
theory Api_Types
  imports Go_Time
begin

text \<open>
  The Workspace custom resource (\<open>api/v1alpha1/workspace_types.go\<close>) and the fields of
  \<open>metav1.ObjectMeta\<close> and \<open>metav1.Condition\<close> that the program reads or writes. A Go struct is a
  record, a pointer field an \<open>option\<close>, a string map an association list with distinct keys.
\<close>

section \<open>Object metadata\<close>

type_synonym labels = "(string \<times> string) list"

record owner_ref =
  or_name :: string
  or_uid :: string
  or_controller :: bool

record object_meta =
  mt_name :: string
  mt_namespace :: string
  mt_uid :: string
  mt_labels :: labels
  mt_owners :: "owner_ref list"
  mt_finalizers :: "string list"
  mt_deletion :: "instant option"
  mt_generation :: int

text \<open>\<open>types.NamespacedName\<close> and \<open>client.ObjectKey\<close>.\<close>

record object_key =
  key_namespace :: string
  key_name :: string

text \<open>An \<open>ObjectMeta\<close> literal: every field that is not written is zero.\<close>

definition meta :: "string \<Rightarrow> string \<Rightarrow> labels \<Rightarrow> object_meta" where
  "meta nm ns ls = \<lparr>mt_name = nm, mt_namespace = ns, mt_uid = '''', mt_labels = ls, mt_owners = [],
     mt_finalizers = [], mt_deletion = None, mt_generation = 0\<rparr>"

definition key_of :: "object_meta \<Rightarrow> object_key" where
  "key_of m = \<lparr>key_namespace = mt_namespace m, key_name = mt_name m\<rparr>"

lemma meta_simps [simp]:
  "mt_name (meta nm ns ls) = nm" "mt_namespace (meta nm ns ls) = ns"
  "mt_labels (meta nm ns ls) = ls" "mt_owners (meta nm ns ls) = []"
  "mt_finalizers (meta nm ns ls) = []" "mt_deletion (meta nm ns ls) = None"
  "mt_generation (meta nm ns ls) = 0" "mt_uid (meta nm ns ls) = ''''"
  by (simp_all add: meta_def)

record condition =
  cond_type :: string
  cond_status :: string
  cond_generation :: int
  cond_reason :: string
  cond_message :: string
  cond_transition :: "instant option"

abbreviation ConditionTrue :: string where "ConditionTrue \<equiv> ''True''"
abbreviation ConditionFalse :: string where "ConditionFalse \<equiv> ''False''"

section \<open>WorkspaceSpec\<close>

record user_info =
  user_id :: string
  user_email :: string

record resource_requirements =
  res_cpu :: string
  res_memory :: string
  res_storage :: string

record ai_provider =
  prov_name :: string
  prov_endpoint :: string
  prov_models :: "string list"

text \<open>\<open>EgressPorts\<close> holds \<open>int32\<close> values; the code only compares them, so they are \<open>int\<close>.\<close>

record ai_configuration =
  ai_providers :: "ai_provider list"
  ai_egress_namespaces :: "string list"
  ai_egress_ports :: "int list"

record ca_bundle_ref =
  ca_name :: string

record tls_config =
  tls_custom_ca_bundle :: "ca_bundle_ref option"

record persistence_config =
  pers_storage_class :: string

record lifecycle_spec =
  life_idle_timeout :: string

record workspace_spec =
  spec_user :: user_info
  spec_resources :: resource_requirements
  spec_ai_config :: ai_configuration
  spec_persistence :: persistence_config
  spec_tls :: tls_config
  spec_lifecycle :: lifecycle_spec

section \<open>WorkspaceStatus\<close>

text \<open>\<open>WorkspacePhase\<close> is a string type: the empty string is the phase before any reconcile.\<close>

type_synonym workspace_phase = string

abbreviation WorkspacePhasePending :: workspace_phase where
  "WorkspacePhasePending \<equiv> ''Pending''"
abbreviation WorkspacePhaseCreating :: workspace_phase where
  "WorkspacePhaseCreating \<equiv> ''Creating''"
abbreviation WorkspacePhaseRunning :: workspace_phase where
  "WorkspacePhaseRunning \<equiv> ''Running''"
abbreviation WorkspacePhaseFailed :: workspace_phase where
  "WorkspacePhaseFailed \<equiv> ''Failed''"
abbreviation WorkspacePhaseStopped :: workspace_phase where
  "WorkspacePhaseStopped \<equiv> ''Stopped''"

record workspace_status =
  st_phase :: workspace_phase
  st_pod_name :: string
  st_service_endpoint :: string
  st_message :: string
  st_remediation_hint :: string
  st_conditions :: "condition list"
  st_last_accessed :: "instant option"

definition empty_status :: workspace_status where
  "empty_status = \<lparr>st_phase = '''', st_pod_name = '''', st_service_endpoint = '''', st_message = '''',
     st_remediation_hint = '''', st_conditions = [], st_last_accessed = None\<rparr>"

section \<open>Workspace\<close>

record workspace =
  ws_meta :: object_meta
  ws_spec :: workspace_spec
  ws_status :: workspace_status

abbreviation ws_user_id :: "workspace \<Rightarrow> string" where
  "ws_user_id ws \<equiv> user_id (spec_user (ws_spec ws))"

abbreviation ws_phase :: "workspace \<Rightarrow> workspace_phase" where
  "ws_phase ws \<equiv> st_phase (ws_status ws)"

abbreviation ws_namespace :: "workspace \<Rightarrow> string" where
  "ws_namespace ws \<equiv> mt_namespace (ws_meta ws)"

end
