(* ===== verification/Kube_Types.thy ===== *)
theory Kube_Types
  imports Api_Types
begin

text \<open>
  The Kubernetes objects the operator builds and reads, with the fields the code sets or
  inspects and the security-relevant fields it leaves at their zero value (host namespaces,
  privileged mode, added capabilities). Quantities are opaque values of
  \<open>resource.ParseQuantity\<close>.
\<close>

datatype quantity = Quantity string

section \<open>PersistentVolumeClaim\<close>

record pvc =
  pvc_meta :: object_meta
  pvc_access_modes :: "string list"
  pvc_requests :: "(string \<times> quantity) list"
  pvc_storage_class :: "string option"
  pvc_phase :: string

section \<open>Pod\<close>

record pod_security_context =
  psc_run_as_non_root :: "bool option"
  psc_run_as_user :: "int option"
  psc_fs_group :: "int option"
  psc_fs_group_change_policy :: "string option"
  psc_seccomp_profile :: "string option"

record security_context =
  sc_read_only_root :: "bool option"
  sc_allow_escalation :: "bool option"
  sc_privileged :: "bool option"
  sc_run_as_user :: "int option"
  sc_run_as_non_root :: "bool option"
  sc_cap_drop :: "string list"
  sc_cap_add :: "string list"

record container_port =
  cp_name :: string
  cp_port :: int
  cp_protocol :: string

record probe =
  probe_tcp_port :: int
  probe_initial_delay :: int
  probe_period :: int

record volume_mount =
  vm_name :: string
  vm_path :: string
  vm_read_only :: bool

datatype volume_source =
    PVCVolume string
  | EmptyDir
  | ConfigMapVolume string

record volume =
  vol_name :: string
  vol_source :: volume_source

record env_var =
  env_name :: string
  env_value :: string

record container =
  ctr_name :: string
  ctr_image :: string
  ctr_security :: "security_context option"
  ctr_requests :: "(string \<times> quantity) list"
  ctr_limits :: "(string \<times> quantity) list"
  ctr_ports :: "container_port list"
  ctr_readiness :: "probe option"
  ctr_mounts :: "volume_mount list"
  ctr_env :: "env_var list"

record container_waiting =
  cw_reason :: string
  cw_message :: string

record container_status =
  cs_waiting :: "container_waiting option"

record pod_condition =
  pc_type :: string
  pc_status :: string

record pod_status =
  ps_phase :: string
  ps_reason :: string
  ps_message :: string
  ps_conditions :: "pod_condition list"
  ps_containers :: "container_status list"

record pod =
  pod_meta :: object_meta
  pod_service_account :: string
  pod_security :: "pod_security_context option"
  pod_host_network :: bool
  pod_host_pid :: bool
  pod_host_ipc :: bool
  pod_containers :: "container list"
  pod_volumes :: "volume list"
  pod_status_of :: pod_status

definition empty_pod_status :: pod_status where
  "empty_pod_status = \<lparr>ps_phase = '''', ps_reason = '''', ps_message = '''', ps_conditions = [],
     ps_containers = []\<rparr>"

abbreviation PodRunning :: string where "PodRunning \<equiv> ''Running''"
abbreviation PodFailed :: string where "PodFailed \<equiv> ''Failed''"
abbreviation PodUnknown :: string where "PodUnknown \<equiv> ''Unknown''"
abbreviation ClaimLost :: string where "ClaimLost \<equiv> ''Lost''"
abbreviation PodReady :: string where "PodReady \<equiv> ''Ready''"

section \<open>Service\<close>

record service_port =
  sp_name :: string
  sp_port :: int
  sp_protocol :: string

record service =
  svc_meta :: object_meta
  svc_cluster_ip :: string
  svc_selector :: labels
  svc_ports :: "service_port list"

abbreviation ClusterIPNone :: string where "ClusterIPNone \<equiv> ''None''"

section \<open>RBAC\<close>

record service_account =
  sa_meta :: object_meta

record policy_rule =
  pr_api_groups :: "string list"
  pr_resources :: "string list"
  pr_verbs :: "string list"

record role =
  role_meta :: object_meta
  role_rules :: "policy_rule list"

record subject =
  sub_kind :: string
  sub_name :: string
  sub_namespace :: string

record role_ref =
  rr_api_group :: string
  rr_kind :: string
  rr_name :: string

record role_binding =
  rb_meta :: object_meta
  rb_subjects :: "subject list"
  rb_role_ref :: role_ref

section \<open>NetworkPolicy\<close>

record np_port =
  npp_protocol :: "string option"
  npp_port :: "int option"

record np_peer =
  peer_pod_selector :: "labels option"
  peer_ns_selector :: "labels option"
  peer_ip_block :: "string option"

record np_rule =
  rule_ports :: "np_port list"
  rule_peers :: "np_peer list"

record network_policy =
  np_meta :: object_meta
  np_pod_selector :: labels
  np_types :: "string list"
  np_ingress :: "np_rule list"
  np_egress :: "np_rule list"

abbreviation PolicyTypeIngress :: string where "PolicyTypeIngress \<equiv> ''Ingress''"
abbreviation PolicyTypeEgress :: string where "PolicyTypeEgress \<equiv> ''Egress''"
abbreviation ProtocolTCP :: string where "ProtocolTCP \<equiv> ''TCP''"
abbreviation ProtocolUDP :: string where "ProtocolUDP \<equiv> ''UDP''"

section \<open>Library functions the builders call\<close>

text \<open>
  The pure functions of \<open>k8s.io/apimachinery\<close>, \<open>controller-runtime\<close> and Go's Unicode tables that
  the operator calls. They are arguments of the model.
  \<^item> \<open>lib_parse_quantity\<close>: \<open>resource.ParseQuantity\<close>;
  \<^item> \<open>lib_set_owner\<close>: \<open>controllerutil.SetControllerReference\<close> on the metadata of the owned object;
  \<^item> \<open>lib_set_condition\<close>: \<open>meta.SetStatusCondition\<close>;
  \<^item> \<open>lib_uni_lower\<close>: \<open>strings.ToLower\<close> on strings that are not ASCII;
  \<^item> \<open>lib_contains_finalizer\<close>, \<open>lib_add_finalizer\<close>, \<open>lib_remove_finalizer\<close>: the \<open>controllerutil\<close>
    functions of these names, on the metadata of the object.
\<close>

record k8s_lib =
  lib_parse_quantity :: "string \<Rightarrow> quantity res"
  lib_set_owner :: "workspace \<Rightarrow> object_meta \<Rightarrow> object_meta res"
  lib_set_condition :: "condition list \<Rightarrow> condition \<Rightarrow> condition list"
  lib_uni_lower :: "string \<Rightarrow> string"
  lib_contains_finalizer :: "object_meta \<Rightarrow> string \<Rightarrow> bool"
  lib_add_finalizer :: "object_meta \<Rightarrow> string \<Rightarrow> object_meta"
  lib_remove_finalizer :: "object_meta \<Rightarrow> string \<Rightarrow> object_meta"

text \<open>
  Documented behaviour of \<open>SetControllerReference\<close>: it changes nothing but the owner
  references, and on success the owner is a controller reference of the object. A single
  controller is kept: an object that already has another one is refused.
\<close>

definition owned_by :: "workspace \<Rightarrow> object_meta \<Rightarrow> bool" where
  "owned_by ws m \<longleftrightarrow> list_ex (\<lambda>r. or_controller r \<and> or_uid r = mt_uid (ws_meta ws)
      \<and> or_name r = mt_name (ws_meta ws)) (mt_owners m)"

locale owner_lib =
  fixes set_owner :: "workspace \<Rightarrow> object_meta \<Rightarrow> object_meta res"
  assumes set_owner_frame: "set_owner ws m = Inr m' \<Longrightarrow> m' = m\<lparr>mt_owners := mt_owners m'\<rparr>"
    and set_owner_owned: "set_owner ws m = Inr m' \<Longrightarrow> owned_by ws m'"
begin

lemma set_owner_name: "set_owner ws m = Inr m' \<Longrightarrow> mt_name m' = mt_name m"
  using set_owner_frame [of ws m m'] by (metis object_meta.select_convs(1) object_meta.surjective
      object_meta.update_convs(5))

lemma set_owner_namespace: "set_owner ws m = Inr m' \<Longrightarrow> mt_namespace m' = mt_namespace m"
  using set_owner_frame [of ws m m'] by (metis object_meta.select_convs(2) object_meta.surjective
      object_meta.update_convs(5))

lemma set_owner_labels: "set_owner ws m = Inr m' \<Longrightarrow> mt_labels m' = mt_labels m"
  using set_owner_frame [of ws m m'] by (metis object_meta.select_convs(4) object_meta.surjective
      object_meta.update_convs(5))

end

text \<open>
  A concrete owner function with that behaviour, for one scheme and one kind: it refuses an
  object controlled by somebody else and a cross-namespace owner, replaces an existing
  reference to the same owner and appends a new one otherwise.
\<close>

definition ctrl_ref :: "workspace \<Rightarrow> owner_ref" where
  "ctrl_ref ws = \<lparr>or_name = mt_name (ws_meta ws), or_uid = mt_uid (ws_meta ws), or_controller = True\<rparr>"

definition set_controller_reference :: "workspace \<Rightarrow> object_meta \<Rightarrow> object_meta res" where
  "set_controller_reference ws m =
     (if mt_namespace (ws_meta ws) \<noteq> mt_namespace m
      then Inl (new_error ''cross-namespace owner references are disallowed'')
      else if list_ex (\<lambda>r. or_controller r \<and> or_uid r \<noteq> mt_uid (ws_meta ws)) (mt_owners m)
      then Inl \<lparr>err_text = ''object is already owned by another controller'', err_kinds = [AlreadyOwned]\<rparr>
      else if list_ex (\<lambda>r. r = ctrl_ref ws) (mt_owners m) then Inr m
      else Inr (m\<lparr>mt_owners := mt_owners m @ [ctrl_ref ws]\<rparr>))"

lemma ctrl_ref_owned: "ctrl_ref ws \<in> set (mt_owners m) \<Longrightarrow> owned_by ws m"
  unfolding owned_by_def list_ex_iff by (rule bexI) (simp_all add: ctrl_ref_def)

interpretation ctrl_owner: owner_lib set_controller_reference
  by unfold_locales
    (auto simp: set_controller_reference_def list_ex_iff split: if_splits intro: ctrl_ref_owned)

text \<open>
  When \<open>SetControllerReference\<close> succeeds: the object is in the owner's namespace and no other
  object controls it. What it returns is still controlled by nobody else, so that the next
  call succeeds too, and then changes nothing.
\<close>

definition claimable :: "workspace \<Rightarrow> object_meta \<Rightarrow> bool" where
  "claimable ws m \<longleftrightarrow> mt_namespace m = mt_namespace (ws_meta ws)
     \<and> list_all (\<lambda>r. or_controller r \<longrightarrow> or_uid r = mt_uid (ws_meta ws)) (mt_owners m)"

locale owner_lib_total = owner_lib +
  assumes set_owner_ok: "claimable ws m \<Longrightarrow> \<exists>m'. set_owner ws m = Inr m' \<and> claimable ws m'"
    and set_owner_stable: "set_owner ws m = Inr m' \<Longrightarrow> set_owner ws m' = Inr m'"
    and set_owner_id: "\<lbrakk>mt_name (ws_meta ws) = mt_name (ws_meta ws2); mt_namespace (ws_meta ws) = mt_namespace (ws_meta ws2);
      mt_uid (ws_meta ws) = mt_uid (ws_meta ws2)\<rbrakk> \<Longrightarrow> set_owner ws m = set_owner ws2 m"

lemma ctrl_ref_sel [simp]: "or_controller (ctrl_ref ws)" "or_uid (ctrl_ref ws) = mt_uid (ws_meta ws)"
  by (simp_all add: ctrl_ref_def)

lemma set_controller_reference_Inr:
  "set_controller_reference ws m = Inr m' \<longleftrightarrow> mt_namespace (ws_meta ws) = mt_namespace m
     \<and> \<not> list_ex (\<lambda>r. or_controller r \<and> or_uid r \<noteq> mt_uid (ws_meta ws)) (mt_owners m)
     \<and> m' = (if list_ex (\<lambda>r. r = ctrl_ref ws) (mt_owners m) then m
             else m\<lparr>mt_owners := mt_owners m @ [ctrl_ref ws]\<rparr>)"
  by (cases "mt_namespace (ws_meta ws) = mt_namespace m";
      cases "list_ex (\<lambda>r. or_controller r \<and> or_uid r \<noteq> mt_uid (ws_meta ws)) (mt_owners m)";
      cases "list_ex (\<lambda>r. r = ctrl_ref ws) (mt_owners m)")
    (simp_all add: set_controller_reference_def eq_commute [of m'])

interpretation ctrl_owner: owner_lib_total set_controller_reference
proof
  fix ws ws2 m m'
  show "\<exists>m'. set_controller_reference ws m = Inr m' \<and> claimable ws m'" if c: "claimable ws m"
  proof -
    let ?m = "if list_ex (\<lambda>r. r = ctrl_ref ws) (mt_owners m) then m
      else m\<lparr>mt_owners := mt_owners m @ [ctrl_ref ws]\<rparr>"
    have "\<not> list_ex (\<lambda>r. or_controller r \<and> or_uid r \<noteq> mt_uid (ws_meta ws)) (mt_owners m)"
      using c by (auto simp: claimable_def list_all_iff list_ex_iff)
    then have "set_controller_reference ws m = Inr ?m"
      using c by (simp only: set_controller_reference_Inr claimable_def simp_thms)
    moreover have "claimable ws ?m"
      using c by (simp add: claimable_def)
    ultimately show ?thesis by blast
  qed
  show "set_controller_reference ws m = Inr m' \<Longrightarrow> set_controller_reference ws m' = Inr m'"
    unfolding set_controller_reference_Inr
    by (cases "list_ex (\<lambda>r. r = ctrl_ref ws) (mt_owners m)") (simp_all add: conj_commute)
  show "\<lbrakk>mt_name (ws_meta ws) = mt_name (ws_meta ws2); mt_namespace (ws_meta ws) = mt_namespace (ws_meta ws2);
      mt_uid (ws_meta ws) = mt_uid (ws_meta ws2)\<rbrakk> \<Longrightarrow>
      set_controller_reference ws m = set_controller_reference ws2 m"
    by (simp add: set_controller_reference_def ctrl_ref_def)
qed

text \<open>
  Documented behaviour of \<open>meta.SetStatusCondition\<close>: the condition of the given type carries
  the new status, reason, message and observed generation, there is one of it, and the other
  conditions are left alone. The transition time is its own.
\<close>

definition cond_same :: "condition \<Rightarrow> condition \<Rightarrow> bool" where
  "cond_same c d \<longleftrightarrow> c = d\<lparr>cond_transition := cond_transition c\<rparr>"

locale condition_lib =
  fixes set_condition :: "condition list \<Rightarrow> condition \<Rightarrow> condition list"
  assumes set_condition_new:
      "\<exists>c. filter (\<lambda>x. cond_type x = cond_type new) (set_condition cs new) = [c] \<and> cond_same c new"
    and set_condition_others:
      "filter (\<lambda>x. cond_type x \<noteq> cond_type new) (set_condition cs new)
       = filter (\<lambda>x. cond_type x \<noteq> cond_type new) cs"

fun set_status_condition :: "condition list \<Rightarrow> condition \<Rightarrow> condition list" where
  "set_status_condition [] new = [new]"
| "set_status_condition (c # cs) new =
     (if cond_type c = cond_type new
      then new\<lparr>cond_transition := (if cond_status c = cond_status new then cond_transition c
                                  else cond_transition new)\<rparr>
           # filter (\<lambda>x. cond_type x \<noteq> cond_type new) cs
      else c # set_status_condition cs new)"

lemma set_status_condition_new:
  "\<exists>c. filter (\<lambda>x. cond_type x = cond_type new) (set_status_condition cs new) = [c] \<and> cond_same c new"
  by (induction cs) (auto simp: cond_same_def filter_empty_conv)

lemma set_status_condition_others:
  "filter (\<lambda>x. cond_type x \<noteq> cond_type new) (set_status_condition cs new)
   = filter (\<lambda>x. cond_type x \<noteq> cond_type new) cs"
  by (induction cs) auto

interpretation status_cond: condition_lib set_status_condition
  by unfold_locales (rule set_status_condition_new set_status_condition_others)+

text \<open>
  Documented behaviour of the finalizer functions: they read and change the list of
  finalizers only; adding makes the finalizer present, removing makes it absent, and the
  presence of other finalizers does not change.
\<close>

locale finalizer_lib =
  fixes contains :: "object_meta \<Rightarrow> string \<Rightarrow> bool"
    and add :: "object_meta \<Rightarrow> string \<Rightarrow> object_meta"
    and remove :: "object_meta \<Rightarrow> string \<Rightarrow> object_meta"
  assumes contains_iff: "contains m f \<longleftrightarrow> f \<in> set (mt_finalizers m)"
    and add_frame: "add m f = m\<lparr>mt_finalizers := mt_finalizers (add m f)\<rparr>"
    and add_present: "set (mt_finalizers (add m f)) = insert f (set (mt_finalizers m))"
    and remove_frame: "remove m f = m\<lparr>mt_finalizers := mt_finalizers (remove m f)\<rparr>"
    and remove_absent: "set (mt_finalizers (remove m f)) = set (mt_finalizers m) - {f}"
begin

lemma add_contains: "contains (add m f) g \<longleftrightarrow> g = f \<or> contains m g"
  by (simp add: contains_iff add_present)

lemma remove_contains: "contains (remove m f) g \<longleftrightarrow> g \<noteq> f \<and> contains m g"
  by (auto simp: contains_iff remove_absent)

lemma remove_empty: "mt_finalizers (remove m f) = [] \<longleftrightarrow> set (mt_finalizers m) \<subseteq> {f}"
proof -
  have "mt_finalizers (remove m f) = [] \<longleftrightarrow> set (mt_finalizers (remove m f)) = {}" by simp
  then show ?thesis by (auto simp: remove_absent)
qed

end

definition contains_finalizer :: "object_meta \<Rightarrow> string \<Rightarrow> bool" where
  "contains_finalizer m f \<longleftrightarrow> list_ex (\<lambda>g. g = f) (mt_finalizers m)"

definition add_finalizer :: "object_meta \<Rightarrow> string \<Rightarrow> object_meta" where
  "add_finalizer m f = (if contains_finalizer m f then m else m\<lparr>mt_finalizers := mt_finalizers m @ [f]\<rparr>)"

definition remove_finalizer :: "object_meta \<Rightarrow> string \<Rightarrow> object_meta" where
  "remove_finalizer m f = m\<lparr>mt_finalizers := filter (\<lambda>g. g \<noteq> f) (mt_finalizers m)\<rparr>"

interpretation fin_list: finalizer_lib contains_finalizer add_finalizer remove_finalizer
  by unfold_locales
    (auto simp: contains_finalizer_def add_finalizer_def remove_finalizer_def list_ex_iff)

section \<open>Label selectors\<close>

text \<open>A \<open>matchLabels\<close> selector matches when every pair of it is among the labels.\<close>

definition selects :: "labels \<Rightarrow> labels \<Rightarrow> bool" where
  "selects sel ls \<longleftrightarrow> list_all (\<lambda>(k, v). map_of ls k = Some v) sel"

section \<open>A sample library\<close>

text \<open>
  Concrete library functions for examples: quantities that start with a digit are accepted,
  owner references and conditions as above, and the Unicode tables leave the string alone.
\<close>

definition sample_quantity :: "string \<Rightarrow> quantity res" where
  "sample_quantity q = (if q \<noteq> [] \<and> is_digit (hd q) then Inr (Quantity q)
     else Inl (new_error ''quantities must match the regular expression''))"

definition sample_lib :: k8s_lib where
  "sample_lib = \<lparr>lib_parse_quantity = sample_quantity, lib_set_owner = set_controller_reference,
     lib_set_condition = set_status_condition, lib_uni_lower = (\<lambda>s. s),
     lib_contains_finalizer = contains_finalizer, lib_add_finalizer = add_finalizer,
     lib_remove_finalizer = remove_finalizer\<rparr>"

lemma sample_lib_simps [simp]:
  "lib_parse_quantity sample_lib = sample_quantity"
  "lib_set_owner sample_lib = set_controller_reference"
  "lib_set_condition sample_lib = set_status_condition"
  "lib_uni_lower sample_lib s = s"
  "lib_contains_finalizer sample_lib = contains_finalizer"
  "lib_add_finalizer sample_lib = add_finalizer"
  "lib_remove_finalizer sample_lib = remove_finalizer"
  by (simp_all add: sample_lib_def)

definition sample_spec :: "string \<Rightarrow> workspace_spec" where
  "sample_spec u = \<lparr>spec_user = \<lparr>user_id = u, user_email = u @ ''@example.com''\<rparr>,
     spec_resources = \<lparr>res_cpu = ''2'', res_memory = ''4Gi'', res_storage = ''20Gi''\<rparr>,
     spec_ai_config = \<lparr>ai_providers = [\<lparr>prov_name = ''local'', prov_endpoint = ''http://vllm'',
       prov_models = [''m'']\<rparr>], ai_egress_namespaces = [], ai_egress_ports = []\<rparr>,
     spec_persistence = \<lparr>pers_storage_class = ''''\<rparr>,
     spec_tls = \<lparr>tls_custom_ca_bundle = None\<rparr>,
     spec_lifecycle = \<lparr>life_idle_timeout = ''''\<rparr>\<rparr>"

definition sample_ws :: "string \<Rightarrow> workspace" where
  "sample_ws u = \<lparr>ws_meta = (meta u ''devplane'' [])\<lparr>mt_uid := ''uid-'' @ u\<rparr>, ws_spec = sample_spec u,
     ws_status = empty_status\<rparr>"

end
