(* ===== verification/Go_Json.thy ===== *)
theory Go_Json
  imports Go_Strings
begin

text \<open>
  \<open>encoding/json\<close> as the program uses it: strings, lists and objects with string fields.
  Strings are escaped as \<open>json.Marshal\<close> does, HTML characters included; a byte that does not
  start a valid UTF-8 sequence becomes the escape of the replacement character.
\<close>

text \<open>Length of the valid multi-byte UTF-8 sequence at the head of a string.\<close>

definition in_range :: "nat \<Rightarrow> nat \<Rightarrow> char \<Rightarrow> bool" where
  "in_range lo hi c \<longleftrightarrow> lo \<le> code c \<and> code c \<le> hi"

abbreviation cont :: "char \<Rightarrow> bool" where
  "cont c \<equiv> in_range 0x80 0xBF c"

definition utf8_len :: "string \<Rightarrow> nat option" where
  "utf8_len s = (case s of
     a # b # c # d # _ \<Rightarrow>
       if in_range 0xC2 0xDF a \<and> cont b then Some 2
       else if (code a = 0xE0 \<and> in_range 0xA0 0xBF b \<or> in_range 0xE1 0xEC a \<and> cont b
         \<or> code a = 0xED \<and> in_range 0x80 0x9F b \<or> in_range 0xEE 0xEF a \<and> cont b) \<and> cont c then Some 3
       else if (code a = 0xF0 \<and> in_range 0x90 0xBF b \<or> in_range 0xF1 0xF3 a \<and> cont b
         \<or> code a = 0xF4 \<and> in_range 0x80 0x8F b) \<and> cont c \<and> cont d then Some 4
       else None
   | [a, b, c] \<Rightarrow>
       if in_range 0xC2 0xDF a \<and> cont b then Some 2
       else if (code a = 0xE0 \<and> in_range 0xA0 0xBF b \<or> in_range 0xE1 0xEC a \<and> cont b
         \<or> code a = 0xED \<and> in_range 0x80 0x9F b \<or> in_range 0xEE 0xEF a \<and> cont b) \<and> cont c then Some 3
       else None
   | [a, b] \<Rightarrow> if in_range 0xC2 0xDF a \<and> cont b then Some 2 else None
   | _ \<Rightarrow> None)"

definition u_escape :: "nat \<Rightarrow> string" where
  "u_escape n = [CHR 0x5C, CHR ''u'', hex_digit (n div 4096 mod 16), hex_digit (n div 256 mod 16),
     hex_digit (n div 16 mod 16), hex_digit (n mod 16)]"

definition json_ascii :: "char \<Rightarrow> string" where
  "json_ascii c =
     (if c = CHR 0x22 \<or> c = CHR 0x5C then [CHR 0x5C, c]
      else if code c = 8 then [CHR 0x5C, CHR ''b'']
      else if code c = 12 then [CHR 0x5C, CHR ''f'']
      else if code c = 10 then [CHR 0x5C, CHR ''n'']
      else if code c = 13 then [CHR 0x5C, CHR ''r'']
      else if code c = 9 then [CHR 0x5C, CHR ''t'']
      else if code c < 32 \<or> c = CHR ''<'' \<or> c = CHR ''>'' \<or> c = CHR 0x26 then u_escape (code c)
      else [c])"

lemma utf8_len_le: "utf8_len s = Some n \<Longrightarrow> 2 \<le> n \<and> n \<le> length s"
  by (auto simp: utf8_len_def split: list.splits if_splits)

function json_chars :: "string \<Rightarrow> string" where
  "json_chars [] = []"
| "json_chars (c # cs) =
     (if is_ascii c then json_ascii c @ json_chars cs
      else case utf8_len (c # cs) of
        None \<Rightarrow> u_escape 0xFFFD @ json_chars cs
      | Some n \<Rightarrow>
          (if take n (c # cs) = [CHR 0xE2, CHR 0x80, CHR 0xA8] then u_escape 0x2028
           else if take n (c # cs) = [CHR 0xE2, CHR 0x80, CHR 0xA9] then u_escape 0x2029
           else take n (c # cs)) @ json_chars (drop n (c # cs)))"
  by pat_completeness auto
termination
  by (relation "measure length") (auto dest!: utf8_len_le)

definition json_string :: "string \<Rightarrow> string" where
  "json_string s = [CHR 0x22] @ json_chars s @ [CHR 0x22]"

fun json_sep :: "string list \<Rightarrow> string" where
  "json_sep [] = []"
| "json_sep [x] = x"
| "json_sep (x # y # xs) = x @ '','' @ json_sep (y # xs)"

text \<open>A slice: the nil slice, which is how an absent list arrives here, is \<open>null\<close>.\<close>

definition json_list :: "string list \<Rightarrow> string" where
  "json_list xs = (if xs = [] then ''null'' else ''['' @ json_sep xs @ '']'')"

definition json_object :: "(string \<times> string) list \<Rightarrow> string" where
  "json_object fs = ''{'' @ json_sep (map (\<lambda>(k, v). json_string k @ '':'' @ v) fs) @ ''}''"

end
