(* ===== verification/Resources.thy ===== *)
theory Resources
  imports Kube_Types Go_Json
begin

text \<open>
  \<open>pkg/workspace/resources.go\<close>: the names, labels and Kubernetes objects of a workspace, and
  the validation of a Workspace spec.
\<close>

section \<open>Names and labels\<close>

abbreviation labelApp :: string where "labelApp \<equiv> ''workspace''"
abbreviation labelManagedBy :: string where "labelManagedBy \<equiv> ''devplane''"
abbreviation labelUser :: string where "labelUser \<equiv> ''user''"

definition ttydPort :: int where
  "ttydPort = 7681"

definition workspaceMount :: string where
  "workspaceMount = ''/workspace''"

definition PVCName :: "string \<Rightarrow> string" where
  "PVCName userID = userID @ ''-workspace-pvc''"

definition PodName :: "string \<Rightarrow> string" where
  "PodName userID = userID @ ''-workspace-pod''"

definition ServiceName :: "string \<Rightarrow> string" where
  "ServiceName userID = userID @ ''-workspace-svc''"

definition ServiceAccountName :: "string \<Rightarrow> string" where
  "ServiceAccountName userID = userID @ ''-workspace''"

definition Labels :: "string \<Rightarrow> labels" where
  "Labels userID = [(''app'', labelApp), (labelUser, userID), (''managed-by'', labelManagedBy)]"

section \<open>Validation\<close>

text \<open>The regular expression \<open>^[a-z]([a-z0-9-]*[a-z0-9])?$\<close>.\<close>

definition dnsLabelRegex :: "string \<Rightarrow> bool" where
  "dnsLabelRegex s = (case s of
     [] \<Rightarrow> False
   | c # cs \<Rightarrow> is_lower c \<and>
       (cs = [] \<or> (list_all (\<lambda>x. is_alnum x \<or> x = CHR ''-'') (butlast cs) \<and> is_alnum (last cs))))"

fun validate_providers :: "nat \<Rightarrow> ai_provider list \<Rightarrow> go_error option" where
  "validate_providers i [] = None"
| "validate_providers i (p # ps) =
     (if prov_name p = '''' then
        Some (new_error (''spec.aiConfig.providers['' @ Itoa (int i) @ ''].name is required''))
      else if prov_endpoint p = '''' then
        Some (new_error (''spec.aiConfig.providers['' @ Itoa (int i) @ ''].endpoint is required''))
      else if prov_models p = [] then
        Some (new_error (''spec.aiConfig.providers['' @ Itoa (int i) @
          ''].models must have at least one entry''))
      else validate_providers (Suc i) ps)"

definition validate_quantity :: "k8s_lib \<Rightarrow> string \<Rightarrow> string \<Rightarrow> go_error option" where
  "validate_quantity lib field q = (case lib_parse_quantity lib q of
     Inl e \<Rightarrow> Some (errorf_w (field @ '' invalid'') e)
   | Inr _ \<Rightarrow> None)"

text \<open>\<open>None\<close> stands for the nil pointer as argument and for the nil error as result.\<close>

definition ValidateSpec :: "k8s_lib \<Rightarrow> workspace option \<Rightarrow> go_error option" where
  "ValidateSpec lib wo = (case wo of
     None \<Rightarrow> Some (new_error ''workspace is nil'')
   | Some ws \<Rightarrow>
      (let s = ws_spec ws; uid = user_id (spec_user s); r = spec_resources s in
       if uid = '''' then Some (new_error ''spec.user.id is required'')
       else if length uid > 49 then
         Some (new_error (''spec.user.id must be 49 characters or fewer (got '' @ Itoa (int (length uid)) @ '')''))
       else if \<not> dnsLabelRegex uid then
         Some (new_error ''spec.user.id must be a valid DNS label: must start with a lowercase letter, lowercase alphanumeric and hyphens only, must end with alphanumeric'')
       else if user_email (spec_user s) = '''' then Some (new_error ''spec.user.email is required'')
       else if res_storage r = '''' then Some (new_error ''spec.resources.storage is required'')
       else if res_cpu r = '''' then Some (new_error ''spec.resources.cpu is required'')
       else if res_memory r = '''' then Some (new_error ''spec.resources.memory is required'')
       else case validate_quantity lib ''spec.resources.cpu'' (res_cpu r) of Some e \<Rightarrow> Some e | None \<Rightarrow>
            (case validate_quantity lib ''spec.resources.memory'' (res_memory r) of Some e \<Rightarrow> Some e | None \<Rightarrow>
            (case validate_quantity lib ''spec.resources.storage'' (res_storage r) of Some e \<Rightarrow> Some e | None \<Rightarrow>
             if ai_providers (spec_ai_config s) = [] then
               Some (new_error ''spec.aiConfig.providers must have at least one entry'')
             else case validate_providers 0 (ai_providers (spec_ai_config s)) of Some e \<Rightarrow> Some e | None \<Rightarrow>
               (let raw = TrimSpace (life_idle_timeout (spec_lifecycle s)) in
                if raw \<noteq> '''' \<and> raw \<noteq> ''0'' then
                  (case ParseDuration raw of
                     Inl e \<Rightarrow> Some (errorf_w ''spec.lifecycle.idleTimeout invalid'' e)
                   | Inr _ \<Rightarrow> None)
                else None)))))"

section \<open>PVC\<close>

definition BuildPVC :: "k8s_lib \<Rightarrow> workspace \<Rightarrow> pvc res" where
  "BuildPVC lib ws =
     (let userID = ws_user_id ws; storage = res_storage (spec_resources (ws_spec ws)) in
      case lib_parse_quantity lib storage of
        Inl e \<Rightarrow> Inl (errorf_w (''parse storage quantity '' @ Quote storage) e)
      | Inr storageQty \<Rightarrow>
          (let sc = pers_storage_class (spec_persistence (ws_spec ws));
               pvc = \<lparr>pvc_meta = meta (PVCName userID) (ws_namespace ws) (Labels userID),
                      pvc_access_modes = [''ReadWriteOnce''],
                      pvc_requests = [(''storage'', storageQty)],
                      pvc_storage_class = (if sc \<noteq> '''' then Some sc else None),
                      pvc_phase = ''''\<rparr>
           in case lib_set_owner lib ws (pvc_meta pvc) of
                Inl e \<Rightarrow> Inl (errorf_w ''set PVC owner reference'' e)
              | Inr m \<Rightarrow> Inr (pvc\<lparr>pvc_meta := m\<rparr>)))"

section \<open>Pod\<close>

record build_opts =
  opt_default_ca_bundle :: string
  opt_pip_index_url :: string
  opt_pip_trusted_host :: string
  opt_npm_registry :: string

definition provider_json :: "ai_provider \<Rightarrow> string" where
  "provider_json p = json_object
     [(''name'', json_string (prov_name p)), (''endpoint'', json_string (prov_endpoint p)),
      (''models'', json_list (map json_string (prov_models p)))]"

definition buildEnvVars :: "workspace \<Rightarrow> env_var list" where
  "buildEnvVars ws =
     [\<lparr>env_name = ''AI_PROVIDERS_JSON'',
       env_value = json_list (map provider_json (ai_providers (spec_ai_config (ws_spec ws))))\<rparr>,
      \<lparr>env_name = ''USER_EMAIL'', env_value = user_email (spec_user (ws_spec ws))\<rparr>,
      \<lparr>env_name = ''USER_ID'', env_value = user_id (spec_user (ws_spec ws))\<rparr>]"

text \<open>The ConfigMap with the CA bundle: the workspace's own, else the operator default.\<close>

definition ca_config_map :: "workspace \<Rightarrow> build_opts \<Rightarrow> string" where
  "ca_config_map ws opts =
     (case tls_custom_ca_bundle (spec_tls (ws_spec ws)) of
        Some r \<Rightarrow> if ca_name r \<noteq> '''' then ca_name r
                  else if opt_default_ca_bundle opts \<noteq> '''' then opt_default_ca_bundle opts else ''''
      | None \<Rightarrow> if opt_default_ca_bundle opts \<noteq> '''' then opt_default_ca_bundle opts else '''')"

definition opt_env :: "string \<Rightarrow> string \<Rightarrow> env_var list" where
  "opt_env nm v = (if v \<noteq> '''' then [\<lparr>env_name = nm, env_value = v\<rparr>] else [])"

definition workspace_container ::
  "workspace \<Rightarrow> string \<Rightarrow> quantity \<Rightarrow> quantity \<Rightarrow> string \<Rightarrow> build_opts \<Rightarrow> container" where
  "workspace_container ws img cpuQty memQty ca opts =
     \<lparr>ctr_name = ''workspace'',
      ctr_image = img,
      ctr_security = Some \<lparr>sc_read_only_root = Some True, sc_allow_escalation = Some False,
        sc_privileged = None, sc_run_as_user = None, sc_run_as_non_root = None,
        sc_cap_drop = [''ALL''], sc_cap_add = []\<rparr>,
      ctr_requests = [(''cpu'', cpuQty), (''memory'', memQty)],
      ctr_limits = [(''cpu'', cpuQty), (''memory'', memQty)],
      ctr_ports = [\<lparr>cp_name = ''ttyd'', cp_port = ttydPort, cp_protocol = ProtocolTCP\<rparr>],
      ctr_readiness = Some \<lparr>probe_tcp_port = ttydPort, probe_initial_delay = 5, probe_period = 5\<rparr>,
      ctr_mounts = [\<lparr>vm_name = ''workspace-data'', vm_path = workspaceMount, vm_read_only = False\<rparr>,
                    \<lparr>vm_name = ''tmp'', vm_path = ''/tmp'', vm_read_only = False\<rparr>]
        @ (if ca \<noteq> '''' then [\<lparr>vm_name = ''custom-ca-certs'', vm_path = ''/etc/ssl/certs/custom'',
                             vm_read_only = True\<rparr>] else []),
      ctr_env = buildEnvVars ws
        @ (if ca \<noteq> '''' then [\<lparr>env_name = ''CUSTOM_CA_MOUNTED'', env_value = ''true''\<rparr>] else [])
        @ opt_env ''PIP_INDEX_URL'' (opt_pip_index_url opts)
        @ opt_env ''PIP_TRUSTED_HOST'' (opt_pip_trusted_host opts)
        @ opt_env ''npm_config_registry'' (opt_npm_registry opts)\<rparr>"

definition BuildPod ::
  "k8s_lib \<Rightarrow> workspace \<Rightarrow> string \<Rightarrow> string \<Rightarrow> build_opts \<Rightarrow> pod res" where
  "BuildPod lib ws pvcName workspaceImage opts =
     (let userID = ws_user_id ws; r = spec_resources (ws_spec ws) in
      case lib_parse_quantity lib (res_cpu r) of
        Inl e \<Rightarrow> Inl (errorf_w (''parse CPU quantity '' @ Quote (res_cpu r)) e)
      | Inr cpuQty \<Rightarrow>
        (case lib_parse_quantity lib (res_memory r) of
           Inl e \<Rightarrow> Inl (errorf_w (''parse memory quantity '' @ Quote (res_memory r)) e)
         | Inr memQty \<Rightarrow>
           (let ca = ca_config_map ws opts;
                pod = \<lparr>pod_meta = meta (PodName userID) (ws_namespace ws) (Labels userID),
                  pod_service_account = ServiceAccountName userID,
                  pod_security = Some \<lparr>psc_run_as_non_root = Some True, psc_run_as_user = Some 1000,
                    psc_fs_group = Some 1000, psc_fs_group_change_policy = Some ''OnRootMismatch'',
                    psc_seccomp_profile = Some ''RuntimeDefault''\<rparr>,
                  pod_host_network = False, pod_host_pid = False, pod_host_ipc = False,
                  pod_containers = [workspace_container ws workspaceImage cpuQty memQty ca opts],
                  pod_volumes = [\<lparr>vol_name = ''workspace-data'', vol_source = PVCVolume pvcName\<rparr>,
                                 \<lparr>vol_name = ''tmp'', vol_source = EmptyDir\<rparr>]
                    @ (if ca \<noteq> '''' then [\<lparr>vol_name = ''custom-ca-certs'', vol_source = ConfigMapVolume ca\<rparr>]
                       else []),
                  pod_status_of = empty_pod_status\<rparr>
            in case lib_set_owner lib ws (pod_meta pod) of
                 Inl e \<Rightarrow> Inl (errorf_w ''set Pod owner reference'' e)
               | Inr m \<Rightarrow> Inr (pod\<lparr>pod_meta := m\<rparr>))))"

section \<open>Service\<close>

definition BuildHeadlessService :: "k8s_lib \<Rightarrow> workspace \<Rightarrow> service res" where
  "BuildHeadlessService lib ws =
     (let userID = ws_user_id ws;
          svc = \<lparr>svc_meta = meta (ServiceName userID) (ws_namespace ws) (Labels userID),
                 svc_cluster_ip = ClusterIPNone,
                 svc_selector = Labels userID,
                 svc_ports = [\<lparr>sp_name = ''ttyd'', sp_port = ttydPort, sp_protocol = ProtocolTCP\<rparr>]\<rparr>
      in case lib_set_owner lib ws (svc_meta svc) of
           Inl e \<Rightarrow> Inl (errorf_w ''set Service owner reference'' e)
         | Inr m \<Rightarrow> Inr (svc\<lparr>svc_meta := m\<rparr>))"

section \<open>Reference definitions\<close>

text \<open>
  An RFC 1035 label, by its characters: it starts with a lower-case letter, ends with a letter
  or digit, and holds letters, digits and hyphens.
\<close>

definition dns_label :: "string \<Rightarrow> bool" where
  "dns_label s \<longleftrightarrow> s \<noteq> [] \<and> is_lower (hd s) \<and> is_alnum (last s)
     \<and> list_all (\<lambda>c. is_alnum c \<or> c = CHR ''-'') s"

definition provider_ok :: "ai_provider \<Rightarrow> bool" where
  "provider_ok p \<longleftrightarrow> prov_name p \<noteq> '''' \<and> prov_endpoint p \<noteq> '''' \<and> prov_models p \<noteq> []"

definition quantity_ok :: "k8s_lib \<Rightarrow> string \<Rightarrow> bool" where
  "quantity_ok lib q \<longleftrightarrow> q \<noteq> '''' \<and> (case lib_parse_quantity lib q of Inl _ \<Rightarrow> False | Inr _ \<Rightarrow> True)"

definition idle_timeout_ok :: "string \<Rightarrow> bool" where
  "idle_timeout_ok t \<longleftrightarrow> TrimSpace t = '''' \<or> TrimSpace t = ''0''
     \<or> (case ParseDuration (TrimSpace t) of Inl _ \<Rightarrow> False | Inr _ \<Rightarrow> True)"

definition spec_valid :: "k8s_lib \<Rightarrow> workspace_spec \<Rightarrow> bool" where
  "spec_valid lib s \<longleftrightarrow>
     dns_label (user_id (spec_user s)) \<and> length (user_id (spec_user s)) \<le> 49
     \<and> user_email (spec_user s) \<noteq> ''''
     \<and> quantity_ok lib (res_cpu (spec_resources s))
     \<and> quantity_ok lib (res_memory (spec_resources s))
     \<and> quantity_ok lib (res_storage (spec_resources s))
     \<and> ai_providers (spec_ai_config s) \<noteq> [] \<and> list_all provider_ok (ai_providers (spec_ai_config s))
     \<and> idle_timeout_ok (life_idle_timeout (spec_lifecycle s))"

text \<open>
  The comment on \<open>AIProvider.Name\<close> also asks for names that are unique within the list. The code
  does not check this, so it is kept apart: \<open>documented_valid\<close> is what the comments ask for.
\<close>

definition documented_valid :: "k8s_lib \<Rightarrow> workspace_spec \<Rightarrow> bool" where
  "documented_valid lib s \<longleftrightarrow> spec_valid lib s \<and> distinct (map prov_name (ai_providers (spec_ai_config s)))"

definition providers_twice :: "workspace \<Rightarrow> workspace" where
  "providers_twice ws = ws\<lparr>ws_spec := (ws_spec ws)\<lparr>spec_ai_config := (spec_ai_config (ws_spec ws))\<lparr>ai_providers :=
     ai_providers (spec_ai_config (ws_spec ws)) @ ai_providers (spec_ai_config (ws_spec ws))\<rparr>\<rparr>\<rparr>"

section \<open>Lemmas on names and validation\<close>

lemma dnsLabelRegex_iff: "dnsLabelRegex s \<longleftrightarrow> dns_label s"
proof (cases s)
  case Nil
  then show ?thesis by (simp add: dnsLabelRegex_def dns_label_def)
next
  case (Cons c cs)
  show ?thesis
  proof (cases cs rule: rev_cases)
    case Nil
    with Cons show ?thesis by (auto simp: dnsLabelRegex_def dns_label_def)
  next
    case (snoc ds d)
    with Cons show ?thesis by (auto simp: dnsLabelRegex_def dns_label_def)
  qed
qed

lemma dns_label_append:
  assumes "dns_label u" and "t \<noteq> []" and "is_alnum (last t)"
    and "list_all (\<lambda>c. is_alnum c \<or> c = CHR ''-'') t"
  shows "dns_label (u @ t)"
  using assms by (auto simp: dns_label_def)

lemma validate_providers_None: "validate_providers i ps = None \<longleftrightarrow> list_all provider_ok ps"
  by (induction i ps rule: validate_providers.induct) (auto simp: provider_ok_def)

lemma validate_quantity_None:
  "validate_quantity lib f q = None \<longleftrightarrow> (\<exists>v. lib_parse_quantity lib q = Inr v)"
  by (auto simp: validate_quantity_def split: sum.splits)

lemma quantity_ok_iff: "quantity_ok lib q \<longleftrightarrow> q \<noteq> '''' \<and> (\<exists>v. lib_parse_quantity lib q = Inr v)"
  by (auto simp: quantity_ok_def split: sum.splits)

lemma dns_label_nonempty [simp]: "dns_label s \<Longrightarrow> s \<noteq> []"
  by (simp add: dns_label_def)

lemma ValidateSpec_valid: "ValidateSpec lib (Some ws) = None \<longleftrightarrow> spec_valid lib (ws_spec ws)"
proof -
  have idle: "(if raw \<noteq> [] \<and> raw \<noteq> ''0'' then
      (case ParseDuration raw of Inl e \<Rightarrow> Some (f e) | Inr _ \<Rightarrow> None) else None) = None
    \<longleftrightarrow> raw = [] \<or> raw = ''0'' \<or> (case ParseDuration raw of Inl _ \<Rightarrow> False | Inr _ \<Rightarrow> True)"
    for raw and f :: "go_error \<Rightarrow> go_error"
    by (auto split: sum.split)
  show ?thesis
    unfolding ValidateSpec_def spec_valid_def Let_def idle_timeout_ok_def option.case
      check_if_None check_option_None idle validate_providers_None validate_quantity_None
      quantity_ok_iff dnsLabelRegex_iff
    using dns_label_nonempty [of "ws_user_id ws"] by (simp only: not_less not_not) blast
qed

lemma validate_providers_append:
  "validate_providers i (ps @ qs) = (case validate_providers i ps of Some e \<Rightarrow> Some e | None \<Rightarrow> validate_providers (i + length ps) qs)"
  by (induction i ps rule: validate_providers.induct) (auto split: option.split)

lemma validate_providers_twice: "validate_providers 0 (ps @ ps) = validate_providers 0 ps"
  using validate_providers_None [of 0 ps] validate_providers_None [of "length ps" ps]
  by (cases "validate_providers 0 ps") (simp_all add: validate_providers_append)

lemma ValidateSpec_twice: "ValidateSpec lib (Some (providers_twice ws)) = ValidateSpec lib (Some ws)"
proof -
  have s: "spec_user (ws_spec (providers_twice ws)) = spec_user (ws_spec ws)"
    "spec_resources (ws_spec (providers_twice ws)) = spec_resources (ws_spec ws)"
    "spec_lifecycle (ws_spec (providers_twice ws)) = spec_lifecycle (ws_spec ws)"
    "ai_providers (spec_ai_config (ws_spec (providers_twice ws)))
       = ai_providers (spec_ai_config (ws_spec ws)) @ ai_providers (spec_ai_config (ws_spec ws))"
    by (simp_all add: providers_twice_def)
  show ?thesis unfolding ValidateSpec_def option.case Let_def s validate_providers_twice by simp
qed

lemma twice_undocumented: "ValidateSpec lib (Some ws) = None \<Longrightarrow> \<not> documented_valid lib (ws_spec (providers_twice ws))"
  by (cases "ai_providers (spec_ai_config (ws_spec ws))")
    (auto simp: ValidateSpec_valid documented_valid_def spec_valid_def providers_twice_def)

lemma label_suffixes:
  "is_alnum (last ''-workspace-pvc'')" "list_all (\<lambda>c. is_alnum c \<or> c = CHR ''-'') ''-workspace-pvc''"
  "is_alnum (last ''-workspace-pod'')" "list_all (\<lambda>c. is_alnum c \<or> c = CHR ''-'') ''-workspace-pod''"
  "is_alnum (last ''-workspace-svc'')" "list_all (\<lambda>c. is_alnum c \<or> c = CHR ''-'') ''-workspace-svc''"
  "is_alnum (last ''-workspace'')" "list_all (\<lambda>c. is_alnum c \<or> c = CHR ''-'') ''-workspace''"
  by code_simp+

lemma derived_names:
  assumes "dns_label u" and "length u \<le> 49"
  shows "dns_label (PVCName u) \<and> length (PVCName u) \<le> 63"
    and "dns_label (PodName u) \<and> length (PodName u) \<le> 63"
    and "dns_label (ServiceName u) \<and> length (ServiceName u) \<le> 63"
    and "dns_label (ServiceAccountName u) \<and> length (ServiceAccountName u) \<le> 63"
  using assms dns_label_append [of u] label_suffixes
  by (simp_all add: PVCName_def PodName_def ServiceName_def ServiceAccountName_def)

lemma names_inject [simp]:
  "PVCName u = PVCName v \<longleftrightarrow> u = v" "PodName u = PodName v \<longleftrightarrow> u = v"
  "ServiceName u = ServiceName v \<longleftrightarrow> u = v" "ServiceAccountName u = ServiceAccountName v \<longleftrightarrow> u = v"
  by (simp_all add: PVCName_def PodName_def ServiceName_def ServiceAccountName_def)

lemma Labels_user [simp]: "map_of (Labels u) ''user'' = Some u" "map_of (Labels u) ''app'' = Some ''workspace''"
  by (simp_all add: Labels_def)

lemma selects_Labels [simp]: "selects (Labels u) (Labels v) \<longleftrightarrow> u = v"
  by (auto simp: selects_def Labels_def)

section \<open>Properties of validation and names\<close>

text \<open>
  C27: \<open>ValidateSpec\<close> accepts a workspace exactly when its spec is well formed: the user id is an
  RFC 1035 label of at most 49 bytes, the e-mail is set, the three quantities are set and
  parse, there is a provider and every provider is complete, and the idle timeout is empty,
  \<open>0\<close> or a duration. The early returns of the code leave no other way to pass. Every spec the
  comments allow passes, but not only those: the documented rule that provider names are unique
  is not enforced. Listing every provider twice changes the answer for no Workspace, so each
  accepted one stays accepted with names that repeat.
\<close>

theorem ValidateSpec_iff_spec_valid:
  "(ValidateSpec lib wo = None \<longleftrightarrow> (\<exists>ws. wo = Some ws \<and> spec_valid lib (ws_spec ws)))
   \<and> (documented_valid lib (ws_spec ws) \<longrightarrow> ValidateSpec lib (Some ws) = None)
   \<and> ValidateSpec lib (Some (providers_twice ws)) = ValidateSpec lib (Some ws)
   \<and> (ValidateSpec lib (Some ws) = None \<longrightarrow> \<not> documented_valid lib (ws_spec (providers_twice ws)))"
proof (intro conjI impI)
  show "ValidateSpec lib wo = None \<longleftrightarrow> (\<exists>ws. wo = Some ws \<and> spec_valid lib (ws_spec ws))"
    by (cases wo) (simp add: ValidateSpec_def, simp add: ValidateSpec_valid)
  show "documented_valid lib (ws_spec ws) \<Longrightarrow> ValidateSpec lib (Some ws) = None"
    by (simp add: documented_valid_def ValidateSpec_valid)
qed (simp_all add: ValidateSpec_twice twice_undocumented)

text \<open>
  C39: every name derived from the user id of a validated workspace (PVC, Pod, Service,
  ServiceAccount) is an RFC 1035 label of at most 63 bytes, so the API server accepts it.
\<close>

theorem validated_names_fit:
  assumes "ValidateSpec lib (Some ws) = None"
    and "n \<in> {PVCName (ws_user_id ws), PodName (ws_user_id ws), ServiceName (ws_user_id ws),
              ServiceAccountName (ws_user_id ws)}"
  shows "dns_label n \<and> length n \<le> 63"
  using assms derived_names [of "ws_user_id ws"] by (auto simp: ValidateSpec_valid spec_valid_def)

lemma sample_spec_valid:
  assumes "dns_label u" and "length u \<le> 49"
  shows "spec_valid sample_lib (sample_spec u)"
  using assms by (simp add: spec_valid_def sample_spec_def quantity_ok_def sample_quantity_def
      provider_ok_def idle_timeout_ok_def char_class_defs)

theorem ValidateSpec_iff_spec_valid_witness:
  "ValidateSpec sample_lib (Some (sample_ws ''alice'')) = None
   \<and> ValidateSpec sample_lib (Some (providers_twice (sample_ws ''alice''))) = None
   \<and> \<not> documented_valid sample_lib (ws_spec (providers_twice (sample_ws ''alice'')))"
proof -
  have "dns_label ''alice''" by code_simp
  then have "documented_valid sample_lib (ws_spec (sample_ws ''alice''))"
    by (simp add: documented_valid_def sample_ws_def sample_spec_valid) (simp add: sample_spec_def)
  then show ?thesis
    using ValidateSpec_iff_spec_valid [of sample_lib None "sample_ws ''alice''"] by simp
qed

theorem validated_names_fit_witness:
  "ValidateSpec sample_lib (Some (sample_ws ''alice'')) = None
   \<and> dns_label (ServiceName ''alice'') \<and> length (ServiceName ''alice'') \<le> 63"
proof -
  have l: "dns_label ''alice''" by code_simp
  then have v: "ValidateSpec sample_lib (Some (sample_ws ''alice'')) = None"
    by (simp add: ValidateSpec_valid sample_ws_def sample_spec_valid)
  have u: "ws_user_id (sample_ws ''alice'') = ''alice''"
    by (simp add: sample_ws_def sample_spec_def)
  show ?thesis
    using v validated_names_fit [OF v, of "ServiceName ''alice''"] by (simp add: u)
qed

section \<open>Lemmas on the builders\<close>

lemma BuildPVC_cases:
  assumes "BuildPVC lib ws = Inr p"
  obtains q m where "lib_parse_quantity lib (res_storage (spec_resources (ws_spec ws))) = Inr q"
    and "lib_set_owner lib ws (meta (PVCName (ws_user_id ws)) (ws_namespace ws) (Labels (ws_user_id ws))) = Inr m"
    and "pvc_meta p = m" and "pvc_requests p = [(''storage'', q)]" and "pvc_access_modes p = [''ReadWriteOnce'']"
  using assms by (auto simp: BuildPVC_def Let_def split: sum.splits)

lemma BuildPod_cases:
  assumes "BuildPod lib ws pvcName img opts = Inr p"
  obtains cpu mem m where "lib_parse_quantity lib (res_cpu (spec_resources (ws_spec ws))) = Inr cpu"
    and "lib_parse_quantity lib (res_memory (spec_resources (ws_spec ws))) = Inr mem"
    and "lib_set_owner lib ws (meta (PodName (ws_user_id ws)) (ws_namespace ws) (Labels (ws_user_id ws))) = Inr m"
    and "pod_meta p = m"
    and "pod_service_account p = ServiceAccountName (ws_user_id ws)"
    and "pod_containers p = [workspace_container ws img cpu mem (ca_config_map ws opts) opts]"
    and "pod_security p = Some \<lparr>psc_run_as_non_root = Some True, psc_run_as_user = Some 1000,
      psc_fs_group = Some 1000, psc_fs_group_change_policy = Some ''OnRootMismatch'',
      psc_seccomp_profile = Some ''RuntimeDefault''\<rparr>"
    and "\<not> pod_host_network p" and "\<not> pod_host_pid p" and "\<not> pod_host_ipc p"
    and "pod_volumes p = [\<lparr>vol_name = ''workspace-data'', vol_source = PVCVolume pvcName\<rparr>,
                          \<lparr>vol_name = ''tmp'', vol_source = EmptyDir\<rparr>]
       @ (if ca_config_map ws opts \<noteq> ''''
          then [\<lparr>vol_name = ''custom-ca-certs'', vol_source = ConfigMapVolume (ca_config_map ws opts)\<rparr>] else [])"
    and "pod_status_of p = empty_pod_status"
  using assms by (simp add: BuildPod_def Let_def split: sum.splits) (erule_tac that; force)

text \<open>The claims a pod mounts.\<close>

definition pod_claims :: "pod \<Rightarrow> string set" where
  "pod_claims p = {c. \<exists>v \<in> set (pod_volumes p). vol_source v = PVCVolume c}"

text \<open>
  The pod security model of the architecture document: non-root user 1000, default seccomp
  profile, no host namespaces, and every container with a read-only root, no privilege
  escalation, no privileged mode, all capabilities dropped and none added, no override of the
  user, and limits equal to requests.
\<close>

definition container_hardened :: "container \<Rightarrow> bool" where
  "container_hardened c \<longleftrightarrow> (case ctr_security c of None \<Rightarrow> False | Some sc \<Rightarrow>
      sc_read_only_root sc = Some True \<and> sc_allow_escalation sc = Some False
      \<and> sc_privileged sc \<noteq> Some True \<and> sc_cap_drop sc = [''ALL''] \<and> sc_cap_add sc = []
      \<and> sc_run_as_user sc = None \<and> sc_run_as_non_root sc \<noteq> Some False)
    \<and> ctr_limits c = ctr_requests c"

definition pod_hardened :: "pod \<Rightarrow> bool" where
  "pod_hardened p \<longleftrightarrow> (case pod_security p of None \<Rightarrow> False | Some sc \<Rightarrow>
      psc_run_as_non_root sc = Some True \<and> psc_run_as_user sc = Some 1000
      \<and> psc_seccomp_profile sc = Some ''RuntimeDefault'')
    \<and> \<not> pod_host_network p \<and> \<not> pod_host_pid p \<and> \<not> pod_host_ipc p
    \<and> pod_containers p \<noteq> [] \<and> list_all container_hardened (pod_containers p)"

lemma container_hardened_workspace: "container_hardened (workspace_container ws img cpu mem ca opts)"
  by (simp add: container_hardened_def workspace_container_def)

lemma BuildPod_hardened_lemma: "BuildPod lib ws pvcName img opts = Inr p \<Longrightarrow> pod_hardened p"
  by (erule BuildPod_cases) (simp add: pod_hardened_def container_hardened_workspace)

lemma BuildPod_claims: "BuildPod lib ws pvcName img opts = Inr p \<Longrightarrow> pod_claims p = {pvcName}"
  by (erule BuildPod_cases) (auto simp: pod_claims_def)

lemma BuildPod_image:
  "BuildPod lib ws pvcName img opts = Inr p \<Longrightarrow> \<exists>c. pod_containers p = [c] \<and> ctr_image c = img"
  by (erule BuildPod_cases) (simp add: workspace_container_def)

lemma builders_succeed:
  assumes "spec_valid lib (ws_spec ws)"
    and "\<And>m. mt_namespace m = ws_namespace ws \<Longrightarrow> mt_owners m = [] \<Longrightarrow> \<exists>m'. lib_set_owner lib ws m = Inr m'"
  shows "\<exists>p. BuildPVC lib ws = Inr p" and "\<exists>p. BuildPod lib ws pvcName img opts = Inr p"
proof -
  let ?r = "spec_resources (ws_spec ws)"
  from assms(1) obtain q cpu mem where
    "lib_parse_quantity lib (res_storage ?r) = Inr q" "lib_parse_quantity lib (res_cpu ?r) = Inr cpu"
    "lib_parse_quantity lib (res_memory ?r) = Inr mem"
    by (auto simp: spec_valid_def quantity_ok_iff)
  then show "\<exists>p. BuildPVC lib ws = Inr p" "\<exists>p. BuildPod lib ws pvcName img opts = Inr p"
    using assms(2) [of "meta (PVCName (ws_user_id ws)) (ws_namespace ws) (Labels (ws_user_id ws))"]
      assms(2) [of "meta (PodName (ws_user_id ws)) (ws_namespace ws) (Labels (ws_user_id ws))"]
    by (auto simp: BuildPVC_def BuildPod_def Let_def)
qed

section \<open>Properties of the builders\<close>

definition sample_opts :: build_opts where
  "sample_opts = \<lparr>opt_default_ca_bundle = ''corp-ca'', opt_pip_index_url = ''http://pip'',
     opt_pip_trusted_host = '''', opt_npm_registry = ''http://npm''\<rparr>"

lemma sample_pod_built:
  "\<exists>p. BuildPod sample_lib (sample_ws u) (PVCName u) img sample_opts = Inr p"
  by (simp add: BuildPod_def Let_def sample_ws_def sample_spec_def sample_quantity_def
      set_controller_reference_def char_class_defs)

text \<open>
  C38: storage is not shared between users: with the claim name the reconciler passes, the pods
  of two workspaces with different user ids mount no common claim, and each mounts exactly its
  own.
\<close>

theorem pods_do_not_share_claims:
  assumes "BuildPod lib ws (PVCName (ws_user_id ws)) img opts = Inr p"
    and "BuildPod lib ws' (PVCName (ws_user_id ws')) img' opts' = Inr p'"
    and "ws_user_id ws \<noteq> ws_user_id ws'"
  shows "pod_claims p \<inter> pod_claims p' = {} \<and> pod_claims p = {PVCName (ws_user_id ws)}"
  using BuildPod_claims [OF assms(1)] BuildPod_claims [OF assms(2)] assms(3) by simp

theorem pods_do_not_share_claims_witness:
  "\<exists>p p'. BuildPod sample_lib (sample_ws ''alice'') (PVCName ''alice'') ''img:1'' sample_opts = Inr p
     \<and> BuildPod sample_lib (sample_ws ''bob'') (PVCName ''bob'') ''img:1'' sample_opts = Inr p'
     \<and> pod_claims p \<inter> pod_claims p' = {}"
proof -
  have u: "ws_user_id (sample_ws x) = x" for x by (simp add: sample_ws_def sample_spec_def)
  obtain p p' where
    p: "BuildPod sample_lib (sample_ws ''alice'') (PVCName ''alice'') ''img:1'' sample_opts = Inr p"
    "BuildPod sample_lib (sample_ws ''bob'') (PVCName ''bob'') ''img:1'' sample_opts = Inr p'"
    using sample_pod_built by blast
  with pods_do_not_share_claims [of sample_lib "sample_ws ''alice''" "''img:1''" sample_opts p
      "sample_ws ''bob''" "''img:1''" sample_opts p'] show ?thesis by (auto simp: u)
qed

text \<open>
  A workspace that passed validation is never turned away by the builders for its spec: when
  the library can set an owner on a fresh object of the namespace, \<open>BuildPVC\<close> and
  \<open>BuildPod\<close> succeed.
\<close>

lemma validated_builders_succeed:
  assumes "ValidateSpec lib (Some ws) = None"
    and "\<And>m. mt_namespace m = ws_namespace ws \<Longrightarrow> mt_owners m = [] \<Longrightarrow> \<exists>m'. lib_set_owner lib ws m = Inr m'"
  shows "(\<exists>v. BuildPVC lib ws = Inr v) \<and> (\<exists>p. BuildPod lib ws pvcName img opts = Inr p)"
  using builders_succeed [of lib ws] assms by (simp add: ValidateSpec_valid)

end
