(* ===== verification/Go_Crypto.thy ===== *)
theory Go_Crypto
  imports Go_Strings "HOL-Library.Word"
begin

text \<open>
  The encoders of Go's standard library the gateway calls: \<open>crypto/sha256\<close>,
  \<open>encoding/hex\<close> and \<open>encoding/base64\<close> (\<open>StdEncoding\<close>). A digest is a string of 32 bytes. The
  lemmas give what the callers rely on: sizes, the alphabets of the two encodings, and that
  both encodings can be undone.
\<close>

unbundle bit_operations_syntax

section \<open>SHA-256\<close>

type_synonym word32 = "32 word"

text \<open>The 64 round constants, in decimal.\<close>

definition sha_round_constants :: "word32 list" where
  "sha_round_constants =
    [1116352408, 1899447441, 3049323471, 3921009573, 961987163, 1508970993, 2453635748, 2870763221,
     3624381080, 310598401, 607225278, 1426881987, 1925078388, 2162078206, 2614888103, 3248222580,
     3835390401, 4022224774, 264347078, 604807628, 770255983, 1249150122, 1555081692, 1996064986,
     2554220882, 2821834349, 2952996808, 3210313671, 3336571891, 3584528711, 113926993, 338241895,
     666307205, 773529912, 1294757372, 1396182291, 1695183700, 1986661051, 2177026350, 2456956037,
     2730485921, 2820302411, 3259730800, 3345764771, 3516065817, 3600352804, 4094571909, 275423344,
     430227734, 506948616, 659060556, 883997877, 958139571, 1322822218, 1537002063, 1747873779,
     1955562222, 2024104815, 2227730452, 2361852424, 2428436474, 2756734187, 3204031479, 3329325298]"

type_synonym sha_state =
  "word32 \<times> word32 \<times> word32 \<times> word32 \<times> word32 \<times> word32 \<times> word32 \<times> word32"

definition sha_init :: sha_state where
  "sha_init = (0x6a09e667, 0xbb67ae85, 0x3c6ef372, 0xa54ff53a, 0x510e527f, 0x9b05688c, 0x1f83d9ab, 0x5be0cd19)"

text \<open>\<open>n\<close> bytes of a number, most significant first.\<close>

fun be_bytes :: "nat \<Rightarrow> int \<Rightarrow> string" where
  "be_bytes 0 x = []"
| "be_bytes (Suc n) x = be_bytes n (x div 256) @ [char_of (x mod 256)]"

definition sha_pad :: "string \<Rightarrow> string" where
  "sha_pad s = s @ [CHR 0x80] @ replicate ((119 - length s mod 64) mod 64) (CHR 0x00)
     @ be_bytes 8 (8 * int (length s))"

fun be_words :: "string \<Rightarrow> word32 list" where
  "be_words (a # b # c # d # s) =
     word_of_int (((of_char a * 256 + of_char b) * 256 + of_char c) * 256 + of_char d) # be_words s"
| "be_words _ = []"

text \<open>The message schedule, newest word first, extended by \<open>n\<close> words.\<close>

fun sha_schedule :: "nat \<Rightarrow> word32 list \<Rightarrow> word32 list" where
  "sha_schedule 0 ws = ws"
| "sha_schedule (Suc n) ws =
     (let x = ws ! 14; y = ws ! 1;
          s0 = word_rotr 7 x XOR word_rotr 18 x XOR drop_bit 3 x;
          s1 = word_rotr 17 y XOR word_rotr 19 y XOR drop_bit 10 y
      in sha_schedule n ((s1 + ws ! 6 + s0 + ws ! 15) # ws))"

definition sha_round :: "sha_state \<Rightarrow> word32 \<times> word32 \<Rightarrow> sha_state" where
  "sha_round st kw = (case st of (a, b, c, d, e, f, g, h) \<Rightarrow>
     (let s1 = word_rotr 6 e XOR word_rotr 11 e XOR word_rotr 25 e;
          ch = (e AND f) XOR (NOT e AND g);
          t1 = h + s1 + ch + fst kw + snd kw;
          s0 = word_rotr 2 a XOR word_rotr 13 a XOR word_rotr 22 a;
          maj = (a AND b) XOR (a AND c) XOR (b AND c);
          t2 = s0 + maj
      in (t1 + t2, a, b, c, d + t1, e, f, g)))"

definition sha_block :: "sha_state \<Rightarrow> word32 list \<Rightarrow> sha_state" where
  "sha_block st ws =
     (case (st, foldl sha_round st (zip sha_round_constants (rev (sha_schedule 48 (rev ws)))))
      of ((a, b, c, d, e, f, g, h), (a', b', c', d', e', f', g', h')) \<Rightarrow>
        (a + a', b + b', c + c', d + d', e + e', f + f', g + g', h + h'))"

function sha_blocks :: "sha_state \<Rightarrow> word32 list \<Rightarrow> sha_state" where
  "sha_blocks st ws = (if ws = [] then st else sha_blocks (sha_block st (take 16 ws)) (drop 16 ws))"
  by pat_completeness auto
termination
  by (relation "measure (\<lambda>(st, ws). length ws)") auto

declare sha_blocks.simps [simp del]

definition word_bytes :: "word32 \<Rightarrow> string" where
  "word_bytes w = be_bytes 4 (uint w)"

definition Sum256 :: "string \<Rightarrow> string" where
  "Sum256 s = (case sha_blocks sha_init (be_words (sha_pad s)) of (a, b, c, d, e, f, g, h) \<Rightarrow>
     concat (map word_bytes [a, b, c, d, e, f, g, h]))"

section \<open>Hexadecimal\<close>

definition hex_byte :: "char \<Rightarrow> string" where
  "hex_byte c = [hex_digit (code c div 16), hex_digit (code c mod 16)]"

definition EncodeToString :: "string \<Rightarrow> string" where
  "EncodeToString s = concat (map hex_byte s)"

section \<open>Base64\<close>

definition b64_char :: "nat \<Rightarrow> char" where
  "b64_char n = char_of (if n < 26 then 65 + n else if n < 52 then 71 + n else if n < 62 then n - 4
     else if n = 62 then 43 else 47)"

fun base64_encode :: "string \<Rightarrow> string" where
  "base64_encode [] = []"
| "base64_encode [a] = [b64_char (code a div 4), b64_char (code a mod 4 * 16), CHR ''='', CHR ''='']"
| "base64_encode [a, b] = [b64_char (code a div 4), b64_char (code a mod 4 * 16 + code b div 16),
     b64_char (code b mod 16 * 4), CHR ''='']"
| "base64_encode (a # b # c # s) = [b64_char (code a div 4), b64_char (code a mod 4 * 16 + code b div 16),
     b64_char (code b mod 16 * 4 + code c div 64), b64_char (code c mod 64)] @ base64_encode s"

text \<open>The decoder, as \<open>StdEncoding.DecodeString\<close> on input without line breaks.\<close>

definition b64_val :: "char \<Rightarrow> nat option" where
  "b64_val c = (let n = code c in
     if 65 \<le> n \<and> n \<le> 90 then Some (n - 65) else if 97 \<le> n \<and> n \<le> 122 then Some (n - 71)
     else if 48 \<le> n \<and> n \<le> 57 then Some (n + 4) else if n = 43 then Some 62
     else if n = 47 then Some 63 else None)"

definition b64_quad :: "char \<Rightarrow> char \<Rightarrow> char \<Rightarrow> char \<Rightarrow> (string \<times> bool) option" where
  "b64_quad p q r t = (case (b64_val p, b64_val q) of
     (Some v, Some w) \<Rightarrow>
       (case b64_val r of
          None \<Rightarrow> if r = CHR ''='' \<and> t = CHR ''='' then Some ([char_of (v * 4 + w div 16)], True) else None
        | Some x \<Rightarrow> (case b64_val t of
            None \<Rightarrow> if t = CHR ''=''
              then Some ([char_of (v * 4 + w div 16), char_of (w mod 16 * 16 + x div 4)], True) else None
          | Some y \<Rightarrow> Some ([char_of (v * 4 + w div 16), char_of (w mod 16 * 16 + x div 4),
                char_of (x mod 4 * 64 + y)], False)))
   | _ \<Rightarrow> None)"

fun base64_decode :: "string \<Rightarrow> string option" where
  "base64_decode [] = Some []"
| "base64_decode (p # q # r # t # s) = (case b64_quad p q r t of
     None \<Rightarrow> None
   | Some (out, final) \<Rightarrow>
       if final then (if s = [] then Some out else None)
       else map_option (\<lambda>rest. out @ rest) (base64_decode s))"
| "base64_decode _ = None"

section \<open>Lemmas\<close>

lemma length_be_bytes [simp]: "length (be_bytes n x) = n"
  by (induction n arbitrary: x) auto

lemma length_word_bytes [simp]: "length (word_bytes w) = 4"
  by (simp add: word_bytes_def)

lemma length_Sum256 [simp]: "length (Sum256 s) = 32"
  by (simp add: Sum256_def split: prod.split)

lemma length_EncodeToString [simp]: "length (EncodeToString s) = 2 * length s"
  by (induction s) (simp_all add: EncodeToString_def hex_byte_def)

lemma code_less: "code c < 256"
  using nat_of_char_less_256 [of c] by simp

lemma code_char_of: "n < 256 \<Longrightarrow> code (char_of n) = n"
  by simp

definition hex_value :: "char \<Rightarrow> nat" where
  "hex_value c = (if code c \<le> 57 then code c - 48 else code c - 87)"

lemma hex_digit_value: "n < 16 \<Longrightarrow> hex_value (hex_digit n) = n"
  by (simp add: hex_value_def hex_digit_def)

lemma hex_digit_alnum: "n < 16 \<Longrightarrow> is_alnum (hex_digit n)"
  by (simp add: hex_digit_def char_class_defs)

lemma hex_alnum: "c \<in> set (EncodeToString s) \<Longrightarrow> is_alnum c"
  using code_less by (induction s) (auto simp: EncodeToString_def hex_byte_def hex_digit_alnum
      less_mult_imp_div_less)

lemma hex_byte_inject: "hex_byte c = hex_byte d \<Longrightarrow> c = d"
proof -
  assume eq: "hex_byte c = hex_byte d"
  have div16: "code x div 16 < 16" for x using code_less [of x] by (simp add: less_mult_imp_div_less)
  from eq have "code c div 16 = code d div 16" "code c mod 16 = code d mod 16"
    using div16 by (auto simp: hex_byte_def dest!: arg_cong [where f = hex_value] simp: hex_digit_value)
  then have "code c = code d" by (metis div_mult_mod_eq)
  then show ?thesis by simp
qed

lemma EncodeToString_inject: "EncodeToString s = EncodeToString t \<longleftrightarrow> s = t"
proof
  show "EncodeToString s = EncodeToString t \<Longrightarrow> s = t"
  proof (induction s arbitrary: t)
    case Nil
    then show ?case by (cases t) (auto simp: EncodeToString_def hex_byte_def)
  next
    case (Cons c s)
    then obtain d u where t: "t = d # u" by (cases t) (auto simp: EncodeToString_def hex_byte_def)
    with Cons.prems have "hex_byte c = hex_byte d" "EncodeToString s = EncodeToString u"
      by (auto simp: EncodeToString_def hex_byte_def)
    with Cons.IH t show ?case by (auto dest: hex_byte_inject)
  qed
qed simp

lemma b64_val_char: "n < 64 \<Longrightarrow> b64_val (b64_char n) = Some n"
  by (simp add: b64_val_def b64_char_def Let_def) arith

lemma b64_val_pad [simp]: "b64_val (CHR ''='') = None"
  by (simp add: b64_val_def)

lemma byte_div: "code a div 4 < 64" "code a div 16 < 16" "code a div 64 < 4"
  using code_less [of a] by (simp_all add: less_mult_imp_div_less)

lemma mod_bounds: "(n::nat) mod 4 \<le> 3" "n mod 16 \<le> 15" "n mod 64 \<le> 63"
  by (simp_all flip: less_Suc_eq_le)

lemma sextets:
  "code a div 4 < 64" "code a mod 4 * 16 < 64" "code a mod 4 * 16 + code b div 16 < 64"
  "code b mod 16 * 4 < 64" "code b mod 16 * 4 + code c div 64 < 64" "code c mod 64 < 64"
  using byte_div [of a] byte_div [of b] byte_div [of c] mod_bounds [of "code a"] mod_bounds [of "code b"]
    mod_bounds [of "code c"] by linarith+

lemma byte_split: "code a div 4 * 4 + code a mod 4 = code a" "code a div 16 * 16 + code a mod 16 = code a"
  "code a div 64 * 64 + code a mod 64 = code a"
  by simp_all

lemma byte_div_out: "code b div 16 div 16 = 0" "code b div 16 mod 16 = code b div 16"
  "code c div 64 div 4 = 0" "code c div 64 mod 4 = code c div 64"
  using byte_div [of b] byte_div [of c] by simp_all

lemma base64_roundtrip: "base64_decode (base64_encode s) = Some s"
  by (induction s rule: base64_encode.induct)
    (simp_all add: b64_quad_def b64_val_char sextets byte_div_out byte_split)

text \<open>The known answer of FIPS 180-4 for a one-block message.\<close>

lemma Sum256_abc:
  "EncodeToString (Sum256 ''abc'') = ''ba7816bf8f01cfea414140de5dae2223b00361a396177a9cb410ff61f20015ad''"
  by code_simp

end
