(* ===== verification/Auth.thy ===== *)
theory Auth
  imports Resources Go_Crypto "HOL-Library.AList"
begin

text \<open>
  Authentication of the gateway: \<open>pkg/gateway/auth.go\<close> (user names from OIDC subjects, the
  validator with its LRU token cache, classification of verification errors),
  \<open>pkg/gateway/auth_http.go\<close> (the response for an error) and \<open>pkg/gateway/auth_dev.go\<close> (the
  fixed-identity validator). go-oidc, which discovers the provider and checks a token, is an
  argument; so is the Unicode part of \<open>strings.ToLower\<close>.

  The list of \<open>container/list\<close> holds elements with an address, and the index maps a key to an
  address: two list elements may carry the same key, because the lock is not held while a token
  is verified.
\<close>

section \<open>Sentinels and claims\<close>

definition ErrUnauthorized :: go_error where
  "ErrUnauthorized = \<lparr>err_text = ''unauthenticated'', err_kinds = [Unauthenticated]\<rparr>"

definition ErrForbidden :: go_error where
  "ErrForbidden = \<lparr>err_text = ''forbidden'', err_kinds = [AuthForbidden]\<rparr>"

definition ErrTokenExpired :: go_error where
  "ErrTokenExpired = \<lparr>err_text = ''token expired'', err_kinds = [TokenExpired]\<rparr>"

text \<open>\<open>fmt.Errorf("%w: text", sentinel)\<close>: the classes of the sentinel, and no other.\<close>

definition sentinel_w :: "go_error \<Rightarrow> string \<Rightarrow> go_error" where
  "sentinel_w e t = \<lparr>err_text = err_text e @ '': '' @ t, err_kinds = err_kinds e\<rparr>"

record oidc_config =
  oc_issuer_url :: string
  oc_client_id :: string
  oc_audience :: string
  oc_clock_skew :: duration

definition tokenCacheTTL :: duration where
  "tokenCacheTTL = 5 * Minute"

definition tokenCacheMax :: nat where
  "tokenCacheMax = 10000"

record claims =
  clm_sub :: string
  clm_email :: string
  clm_user_id :: string

section \<open>User names\<close>

text \<open>
  \<open>nonAlphaNum.ReplaceAllString(s, "-")\<close> with the expression \<open>[^a-z0-9]+\<close>: every maximal run of
  other bytes becomes one dash. Runes beyond ASCII consist of such bytes only.
\<close>

fun replace_runs :: "bool \<Rightarrow> string \<Rightarrow> string" where
  "replace_runs inside [] = []"
| "replace_runs inside (c # cs) =
     (if is_alnum c then c # replace_runs False cs
      else if inside then replace_runs True cs
      else CHR ''-'' # replace_runs True cs)"

definition nonAlphaNum :: "string \<Rightarrow> string" where
  "nonAlphaNum s = replace_runs False s"

definition sanitizeUserID :: "(string \<Rightarrow> string) \<Rightarrow> string \<Rightarrow> string" where
  "sanitizeUserID uni sub =
     (let s = ToLower uni sub;
          s = nonAlphaNum s;
          s = Trim s CHR ''-'';
          s = (if s \<noteq> [] \<and> is_digit (hd s) then ''u-'' @ s else s)
      in if length s > 49 then TrimRight (take 49 s) CHR ''-'' else s)"

section \<open>The validator\<close>

text \<open>What go-oidc's verifier is configured with: issuer, accepted audience, clock shift.\<close>

record verifier_cfg =
  vc_issuer :: string
  vc_client_id :: string
  vc_now_skew :: duration

text \<open>A verified ID token: its subject and what \<open>Claims(&raw)\<close> extracts, the email.\<close>

record id_token =
  idt_subject :: string
  idt_email :: "string res"

record cached_entry =
  ce_key :: string
  ce_claims :: claims
  ce_expiry :: instant

record validator =
  va_verifier :: verifier_cfg
  va_index :: "(string \<times> nat) list"
  va_lru :: "(nat \<times> cached_entry) list"
  va_next :: nat

text \<open>The environment of the validator: the clock and go-oidc.\<close>

record 'w oidc_env =
  oi_now :: "'w \<Rightarrow> instant \<times> 'w"
  oi_new_provider :: "string \<Rightarrow> 'w \<Rightarrow> unit res \<times> 'w"
  oi_verify :: "verifier_cfg \<Rightarrow> string \<Rightarrow> 'w \<Rightarrow> id_token res \<times> 'w"

definition hashToken :: "string \<Rightarrow> string" where
  "hashToken raw = EncodeToString (Sum256 raw)"

definition classifyOIDCVerifyError :: "(string \<Rightarrow> string) \<Rightarrow> go_error option \<Rightarrow> go_error option" where
  "classifyOIDCVerifyError uni eo = (case eo of
     None \<Rightarrow> None
   | Some e \<Rightarrow>
      if errors_is e OIDCTokenExpired then Some (sentinel_w ErrTokenExpired (err_text e))
      else let msg = ToLower uni (err_text e) in
        if Contains msg ''aud'' \<or> Contains msg ''audience'' then Some (sentinel_w ErrForbidden (err_text e))
        else Some (sentinel_w ErrUnauthorized (err_text e)))"

definition NewValidatorWithOIDC :: "'w oidc_env \<Rightarrow> oidc_config \<Rightarrow> 'w \<Rightarrow> validator res \<times> 'w" where
  "NewValidatorWithOIDC env cfg w =
     (if oc_issuer_url cfg = '''' \<or> oc_client_id cfg = ''''
      then (Inl (new_error ''OIDC IssuerURL and ClientID are required''), w)
      else let audience = (if oc_audience cfg = '''' then oc_client_id cfg else oc_audience cfg) in
        case oi_new_provider env (oc_issuer_url cfg) w of
          (Inl e, w') \<Rightarrow> (Inl (errorf_w (''OIDC provider discovery '' @ Quote (oc_issuer_url cfg)) e), w')
        | (Inr _, w') \<Rightarrow>
           (let vcfg = \<lparr>vc_issuer = oc_issuer_url cfg, vc_client_id = audience,
                  vc_now_skew = (if oc_clock_skew cfg > 0 then oc_clock_skew cfg else 0)\<rparr>
            in (Inr \<lparr>va_verifier = vcfg, va_index = [], va_lru = [], va_next = 0\<rparr>, w')))"

definition NewValidator :: "'w oidc_env \<Rightarrow> string \<Rightarrow> string \<Rightarrow> 'w \<Rightarrow> validator res \<times> 'w" where
  "NewValidator env issuerURL clientID w = NewValidatorWithOIDC env
     \<lparr>oc_issuer_url = issuerURL, oc_client_id = clientID, oc_audience = '''', oc_clock_skew = 0\<rparr> w"

section \<open>The token cache\<close>

text \<open>\<open>lru.Remove(elem)\<close> together with \<open>delete(index, key)\<close>.\<close>

definition drop_entry :: "string \<Rightarrow> nat \<Rightarrow> validator \<Rightarrow> validator" where
  "drop_entry key elem v = v\<lparr>va_lru := filter (\<lambda>x. fst x \<noteq> elem) (va_lru v),
     va_index := AList.delete key (va_index v)\<rparr>"

definition move_to_front :: "nat \<Rightarrow> cached_entry \<Rightarrow> validator \<Rightarrow> validator" where
  "move_to_front elem e v = v\<lparr>va_lru := (elem, e) # filter (\<lambda>x. fst x \<noteq> elem) (va_lru v)\<rparr>"

text \<open>The first critical section of \<open>Validate\<close>, at the time the clock shows.\<close>

definition cache_lookup :: "string \<Rightarrow> instant \<Rightarrow> validator \<Rightarrow> claims option \<times> validator" where
  "cache_lookup key t v = (case map_of (va_index v) key of
     None \<Rightarrow> (None, v)
   | Some elem \<Rightarrow> (case map_of (va_lru v) elem of
       None \<Rightarrow> (None, v)
     | Some e \<Rightarrow>
         if t < ce_expiry e then (Some (ce_claims e), move_to_front elem e v)
         else (None, drop_entry key elem v)))"

text \<open>Eviction of the least recently used entries down to the capacity.\<close>

function evict_lru :: "validator \<Rightarrow> validator" where
  "evict_lru v =
     (if length (va_lru v) \<ge> tokenCacheMax \<and> va_lru v \<noteq> []
      then let oldest = last (va_lru v)
           in evict_lru (v\<lparr>va_lru := butlast (va_lru v),
                va_index := AList.delete (ce_key (snd oldest)) (va_index v)\<rparr>)
      else v)"
  by pat_completeness auto
termination
  by (relation "measure (\<lambda>v. length (va_lru v))") auto

declare evict_lru.simps [simp del]

text \<open>The second critical section: make room, then put the new entry in front.\<close>

definition cache_store :: "string \<Rightarrow> claims \<Rightarrow> instant \<Rightarrow> validator \<Rightarrow> validator" where
  "cache_store key cl t v =
     (let v = evict_lru v;
          entry = \<lparr>ce_key = key, ce_claims = cl, ce_expiry = t + tokenCacheTTL\<rparr>;
          elem = va_next v
      in v\<lparr>va_lru := (elem, entry) # va_lru v, va_index := AList.update key elem (va_index v),
           va_next := Suc elem\<rparr>)"

text \<open>One tick of \<open>evictExpired\<close>: a pass over the index as it is when the tick starts.\<close>

definition evict_one :: "instant \<Rightarrow> string \<times> nat \<Rightarrow> validator \<Rightarrow> validator" where
  "evict_one t ke v = (case map_of (va_lru v) (snd ke) of
     None \<Rightarrow> v
   | Some e \<Rightarrow> if t > ce_expiry e then drop_entry (fst ke) (snd ke) v else v)"

definition evictExpired :: "instant \<Rightarrow> validator \<Rightarrow> validator" where
  "evictExpired t v = fold (evict_one t) (va_index v) v"

section \<open>Validate\<close>

record 'w auth_world =
  aw_validator :: validator
  aw_env :: 'w

datatype auth_event =
    AuthClock instant
  | VerifyCall verifier_cfg string "id_token res"

definition cache_action :: "(validator \<Rightarrow> 'a \<times> validator) \<Rightarrow> ('w auth_world, auth_event, 'a) io" where
  "cache_action f = ask_silent (\<lambda>w. case f (aw_validator w) of (a, v) \<Rightarrow> (a, w\<lparr>aw_validator := v\<rparr>))"

definition auth_now :: "'w oidc_env \<Rightarrow> ('w auth_world, auth_event, instant) io" where
  "auth_now env = ask (\<lambda>w. case oi_now env (aw_env w) of (t, x) \<Rightarrow> (t, w\<lparr>aw_env := x\<rparr>)) AuthClock"

definition verify_token ::
  "'w oidc_env \<Rightarrow> verifier_cfg \<Rightarrow> string \<Rightarrow> ('w auth_world, auth_event, id_token res) io" where
  "verify_token env cfg raw =
     ask (\<lambda>w. case oi_verify env cfg raw (aw_env w) of (r, x) \<Rightarrow> (r, w\<lparr>aw_env := x\<rparr>)) (VerifyCall cfg raw)"

definition token_claims :: "(string \<Rightarrow> string) \<Rightarrow> id_token \<Rightarrow> claims res" where
  "token_claims uni t = (case idt_email t of
     Inl e \<Rightarrow> Inl (sentinel_w ErrUnauthorized (''extract claims: '' @ err_text e))
   | Inr email \<Rightarrow> Inr \<lparr>clm_sub = idt_subject t, clm_email = email, clm_user_id = sanitizeUserID uni (idt_subject t)\<rparr>)"

definition verify_claims ::
  "(string \<Rightarrow> string) \<Rightarrow> 'w oidc_env \<Rightarrow> string \<Rightarrow> ('w auth_world, auth_event, claims res) io" where
  "verify_claims uni env raw = do {
     cfg \<leftarrow> cache_action (\<lambda>v. (va_verifier v, v));
     r \<leftarrow> verify_token env cfg raw;
     State_Monad.return (case r of
       Inl e \<Rightarrow> Inl (the (classifyOIDCVerifyError uni (Some e)))
     | Inr t \<Rightarrow> token_claims uni t) }"

definition verify_and_store ::
  "(string \<Rightarrow> string) \<Rightarrow> 'w oidc_env \<Rightarrow> string \<Rightarrow> ('w auth_world, auth_event, claims res) io" where
  "verify_and_store uni env raw = do {
     r \<leftarrow> verify_claims uni env raw;
     case r of
       Inl e \<Rightarrow> State_Monad.return (Inl e)
     | Inr cl \<Rightarrow> do {
         t \<leftarrow> auth_now env;
         _ \<leftarrow> cache_action (\<lambda>v. ((), cache_store (hashToken raw) cl t v));
         State_Monad.return (Inr cl) } }"

definition Validate ::
  "(string \<Rightarrow> string) \<Rightarrow> 'w oidc_env \<Rightarrow> string \<Rightarrow> ('w auth_world, auth_event, claims res) io" where
  "Validate uni env raw =
     (let key = hashToken raw in do {
        present \<leftarrow> cache_action (\<lambda>v. (map_of (va_index v) key \<noteq> None, v));
        hit \<leftarrow> (if present then do { t \<leftarrow> auth_now env; cache_action (cache_lookup key t) }
               else State_Monad.return None);
        case hit of
          Some cl \<Rightarrow> State_Monad.return (Inr cl)
        | None \<Rightarrow> verify_and_store uni env raw })"

section \<open>The fixed identity of a development setup\<close>

type_synonym fixed_identity_validator = claims

definition NewFixedIdentityValidator :: "(string \<Rightarrow> string) \<Rightarrow> string \<Rightarrow> string \<Rightarrow> fixed_identity_validator" where
  "NewFixedIdentityValidator uni sub email =
     (let sub = (if TrimSpace sub = '''' then ''dev-user'' else sub)
      in \<lparr>clm_sub = sub, clm_email = email, clm_user_id = sanitizeUserID uni sub\<rparr>)"

definition fixed_Validate :: "fixed_identity_validator \<Rightarrow> string \<Rightarrow> claims res" where
  "fixed_Validate f rawToken =
     (if TrimSpace rawToken = '''' then Inl (sentinel_w ErrUnauthorized ''empty token'') else Inr f)"

section \<open>Responses for errors\<close>

abbreviation AuthErrorCodeUnauthorized :: string where "AuthErrorCodeUnauthorized \<equiv> ''unauthorized''"
abbreviation AuthErrorCodeForbidden :: string where "AuthErrorCodeForbidden \<equiv> ''forbidden''"
abbreviation AuthErrorCodeTokenExpired :: string where "AuthErrorCodeTokenExpired \<equiv> ''token_expired''"

definition AuthErrorResponse :: "go_error option \<Rightarrow> int \<times> string" where
  "AuthErrorResponse eo = (case eo of
     None \<Rightarrow> (200, '''')
   | Some e \<Rightarrow>
      if errors_is e AuthForbidden then (403, AuthErrorCodeForbidden)
      else if errors_is e TokenExpired then (401, AuthErrorCodeTokenExpired)
      else (401, AuthErrorCodeUnauthorized))"

end
