(* ===== verification/Kube_Client.thy ===== *)
theory Kube_Client
  imports Kube_Types
begin

text \<open>
  The Kubernetes API as the operator and the gateway see it: the calls of
  \<open>client.Client\<close> and \<open>controllerutil.CreateOrUpdate\<close> on the kinds the program uses, over the
  state \<open>'w\<close> of whatever answers them. The client is an argument of the model; every call
  leaves a mark on the trace with the answer it got, so a property can be stated for every
  behaviour of the API server. Also here: the other observable effects (counters, structured
  log records, Kubernetes events), the contract of the client as a locale, and the meaning of
  a merge patch on the status.
\<close>

section \<open>The client\<close>

text \<open>
  A call that fills the object passed to it returns the object. \<open>cl_patch_status base obj\<close> is
  \<open>Status().Patch(obj, MergeFrom(base))\<close>; \<open>cl_now\<close> is \<open>time.Now\<close> and \<open>cl_wait d\<close> the choice between
  \<open>ctx.Done()\<close>, with the context's error, and \<open>time.After(d)\<close>; \<open>cl_ensure_* obj f\<close> is \<open>CreateOrUpdate(obj, f)\<close>, with
  the object as it is after the call.
\<close>

record 'w kclient =
  cl_now :: "'w \<Rightarrow> instant \<times> 'w"
  cl_wait :: "duration \<Rightarrow> 'w \<Rightarrow> go_error option \<times> 'w"
  cl_get_ws :: "object_key \<Rightarrow> 'w \<Rightarrow> workspace res \<times> 'w"
  cl_create_ws :: "workspace \<Rightarrow> 'w \<Rightarrow> workspace res \<times> 'w"
  cl_update_ws :: "workspace \<Rightarrow> 'w \<Rightarrow> workspace res \<times> 'w"
  cl_patch_status :: "workspace \<Rightarrow> workspace \<Rightarrow> 'w \<Rightarrow> workspace res \<times> 'w"
  cl_get_pvc :: "object_key \<Rightarrow> 'w \<Rightarrow> pvc res \<times> 'w"
  cl_create_pvc :: "pvc \<Rightarrow> 'w \<Rightarrow> pvc res \<times> 'w"
  cl_get_pod :: "object_key \<Rightarrow> 'w \<Rightarrow> pod res \<times> 'w"
  cl_create_pod :: "pod \<Rightarrow> 'w \<Rightarrow> pod res \<times> 'w"
  cl_delete_pod :: "pod \<Rightarrow> 'w \<Rightarrow> unit res \<times> 'w"
  cl_ensure_sa :: "service_account \<Rightarrow> (service_account \<Rightarrow> service_account res) \<Rightarrow> 'w \<Rightarrow> service_account res \<times> 'w"
  cl_ensure_role :: "role \<Rightarrow> (role \<Rightarrow> role res) \<Rightarrow> 'w \<Rightarrow> role res \<times> 'w"
  cl_ensure_rb :: "role_binding \<Rightarrow> (role_binding \<Rightarrow> role_binding res) \<Rightarrow> 'w \<Rightarrow> role_binding res \<times> 'w"
  cl_ensure_np :: "network_policy \<Rightarrow> (network_policy \<Rightarrow> network_policy res) \<Rightarrow> 'w \<Rightarrow> network_policy res \<times> 'w"
  cl_ensure_svc :: "service \<Rightarrow> (service \<Rightarrow> service res) \<Rightarrow> 'w \<Rightarrow> service res \<times> 'w"

section \<open>Effects\<close>

datatype event =
    ReadClock instant
  | Waited duration "go_error option"
  | GetWorkspace object_key "workspace res"
  | CreateWorkspace workspace "workspace res"
  | UpdateWorkspace workspace "workspace res"
  | PatchStatus workspace workspace "workspace res"
  | GetPVC object_key "pvc res"
  | CreatePVC pvc "pvc res"
  | GetPod object_key "pod res"
  | CreatePod pod "pod res"
  | DeletePod pod "unit res"
  | EnsureServiceAccount object_key "service_account res"
  | EnsureRole object_key "role res"
  | EnsureRoleBinding object_key "role_binding res"
  | EnsureNetworkPolicy object_key "network_policy res"
  | EnsureService object_key "service res"
  | Count string "string list"
  | LogRecord string "(string \<times> string) list"
  | KubeEvent string string

type_synonym ('w, 'a) kube = "('w, event, 'a) io"

definition now :: "'w kclient \<Rightarrow> ('w, instant) kube" where
  "now c = ask (cl_now c) ReadClock"

definition wait_or_done :: "'w kclient \<Rightarrow> duration \<Rightarrow> ('w, go_error option) kube" where
  "wait_or_done c d = ask (cl_wait c d) (Waited d)"

definition get_workspace :: "'w kclient \<Rightarrow> object_key \<Rightarrow> ('w, workspace res) kube" where
  "get_workspace c k = ask (cl_get_ws c k) (GetWorkspace k)"

definition create_workspace :: "'w kclient \<Rightarrow> workspace \<Rightarrow> ('w, workspace res) kube" where
  "create_workspace c ws = ask (cl_create_ws c ws) (CreateWorkspace ws)"

definition update_workspace :: "'w kclient \<Rightarrow> workspace \<Rightarrow> ('w, workspace res) kube" where
  "update_workspace c ws = ask (cl_update_ws c ws) (UpdateWorkspace ws)"

definition patch_status :: "'w kclient \<Rightarrow> workspace \<Rightarrow> workspace \<Rightarrow> ('w, workspace res) kube" where
  "patch_status c base ws = ask (cl_patch_status c base ws) (PatchStatus base ws)"

definition get_pvc :: "'w kclient \<Rightarrow> object_key \<Rightarrow> ('w, pvc res) kube" where
  "get_pvc c k = ask (cl_get_pvc c k) (GetPVC k)"

definition create_pvc :: "'w kclient \<Rightarrow> pvc \<Rightarrow> ('w, pvc res) kube" where
  "create_pvc c p = ask (cl_create_pvc c p) (CreatePVC p)"

definition get_pod :: "'w kclient \<Rightarrow> object_key \<Rightarrow> ('w, pod res) kube" where
  "get_pod c k = ask (cl_get_pod c k) (GetPod k)"

definition create_pod :: "'w kclient \<Rightarrow> pod \<Rightarrow> ('w, pod res) kube" where
  "create_pod c p = ask (cl_create_pod c p) (CreatePod p)"

definition delete_pod :: "'w kclient \<Rightarrow> pod \<Rightarrow> ('w, unit res) kube" where
  "delete_pod c p = ask (cl_delete_pod c p) (DeletePod p)"

definition ensure_sa ::
  "'w kclient \<Rightarrow> service_account \<Rightarrow> (service_account \<Rightarrow> service_account res) \<Rightarrow> ('w, service_account res) kube" where
  "ensure_sa c x f = ask (cl_ensure_sa c x f) (EnsureServiceAccount (key_of (sa_meta x)))"

definition ensure_role :: "'w kclient \<Rightarrow> role \<Rightarrow> (role \<Rightarrow> role res) \<Rightarrow> ('w, role res) kube" where
  "ensure_role c x f = ask (cl_ensure_role c x f) (EnsureRole (key_of (role_meta x)))"

definition ensure_rb ::
  "'w kclient \<Rightarrow> role_binding \<Rightarrow> (role_binding \<Rightarrow> role_binding res) \<Rightarrow> ('w, role_binding res) kube" where
  "ensure_rb c x f = ask (cl_ensure_rb c x f) (EnsureRoleBinding (key_of (rb_meta x)))"

definition ensure_np ::
  "'w kclient \<Rightarrow> network_policy \<Rightarrow> (network_policy \<Rightarrow> network_policy res) \<Rightarrow> ('w, network_policy res) kube" where
  "ensure_np c x f = ask (cl_ensure_np c x f) (EnsureNetworkPolicy (key_of (np_meta x)))"

definition ensure_svc :: "'w kclient \<Rightarrow> service \<Rightarrow> (service \<Rightarrow> service res) \<Rightarrow> ('w, service res) kube" where
  "ensure_svc c x f = ask (cl_ensure_svc c x f) (EnsureService (key_of (svc_meta x)))"

lemmas client_call_defs = now_def wait_or_done_def get_workspace_def create_workspace_def update_workspace_def
  patch_status_def get_pvc_def create_pvc_def get_pod_def create_pod_def delete_pod_def
  ensure_sa_def ensure_role_def ensure_rb_def ensure_np_def ensure_svc_def

section \<open>The contract of the client\<close>

text \<open>The server owns the UID and the generation of an object; the rest is the client's.\<close>

definition erase :: "object_meta \<Rightarrow> object_meta" where
  "erase m = m\<lparr>mt_uid := '''', mt_generation := 0\<rparr>"

lemma erase_eqD:
  assumes "erase m = erase n"
  shows "mt_name m = mt_name n \<and> mt_namespace m = mt_namespace n \<and> mt_labels m = mt_labels n
    \<and> mt_owners m = mt_owners n \<and> mt_finalizers m = mt_finalizers n \<and> mt_deletion m = mt_deletion n"
  using assms by (cases m; cases n) (simp add: erase_def)

text \<open>
  A JSON merge patch of the status subresource carries the fields that differ between the two
  objects; the server applies it to its current status. Lists are replaced whole. The fields are
  compared and sent as JSON, so the access time with whole seconds; the transition time of a
  condition is taken to be what is written of it.
\<close>

definition merge_field :: "'a \<Rightarrow> 'a \<Rightarrow> 'a \<Rightarrow> 'a" where
  "merge_field base new cur = (if base = new then cur else new)"

definition merge_status :: "workspace_status \<Rightarrow> workspace_status \<Rightarrow> workspace_status \<Rightarrow> workspace_status" where
  "merge_status b n u =
     \<lparr>st_phase = merge_field (st_phase b) (st_phase n) (st_phase u),
      st_pod_name = merge_field (st_pod_name b) (st_pod_name n) (st_pod_name u),
      st_service_endpoint = merge_field (st_service_endpoint b) (st_service_endpoint n) (st_service_endpoint u),
      st_message = merge_field (st_message b) (st_message n) (st_message u),
      st_remediation_hint = merge_field (st_remediation_hint b) (st_remediation_hint n) (st_remediation_hint u),
      st_conditions = merge_field (st_conditions b) (st_conditions n) (st_conditions u),
      st_last_accessed = merge_field (map_option whole_seconds (st_last_accessed b))
        (map_option whole_seconds (st_last_accessed n)) (st_last_accessed u)\<rparr>"

lemma merge_field_simps [simp]: "merge_field b b u = u" "merge_field b n b = n"
  by (simp_all add: merge_field_def)

lemma merge_status_same [simp]: "merge_status b b u = u" "st_last_accessed n = st_last_accessed b \<Longrightarrow> merge_status b n b = n"
  by (simp_all add: merge_status_def)

text \<open>
  \<open>CreateOrUpdate\<close>: on success the object in the cluster is what the mutate function made of
  some object with the requested key, up to the fields of the server.
\<close>

definition ensures_mutated :: "('o \<Rightarrow> object_meta) \<Rightarrow> ('o \<Rightarrow> 'o) \<Rightarrow> 'o \<Rightarrow> ('o \<Rightarrow> 'o res) \<Rightarrow> 'o res \<Rightarrow> bool" where
  "ensures_mutated mt norm x f r \<longleftrightarrow> (case r of Inl _ \<Rightarrow> True | Inr y \<Rightarrow>
     \<exists>z fz. key_of (mt z) = key_of (mt x) \<and> f z = Inr fz \<and> norm y = norm fz)"

definition norm_sa :: "service_account \<Rightarrow> service_account" where
  "norm_sa x = x\<lparr>sa_meta := erase (sa_meta x)\<rparr>"

definition norm_role :: "role \<Rightarrow> role" where
  "norm_role x = x\<lparr>role_meta := erase (role_meta x)\<rparr>"

definition norm_rb :: "role_binding \<Rightarrow> role_binding" where
  "norm_rb x = x\<lparr>rb_meta := erase (rb_meta x)\<rparr>"

definition norm_np :: "network_policy \<Rightarrow> network_policy" where
  "norm_np x = x\<lparr>np_meta := erase (np_meta x)\<rparr>"

definition norm_svc :: "service \<Rightarrow> service" where
  "norm_svc x = x\<lparr>svc_meta := erase (svc_meta x)\<rparr>"

text \<open>
  What the gateway relies on: a read answers with the object of that key, and a status patch with
  the object it was sent for.
\<close>

locale keyed_client =
  fixes c :: "'w kclient"
  assumes read_key: "fst (cl_get_ws c k w) = Inr ws \<Longrightarrow> key_of (ws_meta ws) = k"
    and patch_key: "fst (cl_patch_status c base new w) = Inr ws \<Longrightarrow> key_of (ws_meta ws) = key_of (ws_meta new)"

locale kube_client =
  fixes c :: "'w kclient"
  assumes get_ws_key: "fst (cl_get_ws c k w) = Inr ws \<Longrightarrow> key_of (ws_meta ws) = k"
    and get_pvc_key: "fst (cl_get_pvc c k w) = Inr p \<Longrightarrow> key_of (pvc_meta p) = k"
    and get_pod_key: "fst (cl_get_pod c k w) = Inr q \<Longrightarrow> key_of (pod_meta q) = k"
    and patch_merges: "fst (cl_patch_status c base new w) = Inr ws \<Longrightarrow>
      key_of (ws_meta ws) = key_of (ws_meta new)
      \<and> (\<exists>u. ws_status ws = merge_status (ws_status base) (ws_status new) u)"
    and sa_mutated: "ensures_mutated sa_meta norm_sa sa f1 (fst (cl_ensure_sa c sa f1 w))"
    and role_mutated: "ensures_mutated role_meta norm_role ro f2 (fst (cl_ensure_role c ro f2 w))"
    and rb_mutated: "ensures_mutated rb_meta norm_rb rb f3 (fst (cl_ensure_rb c rb f3 w))"
    and np_mutated: "ensures_mutated np_meta norm_np np f4 (fst (cl_ensure_np c np f4 w))"
    and svc_mutated: "ensures_mutated svc_meta norm_svc sv f5 (fst (cl_ensure_svc c sv f5 w))"

sublocale kube_client \<subseteq> keyed: keyed_client c
  by unfold_locales (simp_all add: get_ws_key patch_merges)

end
