(* ===== verification/Lifecycle.thy ===== *)
theory Lifecycle
  imports Auth Kube_Client
begin

text \<open>
  \<open>pkg/gateway/lifecycle.go\<close>: the gateway's side of a Workspace. It creates the resource for an
  authenticated user, restarts a stopped one by clearing its phase, waits for it to run and
  stamps the time of last access. All calls go through the same client as the operator's.

  The wait is a loop over the clock; it is modelled with fuel, and \<open>None\<close> is the value of a loop
  that has not ended yet.
\<close>

section \<open>Data\<close>

definition workspaceReadyTimeout :: duration where
  "workspaceReadyTimeout = 60 * Second"

definition workspaceReadyPoll :: duration where
  "workspaceReadyPoll = 2 * Second"

record ensure_details =
  ed_created :: bool
  ed_restarted :: bool

definition no_details :: ensure_details where
  "no_details = \<lparr>ed_created = False, ed_restarted = False\<rparr>"

record lifecycle_config =
  lc_providers :: "ai_provider list"
  lc_cpu :: string
  lc_memory :: string
  lc_storage :: string
  lc_storage_class :: string

text \<open>The manager holds the client and the configuration its methods are given; its logger has no values of its own.\<close>

record 'w lifecycle_manager =
  lm_client :: "'w kclient"
  lm_cfg :: lifecycle_config

definition NewLifecycleManager :: "'w kclient \<Rightarrow> lifecycle_config \<Rightarrow> 'w lifecycle_manager" where
  "NewLifecycleManager c cfg = \<lparr>lm_client = c, lm_cfg = cfg\<rparr>"

lemma NewLifecycleManager_simps [simp]:
  "lm_client (NewLifecycleManager c cfg) = c" "lm_cfg (NewLifecycleManager c cfg) = cfg"
  by (simp_all add: NewLifecycleManager_def)

text \<open>The key of a user's Workspace and the resource both entry points create for it.\<close>

definition user_key :: "string \<Rightarrow> claims \<Rightarrow> object_key" where
  "user_key ns cl = \<lparr>key_namespace = ns, key_name = clm_user_id cl\<rparr>"

definition new_workspace :: "lifecycle_config \<Rightarrow> string \<Rightarrow> claims \<Rightarrow> workspace" where
  "new_workspace cfg ns cl =
     \<lparr>ws_meta = meta (clm_user_id cl) ns (Labels (clm_user_id cl)),
      ws_spec = \<lparr>spec_user = \<lparr>user_id = clm_user_id cl, user_email = clm_email cl\<rparr>,
        spec_resources = \<lparr>res_cpu = lc_cpu cfg, res_memory = lc_memory cfg, res_storage = lc_storage cfg\<rparr>,
        spec_ai_config = \<lparr>ai_providers = lc_providers cfg, ai_egress_namespaces = [], ai_egress_ports = []\<rparr>,
        spec_persistence = \<lparr>pers_storage_class = lc_storage_class cfg\<rparr>,
        spec_tls = \<lparr>tls_custom_ca_bundle = None\<rparr>,
        spec_lifecycle = \<lparr>life_idle_timeout = ''''\<rparr>\<rparr>,
      ws_status = empty_status\<rparr>"

text \<open>The two changes the gateway makes to a status.\<close>

definition restarted :: "workspace \<Rightarrow> workspace" where
  "restarted ws = ws\<lparr>ws_status := (ws_status ws)\<lparr>st_phase := '''', st_message := '''', st_pod_name := ''''\<rparr>\<rparr>"

definition touched :: "instant \<Rightarrow> workspace \<Rightarrow> workspace" where
  "touched t ws = ws\<lparr>ws_status := (ws_status ws)\<lparr>st_last_accessed := Some t\<rparr>\<rparr>"

section \<open>Operations\<close>

text \<open>Create the Workspace of a user; the error is wrapped with its name.\<close>

definition create_for ::
  "'w kclient \<Rightarrow> lifecycle_config \<Rightarrow> string \<Rightarrow> claims \<Rightarrow> ('w, workspace res) kube" where
  "create_for c cfg ns cl = do {
     _ \<leftarrow> emit (LogRecord ''Creating Workspace CR'' [(''user'', clm_user_id cl), (''namespace'', ns)]);
     r \<leftarrow> create_workspace c (new_workspace cfg ns cl);
     State_Monad.return (case r of
       Inl e \<Rightarrow> Inl (errorf_w (''create workspace '' @ Quote (clm_user_id cl)) e)
     | Inr ws \<Rightarrow> Inr ws) }"

definition restart_stopped :: "'w kclient \<Rightarrow> object_key \<Rightarrow> workspace \<Rightarrow> ('w, workspace res) kube" where
  "restart_stopped c key ws = do {
     _ \<leftarrow> emit (LogRecord ''Restarting stopped workspace'' [(''workspace'', key_name key)]);
     r \<leftarrow> patch_status c ws (restarted ws);
     State_Monad.return (case r of
       Inl e \<Rightarrow> Inl (errorf_w (''restart stopped workspace '' @ Quote (key_name key)) e)
     | Inr ws' \<Rightarrow> Inr ws') }"

text \<open>\<open>TouchLastAccessed\<close>: best effort; the caller keeps the object as the call leaves it.\<close>

definition TouchLastAccessed :: "'w kclient \<Rightarrow> workspace \<Rightarrow> ('w, workspace) kube" where
  "TouchLastAccessed c ws = do {
     t \<leftarrow> now c;
     r \<leftarrow> patch_status c ws (touched t ws);
     case r of
       Inl e \<Rightarrow> do {
         _ \<leftarrow> emit (LogRecord ''Failed to update LastAccessed''
               [(''error'', err_text e), (''workspace'', mt_name (ws_meta ws))]);
         State_Monad.return (touched t ws) }
     | Inr ws' \<Rightarrow> State_Monad.return ws' }"

definition EnsureExists ::
  "'w kclient \<Rightarrow> lifecycle_config \<Rightarrow> string \<Rightarrow> claims \<Rightarrow> ('w, ensure_details \<times> workspace res) kube" where
  "EnsureExists c cfg ns cl =
     (let key = user_key ns cl in do {
        r \<leftarrow> get_workspace c key;
        case r of
          Inl e \<Rightarrow>
            if \<not> is_not_found e
            then State_Monad.return (no_details, Inl (errorf_w (''get workspace '' @ Quote (clm_user_id cl)) e))
            else do {
              w \<leftarrow> create_for c cfg ns cl;
              State_Monad.return (no_details\<lparr>ed_created := True\<rparr>, w) }
        | Inr ws \<Rightarrow>
            if ws_phase ws = WorkspacePhaseStopped
            then do {
              w \<leftarrow> restart_stopped c key ws;
              State_Monad.return (no_details\<lparr>ed_restarted := True\<rparr>, w) }
            else State_Monad.return (no_details, Inr ws) })"

section \<open>Waiting\<close>

text \<open>The end of an iteration: log, then the poll interval or the end of the context.\<close>

definition poll_again ::
  "'w kclient \<Rightarrow> object_key \<Rightarrow> bool \<Rightarrow> workspace_phase \<Rightarrow> ('w, (bool \<times> workspace res) option) kube
    \<Rightarrow> ('w, (bool \<times> workspace res) option) kube" where
  "poll_again c key rst ph next = do {
     _ \<leftarrow> emit (LogRecord ''Waiting for workspace'' [(''workspace'', key_name key), (''phase'', ph)]);
     d \<leftarrow> wait_or_done c workspaceReadyPoll;
     case d of
       Some e \<Rightarrow> State_Monad.return (Some (rst, Inl e))
     | None \<Rightarrow> next }"

text \<open>One pass of the loop; \<open>again\<close> is the next one, with the flag as it is then.\<close>

definition wait_pass ::
  "'w kclient \<Rightarrow> object_key \<Rightarrow> instant \<Rightarrow> bool \<Rightarrow> (bool \<Rightarrow> ('w, (bool \<times> workspace res) option) kube)
    \<Rightarrow> ('w, (bool \<times> workspace res) option) kube" where
  "wait_pass c key deadline rst again = do {
     t \<leftarrow> now c;
     if \<not> t < deadline
     then State_Monad.return (Some (rst,
            Inl (new_error (''workspace '' @ Quote (key_name key) @ '' not ready after 1m0s''))))
     else do {
       r \<leftarrow> get_workspace c key;
       case r of
         Inl e \<Rightarrow> State_Monad.return (Some (rst, Inl (errorf_w (''get workspace '' @ Quote (key_name key)) e)))
       | Inr ws \<Rightarrow>
           if ws_phase ws = WorkspacePhaseRunning then State_Monad.return (Some (rst, Inr ws))
           else if ws_phase ws = WorkspacePhaseFailed
           then State_Monad.return (Some (rst,
                  Inl (new_error (''workspace '' @ Quote (key_name key) @ '' failed: '' @ st_message (ws_status ws)))))
           else if ws_phase ws = WorkspacePhaseStopped
           then do {
             p \<leftarrow> restart_stopped c key ws;
             case p of
               Inl e \<Rightarrow> State_Monad.return (Some (True, Inl e))
             | Inr ws' \<Rightarrow> poll_again c key True (ws_phase ws') (again True) }
           else poll_again c key rst (ws_phase ws) (again rst) } }"

fun wait_loop ::
  "nat \<Rightarrow> 'w kclient \<Rightarrow> object_key \<Rightarrow> instant \<Rightarrow> bool \<Rightarrow> ('w, (bool \<times> workspace res) option) kube" where
  "wait_loop 0 c key deadline rst = State_Monad.return None"
| "wait_loop (Suc n) c key deadline rst = wait_pass c key deadline rst (wait_loop n c key deadline)"

text \<open>31 passes: 30 polls of two seconds reach the deadline, and one more sees it.\<close>

definition wait_fuel :: nat where
  "wait_fuel = 31"

definition waitForRunning :: "'w kclient \<Rightarrow> object_key \<Rightarrow> ('w, (bool \<times> workspace res) option) kube" where
  "waitForRunning c key = do {
     t \<leftarrow> now c;
     wait_loop wait_fuel c key (t + workspaceReadyTimeout) False }"

text \<open>The second half of \<open>EnsureWorkspace\<close>: wait, then stamp the access time.\<close>

definition wait_and_touch ::
  "'w kclient \<Rightarrow> object_key \<Rightarrow> ensure_details \<Rightarrow> ('w, (ensure_details \<times> workspace res) option) kube" where
  "wait_and_touch c key details = do {
     r \<leftarrow> waitForRunning c key;
     case r of
       None \<Rightarrow> State_Monad.return None
     | Some (rst, Inl e) \<Rightarrow> State_Monad.return (Some (details\<lparr>ed_restarted := rst\<rparr>, Inl e))
     | Some (rst, Inr ws) \<Rightarrow> do {
         ws' \<leftarrow> TouchLastAccessed c ws;
         State_Monad.return (Some (details\<lparr>ed_restarted := rst\<rparr>, Inr ws')) } }"

definition EnsureWorkspace ::
  "'w kclient \<Rightarrow> lifecycle_config \<Rightarrow> string \<Rightarrow> claims \<Rightarrow> ('w, (ensure_details \<times> workspace res) option) kube" where
  "EnsureWorkspace c cfg ns cl =
     (let key = user_key ns cl in do {
        r \<leftarrow> get_workspace c key;
        case r of
          Inr ws \<Rightarrow> wait_and_touch c key no_details
        | Inl e \<Rightarrow>
            if \<not> is_not_found e
            then State_Monad.return (Some (no_details, Inl (errorf_w (''get workspace '' @ Quote (clm_user_id cl)) e)))
            else do {
              w \<leftarrow> create_for c cfg ns cl;
              case w of
                Inl e' \<Rightarrow> State_Monad.return (Some (no_details\<lparr>ed_created := True\<rparr>, Inl e'))
              | Inr _ \<Rightarrow> wait_and_touch c key (no_details\<lparr>ed_created := True\<rparr>) } })"

end
