(* ===== verification/Auth_Props.thy ===== *)
theory Auth_Props
  imports Auth
begin

text \<open>
  Correctness of the gateway's authentication: user names derived from subjects are labels the
  operator accepts; the token cache keeps its invariant and its bound under every interleaving
  of concurrent validations; a run of \<open>Validate\<close> makes steps of that system, so what it returns
  was verified for a token of the same hash within the lifetime of an entry.
\<close>

section \<open>User names\<close>

abbreviation name_byte :: "char \<Rightarrow> bool" where
  "name_byte c \<equiv> is_alnum c \<or> c = CHR ''-''"

lemma replace_runs_bytes: "list_all name_byte (replace_runs b s)"
  by (induction b s rule: replace_runs.induct) auto

lemma Trim_bytes: "list_all P s \<Longrightarrow> list_all P (Trim s c)"
  using set_TrimRight [of "dropWhile (\<lambda>x. x = c) s" c] set_dropWhileD
  by (fastforce simp: list_all_iff Trim_def)

lemma Trim_ends:
  assumes "Trim s c \<noteq> []"
  shows "hd (Trim s c) \<noteq> c \<and> last (Trim s c) \<noteq> c"
proof -
  have ne: "dropWhile (\<lambda>x. x = c) s \<noteq> []" using assms
    by (metis Trim_def TrimRight_def dropWhile.simps(1) rev.simps(1))
  then have "hd (dropWhile (\<lambda>x. x = c) s) \<noteq> c" using hd_dropWhile [of "\<lambda>x. x = c" s] by auto
  with assms show ?thesis
    using TrimRight_hd [of "dropWhile (\<lambda>x. x = c) s" c] TrimRight_last [of "dropWhile (\<lambda>x. x = c) s" c]
    by (simp add: Trim_def)
qed

text \<open>A word of name bytes with letters or digits at both ends.\<close>

definition name_word :: "string \<Rightarrow> bool" where
  "name_word s \<longleftrightarrow> s = [] \<or> list_all name_byte s \<and> is_alnum (hd s) \<and> is_alnum (last s)"

lemma name_word_label: "name_word s \<Longrightarrow> s \<noteq> [] \<Longrightarrow> is_lower (hd s) \<Longrightarrow> dns_label s"
  by (auto simp: name_word_def dns_label_def)

lemma name_word_cut:
  assumes "name_word s" and "s \<noteq> []" and "is_lower (hd s)"
  shows "dns_label (TrimRight (take (Suc n) s) CHR ''-'')"
proof -
  let ?t = "TrimRight (take (Suc n) s) CHR ''-''"
  obtain c cs where s: "s = c # cs" using assms(2) by (cases s) auto
  have ne: "?t \<noteq> []"
  proof
    assume "?t = []"
    then have "\<forall>x \<in> set (take (Suc n) s). x = CHR ''-''" by (simp add: TrimRight_def)
    then have "c = CHR ''-''" using s by simp
    with assms(3) s show False by (simp add: char_class_defs)
  qed
  have "set ?t \<subseteq> set s" using set_TrimRight [of "take (Suc n) s" "CHR ''-''"] set_take_subset [of "Suc n" s] by blast
  with assms(1,2) have bytes: "list_all name_byte ?t" by (auto simp: name_word_def list_all_iff)
  with ne have "is_alnum (last ?t)" using TrimRight_last [OF ne] by (auto simp: list_all_iff)
  moreover have "hd ?t = hd s" using TrimRight_hd [OF ne] s by simp
  ultimately show ?thesis using assms(3) ne bytes by (simp add: dns_label_def)
qed

lemma sanitized_word: "name_word (Trim (nonAlphaNum s) CHR ''-'')"
proof (cases "Trim (nonAlphaNum s) CHR ''-'' = []")
  case False
  let ?t = "Trim (nonAlphaNum s) CHR ''-''"
  have b: "list_all name_byte ?t" by (rule Trim_bytes) (simp add: nonAlphaNum_def replace_runs_bytes)
  then have "name_byte (hd ?t)" "name_byte (last ?t)" using False by (auto simp: list_all_iff)
  with b Trim_ends [OF False] show ?thesis by (auto simp: name_word_def)
qed (simp add: name_word_def)

text \<open>The name before the cut.\<close>

definition uncut :: "(string \<Rightarrow> string) \<Rightarrow> string \<Rightarrow> string" where
  "uncut uni sub = (let s = Trim (nonAlphaNum (ToLower uni sub)) CHR ''-''
     in if s \<noteq> [] \<and> is_digit (hd s) then ''u-'' @ s else s)"

lemma sanitize_uncut: "sanitizeUserID uni sub =
    (if length (uncut uni sub) > 49 then TrimRight (take 49 (uncut uni sub)) CHR ''-'' else uncut uni sub)"
  by (simp add: sanitizeUserID_def uncut_def Let_def)

lemma uncut_word: "name_word (uncut uni sub)" "uncut uni sub \<noteq> [] \<Longrightarrow> is_lower (hd (uncut uni sub))"
proof -
  have u: "is_lower CHR ''u''" by (simp add: char_class_defs)
  show "name_word (uncut uni sub)" using sanitized_word [of "ToLower uni sub"] u
    by (auto simp: uncut_def Let_def name_word_def)
  show "is_lower (hd (uncut uni sub))" if "uncut uni sub \<noteq> []"
    using that sanitized_word [of "ToLower uni sub"] u
    by (auto simp: uncut_def Let_def name_word_def is_alnum_def split: if_splits)
qed

lemma sanitize_cut:
  assumes "length (uncut uni sub) > 49"
  shows "dns_label (TrimRight (take 49 (uncut uni sub)) CHR ''-'')"
proof -
  from assms have "uncut uni sub \<noteq> []" by auto
  then show ?thesis using name_word_cut [OF uncut_word(1) _ uncut_word(2), of uni sub 48] by simp
qed

lemma sanitize_label:
  "sanitizeUserID uni sub = [] \<or> dns_label (sanitizeUserID uni sub) \<and> length (sanitizeUserID uni sub) \<le> 49"
  using sanitize_cut [of uni sub] name_word_label [OF uncut_word(1) _ uncut_word(2), of uni sub]
    length_TrimRight [of "take 49 (uncut uni sub)" "CHR ''-''"]
  by (auto simp: sanitize_uncut)

lemma sanitize_collision: "sanitizeUserID uni ''user|1'' = ''user-1'' \<and> sanitizeUserID uni ''user-1'' = ''user-1''"
  by code_simp

section \<open>The token cache\<close>

definition entries :: "validator \<Rightarrow> cached_entry set" where
  "entries v = snd ` set (va_lru v)"

definition index_sound :: "(string \<times> nat) list \<Rightarrow> (nat \<times> cached_entry) list \<Rightarrow> bool" where
  "index_sound ix l \<longleftrightarrow> (\<forall>(k, i) \<in> set ix. \<exists>e. (i, e) \<in> set l \<and> ce_key e = k)"

definition cache_ok :: "validator \<Rightarrow> bool" where
  "cache_ok v \<longleftrightarrow> distinct (map fst (va_lru v)) \<and> (\<forall>i \<in> fst ` set (va_lru v). i < va_next v)
     \<and> distinct (map fst (va_index v)) \<and> index_sound (va_index v) (va_lru v)
     \<and> length (va_lru v) \<le> tokenCacheMax"

definition cache_inv :: "(cached_entry \<Rightarrow> bool) \<Rightarrow> validator \<Rightarrow> bool" where
  "cache_inv P v \<longleftrightarrow> cache_ok v \<and> (\<forall>e \<in> entries v. P e)"

lemma cache_invD: "cache_inv P v \<Longrightarrow> cache_ok v" "cache_inv P v \<Longrightarrow> e \<in> entries v \<Longrightarrow> P e"
  by (auto simp: cache_inv_def)

lemma cache_inv_mono: "cache_inv P v \<Longrightarrow> (\<And>e. e \<in> entries v \<Longrightarrow> P e \<Longrightarrow> Q e) \<Longrightarrow> cache_inv Q v"
  by (auto simp: cache_inv_def)

lemma index_sound_lookup:
  assumes "cache_ok v" and "map_of (va_index v) key = Some i"
  obtains e where "map_of (va_lru v) i = Some e" "(i, e) \<in> set (va_lru v)" "ce_key e = key"
proof -
  from assms(2) have "(key, i) \<in> set (va_index v)" by (rule map_of_SomeD)
  with assms(1) obtain e where "(i, e) \<in> set (va_lru v)" "ce_key e = key"
    by (auto simp: cache_ok_def index_sound_def)
  moreover from this assms(1) have "map_of (va_lru v) i = Some e" by (simp add: cache_ok_def)
  ultimately show ?thesis by (rule that [rotated])
qed

text \<open>Removing list elements keeps the cache in order when every index entry for them goes too.\<close>

lemma shrink_ok:
  assumes "cache_ok v" and "distinct (map fst l)" and "set l \<subseteq> set (va_lru v)"
    and "\<And>i e. (i, e) \<in> set (va_lru v) \<Longrightarrow> (i, e) \<notin> set l \<Longrightarrow> ce_key e = k"
  shows "cache_ok (v\<lparr>va_lru := l, va_index := AList.delete k (va_index v)\<rparr>)"
proof -
  have "length l \<le> length (va_lru v)"
    using assms(2,3) card_mono [OF _ assms(3)] card_length [of "va_lru v"]
    by (simp add: distinct_card distinct_map flip: distinct_card)
  moreover have "index_sound (AList.delete k (va_index v)) l"
    using assms(1,4) by (fastforce simp: cache_ok_def index_sound_def AList.delete_eq)
  moreover have "distinct (map fst (AList.delete k (va_index v)))"
    using assms(1) by (simp add: cache_ok_def distinct_delete)
  ultimately show ?thesis using assms by (auto simp: cache_ok_def)
qed

lemma drop_entry_inv:
  assumes "cache_inv P v" and "map_of (va_index v) key = Some i"
  shows "cache_inv P (drop_entry key i v)"
proof -
  from assms obtain e where e: "map_of (va_lru v) i = Some e" "ce_key e = key"
    by (auto simp: cache_inv_def elim: index_sound_lookup)
  have "ce_key d = key" if "(j, d) \<in> set (va_lru v)" "(j, d) \<notin> set (filter (\<lambda>x. fst x \<noteq> i) (va_lru v))" for j d
  proof -
    from that have "map_of (va_lru v) i = Some d" using assms(1) by (auto simp: cache_inv_def cache_ok_def)
    with e show ?thesis by simp
  qed
  then have "cache_ok (drop_entry key i v)"
    unfolding drop_entry_def using assms(1)
    by (intro shrink_ok) (auto simp: cache_inv_def cache_ok_def distinct_map_filter)
  with assms(1) show ?thesis by (auto simp: cache_inv_def entries_def drop_entry_def)
qed

lemma move_to_front_inv:
  assumes "cache_inv P v" and "(i, e) \<in> set (va_lru v)"
  shows "cache_inv P (move_to_front i e v)"
proof -
  have "set ((i, e) # filter (\<lambda>x. fst x \<noteq> i) (va_lru v)) = set (va_lru v)"
    using assms by (auto simp: cache_inv_def cache_ok_def dest: eq_key_imp_eq_value)
  moreover have d: "distinct (map fst ((i, e) # filter (\<lambda>x. fst x \<noteq> i) (va_lru v)))"
    using assms(1) by (auto simp: cache_inv_def cache_ok_def distinct_map_filter)
  moreover from calculation have "length ((i, e) # filter (\<lambda>x. fst x \<noteq> i) (va_lru v)) = length (va_lru v)"
    using assms(1) by (metis cache_inv_def cache_ok_def distinct_card distinct_map)
  ultimately show ?thesis using assms(1)
    by (auto simp: cache_inv_def cache_ok_def entries_def move_to_front_def index_sound_def)
qed

lemma lookup_inv:
  assumes "cache_inv P v"
  shows "cache_inv P (snd (cache_lookup key t v))"
    and "fst (cache_lookup key t v) = Some cl \<Longrightarrow>
      \<exists>e. P e \<and> ce_key e = key \<and> ce_claims e = cl \<and> t < ce_expiry e"
proof -
  consider "map_of (va_index v) key = None"
    | i e where "map_of (va_index v) key = Some i" "map_of (va_lru v) i = Some e"
        "(i, e) \<in> set (va_lru v)" "ce_key e = key"
    using assms by (cases "map_of (va_index v) key") (auto simp: cache_inv_def elim: index_sound_lookup)
  then show "cache_inv P (snd (cache_lookup key t v))"
    by cases (use assms in \<open>auto simp: cache_lookup_def drop_entry_inv move_to_front_inv\<close>)
  assume "fst (cache_lookup key t v) = Some cl"
  with assms show "\<exists>e. P e \<and> ce_key e = key \<and> ce_claims e = cl \<and> t < ce_expiry e"
    by (force simp: cache_lookup_def cache_inv_def entries_def split: option.splits if_splits
        elim: index_sound_lookup)
qed

lemma evict_lru_inv:
  assumes "cache_inv P v"
  shows "cache_inv P (evict_lru v) \<and> length (va_lru (evict_lru v)) < tokenCacheMax
    \<and> va_next (evict_lru v) = va_next v"
  using assms
proof (induction v rule: evict_lru.induct)
  case (1 v)
  show ?case
  proof (cases "length (va_lru v) \<ge> tokenCacheMax \<and> va_lru v \<noteq> []")
    case False
    then show ?thesis using "1.prems" by (subst (1 2 3) evict_lru.simps) (auto simp: tokenCacheMax_def)
  next
    case True
    then obtain l i e where l: "va_lru v = l @ [(i, e)]"
      by (metis append_butlast_last_id surj_pair)
    have "cache_ok (v\<lparr>va_lru := l, va_index := AList.delete (ce_key e) (va_index v)\<rparr>)"
      using "1.prems" l by (intro shrink_ok) (auto simp: cache_inv_def cache_ok_def)
    then have "cache_inv P (v\<lparr>va_lru := l, va_index := AList.delete (ce_key e) (va_index v)\<rparr>)"
      using "1.prems" l by (auto simp: cache_inv_def entries_def)
    with "1.IH" [OF True refl] l True show ?thesis by (subst (1 2 3) evict_lru.simps) simp
  qed
qed

lemma set_update_subset: "set (AList.update k x al) \<subseteq> insert (k, x) (set al)"
  by (induction al) auto

lemma index_sound_update:
  assumes "index_sound ix l" and "ce_key e = k"
  shows "index_sound (AList.update k i ix) ((i, e) # l)"
  unfolding index_sound_def
proof clarify
  fix k' i'
  assume "(k', i') \<in> set (AList.update k i ix)"
  then consider "k' = k" "i' = i" | "(k', i') \<in> set ix" using set_update_subset [of k i ix] by fastforce
  then show "\<exists>d. (i', d) \<in> set ((i, e) # l) \<and> ce_key d = k'"
    by cases (use assms in \<open>auto simp: index_sound_def\<close>)
qed

lemma store_inv:
  assumes "cache_inv P v" and "P \<lparr>ce_key = key, ce_claims = cl, ce_expiry = t + tokenCacheTTL\<rparr>"
  shows "cache_inv P (cache_store key cl t v)"
proof -
  from evict_lru_inv [OF assms(1)] have ok: "cache_ok (evict_lru v)"
    and len: "length (va_lru (evict_lru v)) < tokenCacheMax" and P: "\<forall>e \<in> entries (evict_lru v). P e"
    by (auto simp: cache_inv_def)
  have "index_sound (AList.update key (va_next (evict_lru v)) (va_index (evict_lru v)))
    ((va_next (evict_lru v), \<lparr>ce_key = key, ce_claims = cl, ce_expiry = t + tokenCacheTTL\<rparr>) # va_lru (evict_lru v))"
    using ok by (intro index_sound_update) (simp_all add: cache_ok_def)
  with ok len P assms(2) show ?thesis
    by (auto simp: cache_store_def Let_def cache_inv_def cache_ok_def entries_def distinct_update less_Suc_eq)
qed

lemma sweep_inv:
  assumes "cache_inv P v"
  shows "cache_inv P (evictExpired t v)"
proof -
  have *: "cache_inv P (fold (evict_one t) ix v)" if "cache_inv P v" "distinct (map fst ix)"
    "\<And>k i. (k, i) \<in> set ix \<Longrightarrow> map_of (va_index v) k = Some i" for ix
    using that
  proof (induction ix arbitrary: v)
    case (Cons ki ix)
    obtain k i where ki: "ki = (k, i)" by (cases ki)
    with Cons.prems(3) have ix: "map_of (va_index v) k = Some i" by simp
    have inv: "cache_inv P (evict_one t ki v)"
      using Cons.prems(1) drop_entry_inv [OF Cons.prems(1) ix] by (simp add: evict_one_def ki split: option.split)
    have keep: "map_of (va_index (evict_one t ki v)) k' = Some i'" if "(k', i') \<in> set ix" for k' i'
    proof -
      from that Cons.prems(2) ki have "k' \<noteq> k" by force
      with Cons.prems(3) that show ?thesis
        by (simp add: evict_one_def ki drop_entry_def delete_conv' split: option.split)
    qed
    show ?case using Cons.IH [OF inv _ keep] Cons.prems(2) by simp
  qed simp
  have "map_of (va_index v) k = Some i" if "(k, i) \<in> set (va_index v)" for k i
    using that assms by (simp add: cache_inv_def cache_ok_def)
  moreover have "distinct (map fst (va_index v))" using assms by (simp add: cache_inv_def cache_ok_def)
  ultimately show ?thesis unfolding evictExpired_def by (intro * [OF assms]) auto
qed

section \<open>Concurrent validations\<close>

text \<open>
  Requests validate tokens concurrently: a request that misses the cache verifies its token with
  the lock released, and stores the claims in a second critical section. The log keeps what was
  verified, stored and returned, with the time.
\<close>

datatype auth_fact =
    Was_verified string claims instant
  | Was_stored string claims instant
  | Was_returned string claims instant

record auth_sys =
  as_clock :: instant
  as_cache :: validator
  as_asking :: "string list"
  as_checked :: "(string \<times> claims) list"
  as_log :: "auth_fact list"

text \<open>go-oidc accepted the token under the configuration, and the claims are those of the ID token it returned.\<close>

definition verified_by :: "(string \<Rightarrow> string) \<Rightarrow> 'w oidc_env \<Rightarrow> verifier_cfg \<Rightarrow> string \<Rightarrow> claims \<Rightarrow> bool" where
  "verified_by uni env cfg raw cl \<longleftrightarrow> (\<exists>x tok. fst (oi_verify env cfg raw x) = Inr tok \<and> token_claims uni tok = Inr cl)"

inductive auth_step :: "(string \<Rightarrow> string) \<Rightarrow> 'w oidc_env \<Rightarrow> auth_sys \<Rightarrow> auth_sys \<Rightarrow> bool" for uni env where
  tick: "as_clock s \<le> t \<Longrightarrow> auth_step uni env s (s\<lparr>as_clock := t\<rparr>)"
| hit: "cache_lookup (hashToken raw) (as_clock s) (as_cache s) = (Some cl, v) \<Longrightarrow>
    auth_step uni env s (s\<lparr>as_cache := v, as_log := Was_returned raw cl (as_clock s) # as_log s\<rparr>)"
| miss: "cache_lookup (hashToken raw) (as_clock s) (as_cache s) = (None, v) \<Longrightarrow>
    auth_step uni env s (s\<lparr>as_cache := v, as_asking := raw # as_asking s\<rparr>)"
| verified: "raw \<in> set (as_asking s) \<Longrightarrow> verified_by uni env (va_verifier (as_cache s)) raw cl \<Longrightarrow>
    auth_step uni env s (s\<lparr>as_asking := remove1 raw (as_asking s), as_checked := (raw, cl) # as_checked s,
      as_log := Was_verified raw cl (as_clock s) # as_log s\<rparr>)"
| refused: "raw \<in> set (as_asking s) \<Longrightarrow>
    auth_step uni env s (s\<lparr>as_asking := remove1 raw (as_asking s)\<rparr>)"
| store: "(raw, cl) \<in> set (as_checked s) \<Longrightarrow>
    auth_step uni env s (s\<lparr>as_cache := cache_store (hashToken raw) cl (as_clock s) (as_cache s),
      as_checked := remove1 (raw, cl) (as_checked s),
      as_log := Was_returned raw cl (as_clock s) # Was_stored raw cl (as_clock s) # as_log s\<rparr>)"
| sweep: "auth_step uni env s (s\<lparr>as_cache := evictExpired (as_clock s) (as_cache s)\<rparr>)"

definition auth_init :: "instant \<Rightarrow> verifier_cfg \<Rightarrow> auth_sys" where
  "auth_init t cfg = \<lparr>as_clock = t, as_cache = \<lparr>va_verifier = cfg, va_index = [], va_lru = [], va_next = 0\<rparr>,
     as_asking = [], as_checked = [], as_log = []\<rparr>"

abbreviation auth_reachable :: "(string \<Rightarrow> string) \<Rightarrow> 'w oidc_env \<Rightarrow> auth_sys \<Rightarrow> bool" where
  "auth_reachable uni env s \<equiv> \<exists>t cfg. (auth_step uni env)\<^sup>*\<^sup>* (auth_init t cfg) s"

text \<open>An entry was stored within its lifetime, from claims verified before.\<close>

definition backed :: "auth_fact set \<Rightarrow> string \<Rightarrow> claims \<Rightarrow> instant \<Rightarrow> bool" where
  "backed facts raw cl t0 \<longleftrightarrow> Was_stored raw cl t0 \<in> facts
     \<and> (\<exists>t1 \<le> t0. Was_verified raw cl t1 \<in> facts)"

definition entry_backed :: "auth_sys \<Rightarrow> cached_entry \<Rightarrow> bool" where
  "entry_backed s e \<longleftrightarrow> (\<exists>raw t0. ce_key e = hashToken raw \<and> ce_expiry e = t0 + tokenCacheTTL
     \<and> t0 \<le> as_clock s \<and> backed (set (as_log s)) raw (ce_claims e) t0)"

definition answer_backed :: "auth_sys \<Rightarrow> string \<Rightarrow> claims \<Rightarrow> instant \<Rightarrow> bool" where
  "answer_backed s raw cl t \<longleftrightarrow> (\<exists>raw' t0. hashToken raw' = hashToken raw \<and> t0 \<le> t
     \<and> t < t0 + tokenCacheTTL \<and> backed (set (as_log s)) raw' cl t0)"

definition auth_inv :: "(string \<Rightarrow> string) \<Rightarrow> 'w oidc_env \<Rightarrow> auth_sys \<Rightarrow> bool" where
  "auth_inv uni env s \<longleftrightarrow> cache_inv (entry_backed s) (as_cache s)
     \<and> (\<forall>(raw, cl) \<in> set (as_checked s). \<exists>t1 \<le> as_clock s. Was_verified raw cl t1 \<in> set (as_log s))
     \<and> (\<forall>raw cl t. Was_returned raw cl t \<in> set (as_log s) \<longrightarrow> answer_backed s raw cl t)
     \<and> (\<forall>raw cl t. Was_verified raw cl t \<in> set (as_log s) \<longrightarrow> verified_by uni env (va_verifier (as_cache s)) raw cl)"

lemma backed_mono: "backed F raw cl t \<Longrightarrow> F \<subseteq> G \<Longrightarrow> backed G raw cl t"
  by (auto simp: backed_def)

lemma entry_backed_mono:
  "entry_backed s e \<Longrightarrow> as_clock s \<le> as_clock s' \<Longrightarrow> set (as_log s) \<subseteq> set (as_log s') \<Longrightarrow> entry_backed s' e"
  by (force simp: entry_backed_def intro: backed_mono)

lemma answer_backed_mono:
  "answer_backed s raw cl t \<Longrightarrow> set (as_log s) \<subseteq> set (as_log s') \<Longrightarrow> answer_backed s' raw cl t"
  by (force simp: answer_backed_def intro: backed_mono)

lemma empty_cache_inv [simp]: "cache_inv P \<lparr>va_verifier = cfg, va_index = [], va_lru = [], va_next = 0\<rparr>"
  by (simp add: cache_inv_def cache_ok_def index_sound_def entries_def)

lemma auth_inv_init: "auth_inv uni env (auth_init t cfg)"
  by (simp add: auth_inv_def auth_init_def)

lemma TTL_pos [simp]: "tokenCacheTTL > 0"
  by (simp add: tokenCacheTTL_def duration_units)

text \<open>The verifier of a validator never changes.\<close>

lemma evict_lru_verifier [simp]: "va_verifier (evict_lru v) = va_verifier v"
  by (induction v rule: evict_lru.induct) (subst evict_lru.simps, simp add: Let_def)

lemma cache_lookup_verifier: "cache_lookup key t v = (h, v') \<Longrightarrow> va_verifier v' = va_verifier v"
  by (auto simp: cache_lookup_def move_to_front_def drop_entry_def split: option.splits if_splits)

lemma cache_store_verifier [simp]: "va_verifier (cache_store key cl t v) = va_verifier v"
  by (simp add: cache_store_def Let_def)

lemma evictExpired_verifier [simp]: "va_verifier (evictExpired t v) = va_verifier v"
proof -
  have "va_verifier (fold (evict_one t) xs u) = va_verifier u" for xs u
    by (induction xs arbitrary: u) (auto simp: evict_one_def drop_entry_def split: option.split)
  then show ?thesis by (simp add: evictExpired_def)
qed


lemma token_claims_sanitized: "token_claims uni tok = Inr cl \<Longrightarrow> clm_user_id cl = sanitizeUserID uni (clm_sub cl)"
  by (auto simp: token_claims_def split: sum.splits)

lemma verified_by_derived: "verified_by uni env cfg raw cl \<Longrightarrow> clm_user_id cl = sanitizeUserID uni (clm_sub cl)"
  unfolding verified_by_def by (elim exE conjE) (rule token_claims_sanitized)

lemma auth_inv_cache:
  assumes "auth_inv uni env s" and "as_clock s \<le> as_clock s'" and "set (as_log s) \<subseteq> set (as_log s')"
  shows "cache_inv (entry_backed s') (as_cache s)"
  using assms by (auto simp: auth_inv_def elim!: cache_inv_mono entry_backed_mono)

lemma auth_invI:
  assumes "auth_inv uni env s" and "as_clock s \<le> as_clock s'" and "set (as_log s) \<subseteq> set (as_log s')"
    and "cache_inv (entry_backed s') (as_cache s')"
    and "\<And>raw cl. (raw, cl) \<in> set (as_checked s') \<Longrightarrow>
      (raw, cl) \<in> set (as_checked s) \<or> Was_verified raw cl (as_clock s) \<in> set (as_log s')"
    and "\<And>raw cl t. Was_returned raw cl t \<in> set (as_log s') \<Longrightarrow>
      Was_returned raw cl t \<in> set (as_log s) \<or> answer_backed s' raw cl t"
    and "\<And>raw cl t. Was_verified raw cl t \<in> set (as_log s') \<Longrightarrow>
      Was_verified raw cl t \<in> set (as_log s) \<or> verified_by uni env (va_verifier (as_cache s)) raw cl"
    and "va_verifier (as_cache s') = va_verifier (as_cache s)"
  shows "auth_inv uni env s'"
  unfolding auth_inv_def
proof (intro conjI allI impI)
  show "\<forall>(raw, cl) \<in> set (as_checked s'). \<exists>t1 \<le> as_clock s'. Was_verified raw cl t1 \<in> set (as_log s')"
  proof clarify
    fix raw cl
    assume "(raw, cl) \<in> set (as_checked s')"
    from assms(5) [OF this] show "\<exists>t1 \<le> as_clock s'. Was_verified raw cl t1 \<in> set (as_log s')"
    proof
      assume "(raw, cl) \<in> set (as_checked s)"
      with assms(1) obtain t1 where "t1 \<le> as_clock s" "Was_verified raw cl t1 \<in> set (as_log s)"
        unfolding auth_inv_def by blast
      with assms(2,3) show ?thesis by (intro exI [of _ t1]) auto
    qed (use assms(2) in blast)
  qed
  show "answer_backed s' raw cl t" if "Was_returned raw cl t \<in> set (as_log s')" for raw cl t
    using assms(1) assms(6) [OF that] answer_backed_mono [OF _ assms(3)] by (auto simp: auth_inv_def)
  show "verified_by uni env (va_verifier (as_cache s')) raw cl" if "Was_verified raw cl t \<in> set (as_log s')" for raw cl t
    using assms(1) assms(7) [OF that] unfolding auth_inv_def assms(8) by blast
qed (rule assms(4))

lemma auth_step_inv:
  assumes "auth_step uni env s s'" and inv: "auth_inv uni env s"
  shows "auth_inv uni env s'"
  using assms(1)
proof cases
  case (tick t)
  show ?thesis using auth_inv_cache [OF inv, of s'] tick by (intro auth_invI [OF inv]) auto
next
  case (hit raw cl v)
  have inv': "cache_inv (entry_backed s') (as_cache s)" by (rule auth_inv_cache [OF inv]) (auto simp: hit)
  from lookup_inv [OF this, of "hashToken raw" "as_clock s"] hit(2)
  obtain e where e: "entry_backed s' e" "ce_key e = hashToken raw" "ce_claims e = cl" "as_clock s < ce_expiry e"
    and v: "cache_inv (entry_backed s') v" by auto
  then have "answer_backed s' raw cl (as_clock s)"
    by (fastforce simp: entry_backed_def answer_backed_def hit)
  with v show ?thesis using cache_lookup_verifier [OF hit(2)] by (intro auth_invI [OF inv]) (auto simp: hit(1))
next
  case (miss raw v)
  have inv': "cache_inv (entry_backed s') (as_cache s)" by (rule auth_inv_cache [OF inv]) (auto simp: miss)
  from lookup_inv(1) [OF this, of "hashToken raw" "as_clock s"] miss(2)
  have "cache_inv (entry_backed s') v" by simp
  then show ?thesis using cache_lookup_verifier [OF miss(2)] by (intro auth_invI [OF inv]) (auto simp: miss(1))
next
  case (verified raw cl)
  have "cache_inv (entry_backed s') (as_cache s)" by (rule auth_inv_cache [OF inv]) (auto simp: verified)
  then show ?thesis
    using verified(3) by (intro auth_invI [OF inv]) (auto simp: verified(1))
next
  case (refused raw)
  have "cache_inv (entry_backed s') (as_cache s)" by (rule auth_inv_cache [OF inv]) (auto simp: refused)
  then show ?thesis by (intro auth_invI [OF inv]) (auto simp: refused(1))
next
  case (store raw cl)
  have old: "cache_inv (entry_backed s') (as_cache s)" by (rule auth_inv_cache [OF inv]) (auto simp: store(1))
  have b: "backed (set (as_log s')) raw cl (as_clock s)"
    using inv store by (fastforce simp: auth_inv_def backed_def)
  have "cache_inv (entry_backed s') (cache_store (hashToken raw) cl (as_clock s) (as_cache s))"
    by (rule store_inv [OF old]) (use b in \<open>auto simp: entry_backed_def store(1)\<close>)
  moreover have "answer_backed s' raw cl (as_clock s)" 
    unfolding answer_backed_def using b by (intro exI [of _ raw] exI [of _ "as_clock s"]) simp
  ultimately show ?thesis by (intro auth_invI [OF inv]) (auto simp: store(1) dest: set_remove1_subset [THEN subsetD])
next
  case sweep
  have "cache_inv (entry_backed s') (as_cache s)" by (rule auth_inv_cache [OF inv]) (auto simp: sweep)
  then show ?thesis using sweep_inv by (intro auth_invI [OF inv]) (auto simp: sweep)
qed

lemma auth_reachable_inv: "auth_reachable uni env s \<Longrightarrow> auth_inv uni env s"
proof (elim exE)
  fix t cfg
  assume "(auth_step uni env)\<^sup>*\<^sup>* (auth_init t cfg) s"
  then show ?thesis by (induction rule: rtranclp_induct) (auto simp: auth_inv_init intro: auth_step_inv)
qed

lemma steps_verifier: "(auth_step uni env)\<^sup>*\<^sup>* s s' \<Longrightarrow> va_verifier (as_cache s') = va_verifier (as_cache s)"
  by (induction rule: rtranclp_induct) (auto elim!: auth_step.cases dest: cache_lookup_verifier)

section \<open>Validate makes these steps\<close>

text \<open>
  A clock that does not run backwards: \<open>time x\<close> is a lower bound of every later reading.
\<close>

definition forward_clock :: "'w oidc_env \<Rightarrow> ('w \<Rightarrow> instant) \<Rightarrow> bool" where
  "forward_clock env time \<longleftrightarrow>
     (\<forall>x. time x \<le> fst (oi_now env x) \<and> fst (oi_now env x) \<le> time (snd (oi_now env x)))
     \<and> (\<forall>x cfg raw. time x \<le> time (snd (oi_verify env cfg raw x)))"

definition auth_sim :: "('w \<Rightarrow> instant) \<Rightarrow> auth_sys \<Rightarrow> 'w auth_world \<Rightarrow> bool" where
  "auth_sim time u w \<longleftrightarrow> as_cache u = aw_validator w \<and> as_clock u \<le> time (aw_env w)"

lemma wp_cache_action [wp_simps]:
  "wp (cache_action f) Q s \<longleftrightarrow> Q (fst (f (aw_validator (world s))))
     (s\<lparr>world := (world s)\<lparr>aw_validator := snd (f (aw_validator (world s)))\<rparr>\<rparr>)"
  by (simp add: wp_def cache_action_def case_prod_beta)

lemma wp_auth_now [wp_simps]:
  "wp (auth_now env) Q s \<longleftrightarrow> Q (fst (oi_now env (aw_env (world s))))
     (s\<lparr>world := (world s)\<lparr>aw_env := snd (oi_now env (aw_env (world s)))\<rparr>,
        trace := trace s @ [AuthClock (fst (oi_now env (aw_env (world s))))]\<rparr>)"
  by (simp add: auth_now_def wp_ask case_prod_beta)

lemma wp_verify_token [wp_simps]:
  "wp (verify_token env cfg raw) Q s \<longleftrightarrow> (let r = oi_verify env cfg raw (aw_env (world s)) in
     Q (fst r) (s\<lparr>world := (world s)\<lparr>aw_env := snd r\<rparr>, trace := trace s @ [VerifyCall cfg raw (fst r)]\<rparr>))"
  by (simp add: verify_token_def wp_ask case_prod_beta Let_def)

lemma sim_tick:
  assumes "auth_sim time u w" and "forward_clock env time" and "oi_now env (aw_env w) = (t, x)"
  shows "auth_step uni env u (u\<lparr>as_clock := t\<rparr>)" and "auth_sim time (u\<lparr>as_clock := t\<rparr>) (w\<lparr>aw_env := x\<rparr>)"
proof -
  from assms(2,3) have "time (aw_env w) \<le> t" "t \<le> time x" unfolding forward_clock_def by (metis fst_conv snd_conv)+
  with assms(1) show "auth_step uni env u (u\<lparr>as_clock := t\<rparr>)" "auth_sim time (u\<lparr>as_clock := t\<rparr>) (w\<lparr>aw_env := x\<rparr>)"
    by (auto simp: auth_sim_def intro: auth_step.tick)
qed

lemma sim_verify:
  assumes "auth_sim time u w" and "forward_clock env time"
  shows "auth_sim time u (w\<lparr>aw_env := snd (oi_verify env cfg raw (aw_env w))\<rparr>)"
  using assms by (auto simp: auth_sim_def forward_clock_def intro: order_trans)

definition validate_goal ::
  "(string \<Rightarrow> string) \<Rightarrow> 'w oidc_env \<Rightarrow> ('w \<Rightarrow> instant) \<Rightarrow> string \<Rightarrow> auth_sys \<Rightarrow> claims res \<Rightarrow> 'w auth_world \<Rightarrow> bool" where
  "validate_goal uni env time raw u r w \<longleftrightarrow> (\<exists>u'. (auth_step uni env)\<^sup>*\<^sup>* u u' \<and> auth_sim time u' w
     \<and> (\<forall>cl. r = Inr cl \<longrightarrow> (\<exists>t. Was_returned raw cl t \<in> set (as_log u'))))"

lemma validate_goal_step:
  "auth_step uni env u u' \<Longrightarrow> validate_goal uni env time raw u' r s \<Longrightarrow> validate_goal uni env time raw u r s"
  unfolding validate_goal_def by (meson converse_rtranclp_into_rtranclp)

text \<open>From a miss on: verify, and store what was verified.\<close>

lemma wp_verify_and_store:
  assumes "auth_sim time u (world s)" and "forward_clock env time" and asking: "raw \<in> set (as_asking u)"
  shows "wp (verify_and_store uni env raw) (\<lambda>r s'. validate_goal uni env time raw u r (world s')) s"
proof -
  let ?w = "world s"
  obtain r x where v: "oi_verify env (va_verifier (aw_validator ?w)) raw (aw_env ?w) = (r, x)" by fastforce
  have sim: "auth_sim time u (?w\<lparr>aw_env := x\<rparr>)" using sim_verify [OF assms(1,2)] v by (metis snd_conv)
  define cr where "cr = (case r of Inl e \<Rightarrow> Inl (the (classifyOIDCVerifyError uni (Some e))) | Inr t \<Rightarrow> token_claims uni t)"
  show ?thesis
  proof (cases cr)
    case (Inl e)
    have "validate_goal uni env time raw u (Inl e) (?w\<lparr>aw_env := x\<rparr>)"
      using sim by (auto simp: validate_goal_def)
    then show ?thesis using Inl v by (simp add: verify_and_store_def verify_claims_def wp_simps cr_def Let_def)
  next
    case (Inr cl)
    then obtain tok where tok: "r = Inr tok" "token_claims uni tok = Inr cl"
      by (auto simp: cr_def split: sum.splits)
    obtain t y where n: "oi_now env x = (t, y)" by fastforce
    define u1 where "u1 = u\<lparr>as_asking := remove1 raw (as_asking u), as_checked := (raw, cl) # as_checked u,
      as_log := Was_verified raw cl (as_clock u) # as_log u\<rparr>"
    have "verified_by uni env (va_verifier (as_cache u)) raw cl"
      using v tok assms(1) by (metis auth_sim_def fst_conv verified_by_def)
    then have 1: "auth_step uni env u u1" unfolding u1_def by (rule auth_step.verified [OF asking])
    have sim1: "auth_sim time u1 (?w\<lparr>aw_env := x\<rparr>)" using sim by (simp add: auth_sim_def u1_def)
    define u2 where "u2 = u1\<lparr>as_clock := t\<rparr>"
    have 2: "auth_step uni env u1 u2" and sim2: "auth_sim time u2 (?w\<lparr>aw_env := y\<rparr>)"
      using sim_tick [OF sim1 assms(2), of t y] n by (simp_all add: u2_def)
    have ch: "(raw, cl) \<in> set (as_checked u2)" by (simp add: u2_def u1_def)
    define u3 where "u3 = u2\<lparr>as_cache := cache_store (hashToken raw) cl (as_clock u2) (as_cache u2),
      as_checked := remove1 (raw, cl) (as_checked u2),
      as_log := Was_returned raw cl (as_clock u2) # Was_stored raw cl (as_clock u2) # as_log u2\<rparr>"
    have 3: "auth_step uni env u2 u3" unfolding u3_def by (rule auth_step.store [OF ch])
    have "auth_sim time u3 (?w\<lparr>aw_env := y, aw_validator := cache_store (hashToken raw) cl t (aw_validator ?w)\<rparr>)"
      using sim2 by (simp add: auth_sim_def u3_def u2_def)
    moreover have "Was_returned raw cl t \<in> set (as_log u3)" by (simp add: u3_def u2_def)
    ultimately have "validate_goal uni env time raw u3 (Inr cl) (?w\<lparr>aw_env := y,
        aw_validator := cache_store (hashToken raw) cl t (aw_validator ?w)\<rparr>)"
      by (auto simp: validate_goal_def)
    then have "validate_goal uni env time raw u (Inr cl) (?w\<lparr>aw_env := y,
        aw_validator := cache_store (hashToken raw) cl t (aw_validator ?w)\<rparr>)"
      using 1 2 3 by (blast intro: validate_goal_step)
    then show ?thesis using tok v n by (simp add: verify_and_store_def verify_claims_def wp_simps Let_def)
  qed
qed

lemma wp_Validate:
  assumes "auth_sim time u (world s)" and "forward_clock env time"
  shows "wp (Validate uni env raw) (\<lambda>r s'. validate_goal uni env time raw u r (world s')) s"
proof -
  let ?key = "hashToken raw" let ?w = "world s" let ?v = "aw_validator ?w"
  have cache: "as_cache u = ?v" using assms(1) by (simp add: auth_sim_def)
  have miss: "wp (verify_and_store uni env raw) (\<lambda>r s'. validate_goal uni env time raw a r (world s')) s'"
    if "auth_sim time a (w'\<lparr>aw_validator := as_cache a\<rparr>)" and "cache_lookup ?key (as_clock a) (as_cache a) = (None, v')"
      and "world s' = w'\<lparr>aw_validator := v'\<rparr>" for a s' w' v'
  proof -
    let ?a = "a\<lparr>as_cache := v', as_asking := raw # as_asking a\<rparr>"
    have "auth_sim time ?a (world s')" using that by (simp add: auth_sim_def)
    then have g: "wp (verify_and_store uni env raw) (\<lambda>r s'. validate_goal uni env time raw ?a r (world s')) s'"
      by (rule wp_verify_and_store [OF _ assms(2)]) simp
    show ?thesis by (rule wp_mono [OF g]) (rule validate_goal_step [OF auth_step.miss [OF that(2)]])
  qed
  show ?thesis
  proof (cases "map_of (va_index ?v) ?key")
    case None
    have "cache_lookup ?key (as_clock u) (as_cache u) = (None, ?v)" using None cache by (simp add: cache_lookup_def)
    from miss [OF _ this, of ?w s] assms(1) cache None show ?thesis
      by (simp add: Validate_def Let_def wp_simps)
  next
    case (Some i)
    obtain t x where n: "oi_now env (aw_env ?w) = (t, x)" by fastforce
    let ?u = "u\<lparr>as_clock := t\<rparr>"
    from sim_tick [OF assms, of t x] n have st: "auth_step uni env u ?u" and sim: "auth_sim time ?u (?w\<lparr>aw_env := x\<rparr>)"
      by simp_all
    obtain h v' where lk: "cache_lookup ?key t ?v = (h, v')" by fastforce
    show ?thesis
    proof (cases h)
      case None
      have "wp (verify_and_store uni env raw) (\<lambda>r s'. validate_goal uni env time raw u r (world s')) s'"
        if "world s' = ?w\<lparr>aw_env := x, aw_validator := v'\<rparr>" for s'
        by (rule wp_mono [OF miss [of ?u "?w\<lparr>aw_env := x\<rparr>" v']])
          (use sim lk None cache st that in \<open>auto simp: auth_sim_def intro: validate_goal_step\<close>)
      then show ?thesis using Some lk None n by (simp add: Validate_def Let_def wp_simps)
    next
      case (Some cl)
      let ?u' = "?u\<lparr>as_cache := v', as_log := Was_returned raw cl t # as_log u\<rparr>"
      have "auth_step uni env ?u ?u'" using auth_step.hit [of raw ?u cl v' uni env] lk Some cache by simp
      moreover have "validate_goal uni env time raw ?u' (Inr cl)
          (?w\<lparr>aw_env := x, aw_validator := v'\<rparr>)"
        unfolding validate_goal_def by (intro exI [of _ ?u']) (use sim in \<open>auto simp: auth_sim_def\<close>)
      ultimately have "validate_goal uni env time raw u (Inr cl)
          (?w\<lparr>aw_env := x, aw_validator := v'\<rparr>)"
        using st by (blast intro: validate_goal_step)
      then show ?thesis using \<open>map_of (va_index ?v) ?key = Some i\<close> lk Some n
        by (simp add: Validate_def Let_def wp_simps)
    qed
  qed
qed

section \<open>The interface of the handlers\<close>

text \<open>
  \<open>tokenValidator\<close> as the handlers rely on it: in a state that satisfies \<open>inv\<close>, accepted claims
  carry the user id derived from their subject. Both validators provide it.
\<close>

locale token_validator =
  fixes validate :: "string \<Rightarrow> 'w \<Rightarrow> claims res \<times> 'w"
    and inv :: "'w \<Rightarrow> bool"
    and uni :: "string \<Rightarrow> string"
  assumes derived: "inv w \<Longrightarrow> fst (validate raw w) = Inr cl \<Longrightarrow> clm_user_id cl = sanitizeUserID uni (clm_sub cl)"
    and inv_kept: "inv w \<Longrightarrow> inv (snd (validate raw w))"
begin

lemma accepted_label:
  assumes "inv w" and "fst (validate raw w) = Inr cl"
  shows "clm_user_id cl = [] \<or> dns_label (clm_user_id cl) \<and> length (clm_user_id cl) \<le> 49"
  using derived [OF assms] sanitize_label [of uni "clm_sub cl"] by simp

end

definition validate_in :: "(string \<Rightarrow> string) \<Rightarrow> 'w oidc_env \<Rightarrow> string \<Rightarrow> 'w auth_world \<Rightarrow> claims res \<times> 'w auth_world" where
  "validate_in uni env raw w = map_prod id world (run_state (Validate uni env raw) \<lparr>world = w, trace = []\<rparr>)"

definition derived_cache :: "(string \<Rightarrow> string) \<Rightarrow> 'w auth_world \<Rightarrow> bool" where
  "derived_cache uni w \<longleftrightarrow>
     cache_inv (\<lambda>e. clm_user_id (ce_claims e) = sanitizeUserID uni (clm_sub (ce_claims e))) (aw_validator w)"

definition derived_answer :: "(string \<Rightarrow> string) \<Rightarrow> claims res \<Rightarrow> 'w auth_world \<Rightarrow> bool" where
  "derived_answer uni r w \<longleftrightarrow> derived_cache uni w
     \<and> (\<forall>cl. r = Inr cl \<longrightarrow> clm_user_id cl = sanitizeUserID uni (clm_sub cl))"

lemma wp_store_derived:
  assumes "derived_cache uni (world s)"
  shows "wp (verify_and_store uni env raw) (\<lambda>r s'. derived_answer uni r (world s')) s"
  using assms token_claims_sanitized [of uni]
  by (auto simp: verify_and_store_def verify_claims_def wp_simps Let_def derived_answer_def derived_cache_def
      intro!: store_inv split: sum.split)

lemma wp_Validate_derived:
  assumes "derived_cache uni (world s)"
  shows "wp (Validate uni env raw) (\<lambda>r s'. derived_answer uni r (world s')) s"
proof -
  let ?P = "\<lambda>e. clm_user_id (ce_claims e) = sanitizeUserID uni (clm_sub (ce_claims e))"
  let ?lk = "\<lambda>t. cache_lookup (hashToken raw) t (aw_validator (world s))"
  have look: "cache_inv ?P (snd (?lk t))" "\<And>cl. fst (?lk t) = Some cl \<Longrightarrow> clm_user_id cl = sanitizeUserID uni (clm_sub cl)" for t
    using lookup_inv [of ?P "aw_validator (world s)" "hashToken raw" t] assms by (auto simp: derived_cache_def)
  show ?thesis
    using assms look
    by (auto simp: Validate_def Let_def wp_simps derived_answer_def derived_cache_def split: option.split
        intro!: wp_store_derived [unfolded derived_answer_def derived_cache_def])
qed

interpretation oidc: token_validator "validate_in uni env" "derived_cache uni" uni
proof
  fix w :: "'a auth_world" and raw cl
  assume "derived_cache uni w"
  then have "derived_answer uni (fst (validate_in uni env raw w)) (snd (validate_in uni env raw w))"
    using wp_Validate_derived [of uni "\<lparr>world = w, trace = []\<rparr>" env raw] by (simp add: wp_def validate_in_def)
  then show "fst (validate_in uni env raw w) = Inr cl \<Longrightarrow> clm_user_id cl = sanitizeUserID uni (clm_sub cl)"
    and "derived_cache uni (snd (validate_in uni env raw w))" by (simp_all add: derived_answer_def)
qed

interpretation fixed: token_validator "\<lambda>raw w. (fixed_Validate (NewFixedIdentityValidator uni sub email) raw, w)" "\<lambda>_. True" uni
  by unfold_locales (auto simp: fixed_Validate_def NewFixedIdentityValidator_def Let_def split: if_splits)

section \<open>Properties\<close>

lemma dropWhile_all: "(\<forall>x \<in> set (dropWhile P s). P x) \<longleftrightarrow> (\<forall>x \<in> set s. P x)"
  by (induction s) auto

lemma Trim_Nil_iff: "Trim s c = [] \<longleftrightarrow> (\<forall>x \<in> set s. x = c)"
  by (simp add: Trim_def TrimRight_def dropWhile_all)

lemma alnum_not_dash: "is_alnum c \<Longrightarrow> c \<noteq> CHR ''-''"
  by auto

lemma replace_runs_alnum: "list_all (\<lambda>x. x = CHR ''-'') (replace_runs b s) \<longleftrightarrow> \<not> list_ex is_alnum s"
  by (induction b s rule: replace_runs.induct) (simp_all add: alnum_not_dash)

lemma sanitize_empty: "sanitizeUserID uni sub = [] \<longleftrightarrow> \<not> list_ex is_alnum (ToLower uni sub)"
proof -
  let ?t = "Trim (nonAlphaNum (ToLower uni sub)) CHR ''-''"
  have "?t = [] \<longleftrightarrow> \<not> list_ex is_alnum (ToLower uni sub)"
    by (simp add: Trim_Nil_iff nonAlphaNum_def replace_runs_alnum flip: list_all_iff)
  moreover have "sanitizeUserID uni sub = [] \<longleftrightarrow> ?t = []"
    using sanitize_cut [of uni sub] by (auto simp: sanitize_uncut uncut_def Let_def split: if_splits)
  ultimately show ?thesis by simp
qed

text \<open>No two dashes in a row: what the replacement leaves, and what it does not change.\<close>

definition single_dashes :: "string \<Rightarrow> bool" where
  "single_dashes s \<longleftrightarrow> successively (\<lambda>a b. a = CHR ''-'' \<longrightarrow> b \<noteq> CHR ''-'') s"

lemma single_dashes_prefix: "prefix t s \<Longrightarrow> single_dashes s \<Longrightarrow> single_dashes t"
  by (auto simp: single_dashes_def successively_append_iff elim!: prefixE)

lemma single_dashes_suffix: "suffix t s \<Longrightarrow> single_dashes s \<Longrightarrow> single_dashes t"
  by (auto simp: single_dashes_def successively_append_iff elim!: suffixE)

lemma replace_runs_hd: "b \<Longrightarrow> replace_runs b s \<noteq> [] \<Longrightarrow> hd (replace_runs b s) \<noteq> CHR ''-''"
  by (induction b s rule: replace_runs.induct) (auto split: if_splits)

lemma replace_runs_single: "single_dashes (replace_runs b s)"
proof (induction b s rule: replace_runs.induct)
  case (2 inside c cs)
  then show ?case using replace_runs_hd [of True cs]
    by (cases "cs = []") (auto simp: single_dashes_def successively_Cons)
qed (simp add: single_dashes_def)

lemma replace_runs_id:
  assumes "list_all name_byte s" and "single_dashes s" and "b \<longrightarrow> s = [] \<or> hd s \<noteq> CHR ''-''"
  shows "replace_runs b s = s"
  using assms
proof (induction b s rule: replace_runs.induct)
  case (2 inside c cs)
  then show ?case by (cases "cs = []") (auto simp: single_dashes_def successively_Cons)
qed simp

lemma sanitize_single: "single_dashes (sanitizeUserID uni sub)"
proof -
  let ?t = "Trim (nonAlphaNum (ToLower uni sub)) CHR ''-''"
  have pre: "prefix ?t (dropWhile (\<lambda>x. x = CHR ''-'') (nonAlphaNum (ToLower uni sub)))"
    by (simp add: Trim_def TrimRight_prefix)
  have t: "single_dashes ?t"
    by (rule single_dashes_prefix [OF pre], rule single_dashes_suffix [OF suffix_dropWhile])
      (simp add: nonAlphaNum_def replace_runs_single)
  have "single_dashes (''u-'' @ ?t)" if "?t \<noteq> []" "is_digit (hd ?t)"
    using t that by (auto simp: single_dashes_def successively_Cons char_class_defs)
  with t have "single_dashes (if ?t \<noteq> [] \<and> is_digit (hd ?t) then ''u-'' @ ?t else ?t)" by simp
  then show ?thesis
    using single_dashes_prefix [OF prefix_order.trans [OF TrimRight_prefix take_is_prefix]]
    by (auto simp: sanitizeUserID_def Let_def)
qed

lemma name_byte_lower: "name_byte c \<Longrightarrow> is_ascii c \<and> lower_ascii c = c"
  by (auto simp: is_ascii_def lower_ascii_def char_class_defs)

lemma sanitize_label_id:
  assumes "dns_label s" and "length s \<le> 49" and "single_dashes s"
  shows "sanitizeUserID uni s = s"
proof -
  from assms(1) have b: "list_all name_byte s" and ne: "s \<noteq> []" and low: "is_lower (hd s)" and l: "is_alnum (last s)"
    by (auto simp: dns_label_def)
  have "ToLower uni s = s" using b name_byte_lower by (simp add: ToLower_def list_all_iff map_idI)
  moreover have "nonAlphaNum s = s" using b assms(3) by (simp add: nonAlphaNum_def replace_runs_id)
  moreover have "Trim s CHR ''-'' = s"
  proof -
    have "hd s \<noteq> CHR ''-''" "last s \<noteq> CHR ''-''" using is_lower_alnum [OF low] l by auto
    then show ?thesis using ne by (cases s) (auto simp: Trim_def intro: TrimRight_id)
  qed
  ultimately show ?thesis using assms(2) low ne lower_not_digit by (simp add: sanitizeUserID_def)
qed

lemma sanitize_idem: "sanitizeUserID uni (sanitizeUserID uni sub) = sanitizeUserID uni sub"
proof (cases "sanitizeUserID uni sub = []")
  case True
  moreover have "sanitizeUserID uni [] = []" by (subst sanitize_empty) (simp add: ToLower_def)
  ultimately show ?thesis by simp
qed (use sanitize_label [of uni sub] sanitize_single in \<open>auto intro: sanitize_label_id\<close>)

text \<open>
  C34: the user id derived from any OIDC subject, whatever the Unicode case mapping does, is a name
  the operator's validation accepts (an RFC 1035 label of at most 49 bytes), unless the
  lower-cased subject has no letter and no digit at all, in which case it is empty; and deriving
  it again from its own result changes nothing.
\<close>

theorem user_id_is_label:
  "(sanitizeUserID uni sub = [] \<longleftrightarrow> \<not> list_ex is_alnum (ToLower uni sub))
   \<and> (sanitizeUserID uni sub = [] \<or> dnsLabelRegex (sanitizeUserID uni sub) \<and> length (sanitizeUserID uni sub) \<le> 49)
   \<and> sanitizeUserID uni (sanitizeUserID uni sub) = sanitizeUserID uni sub"
  using sanitize_empty [of uni sub] sanitize_label [of uni sub] sanitize_idem [of uni sub]
  by (simp add: dnsLabelRegex_iff)


text \<open>A token that is not in the cache is verified in this very call, and the answer is that of the verification.\<close>

definition answer_of :: "(string \<Rightarrow> string) \<Rightarrow> id_token res \<Rightarrow> claims res" where
  "answer_of uni r = (case r of Inl e \<Rightarrow> Inl (the (classifyOIDCVerifyError uni (Some e))) | Inr tok \<Rightarrow> token_claims uni tok)"

lemma uncached_verifies:
  assumes "map_of (va_index (aw_validator w)) (hashToken raw) = None"
    and "run_state (Validate uni env raw) \<lparr>world = w, trace = tr\<rparr> = (r, s')"
  shows "\<exists>v post. trace s' = tr @ VerifyCall (va_verifier (aw_validator w)) raw v # post \<and> r = answer_of uni v"
proof -
  have "wp (Validate uni env raw) (\<lambda>r s'. \<exists>v post. trace s' = tr @ VerifyCall (va_verifier (aw_validator w)) raw v # post
      \<and> r = answer_of uni v) \<lparr>world = w, trace = tr\<rparr>"
    using assms(1)
    by (auto simp: Validate_def verify_and_store_def verify_claims_def wp_simps Let_def answer_of_def split: sum.split)
  with assms(2) show ?thesis by (simp add: wp_def)
qed


section \<open>Examples\<close>

definition sample_oidc :: "instant oidc_env" where
  "sample_oidc = \<lparr>oi_now = (\<lambda>t. (t, t)), oi_new_provider = (\<lambda>_ t. (Inr (), t)),
     oi_verify = (\<lambda>cfg raw t. (if raw = ''tok'' then Inr \<lparr>idt_subject = ''alice'', idt_email = Inr ''alice@example.com''\<rparr>
       else Inl (new_error ''bad signature''), t))\<rparr>"

definition sample_cfg :: verifier_cfg where
  "sample_cfg = \<lparr>vc_issuer = ''https://idp'', vc_client_id = ''devplane'', vc_now_skew = 0\<rparr>"

definition sample_claims :: "(string \<Rightarrow> string) \<Rightarrow> claims" where
  "sample_claims uni = \<lparr>clm_sub = ''alice'', clm_email = ''alice@example.com'', clm_user_id = sanitizeUserID uni ''alice''\<rparr>"

definition sample_auth :: "instant auth_world" where
  "sample_auth = \<lparr>aw_validator = as_cache (auth_init 0 sample_cfg), aw_env = 0\<rparr>"

lemma sample_auth_sim: "forward_clock sample_oidc id" "auth_sim id (auth_init 0 sample_cfg) sample_auth"
  by (simp_all add: forward_clock_def sample_oidc_def auth_sim_def auth_init_def sample_auth_def)

lemma sample_run:
  "fst (run_state (Validate uni sample_oidc ''tok'') \<lparr>world = sample_auth, trace = []\<rparr>) = Inr (sample_claims uni)"
  by (simp add: Validate_def Let_def cache_action_def auth_now_def verify_and_store_def verify_claims_def verify_token_def
      sample_auth_def auth_init_def sample_oidc_def token_claims_def sample_claims_def)


text \<open>The state after one request missed, was verified and stored its claims.\<close>

lemma sample_stored:
  "(auth_step id sample_oidc)\<^sup>*\<^sup>* (auth_init 0 sample_cfg) ((auth_init 0 sample_cfg)\<lparr>
     as_cache := cache_store (hashToken ''tok'') (sample_claims id) 0 (as_cache (auth_init 0 sample_cfg)),
     as_log := [Was_returned ''tok'' (sample_claims id) 0, Was_stored ''tok'' (sample_claims id) 0,
       Was_verified ''tok'' (sample_claims id) 0]\<rparr>)" (is "(auth_step id sample_oidc)\<^sup>*\<^sup>* ?a ?d")
proof -
  let ?b = "?a\<lparr>as_asking := [''tok'']\<rparr>"
  let ?c = "?a\<lparr>as_checked := [(''tok'', sample_claims id)], as_log := [Was_verified ''tok'' (sample_claims id) 0]\<rparr>"
  have "auth_step id sample_oidc ?a ?b"
    using auth_step.miss [of "''tok''" ?a "as_cache ?a" id sample_oidc] by (simp add: auth_init_def cache_lookup_def)
  moreover have "auth_step id sample_oidc ?b ?c"
    using auth_step.verified [of "''tok''" ?b id sample_oidc "sample_claims id"]
    by (simp add: auth_init_def verified_by_def sample_oidc_def token_claims_def sample_claims_def)
  moreover have "auth_step id sample_oidc ?c ?d"
    using auth_step.store [of "''tok''" "sample_claims id" ?c id sample_oidc] by (simp add: auth_init_def)
  ultimately show ?thesis by (meson rtranclp.rtrancl_refl rtranclp.rtrancl_into_rtrancl)
qed


end
