(* ===== verification/Netpol.thy ===== *)
theory Netpol
  imports Resources
begin

text \<open>
  \<open>pkg/security/netpol.go\<close>: the three NetworkPolicies of a workspace, the resolution of egress
  namespaces and ports, and what the policies mean for traffic. The meaning of a
  NetworkPolicy is the documented one of the Kubernetes API: a pod selected by a policy for a
  direction is isolated in that direction and accepts what some selecting policy allows.
\<close>

section \<open>Resolution of the configuration\<close>

definition DefaultEgressPorts :: "int list" where
  "DefaultEgressPorts = [22, 80, 443, 5000, 8000, 8080, 8081, 11434]"

definition DefaultLLMNamespace :: string where
  "DefaultLLMNamespace = ''ai-system''"

definition dnsNamespace :: string where
  "dnsNamespace = ''kube-system''"

definition labelGatewayApp :: string where
  "labelGatewayApp = ''workspace-gateway''"

fun compactNonEmptyStrings :: "string list \<Rightarrow> string list" where
  "compactNonEmptyStrings [] = []"
| "compactNonEmptyStrings (s # ss) =
     (let t = TrimSpace s in
      if t \<noteq> '''' then t # compactNonEmptyStrings ss else compactNonEmptyStrings ss)"

definition ResolveLLMEgressNamespaces :: "string list \<Rightarrow> string list \<Rightarrow> string list" where
  "ResolveLLMEgressNamespaces spec operator =
     (let ns = compactNonEmptyStrings spec in
      if length ns > 0 then ns
      else let ns = compactNonEmptyStrings operator in
           if length ns > 0 then ns else [DefaultLLMNamespace])"

definition ResolveEgressPorts :: "int list \<Rightarrow> int list \<Rightarrow> int list" where
  "ResolveEgressPorts spec operator =
     (if length spec > 0 then spec
      else if length operator > 0 then operator else DefaultEgressPorts)"

section \<open>Builders\<close>

definition netpolName :: "string \<Rightarrow> string \<Rightarrow> string" where
  "netpolName userID sfx = userID @ ''-workspace-'' @ sfx"

definition workspacePodSelector :: "string \<Rightarrow> labels" where
  "workspacePodSelector userID = [(''app'', ''workspace''), (''user'', userID)]"

definition namespaceSelectorByName :: "string \<Rightarrow> np_peer" where
  "namespaceSelectorByName nm = \<lparr>peer_pod_selector = None,
     peer_ns_selector = Some [(''kubernetes.io/metadata.name'', nm)], peer_ip_block = None\<rparr>"

definition tcp_port :: "int \<Rightarrow> np_port" where
  "tcp_port p = \<lparr>npp_protocol = Some ProtocolTCP, npp_port = Some p\<rparr>"

definition udp_port :: "int \<Rightarrow> np_port" where
  "udp_port p = \<lparr>npp_protocol = Some ProtocolUDP, npp_port = Some p\<rparr>"

definition netpol_labels :: "string \<Rightarrow> labels" where
  "netpol_labels userID = [(''app'', ''workspace''), (''user'', userID), (''managed-by'', ''devplane'')]"

text \<open>The common end of the three builders: set the owner or fail.\<close>

definition own_netpol :: "k8s_lib \<Rightarrow> workspace \<Rightarrow> network_policy \<Rightarrow> network_policy res" where
  "own_netpol lib ws np = (case lib_set_owner lib ws (np_meta np) of
     Inl e \<Rightarrow> Inl (errorf_w ''set NetworkPolicy owner reference'' e)
   | Inr m \<Rightarrow> Inr (np\<lparr>np_meta := m\<rparr>))"

definition BuildDenyAllNetworkPolicy :: "k8s_lib \<Rightarrow> workspace \<Rightarrow> network_policy res" where
  "BuildDenyAllNetworkPolicy lib ws =
     (let userID = ws_user_id ws in
      own_netpol lib ws
        \<lparr>np_meta = meta (netpolName userID ''deny-all'') (ws_namespace ws) (netpol_labels userID),
         np_pod_selector = workspacePodSelector userID,
         np_types = [PolicyTypeIngress, PolicyTypeEgress],
         np_ingress = [], np_egress = []\<rparr>)"

text \<open>The loop over the configured ports: ports outside 1..65535 are skipped.\<close>

fun internet_ports :: "int list \<Rightarrow> np_port list" where
  "internet_ports [] = []"
| "internet_ports (p # ps) =
     (if p < 1 \<or> p > 65535 then internet_ports ps else tcp_port p # internet_ports ps)"

definition egress_rules :: "string list \<Rightarrow> int list \<Rightarrow> np_rule list" where
  "egress_rules llmNamespaces egressPorts =
     (let dns = \<lparr>rule_ports = [udp_port 53, tcp_port 53],
                 rule_peers = [namespaceSelectorByName dnsNamespace]\<rparr>;
          llm = (if length llmNamespaces > 0
                 then [\<lparr>rule_ports = [], rule_peers = map namespaceSelectorByName llmNamespaces\<rparr>]
                 else []);
          ports0 = internet_ports egressPorts;
          ports = (if length ports0 = 0 then map tcp_port DefaultEgressPorts else ports0);
          inet = \<lparr>rule_ports = ports,
                  rule_peers = [\<lparr>peer_pod_selector = None, peer_ns_selector = None,
                                peer_ip_block = Some ''0.0.0.0/0''\<rparr>]\<rparr>
      in [dns] @ llm @ [inet])"

definition BuildEgressNetworkPolicy ::
  "k8s_lib \<Rightarrow> workspace \<Rightarrow> string list \<Rightarrow> int list \<Rightarrow> network_policy res" where
  "BuildEgressNetworkPolicy lib ws llmNamespaces egressPorts =
     (let userID = ws_user_id ws in
      own_netpol lib ws
        \<lparr>np_meta = meta (netpolName userID ''egress'') (ws_namespace ws) (netpol_labels userID),
         np_pod_selector = workspacePodSelector userID,
         np_types = [PolicyTypeEgress],
         np_ingress = [],
         np_egress = egress_rules llmNamespaces egressPorts\<rparr>)"

definition gateway_peer :: "string \<Rightarrow> np_peer" where
  "gateway_peer gatewayNamespace =
     \<lparr>peer_pod_selector = Some [(''app'', labelGatewayApp)],
      peer_ns_selector = (if gatewayNamespace \<noteq> ''''
        then Some [(''kubernetes.io/metadata.name'', gatewayNamespace)] else None),
      peer_ip_block = None\<rparr>"

definition BuildIngressFromGatewayNetworkPolicy ::
  "k8s_lib \<Rightarrow> workspace \<Rightarrow> string \<Rightarrow> network_policy res" where
  "BuildIngressFromGatewayNetworkPolicy lib ws gatewayNamespace =
     (let userID = ws_user_id ws in
      own_netpol lib ws
        \<lparr>np_meta = meta (netpolName userID ''ingress-gateway'') (ws_namespace ws) (netpol_labels userID),
         np_pod_selector = workspacePodSelector userID,
         np_types = [PolicyTypeIngress],
         np_ingress = [\<lparr>rule_ports = [tcp_port 7681], rule_peers = [gateway_peer gatewayNamespace]\<rparr>],
         np_egress = []\<rparr>)"

section \<open>What a policy means\<close>

text \<open>
  The other end of a connection: its address and, when it is a pod of the cluster, the name
  and labels of its namespace and its own labels.
\<close>

record endpoint =
  ep_ip :: string
  ep_pod :: "(string \<times> labels \<times> labels) option"

text \<open>
  A peer is an IP block or a combination of selectors; without a namespace selector, the pod
  selector speaks about the policy's own namespace. \<open>cidr\<close> decides membership of an address in
  a block.
\<close>

definition peer_matches :: "(string \<Rightarrow> string \<Rightarrow> bool) \<Rightarrow> string \<Rightarrow> np_peer \<Rightarrow> endpoint \<Rightarrow> bool" where
  "peer_matches cidr ns peer ep = (case peer_ip_block peer of
     Some block \<Rightarrow> cidr block (ep_ip ep)
   | None \<Rightarrow> (case ep_pod ep of
       None \<Rightarrow> False
     | Some (pns, nsl, pl) \<Rightarrow>
         (peer_pod_selector peer \<noteq> None \<or> peer_ns_selector peer \<noteq> None)
         \<and> (case peer_ns_selector peer of None \<Rightarrow> pns = ns | Some sel \<Rightarrow> selects sel nsl)
         \<and> (case peer_pod_selector peer of None \<Rightarrow> True | Some sel \<Rightarrow> selects sel pl)))"

definition port_matches :: "np_port \<Rightarrow> string \<Rightarrow> int \<Rightarrow> bool" where
  "port_matches np proto p \<longleftrightarrow>
     (case npp_protocol np of None \<Rightarrow> proto = ProtocolTCP | Some q \<Rightarrow> proto = q)
     \<and> (case npp_port np of None \<Rightarrow> True | Some q \<Rightarrow> p = q)"

definition rule_matches ::
  "(string \<Rightarrow> string \<Rightarrow> bool) \<Rightarrow> string \<Rightarrow> np_rule \<Rightarrow> endpoint \<Rightarrow> string \<Rightarrow> int \<Rightarrow> bool" where
  "rule_matches cidr ns r ep proto p \<longleftrightarrow>
     (rule_peers r = [] \<or> list_ex (\<lambda>peer. peer_matches cidr ns peer ep) (rule_peers r))
     \<and> (rule_ports r = [] \<or> list_ex (\<lambda>np. port_matches np proto p) (rule_ports r))"

text \<open>A policy applies to a pod of its namespace that its selector matches.\<close>

definition applies :: "network_policy \<Rightarrow> string \<Rightarrow> labels \<Rightarrow> bool" where
  "applies np ns pl \<longleftrightarrow> mt_namespace (np_meta np) = ns \<and> selects (np_pod_selector np) pl"

text \<open>
  May the pod with labels \<open>pl\<close> in namespace \<open>ns\<close> open a connection to (accept one from) the
  endpoint on this protocol and port, under these policies?
\<close>

definition egress_allowed ::
  "(string \<Rightarrow> string \<Rightarrow> bool) \<Rightarrow> network_policy list \<Rightarrow> string \<Rightarrow> labels \<Rightarrow> endpoint \<Rightarrow> string \<Rightarrow> int \<Rightarrow> bool" where
  "egress_allowed cidr pols ns pl ep proto p =
     (let sel = filter (\<lambda>np. applies np ns pl \<and> PolicyTypeEgress \<in> set (np_types np)) pols in
      sel = [] \<or> list_ex (\<lambda>np. list_ex (\<lambda>r. rule_matches cidr ns r ep proto p) (np_egress np)) sel)"

definition ingress_allowed ::
  "(string \<Rightarrow> string \<Rightarrow> bool) \<Rightarrow> network_policy list \<Rightarrow> string \<Rightarrow> labels \<Rightarrow> endpoint \<Rightarrow> string \<Rightarrow> int \<Rightarrow> bool" where
  "ingress_allowed cidr pols ns pl ep proto p =
     (let sel = filter (\<lambda>np. applies np ns pl \<and> PolicyTypeIngress \<in> set (np_types np)) pols in
      sel = [] \<or> list_ex (\<lambda>np. list_ex (\<lambda>r. rule_matches cidr ns r ep proto p) (np_ingress np)) sel)"

section \<open>Lemmas\<close>

definition valid_ports :: "int list \<Rightarrow> int list" where
  "valid_ports ps = filter (\<lambda>p. 1 \<le> p \<and> p \<le> 65535) ps"

definition effective_ports :: "int list \<Rightarrow> int list" where
  "effective_ports ps = (if valid_ports ps = [] then DefaultEgressPorts else valid_ports ps)"

lemma internet_ports_valid: "internet_ports ps = map tcp_port (valid_ports ps)"
  by (induction ps rule: internet_ports.induct) (auto simp: valid_ports_def)

lemma effective_ports_range: "p \<in> set (effective_ports ps) \<Longrightarrow> 1 \<le> p \<and> p \<le> 65535"
  by (auto simp: effective_ports_def valid_ports_def DefaultEgressPorts_def split: if_splits)

lemma egress_rules_eq:
  "egress_rules nss ps =
     [\<lparr>rule_ports = [udp_port 53, tcp_port 53], rule_peers = [namespaceSelectorByName dnsNamespace]\<rparr>]
     @ (if nss = [] then [] else [\<lparr>rule_ports = [], rule_peers = map namespaceSelectorByName nss\<rparr>])
     @ [\<lparr>rule_ports = map tcp_port (effective_ports ps),
         rule_peers = [\<lparr>peer_pod_selector = None, peer_ns_selector = None,
                       peer_ip_block = Some ''0.0.0.0/0''\<rparr>]\<rparr>]"
  by (simp add: egress_rules_def Let_def internet_ports_valid effective_ports_def)

lemma port_matches_tcp [simp]: "port_matches (tcp_port q) proto p \<longleftrightarrow> proto = ProtocolTCP \<and> p = q"
  by (simp add: port_matches_def tcp_port_def)

lemma port_matches_udp [simp]: "port_matches (udp_port q) proto p \<longleftrightarrow> proto = ProtocolUDP \<and> p = q"
  by (simp add: port_matches_def udp_port_def)

text \<open>An endpoint is a pod of the namespace with this \<open>kubernetes.io/metadata.name\<close> label.\<close>

definition in_namespace :: "endpoint \<Rightarrow> string \<Rightarrow> bool" where
  "in_namespace ep nm = (case ep_pod ep of
     None \<Rightarrow> False
   | Some (_, nsl, _) \<Rightarrow> map_of nsl ''kubernetes.io/metadata.name'' = Some nm)"

lemma peer_matches_ns [simp]:
  "peer_matches cidr ns (namespaceSelectorByName nm) ep \<longleftrightarrow> in_namespace ep nm"
  by (simp add: peer_matches_def namespaceSelectorByName_def in_namespace_def selects_def
      split: option.split)

lemma list_ex_Cons_iff: "list_ex P (x # xs) \<longleftrightarrow> P x \<or> list_ex P xs"
  by simp

lemma dns_rule_matches:
  "rule_matches cidr ns \<lparr>rule_ports = [udp_port 53, tcp_port 53],
       rule_peers = [namespaceSelectorByName dnsNamespace]\<rparr> ep proto p
   \<longleftrightarrow> in_namespace ep dnsNamespace \<and> p = 53 \<and> (proto = ProtocolUDP \<or> proto = ProtocolTCP)"
  unfolding rule_matches_def by simp blast

lemma llm_rule_matches:
  "rule_matches cidr ns \<lparr>rule_ports = [], rule_peers = map namespaceSelectorByName nss\<rparr> ep proto p
   \<longleftrightarrow> nss = [] \<or> (\<exists>nm \<in> set nss. in_namespace ep nm)"
  by (simp add: rule_matches_def list_ex_iff)

lemma tcp_ports_match:
  "list_ex (\<lambda>np. port_matches np proto p) (map tcp_port qs) \<longleftrightarrow> proto = ProtocolTCP \<and> p \<in> set qs"
  by (induction qs) auto

lemma effective_ports_nonempty: "effective_ports ps \<noteq> []"
  by (simp add: effective_ports_def DefaultEgressPorts_def)

lemma inet_rule_matches:
  "rule_matches cidr ns \<lparr>rule_ports = map tcp_port (effective_ports ps),
       rule_peers = [\<lparr>peer_pod_selector = None, peer_ns_selector = None, peer_ip_block = Some blk\<rparr>]\<rparr> ep proto p
   \<longleftrightarrow> cidr blk (ep_ip ep) \<and> proto = ProtocolTCP \<and> p \<in> set (effective_ports ps)"
  by (simp add: rule_matches_def peer_matches_def tcp_ports_match effective_ports_nonempty)

lemma egress_rules_match:
  "list_ex (\<lambda>r. rule_matches cidr ns r ep proto p) (egress_rules nss ps) \<longleftrightarrow>
     in_namespace ep dnsNamespace \<and> p = 53 \<and> (proto = ProtocolUDP \<or> proto = ProtocolTCP)
     \<or> (\<exists>nm \<in> set nss. in_namespace ep nm)
     \<or> cidr ''0.0.0.0/0'' (ep_ip ep) \<and> proto = ProtocolTCP \<and> p \<in> set (effective_ports ps)"
  unfolding egress_rules_eq
  by (simp only: list_ex_append list_ex_Cons_iff dns_rule_matches llm_rule_matches inet_rule_matches
      if_distrib [where f = "list_ex P" for P]) (cases "nss = []"; simp)

lemma selects_pod [simp]:
  "selects (workspacePodSelector u) (Labels v) \<longleftrightarrow> u = v"
  by (auto simp: selects_def workspacePodSelector_def Labels_def)

lemma own_netpol_Inr:
  "own_netpol lib ws np = Inr np' \<longleftrightarrow>
     (\<exists>m. lib_set_owner lib ws (np_meta np) = Inr m \<and> np' = np\<lparr>np_meta := m\<rparr>)"
  by (auto simp: own_netpol_def split: sum.splits)

lemma compact_no_blank: "t \<in> set (compactNonEmptyStrings ss) \<Longrightarrow> t \<noteq> ''''"
  by (induction ss rule: compactNonEmptyStrings.induct) (auto simp: Let_def split: if_splits)

lemma compact_filter: "compactNonEmptyStrings ss = filter (\<lambda>t. t \<noteq> '''') (map TrimSpace ss)"
  by (induction ss rule: compactNonEmptyStrings.induct) (auto simp: Let_def)

lemma filter_not_applies:
  "list_all (\<lambda>np. \<not> applies np ns pl) pols \<Longrightarrow> filter (\<lambda>np. applies np ns pl \<and> Q np) pols = []"
  by (auto simp: list_all_iff filter_empty_conv)

text \<open>
  The three policies of one workspace as the reconciler builds them, and their reading: each
  selects the pods of that user and no other.
\<close>

definition workspace_policies ::
  "k8s_lib \<Rightarrow> workspace \<Rightarrow> string list \<Rightarrow> int list \<Rightarrow> string \<Rightarrow> network_policy list res" where
  "workspace_policies lib ws nss ports gw =
     (case BuildDenyAllNetworkPolicy lib ws of Inl e \<Rightarrow> Inl e | Inr a \<Rightarrow>
      (case BuildEgressNetworkPolicy lib ws nss ports of Inl e \<Rightarrow> Inl e | Inr b \<Rightarrow>
       (case BuildIngressFromGatewayNetworkPolicy lib ws gw of Inl e \<Rightarrow> Inl e | Inr c \<Rightarrow>
          Inr [a, b, c])))"

context owner_lib
begin

lemma netpol_built:
  assumes "own_netpol lib ws np = Inr np'" and "lib_set_owner lib = set_owner"
  shows "mt_namespace (np_meta np') = mt_namespace (np_meta np) \<and> mt_name (np_meta np') = mt_name (np_meta np)
    \<and> np_pod_selector np' = np_pod_selector np \<and> np_types np' = np_types np
    \<and> np_ingress np' = np_ingress np \<and> np_egress np' = np_egress np"
  using assms by (auto simp: own_netpol_Inr set_owner_namespace set_owner_name)

lemma workspace_policies_shape:
  assumes "workspace_policies lib ws nss ports gw = Inr pols" and "lib_set_owner lib = set_owner"
  shows "\<exists>a b c. pols = [a, b, c]
    \<and> list_all (\<lambda>x. np_pod_selector x = workspacePodSelector (ws_user_id ws)
         \<and> mt_namespace (np_meta x) = ws_namespace ws) [a, b, c]
    \<and> np_types a = [PolicyTypeIngress, PolicyTypeEgress] \<and> np_ingress a = [] \<and> np_egress a = []
    \<and> np_types b = [PolicyTypeEgress] \<and> np_egress b = egress_rules nss ports
    \<and> np_types c = [PolicyTypeIngress]
    \<and> np_ingress c = [\<lparr>rule_ports = [tcp_port 7681], rule_peers = [gateway_peer gw]\<rparr>]"
proof -
  from assms(1) obtain a b c where ok: "BuildDenyAllNetworkPolicy lib ws = Inr a"
    "BuildEgressNetworkPolicy lib ws nss ports = Inr b"
    "BuildIngressFromGatewayNetworkPolicy lib ws gw = Inr c" and p: "pols = [a, b, c]"
    by (auto simp: workspace_policies_def split: sum.splits)
  show ?thesis
    using p netpol_built [OF ok(1) [unfolded BuildDenyAllNetworkPolicy_def Let_def] assms(2)]
      netpol_built [OF ok(2) [unfolded BuildEgressNetworkPolicy_def Let_def] assms(2)]
      netpol_built [OF ok(3) [unfolded BuildIngressFromGatewayNetworkPolicy_def Let_def] assms(2)]
    by simp
qed

lemma workspace_egress:
  assumes "workspace_policies lib ws nss ports gw = Inr pols" and "lib_set_owner lib = set_owner"
    and "list_all (\<lambda>np. \<not> applies np (ws_namespace ws) (Labels (ws_user_id ws))) others"
  shows "egress_allowed cidr (pols @ others) (ws_namespace ws) (Labels (ws_user_id ws)) ep proto p \<longleftrightarrow>
     in_namespace ep dnsNamespace \<and> p = 53 \<and> (proto = ProtocolUDP \<or> proto = ProtocolTCP)
     \<or> (\<exists>nm \<in> set nss. in_namespace ep nm)
     \<or> cidr ''0.0.0.0/0'' (ep_ip ep) \<and> proto = ProtocolTCP \<and> p \<in> set (effective_ports ports)"
  using workspace_policies_shape [OF assms(1,2)] filter_not_applies [OF assms(3)]
  by (elim exE conjE) (simp add: egress_allowed_def applies_def egress_rules_match)

lemma workspace_ingress:
  assumes "workspace_policies lib ws nss ports gw = Inr pols" and "lib_set_owner lib = set_owner"
    and "list_all (\<lambda>np. \<not> applies np (ws_namespace ws) (Labels (ws_user_id ws))) others"
  shows "ingress_allowed cidr (pols @ others) (ws_namespace ws) (Labels (ws_user_id ws)) ep proto p \<longleftrightarrow>
     peer_matches cidr (ws_namespace ws) (gateway_peer gw) ep \<and> proto = ProtocolTCP \<and> p = 7681"
  using workspace_policies_shape [OF assms(1,2)] filter_not_applies [OF assms(3)]
  by (elim exE conjE) (simp add: ingress_allowed_def applies_def rule_matches_def)

end

lemma peer_gateway_matches:
  "peer_matches cidr ns (gateway_peer gw) ep \<longleftrightarrow>
     (\<exists>pns nsl pl. ep_pod ep = Some (pns, nsl, pl) \<and> map_of pl ''app'' = Some labelGatewayApp
        \<and> (if gw = '''' then pns = ns else map_of nsl ''kubernetes.io/metadata.name'' = Some gw))"
  by (auto simp: peer_matches_def gateway_peer_def selects_def split: option.splits)

section \<open>Properties\<close>

text \<open>
  C7: egress of a workspace pod under its three policies, and under any further policies that do
  not select it. The pod can open a connection exactly to: port 53 (UDP or TCP) of pods in
  kube-system, any port of pods in the configured LLM namespaces, and addresses of the block
  0.0.0.0/0 on TCP ports of the effective list. Everything else is denied.
\<close>

theorem workspace_egress_exact:
  assumes "owner_lib (lib_set_owner lib)"
    and "workspace_policies lib ws nss ports gw = Inr pols"
    and "list_all (\<lambda>np. \<not> applies np (ws_namespace ws) (Labels (ws_user_id ws))) others"
  shows "egress_allowed cidr (pols @ others) (ws_namespace ws) (Labels (ws_user_id ws)) ep proto p \<longleftrightarrow>
     in_namespace ep dnsNamespace \<and> p = 53 \<and> (proto = ProtocolUDP \<or> proto = ProtocolTCP)
     \<or> (\<exists>nm \<in> set nss. in_namespace ep nm)
     \<or> cidr ''0.0.0.0/0'' (ep_ip ep) \<and> proto = ProtocolTCP \<and> p \<in> set (effective_ports ports)"
  by (rule owner_lib.workspace_egress [OF assms(1,2) refl assms(3)])

lemma sample_policies:
  "\<exists>pols. workspace_policies sample_lib (sample_ws u) nss ports gw = Inr pols"
  by (simp add: workspace_policies_def BuildDenyAllNetworkPolicy_def BuildEgressNetworkPolicy_def
      BuildIngressFromGatewayNetworkPolicy_def own_netpol_def Let_def set_controller_reference_def
      sample_ws_def)

lemma sample_owner_lib: "owner_lib (lib_set_owner sample_lib)"
  by (simp add: ctrl_owner.owner_lib_axioms)

theorem workspace_egress_exact_witness:
  "\<exists>pols. workspace_policies sample_lib (sample_ws ''alice'') [''ai-system''] [443] ''gw'' = Inr pols
     \<and> \<not> egress_allowed (\<lambda>_ _. True) (pols @ []) (ws_namespace (sample_ws ''alice''))
          (Labels (ws_user_id (sample_ws ''alice''))) \<lparr>ep_ip = ''10.0.0.7'', ep_pod = None\<rparr> ProtocolTCP 5432"
proof -
  obtain pols where p: "workspace_policies sample_lib (sample_ws ''alice'') [''ai-system''] [443] ''gw'' = Inr pols"
    using sample_policies by blast
  with workspace_egress_exact [OF sample_owner_lib p, of "[]" "\<lambda>_ _. True"
      "\<lparr>ep_ip = ''10.0.0.7'', ep_pod = None\<rparr>" ProtocolTCP 5432]
  show ?thesis
    by (auto simp: in_namespace_def effective_ports_def valid_ports_def)
qed

text \<open>
  C8: ingress of a workspace pod: the only connections it accepts are TCP on the ttyd port 7681
  from pods labelled as the gateway, in the gateway's namespace when one is configured and in
  the workspace's own namespace otherwise. In particular no pod that carries the labels of a
  workspace, of any user, gets in.
\<close>

theorem workspace_ingress_only_gateway:
  assumes "owner_lib (lib_set_owner lib)"
    and "workspace_policies lib ws nss ports gw = Inr pols"
    and "list_all (\<lambda>np. \<not> applies np (ws_namespace ws) (Labels (ws_user_id ws))) others"
    and "ingress_allowed cidr (pols @ others) (ws_namespace ws) (Labels (ws_user_id ws)) ep proto p"
  shows "proto = ProtocolTCP \<and> p = 7681
     \<and> (\<exists>pns nsl pl. ep_pod ep = Some (pns, nsl, pl) \<and> map_of pl ''app'' = Some labelGatewayApp
          \<and> (if gw = '''' then pns = ws_namespace ws
             else map_of nsl ''kubernetes.io/metadata.name'' = Some gw)
          \<and> (\<forall>v. pl \<noteq> Labels v))"
proof -
  from assms(4) obtain pns nsl pl where p: "proto = ProtocolTCP" "p = 7681"
    and e: "ep_pod ep = Some (pns, nsl, pl)" "map_of pl ''app'' = Some labelGatewayApp"
      "if gw = '''' then pns = ws_namespace ws else map_of nsl ''kubernetes.io/metadata.name'' = Some gw"
    unfolding owner_lib.workspace_ingress [OF assms(1,2) refl assms(3)] peer_gateway_matches
    by (elim conjE exE)
  have "pl \<noteq> Labels v" for v
    using e(2) by (auto simp: labelGatewayApp_def Labels_def)
  with p e show ?thesis by blast
qed

definition gateway_ep :: endpoint where
  "gateway_ep = \<lparr>ep_ip = ''10.0.0.9'',
     ep_pod = Some (''ops'', [(''kubernetes.io/metadata.name'', ''gw'')], [(''app'', ''workspace-gateway'')])\<rparr>"

theorem workspace_ingress_only_gateway_witness:
  "\<exists>pols. workspace_policies sample_lib (sample_ws ''alice'') [''ai-system''] [443] ''gw'' = Inr pols
     \<and> ingress_allowed (\<lambda>_ _. True) (pols @ []) (ws_namespace (sample_ws ''alice''))
          (Labels (ws_user_id (sample_ws ''alice''))) gateway_ep ProtocolTCP 7681
     \<and> (\<exists>pns nsl pl. ep_pod gateway_ep = Some (pns, nsl, pl) \<and> (\<forall>v. pl \<noteq> Labels v))"
proof -
  obtain pols where p: "workspace_policies sample_lib (sample_ws ''alice'') [''ai-system''] [443] ''gw'' = Inr pols"
    using sample_policies by blast
  then have i: "ingress_allowed (\<lambda>_ _. True) (pols @ []) (ws_namespace (sample_ws ''alice''))
      (Labels (ws_user_id (sample_ws ''alice''))) gateway_ep ProtocolTCP 7681"
    using owner_lib.workspace_ingress [OF sample_owner_lib p refl, of "[]" "\<lambda>_ _. True" gateway_ep ProtocolTCP 7681]
    by (simp add: peer_gateway_matches gateway_ep_def labelGatewayApp_def)
  show ?thesis
    using p i workspace_ingress_only_gateway [OF sample_owner_lib p _ i] by auto
qed

text \<open>
  No egress rule of the built policy opens every port to the outside: each rule with an IP
  block lists at least one port, and every port of it is a TCP port between 1 and 65535, also
  when all configured ports are invalid.
\<close>

lemma egress_never_opens_all_ports:
  assumes "owner_lib (lib_set_owner lib)"
    and "BuildEgressNetworkPolicy lib ws nss ports = Inr np"
    and "r \<in> set (np_egress np)" and "peer \<in> set (rule_peers r)" and "peer_ip_block peer \<noteq> None"
  shows "rule_ports r \<noteq> [] \<and>
     list_all (\<lambda>q. npp_protocol q = Some ProtocolTCP \<and> (\<exists>n. npp_port q = Some n \<and> 1 \<le> n \<and> n \<le> 65535)) (rule_ports r)"
proof -
  have "np_egress np = egress_rules nss ports"
    using owner_lib.netpol_built [OF assms(1) assms(2) [unfolded BuildEgressNetworkPolicy_def Let_def] refl] by simp
  with assms(3-5) have "rule_ports r = map tcp_port (effective_ports ports)"
    by (auto simp: egress_rules_eq namespaceSelectorByName_def split: if_splits)
  then show ?thesis
    using effective_ports_nonempty effective_ports_range
    by (auto simp: list_all_iff tcp_port_def)
qed

text \<open>
  Resolution of the egress configuration. The Workspace's own list wins over the operator's,
  and that over the built-in default; for namespaces, entries are trimmed and blank entries do
  not count, so the result is never empty and holds no blank name.
\<close>

lemma egress_resolution:
  "(let own = filter (\<lambda>t. t \<noteq> '''') (map TrimSpace spec);
        ops = filter (\<lambda>t. t \<noteq> '''') (map TrimSpace operator)
    in ResolveLLMEgressNamespaces spec operator =
         (if own \<noteq> [] then own else if ops \<noteq> [] then ops else [DefaultLLMNamespace]))
   \<and> ResolveLLMEgressNamespaces spec operator \<noteq> []
   \<and> '''' \<notin> set (ResolveLLMEgressNamespaces spec operator)
   \<and> ResolveEgressPorts ports oports =
       (if ports \<noteq> [] then ports else if oports \<noteq> [] then oports else DefaultEgressPorts)"
  by (auto simp: ResolveLLMEgressNamespaces_def ResolveEgressPorts_def Let_def compact_filter
      DefaultLLMNamespace_def)

end
