(* ===== verification/Rbac.thy ===== *)
theory Rbac
  imports Resources
begin

text \<open>
  \<open>pkg/security/rbac.go\<close>: the ServiceAccount, Role and RoleBinding of a workspace, and what they
  let the workspace pod do. Authorization is the documented one of Kubernetes RBAC: access is
  the union of the rules of the roles that a binding of the namespace gives to the subject.
\<close>

section \<open>Builders\<close>

definition security_ServiceAccountName :: "string \<Rightarrow> string" where
  "security_ServiceAccountName userID = userID @ ''-workspace''"

definition rbac_labels :: "string \<Rightarrow> labels" where
  "rbac_labels userID = [(''app'', ''workspace''), (''user'', userID), (''managed-by'', ''devplane'')]"

definition BuildServiceAccount :: "k8s_lib \<Rightarrow> workspace \<Rightarrow> service_account res" where
  "BuildServiceAccount lib ws =
     (let userID = ws_user_id ws;
          sa = \<lparr>sa_meta = meta (security_ServiceAccountName userID) (ws_namespace ws) (rbac_labels userID)\<rparr>
      in case lib_set_owner lib ws (sa_meta sa) of
           Inl e \<Rightarrow> Inl (errorf_w ''set ServiceAccount owner reference'' e)
         | Inr m \<Rightarrow> Inr (sa\<lparr>sa_meta := m\<rparr>))"

definition workspace_rules :: "policy_rule list" where
  "workspace_rules =
     [\<lparr>pr_api_groups = [''''],
       pr_resources = [''pods'', ''services'', ''configmaps'', ''events'', ''endpoints''],
       pr_verbs = [''get'', ''list'', ''watch'']\<rparr>,
      \<lparr>pr_api_groups = [''''], pr_resources = [''pods/log''], pr_verbs = [''get'', ''list'']\<rparr>,
      \<lparr>pr_api_groups = [''apps''],
       pr_resources = [''deployments'', ''replicasets'', ''statefulsets'', ''daemonsets''],
       pr_verbs = [''get'', ''list'', ''watch'']\<rparr>,
      \<lparr>pr_api_groups = [''workspace.devplane.io''], pr_resources = [''workspaces''], pr_verbs = [''get'']\<rparr>]"

definition BuildRole :: "k8s_lib \<Rightarrow> workspace \<Rightarrow> role res" where
  "BuildRole lib ws =
     (let userID = ws_user_id ws;
          role = \<lparr>role_meta = meta (security_ServiceAccountName userID) (ws_namespace ws) (rbac_labels userID),
                  role_rules = workspace_rules\<rparr>
      in case lib_set_owner lib ws (role_meta role) of
           Inl e \<Rightarrow> Inl (errorf_w ''set Role owner reference'' e)
         | Inr m \<Rightarrow> Inr (role\<lparr>role_meta := m\<rparr>))"

abbreviation ServiceAccountKind :: string where "ServiceAccountKind \<equiv> ''ServiceAccount''"
abbreviation rbac_GroupName :: string where "rbac_GroupName \<equiv> ''rbac.authorization.k8s.io''"

definition BuildRoleBinding :: "k8s_lib \<Rightarrow> workspace \<Rightarrow> role_binding res" where
  "BuildRoleBinding lib ws =
     (let userID = ws_user_id ws;
          saName = security_ServiceAccountName userID;
          rb = \<lparr>rb_meta = meta saName (ws_namespace ws) (rbac_labels userID),
                rb_subjects = [\<lparr>sub_kind = ServiceAccountKind, sub_name = saName, sub_namespace = ws_namespace ws\<rparr>],
                rb_role_ref = \<lparr>rr_api_group = rbac_GroupName, rr_kind = ''Role'', rr_name = saName\<rparr>\<rparr>
      in case lib_set_owner lib ws (rb_meta rb) of
           Inl e \<Rightarrow> Inl (errorf_w ''set RoleBinding owner reference'' e)
         | Inr m \<Rightarrow> Inr (rb\<lparr>rb_meta := m\<rparr>))"

section \<open>What a role grants\<close>

text \<open>A rule list entry matches a request value when it is equal to it or the wildcard.\<close>

definition rule_entry :: "string list \<Rightarrow> string \<Rightarrow> bool" where
  "rule_entry xs x \<longleftrightarrow> x \<in> set xs \<or> ''*'' \<in> set xs"

definition rule_grants :: "policy_rule \<Rightarrow> string \<Rightarrow> string \<Rightarrow> string \<Rightarrow> bool" where
  "rule_grants r grp res verb \<longleftrightarrow> rule_entry (pr_api_groups r) grp \<and> rule_entry (pr_resources r) res
     \<and> rule_entry (pr_verbs r) verb"

text \<open>
  May the ServiceAccount \<open>sa\<close> of namespace \<open>ns\<close> use the verb on the resource in namespace \<open>tns\<close>,
  under these roles and bindings?
\<close>

definition rbac_allows ::
  "role list \<Rightarrow> role_binding list \<Rightarrow> string \<Rightarrow> string \<Rightarrow> string \<Rightarrow> string \<Rightarrow> string \<Rightarrow> string \<Rightarrow> bool" where
  "rbac_allows roles binds ns sa tns grp res verb \<longleftrightarrow>
     list_ex (\<lambda>b. mt_namespace (rb_meta b) = tns
       \<and> list_ex (\<lambda>s. sub_kind s = ServiceAccountKind \<and> sub_name s = sa \<and> sub_namespace s = ns) (rb_subjects b)
       \<and> rr_kind (rb_role_ref b) = ''Role''
       \<and> list_ex (\<lambda>r. mt_namespace (role_meta r) = tns \<and> mt_name (role_meta r) = rr_name (rb_role_ref b)
            \<and> list_ex (\<lambda>u. rule_grants u grp res verb) (role_rules r)) roles) binds"

text \<open>The access the architecture document promises: reading, and no secrets.\<close>

definition readable :: "string \<Rightarrow> string \<Rightarrow> string \<Rightarrow> bool" where
  "readable grp res verb \<longleftrightarrow>
     grp = '''' \<and> res \<in> {''pods'', ''services'', ''configmaps'', ''events'', ''endpoints''}
       \<and> verb \<in> {''get'', ''list'', ''watch''}
     \<or> grp = '''' \<and> res = ''pods/log'' \<and> verb \<in> {''get'', ''list''}
     \<or> grp = ''apps'' \<and> res \<in> {''deployments'', ''replicasets'', ''statefulsets'', ''daemonsets''}
       \<and> verb \<in> {''get'', ''list'', ''watch''}
     \<or> grp = ''workspace.devplane.io'' \<and> res = ''workspaces'' \<and> verb = ''get''"

lemma rules_readable: "list_ex (\<lambda>u. rule_grants u grp res verb) workspace_rules \<longleftrightarrow> readable grp res verb"
  unfolding workspace_rules_def rule_grants_def rule_entry_def readable_def by simp

lemma readable_verbs: "readable grp res verb \<Longrightarrow> verb \<in> {''get'', ''list'', ''watch''} \<and> res \<noteq> ''secrets''"
  by (auto simp: readable_def)

lemma BuildRole_Inr:
  "BuildRole lib ws = Inr r \<longleftrightarrow> (\<exists>m. lib_set_owner lib ws
      (meta (security_ServiceAccountName (ws_user_id ws)) (ws_namespace ws) (rbac_labels (ws_user_id ws))) = Inr m
      \<and> r = \<lparr>role_meta = m, role_rules = workspace_rules\<rparr>)"
  by (auto simp: BuildRole_def Let_def split: sum.splits)

lemma BuildRoleBinding_Inr:
  "BuildRoleBinding lib ws = Inr b \<longleftrightarrow> (\<exists>m. lib_set_owner lib ws
      (meta (security_ServiceAccountName (ws_user_id ws)) (ws_namespace ws) (rbac_labels (ws_user_id ws))) = Inr m
      \<and> b = \<lparr>rb_meta = m,
         rb_subjects = [\<lparr>sub_kind = ServiceAccountKind, sub_name = security_ServiceAccountName (ws_user_id ws),
           sub_namespace = ws_namespace ws\<rparr>],
         rb_role_ref = \<lparr>rr_api_group = rbac_GroupName, rr_kind = ''Role'',
           rr_name = security_ServiceAccountName (ws_user_id ws)\<rparr>\<rparr>)"
  by (auto simp: BuildRoleBinding_def Let_def split: sum.splits)

context owner_lib
begin

lemma workspace_access:
  assumes "BuildRole lib ws = Inr r" and "BuildRoleBinding lib ws = Inr b" and "lib_set_owner lib = set_owner"
  shows "rbac_allows [r] [b] ns sa tns grp res verb \<longleftrightarrow>
     sa = ServiceAccountName (ws_user_id ws) \<and> ns = ws_namespace ws \<and> tns = ws_namespace ws
     \<and> readable grp res verb"
proof -
  have nm: "security_ServiceAccountName u = ServiceAccountName u" for u
    by (simp add: security_ServiceAccountName_def ServiceAccountName_def)
  show ?thesis
    using assms by (auto simp: BuildRole_Inr BuildRoleBinding_Inr rbac_allows_def rules_readable
        set_owner_name set_owner_namespace nm)
qed

end

section \<open>Properties\<close>

text \<open>
  C19: what a workspace pod may do with its in-cluster credentials. The Role and RoleBinding of
  a workspace give the ServiceAccount the pod runs under, and no other account, exactly the
  read access of the table, in the workspace's namespace only: a permitted verb is get, list
  or watch, and Secrets are never permitted.
\<close>

theorem workspace_pod_reads_only:
  assumes "owner_lib (lib_set_owner lib)"
    and "BuildRole lib ws = Inr r" and "BuildRoleBinding lib ws = Inr b"
    and "BuildPod lib ws pvcName img opts = Inr p"
  shows "(rbac_allows [r] [b] (mt_namespace (pod_meta p)) (pod_service_account p) tns grp res verb
       \<longleftrightarrow> tns = ws_namespace ws \<and> readable grp res verb)
     \<and> (rbac_allows [r] [b] ns sa tns grp res verb \<longrightarrow>
         sa = pod_service_account p \<and> ns = mt_namespace (pod_meta p)
         \<and> verb \<in> {''get'', ''list'', ''watch''} \<and> res \<noteq> ''secrets'')"
proof -
  have p: "mt_namespace (pod_meta p) = ws_namespace ws \<and> pod_service_account p = ServiceAccountName (ws_user_id ws)"
    using assms(4) by (rule BuildPod_cases) (simp add: owner_lib.set_owner_namespace [OF assms(1)])
  show ?thesis
    using p readable_verbs by (auto simp: owner_lib.workspace_access [OF assms(1-3) refl])
qed

lemma sample_rbac:
  "\<exists>r. BuildRole sample_lib (sample_ws u) = Inr r" "\<exists>b. BuildRoleBinding sample_lib (sample_ws u) = Inr b"
  "\<exists>p. BuildPod sample_lib (sample_ws u) c img opts = Inr p"
  by (simp_all add: BuildRole_def BuildRoleBinding_def BuildPod_def Let_def set_controller_reference_def
      sample_ws_def sample_spec_def sample_quantity_def char_class_defs)

theorem workspace_pod_reads_only_witness:
  "\<exists>r b p opts. BuildRole sample_lib (sample_ws ''alice'') = Inr r
     \<and> BuildRoleBinding sample_lib (sample_ws ''alice'') = Inr b
     \<and> BuildPod sample_lib (sample_ws ''alice'') ''c'' ''img'' opts = Inr p
     \<and> rbac_allows [r] [b] (mt_namespace (pod_meta p)) (pod_service_account p) ''devplane'' '''' ''pods'' ''get''
     \<and> \<not> rbac_allows [r] [b] (mt_namespace (pod_meta p)) (pod_service_account p) ''devplane'' '''' ''secrets'' ''get''"
proof -
  obtain r b p opts where ok: "BuildRole sample_lib (sample_ws ''alice'') = Inr r"
    "BuildRoleBinding sample_lib (sample_ws ''alice'') = Inr b"
    "BuildPod sample_lib (sample_ws ''alice'') ''c'' ''img'' opts = Inr p"
    using sample_rbac by metis
  have o: "owner_lib (lib_set_owner sample_lib)"
    by (simp add: ctrl_owner.owner_lib_axioms)
  have "ws_namespace (sample_ws ''alice'') = ''devplane''"
    by (simp add: sample_ws_def)
  then show ?thesis
    using ok workspace_pod_reads_only [OF o ok, of "''devplane''" "''''" "''pods''" "''get''"]
      workspace_pod_reads_only [OF o ok, of "''devplane''" "''''" "''secrets''" "''get''"]
    by (auto simp: readable_def)
qed

end
