(* ===== verification/Diagnostics.thy ===== *)
theory Diagnostics
  imports Kube_Types
begin

text \<open>
  \<open>pkg/workspace/diagnostics.go\<close> and \<open>pkg/workspace/status_summary.go\<close>: the classification of
  API errors into remediation hints and condition reasons, and the one place that writes the
  Workspace status fields.
\<close>

section \<open>Remediation hints\<close>

text \<open>The dash of the messages in UTF-8.\<close>

abbreviation em_dash :: string where
  "em_dash \<equiv> [CHR 0xE2, CHR 0x80, CHR 0x94]"

definition RemediationRBAC :: string where
  "RemediationRBAC = ''Confirm the operator ServiceAccount has RBAC to manage ServiceAccounts, Roles, and RoleBindings in this namespace (see DevPlane operator ClusterRole/RoleBinding).''"
definition RemediationNetPol :: string where
  "RemediationNetPol = ''Confirm the operator can create and update NetworkPolicies in this namespace.''"
definition RemediationPVCGet :: string where
  "RemediationPVCGet = ''Check API server connectivity. If errors mention timeout, investigate apiserver load and admission webhook latency.''"
definition RemediationPVCCreate :: string where
  "RemediationPVCCreate = ''Confirm the operator can create PersistentVolumeClaims in this namespace and that spec.persistence.storageClass exists.''"
definition RemediationPVCLost :: string where
  "RemediationPVCLost = ''PVC entered Lost '' @ em_dash @ '' check storage backend, reclaim policy, and underlying volume health; you may need to delete the PVC and recreate the Workspace.''"
definition RemediationPodGet :: string where
  "RemediationPodGet = ''Check API server connectivity and that the operator can read Pods in this namespace.''"
definition RemediationPodCreate :: string where
  "RemediationPodCreate = ''Confirm the operator can create Pods. If an admission webhook is mentioned, review that webhook'' @ [CHR 0x27] @ ''s logs and failurePolicy.''"
definition RemediationService :: string where
  "RemediationService = ''Confirm the operator can create Services and that the Workspace namespace allows ClusterIP=None headless services.''"
definition RemediationImagePull :: string where
  "RemediationImagePull = ''Verify WORKSPACE_IMAGE (or the image in the pod spec) exists, is pullable from nodes, and registry credentials are configured if the registry is private.''"
definition RemediationCrashLoop :: string where
  "RemediationCrashLoop = ''Inspect pod logs and previous container logs; fix startup command, config, or resource limits in the workspace image or Workspace spec.''"
definition RemediationPodFailed :: string where
  "RemediationPodFailed = ''Inspect pod status and logs; adjust resource limits or fix the workload.''"
definition RemediationPodUnknown :: string where
  "RemediationPodUnknown = ''Check node and kubelet health; Unknown often means the node is unreachable or the kubelet stopped reporting.''"
definition RemediationValidation :: string where
  "RemediationValidation = ''Fix the Workspace spec fields shown in status.message and re-apply the manifest.''"
definition RemediationForbidden :: string where
  "RemediationForbidden = ''Kubernetes returned Forbidden '' @ em_dash @ '' grant the operator RBAC required for the resource in this namespace.''"
definition RemediationTimeout :: string where
  "RemediationTimeout = ''Request timed out '' @ em_dash @ '' check apiserver connectivity, etcd health, and cluster load.''"
definition RemediationWebhook :: string where
  "RemediationWebhook = ''An admission webhook rejected or blocked the request '' @ em_dash @ '' inspect validating/mutating webhook configuration and webhook pod logs.''"
definition RemediationAPIError :: string where
  "RemediationAPIError = ''See status.message for the Kubernetes API error details.''"

lemmas remediation_defs = RemediationRBAC_def RemediationNetPol_def RemediationPVCGet_def
  RemediationPVCCreate_def RemediationPVCLost_def RemediationPodGet_def RemediationPodCreate_def
  RemediationService_def RemediationImagePull_def RemediationCrashLoop_def RemediationPodFailed_def
  RemediationPodUnknown_def RemediationValidation_def RemediationForbidden_def
  RemediationTimeout_def RemediationWebhook_def RemediationAPIError_def

section \<open>Condition reasons\<close>

abbreviation ReasonRunning :: string where "ReasonRunning \<equiv> ''Running''"
abbreviation ReasonProgressing :: string where "ReasonProgressing \<equiv> ''Progressing''"
abbreviation ReasonStopped :: string where "ReasonStopped \<equiv> ''Stopped''"
abbreviation ReasonFailed :: string where "ReasonFailed \<equiv> ''Failed''"
abbreviation ReasonValidationFailed :: string where "ReasonValidationFailed \<equiv> ''ValidationFailed''"
abbreviation ReasonRBACReconcileFailed :: string where "ReasonRBACReconcileFailed \<equiv> ''RBACReconcileFailed''"
abbreviation ReasonNetPolReconcileFailed :: string where "ReasonNetPolReconcileFailed \<equiv> ''NetworkPolicyReconcileFailed''"
abbreviation ReasonPVCReadFailed :: string where "ReasonPVCReadFailed \<equiv> ''PVCReadFailed''"
abbreviation ReasonPVCCreateFailed :: string where "ReasonPVCCreateFailed \<equiv> ''PVCCreateFailed''"
abbreviation ReasonPVCLost :: string where "ReasonPVCLost \<equiv> ''PVCLost''"
abbreviation ReasonPodReadFailed :: string where "ReasonPodReadFailed \<equiv> ''PodReadFailed''"
abbreviation ReasonPodCreateFailed :: string where "ReasonPodCreateFailed \<equiv> ''PodCreateFailed''"
abbreviation ReasonServiceFailed :: string where "ReasonServiceFailed \<equiv> ''ServiceEnsureFailed''"
abbreviation ReasonPodFailed :: string where "ReasonPodFailed \<equiv> ''PodFailed''"
abbreviation ReasonPodUnknown :: string where "ReasonPodUnknown \<equiv> ''PodUnknown''"
abbreviation ReasonImagePullBackOff :: string where "ReasonImagePullBackOff \<equiv> ''ImagePullBackOff''"
abbreviation ReasonErrImagePull :: string where "ReasonErrImagePull \<equiv> ''ErrImagePull''"
abbreviation ReasonInvalidImageName :: string where "ReasonInvalidImageName \<equiv> ''InvalidImageName''"
abbreviation ReasonCrashLoopBackOff :: string where "ReasonCrashLoopBackOff \<equiv> ''CrashLoopBackOff''"
abbreviation ReasonForbidden :: string where "ReasonForbidden \<equiv> ''Forbidden''"
abbreviation ReasonTimeout :: string where "ReasonTimeout \<equiv> ''Timeout''"
abbreviation ReasonAdmissionWebhook :: string where "ReasonAdmissionWebhook \<equiv> ''AdmissionWebhook''"
abbreviation ReasonAPIError :: string where "ReasonAPIError \<equiv> ''APIError''"

section \<open>Error classification\<close>

text \<open>\<open>None\<close> is the nil error. The result is the pair of remediation and reason.\<close>

definition ClassifyAPIError :: "k8s_lib \<Rightarrow> go_error option \<Rightarrow> string \<times> string" where
  "ClassifyAPIError lib err = (case err of
     None \<Rightarrow> ('''', ReasonAPIError)
   | Some e \<Rightarrow>
       if errors_is e Forbidden then (RemediationForbidden, ReasonForbidden)
       else if errors_is e Timeout \<or> errors_is e DeadlineExceeded then (RemediationTimeout, ReasonTimeout)
       else if errors_is e ServiceUnavailable then (RemediationTimeout, ReasonTimeout)
       else let msg = ToLower (lib_uni_lower lib) (err_text e)
            in if Contains msg ''webhook'' \<or> Contains msg ''admission''
               then (RemediationWebhook, ReasonAdmissionWebhook)
               else (RemediationAPIError, ReasonAPIError))"

definition ErrorDetailsForService :: "k8s_lib \<Rightarrow> go_error \<Rightarrow> string \<times> string" where
  "ErrorDetailsForService lib err = (case ClassifyAPIError lib (Some err) of (rem, r) \<Rightarrow>
     if r \<noteq> ReasonAPIError then (rem, r) else (RemediationService, ReasonServiceFailed))"

definition ErrorDetailsForRBAC :: "k8s_lib \<Rightarrow> go_error \<Rightarrow> string \<times> string" where
  "ErrorDetailsForRBAC lib err = (case ClassifyAPIError lib (Some err) of (rem, r) \<Rightarrow>
     if r \<noteq> ReasonAPIError then (rem, r) else (RemediationRBAC, ReasonRBACReconcileFailed))"

definition ErrorDetailsForNetworkPolicy :: "k8s_lib \<Rightarrow> go_error \<Rightarrow> string \<times> string" where
  "ErrorDetailsForNetworkPolicy lib err = (case ClassifyAPIError lib (Some err) of (rem, r) \<Rightarrow>
     if r \<noteq> ReasonAPIError then (rem, r) else (RemediationNetPol, ReasonNetPolReconcileFailed))"

definition ErrorDetailsForPVCGet :: "k8s_lib \<Rightarrow> go_error \<Rightarrow> string \<times> string" where
  "ErrorDetailsForPVCGet lib err = (case ClassifyAPIError lib (Some err) of (rem, r) \<Rightarrow>
     if r \<noteq> ReasonAPIError then (rem, r) else (RemediationPVCGet, ReasonPVCReadFailed))"

definition ErrorDetailsForPVCCreate :: "k8s_lib \<Rightarrow> go_error \<Rightarrow> string \<times> string" where
  "ErrorDetailsForPVCCreate lib err = (case ClassifyAPIError lib (Some err) of (rem, r) \<Rightarrow>
     if r \<noteq> ReasonAPIError then (rem, r) else (RemediationPVCCreate, ReasonPVCCreateFailed))"

definition ErrorDetailsForPodGet :: "k8s_lib \<Rightarrow> go_error \<Rightarrow> string \<times> string" where
  "ErrorDetailsForPodGet lib err = (case ClassifyAPIError lib (Some err) of (rem, r) \<Rightarrow>
     if r \<noteq> ReasonAPIError then (rem, r) else (RemediationPodGet, ReasonPodReadFailed))"

definition ErrorDetailsForPodCreate :: "k8s_lib \<Rightarrow> go_error \<Rightarrow> string \<times> string" where
  "ErrorDetailsForPodCreate lib err = (case ClassifyAPIError lib (Some err) of (rem, r) \<Rightarrow>
     if r \<noteq> ReasonAPIError then (rem, r) else (RemediationPodCreate, ReasonPodCreateFailed))"

definition RemediationForPodWaitingReason :: "string \<Rightarrow> string \<times> string" where
  "RemediationForPodWaitingReason waitingReason =
     (if waitingReason = ''ImagePullBackOff'' then (RemediationImagePull, ReasonImagePullBackOff)
      else if waitingReason = ''ErrImagePull'' then (RemediationImagePull, ReasonErrImagePull)
      else if waitingReason = ''InvalidImageName'' then (RemediationImagePull, ReasonInvalidImageName)
      else if waitingReason = ''CrashLoopBackOff'' then (RemediationCrashLoop, ReasonCrashLoopBackOff)
      else if waitingReason \<noteq> '''' then (RemediationPodFailed, waitingReason)
      else (RemediationPodFailed, ReasonFailed))"

section \<open>Status summary\<close>

abbreviation ConditionTypeReady :: string where "ConditionTypeReady \<equiv> ''Ready''"

record status_summary =
  sum_phase :: workspace_phase
  sum_pod_name :: string
  sum_service_endpoint :: string
  sum_message :: string
  sum_message_override :: string
  sum_remediation_hint :: string
  sum_ready_reason :: string

text \<open>A \<open>StatusSummary\<close> literal with only a phase.\<close>

definition summary :: "workspace_phase \<Rightarrow> status_summary" where
  "summary ph = \<lparr>sum_phase = ph, sum_pod_name = '''', sum_service_endpoint = '''', sum_message = '''',
     sum_message_override = '''', sum_remediation_hint = '''', sum_ready_reason = ''''\<rparr>"

definition defaultReadyReason :: "workspace_phase \<Rightarrow> string" where
  "defaultReadyReason phase =
     (if phase = WorkspacePhaseRunning then ReasonRunning
      else if phase = WorkspacePhaseCreating then ReasonProgressing
      else if phase = WorkspacePhaseFailed then ReasonFailed
      else if phase = WorkspacePhaseStopped then ReasonStopped
      else ReasonProgressing)"

definition syncReadyCondition :: "k8s_lib \<Rightarrow> workspace \<Rightarrow> status_summary \<Rightarrow> string \<Rightarrow> workspace" where
  "syncReadyCondition lib ws smry msg =
     (let reason = (if sum_ready_reason smry = '''' then defaultReadyReason (sum_phase smry)
                    else sum_ready_reason smry);
          ready = (if sum_phase smry = WorkspacePhaseRunning then ConditionTrue else ConditionFalse);
          condMsg = (if msg = '''' \<and> sum_phase smry = WorkspacePhaseRunning
                     then ''Workspace pod is ready.'' else msg);
          c = \<lparr>cond_type = ConditionTypeReady, cond_status = ready,
               cond_generation = mt_generation (ws_meta ws), cond_reason = reason,
               cond_message = condMsg, cond_transition = None\<rparr>
      in ws\<lparr>ws_status := (ws_status ws)\<lparr>st_conditions :=
           lib_set_condition lib (st_conditions (ws_status ws)) c\<rparr>\<rparr>)"

definition ApplyStatusSummary :: "k8s_lib \<Rightarrow> workspace \<Rightarrow> status_summary \<Rightarrow> workspace" where
  "ApplyStatusSummary lib ws smry =
     (let msg = (if sum_message_override smry \<noteq> '''' then sum_message_override smry else sum_message smry);
          ws1 = ws\<lparr>ws_status := (ws_status ws)\<lparr>st_phase := sum_phase smry,
            st_pod_name := sum_pod_name smry, st_service_endpoint := sum_service_endpoint smry,
            st_message := msg, st_remediation_hint := sum_remediation_hint smry\<rparr>\<rparr>
      in syncReadyCondition lib ws1 smry msg)"

section \<open>Lemmas\<close>

lemma ApplyStatusSummary_simps [simp]:
  "st_phase (ws_status (ApplyStatusSummary lib ws smry)) = sum_phase smry"
  "st_pod_name (ws_status (ApplyStatusSummary lib ws smry)) = sum_pod_name smry"
  "st_service_endpoint (ws_status (ApplyStatusSummary lib ws smry)) = sum_service_endpoint smry"
  "st_message (ws_status (ApplyStatusSummary lib ws smry)) =
     (if sum_message_override smry \<noteq> '''' then sum_message_override smry else sum_message smry)"
  "st_remediation_hint (ws_status (ApplyStatusSummary lib ws smry)) = sum_remediation_hint smry"
  "st_last_accessed (ws_status (ApplyStatusSummary lib ws smry)) = st_last_accessed (ws_status ws)"
  "ws_meta (ApplyStatusSummary lib ws smry) = ws_meta ws"
  "ws_spec (ApplyStatusSummary lib ws smry) = ws_spec ws"
  by (simp_all add: ApplyStatusSummary_def syncReadyCondition_def Let_def)

text \<open>The Ready condition of a list of conditions.\<close>

definition ready_status :: "condition list \<Rightarrow> string option" where
  "ready_status cs = map_option cond_status (find (\<lambda>c. cond_type c = ConditionTypeReady) cs)"

lemma find_filter: "find P xs = (case filter P xs of [] \<Rightarrow> None | x # _ \<Rightarrow> Some x)"
  by (induction xs) auto

text \<open>Clients of \<open>SetStatusCondition\<close> rely on its contract only.\<close>

context condition_lib
begin

lemma ready_status_set:
  assumes "cond_type c = ConditionTypeReady"
  shows "ready_status (set_condition cs c) = Some (cond_status c)"
proof -
  obtain d where d: "filter (\<lambda>x. cond_type x = cond_type c) (set_condition cs c) = [d]" "cond_same d c"
    using set_condition_new [of c cs] by blast
  then have "find (\<lambda>x. cond_type x = ConditionTypeReady) (set_condition cs c) = Some d"
    using assms by (simp add: find_filter)
  moreover have "cond_status d = cond_status c"
    using d(2) unfolding cond_same_def by (metis condition.select_convs(2) condition.surjective
        condition.update_convs(6))
  ultimately show ?thesis by (simp add: ready_status_def)
qed

lemma ready_iff_running:
  assumes "lib_set_condition lib = set_condition"
  shows "ready_status (st_conditions (ws_status (ApplyStatusSummary lib ws smry))) = Some ConditionTrue
     \<longleftrightarrow> sum_phase smry = WorkspacePhaseRunning"
  by (simp add: ApplyStatusSummary_def syncReadyCondition_def Let_def ready_status_set assms)

lemma other_conditions_kept:
  assumes "lib_set_condition lib = set_condition"
  shows "filter (\<lambda>c. cond_type c \<noteq> ConditionTypeReady) (st_conditions (ws_status (ApplyStatusSummary lib ws smry)))
     = filter (\<lambda>c. cond_type c \<noteq> ConditionTypeReady) (st_conditions (ws_status ws))"
  using set_condition_others [of "\<lparr>cond_type = ConditionTypeReady, cond_status = x, cond_generation = g,
      cond_reason = r, cond_message = m, cond_transition = None\<rparr>" for x g r m]
  by (simp add: ApplyStatusSummary_def syncReadyCondition_def Let_def assms)

end

lemma ClassifyAPIError_nonempty: "fst (ClassifyAPIError lib (Some e)) \<noteq> ''''"
  by (simp add: ClassifyAPIError_def Let_def remediation_defs)

lemmas error_details_defs = ErrorDetailsForService_def ErrorDetailsForRBAC_def
  ErrorDetailsForNetworkPolicy_def ErrorDetailsForPVCGet_def ErrorDetailsForPVCCreate_def
  ErrorDetailsForPodGet_def ErrorDetailsForPodCreate_def

section \<open>Properties\<close>

text \<open>
  The Ready condition mirrors the phase. With a \<open>SetStatusCondition\<close> that keeps its
  contract, after \<open>ApplyStatusSummary\<close> the Ready condition is True exactly when the phase
  written is Running; conditions of other types, the spec, the metadata and \<open>lastAccessed\<close> are
  untouched.
\<close>

lemma status_ready_mirrors_phase:
  assumes "condition_lib (lib_set_condition lib)"
  shows "(ready_status (st_conditions (ws_status (ApplyStatusSummary lib ws smry))) = Some ConditionTrue
       \<longleftrightarrow> ws_phase (ApplyStatusSummary lib ws smry) = WorkspacePhaseRunning)
     \<and> filter (\<lambda>c. cond_type c \<noteq> ConditionTypeReady) (st_conditions (ws_status (ApplyStatusSummary lib ws smry)))
       = filter (\<lambda>c. cond_type c \<noteq> ConditionTypeReady) (st_conditions (ws_status ws))
     \<and> ws_spec (ApplyStatusSummary lib ws smry) = ws_spec ws
     \<and> ws_meta (ApplyStatusSummary lib ws smry) = ws_meta ws
     \<and> st_last_accessed (ws_status (ApplyStatusSummary lib ws smry)) = st_last_accessed (ws_status ws)"
  using condition_lib.ready_iff_running [OF assms refl]
    condition_lib.other_conditions_kept [OF assms refl] by simp

text \<open>The operations of the controller that classify an error, with their own hint and reason.\<close>

definition error_details_table :: "((k8s_lib \<Rightarrow> go_error \<Rightarrow> string \<times> string) \<times> string \<times> string) list" where
  "error_details_table =
     [(ErrorDetailsForService, RemediationService, ReasonServiceFailed),
      (ErrorDetailsForRBAC, RemediationRBAC, ReasonRBACReconcileFailed),
      (ErrorDetailsForNetworkPolicy, RemediationNetPol, ReasonNetPolReconcileFailed),
      (ErrorDetailsForPVCGet, RemediationPVCGet, ReasonPVCReadFailed),
      (ErrorDetailsForPVCCreate, RemediationPVCCreate, ReasonPVCCreateFailed),
      (ErrorDetailsForPodGet, RemediationPodGet, ReasonPodReadFailed),
      (ErrorDetailsForPodCreate, RemediationPodCreate, ReasonPodCreateFailed)]"

definition mentions_webhook :: "k8s_lib \<Rightarrow> string \<Rightarrow> bool" where
  "mentions_webhook lib t \<longleftrightarrow> Contains (ToLower (lib_uni_lower lib) t) ''webhook''
     \<or> Contains (ToLower (lib_uni_lower lib) t) ''admission''"

text \<open>
  The error classification, for every operation that uses it. An error is reported by the
  first matching class: Forbidden, then any kind of timeout or unavailability, then a mention
  of a webhook or an admission controller in its text, and only an error with none of these
  gets the hint and the reason of the operation that failed. The class survives wrapping, so
  the \<open>ensure ...\<close> prefixes of the controller do not hide it.
\<close>

lemma error_details_precedence:
  assumes "(f, hint, reason) \<in> set error_details_table"
  shows "f lib (errorf_w p e) =
     (if errors_is e Forbidden then (RemediationForbidden, ReasonForbidden)
      else if errors_is e Timeout \<or> errors_is e DeadlineExceeded \<or> errors_is e ServiceUnavailable
        then (RemediationTimeout, ReasonTimeout)
      else if mentions_webhook lib (p @ '': '' @ err_text e) then (RemediationWebhook, ReasonAdmissionWebhook)
      else (hint, reason))"
  using assms unfolding error_details_table_def
  by (auto simp: error_details_defs ClassifyAPIError_def Let_def mentions_webhook_def)

end
