(* ===== verification/Controller.thy ===== *)
theory Controller
  imports Netpol Rbac Diagnostics Kube_Client
begin

text \<open>
  \<open>controllers/workspace_controller.go\<close> and the observability helpers it calls
  (\<open>pkg/observability\<close>): the reconciler of a Workspace. \<open>Reconcile\<close> is split at its comments
  into stages, each a definition that ends with the early returns of its part and otherwise
  goes on with the next stage. A stage takes the objects the code has fetched so far; every
  call to the API server goes through the client and is on the trace.
\<close>

section \<open>Observability\<close>

text \<open>Keys and values of the records of the operator; the gateway has its own with some of the names.\<close>

abbreviation obs_LogKeyComponent :: string where "obs_LogKeyComponent \<equiv> ''devplane.component''"
abbreviation obs_LogKeyEvent :: string where "obs_LogKeyEvent \<equiv> ''devplane.event''"
abbreviation obs_LogKeyWorkspace :: string where "obs_LogKeyWorkspace \<equiv> ''workspace''"
abbreviation obs_LogKeyNamespace :: string where "obs_LogKeyNamespace \<equiv> ''namespace''"
abbreviation obs_LogKeyUserID :: string where "obs_LogKeyUserID \<equiv> ''userId''"
abbreviation LogKeyFromPhase :: string where "LogKeyFromPhase \<equiv> ''fromPhase''"
abbreviation LogKeyToPhase :: string where "LogKeyToPhase \<equiv> ''toPhase''"
abbreviation obs_LogKeyAuditSchema :: string where "obs_LogKeyAuditSchema \<equiv> ''devplane.audit.schema_version''"
abbreviation obs_AuditSchemaVersion :: string where "obs_AuditSchemaVersion \<equiv> ''1''"
abbreviation ComponentWorkspaceController :: string where "ComponentWorkspaceController \<equiv> ''workspace-controller''"
abbreviation EventPhaseTransition :: string where "EventPhaseTransition \<equiv> ''devplane.audit.workspace.phase_transition''"

definition PhaseLabel :: "string \<Rightarrow> string" where
  "PhaseLabel p = (if p = '''' then ''None'' else p)"

definition LogWorkspacePhaseTransition ::
  "workspace option \<Rightarrow> workspace_phase \<Rightarrow> workspace_phase \<Rightarrow> string \<Rightarrow> string \<Rightarrow> string \<Rightarrow> ('w, unit) kube" where
  "LogWorkspacePhaseTransition wo frm to podName serviceEndpoint message = (case wo of
     None \<Rightarrow> State_Monad.return ()
   | Some ws \<Rightarrow>
      (let uid = (if ws_user_id ws \<noteq> '''' then ws_user_id ws else '''') in
       emit (LogRecord ''workspace phase transition''
         [(obs_LogKeyAuditSchema, obs_AuditSchemaVersion),
          (obs_LogKeyComponent, ComponentWorkspaceController),
          (obs_LogKeyEvent, EventPhaseTransition),
          (obs_LogKeyWorkspace, mt_name (ws_meta ws)), (obs_LogKeyNamespace, ws_namespace ws), (obs_LogKeyUserID, uid),
          (LogKeyFromPhase, frm), (LogKeyToPhase, to), (''pod'', podName),
          (''serviceEndpoint'', serviceEndpoint), (''message'', message)])))"

section \<open>The reconciler\<close>

definition workspaceFinalizer :: string where
  "workspaceFinalizer = ''workspace.devplane.io/finalizer''"

text \<open>The fields of \<open>WorkspaceReconciler\<close>, with the client and the scheme as separate arguments.\<close>

record reconciler =
  rc_workspace_image :: string
  rc_llm_namespaces :: "string list"
  rc_egress_ports :: "int list"
  rc_idle_timeout :: duration
  rc_gateway_namespace :: string
  rc_default_ca_bundle :: string
  rc_pip_index_url :: string
  rc_pip_trusted_host :: string
  rc_npm_registry :: string
  rc_has_recorder :: bool

record ctrl_result =
  rq_now :: bool
  rq_after :: duration

type_synonym outcome = "ctrl_result \<times> go_error option"

definition no_requeue :: ctrl_result where
  "no_requeue = \<lparr>rq_now = False, rq_after = 0\<rparr>"

definition requeue_after :: "duration \<Rightarrow> ctrl_result" where
  "requeue_after d = \<lparr>rq_now = False, rq_after = d\<rparr>"

text \<open>\<open>fmt.Errorf("p: %w (status patch: %v)", err, updateErr)\<close>.\<close>

definition errorf_patch :: "string \<Rightarrow> go_error \<Rightarrow> go_error \<Rightarrow> go_error" where
  "errorf_patch p e u = \<lparr>err_text = p @ '': '' @ err_text e @ '' (status patch: '' @ err_text u @ '')'',
     err_kinds = err_kinds e\<rparr>"

definition em_dash :: string where
  "em_dash = [CHR 0xE2, CHR 0x80, CHR 0x94]"

definition effectiveIdleTimeout :: "workspace \<Rightarrow> duration \<Rightarrow> duration" where
  "effectiveIdleTimeout ws operatorDefault =
     (let raw = TrimSpace (life_idle_timeout (spec_lifecycle (ws_spec ws))) in
      if raw = '''' then operatorDefault
      else if raw = ''0'' then 0
      else case ParseDuration raw of Inl _ \<Rightarrow> operatorDefault | Inr d \<Rightarrow> d)"

fun ready_condition :: "pod_condition list \<Rightarrow> bool" where
  "ready_condition [] = False"
| "ready_condition (x # xs) =
     (if pc_type x = PodReady then pc_status x = ConditionTrue else ready_condition xs)"

definition isPodReady :: "pod option \<Rightarrow> bool" where
  "isPodReady po = (case po of None \<Rightarrow> False | Some p \<Rightarrow> ready_condition (ps_conditions (pod_status_of p)))"

section \<open>Status\<close>

text \<open>What a successful patch reports when the phase changed.\<close>

definition report_transition ::
  "reconciler \<Rightarrow> workspace \<Rightarrow> workspace_phase \<Rightarrow> status_summary \<Rightarrow> ('w, unit) kube" where
  "report_transition r ws oldPhase smry = do {
     (if oldPhase \<noteq> sum_phase smry then do {
        LogWorkspacePhaseTransition (Some ws) oldPhase (sum_phase smry) (sum_pod_name smry)
          (sum_service_endpoint smry) (st_message (ws_status ws));
        emit (Count ''devplane_workspace_phase_transitions_total''
          [PhaseLabel oldPhase, PhaseLabel (sum_phase smry)])
      } else State_Monad.return ());
     (if rc_has_recorder r \<and> sum_phase smry = WorkspacePhaseFailed \<and> oldPhase \<noteq> sum_phase smry
      then emit (KubeEvent (if sum_ready_reason smry = '''' then ReasonFailed else sum_ready_reason smry)
             (st_message (ws_status ws)))
      else State_Monad.return ())
   }"

definition updateStatus ::
  "k8s_lib \<Rightarrow> 'w kclient \<Rightarrow> reconciler \<Rightarrow> workspace \<Rightarrow> status_summary \<Rightarrow> ('w, go_error option) kube" where
  "updateStatus lib c r ws smry = do {
     let oldPhase = ws_phase ws;
     p \<leftarrow> patch_status c ws (ApplyStatusSummary lib ws smry);
     case p of
       Inl e \<Rightarrow> do {
         emit (Count ''devplane_workspace_status_patch_failures_total'' []);
         State_Monad.return (Some e)
       }
     | Inr ws' \<Rightarrow> do {
         report_transition r ws' oldPhase smry;
         State_Monad.return None
       }
   }"

text \<open>
  The two ways a stage ends after writing the status: return \<open>res\<close> unless the patch fails, or
  return the error that stopped the stage, wrapped with the patch error when that fails too.
\<close>

definition finish_status ::
  "k8s_lib \<Rightarrow> 'w kclient \<Rightarrow> reconciler \<Rightarrow> workspace \<Rightarrow> status_summary \<Rightarrow> ctrl_result \<Rightarrow> ('w, outcome) kube" where
  "finish_status lib c r ws smry res = do {
     u \<leftarrow> updateStatus lib c r ws smry;
     State_Monad.return (case u of Some e \<Rightarrow> (no_requeue, Some e) | None \<Rightarrow> (res, None))
   }"

definition retry_status ::
  "k8s_lib \<Rightarrow> 'w kclient \<Rightarrow> reconciler \<Rightarrow> workspace \<Rightarrow> status_summary \<Rightarrow> string \<Rightarrow> go_error \<Rightarrow> ('w, outcome) kube" where
  "retry_status lib c r ws smry what err = do {
     u \<leftarrow> updateStatus lib c r ws smry;
     State_Monad.return (no_requeue, Some (case u of Some e \<Rightarrow> errorf_patch what err e | None \<Rightarrow> err))
   }"

text \<open>The \<open>StatusSummary\<close> literals: a permanent failure, and progress that keeps pod and endpoint.\<close>

definition failed_summary :: "string \<Rightarrow> string \<Rightarrow> string \<times> string \<Rightarrow> status_summary" where
  "failed_summary pod msg hr = (summary WorkspacePhaseFailed)\<lparr>sum_pod_name := pod, sum_message_override := msg,
     sum_remediation_hint := fst hr, sum_ready_reason := snd hr\<rparr>"

definition creating_summary :: "workspace \<Rightarrow> string \<Rightarrow> string \<times> string \<Rightarrow> status_summary" where
  "creating_summary ws msg hr = (summary WorkspacePhaseCreating)\<lparr>sum_pod_name := st_pod_name (ws_status ws),
     sum_service_endpoint := st_service_endpoint (ws_status ws), sum_message := msg,
     sum_remediation_hint := fst hr, sum_ready_reason := snd hr\<rparr>"

section \<open>RBAC\<close>

definition ensureRBAC :: "k8s_lib \<Rightarrow> 'w kclient \<Rightarrow> workspace \<Rightarrow> ('w, go_error option) kube" where
  "ensureRBAC lib c ws = do {
     let userID = ws_user_id ws;
     let saName = ServiceAccountName userID;
     let rbacLabels = [(''app'', ''workspace''), (''user'', userID), (''managed-by'', ''devplane'')];
     let m0 = meta saName (ws_namespace ws) [];
     x \<leftarrow> ensure_sa c \<lparr>sa_meta = m0\<rparr> (\<lambda>sa.
       case lib_set_owner lib ws ((sa_meta sa)\<lparr>mt_labels := rbacLabels\<rparr>) of
         Inl e \<Rightarrow> Inl e | Inr m \<Rightarrow> Inr (sa\<lparr>sa_meta := m\<rparr>));
     case x of Inl e \<Rightarrow> State_Monad.return (Some (errorf_w ''ensure ServiceAccount'' e)) | Inr _ \<Rightarrow>
     (case BuildRole lib ws of Inl e \<Rightarrow> State_Monad.return (Some (errorf_w ''build Role'' e)) | Inr desiredRole \<Rightarrow> do {
       y \<leftarrow> ensure_role c \<lparr>role_meta = m0, role_rules = []\<rparr> (\<lambda>ro.
         case lib_set_owner lib ws ((role_meta ro)\<lparr>mt_labels := rbacLabels\<rparr>) of
           Inl e \<Rightarrow> Inl e | Inr m \<Rightarrow> Inr (ro\<lparr>role_meta := m, role_rules := role_rules desiredRole\<rparr>));
       case y of Inl e \<Rightarrow> State_Monad.return (Some (errorf_w ''ensure Role'' e)) | Inr _ \<Rightarrow> do {
         z \<leftarrow> ensure_rb c \<lparr>rb_meta = m0, rb_subjects = [],
             rb_role_ref = \<lparr>rr_api_group = '''', rr_kind = '''', rr_name = ''''\<rparr>\<rparr> (\<lambda>rb.
           case lib_set_owner lib ws ((rb_meta rb)\<lparr>mt_labels := rbacLabels\<rparr>) of
             Inl e \<Rightarrow> Inl e
           | Inr m \<Rightarrow> Inr (rb\<lparr>rb_meta := m,
               rb_subjects := [\<lparr>sub_kind = ServiceAccountKind, sub_name = saName, sub_namespace = ws_namespace ws\<rparr>],
               rb_role_ref := \<lparr>rr_api_group = rbac_GroupName, rr_kind = ''Role'', rr_name = saName\<rparr>\<rparr>));
         State_Monad.return (case z of Inl e \<Rightarrow> Some (errorf_w ''ensure RoleBinding'' e) | Inr _ \<Rightarrow> None)
       }
     })
   }"

section \<open>NetworkPolicies\<close>

text \<open>The block that is repeated for each policy: build, then create or update with its spec.\<close>

definition ensure_policy ::
  "k8s_lib \<Rightarrow> 'w kclient \<Rightarrow> workspace \<Rightarrow> string \<Rightarrow> network_policy res \<Rightarrow> ('w, go_error option) kube" where
  "ensure_policy lib c ws what built = (case built of
     Inl e \<Rightarrow> State_Monad.return (Some (errorf_w (''build '' @ what @ '' NetworkPolicy'') e))
   | Inr d \<Rightarrow> do {
       x \<leftarrow> ensure_np c \<lparr>np_meta = meta (mt_name (np_meta d)) (ws_namespace ws) [], np_pod_selector = [],
           np_types = [], np_ingress = [], np_egress = []\<rparr> (\<lambda>np.
         case lib_set_owner lib ws ((np_meta np)\<lparr>mt_labels := mt_labels (np_meta d)\<rparr>) of
           Inl e \<Rightarrow> Inl e
         | Inr m \<Rightarrow> Inr (np\<lparr>np_meta := m, np_pod_selector := np_pod_selector d, np_types := np_types d,
                        np_ingress := np_ingress d, np_egress := np_egress d\<rparr>));
       State_Monad.return (case x of
         Inl e \<Rightarrow> Some (errorf_w (''ensure '' @ what @ '' NetworkPolicy'') e) | Inr _ \<Rightarrow> None)
     })"

definition ensureNetworkPolicies ::
  "k8s_lib \<Rightarrow> 'w kclient \<Rightarrow> reconciler \<Rightarrow> workspace \<Rightarrow> ('w, go_error option) kube" where
  "ensureNetworkPolicies lib c r ws = do {
     a \<leftarrow> ensure_policy lib c ws ''deny-all'' (BuildDenyAllNetworkPolicy lib ws);
     case a of Some e \<Rightarrow> State_Monad.return (Some e) | None \<Rightarrow> do {
       let llmNamespaces = ResolveLLMEgressNamespaces (ai_egress_namespaces (spec_ai_config (ws_spec ws)))
             (rc_llm_namespaces r);
       let egressPorts = ResolveEgressPorts (ai_egress_ports (spec_ai_config (ws_spec ws))) (rc_egress_ports r);
       b \<leftarrow> ensure_policy lib c ws ''egress'' (BuildEgressNetworkPolicy lib ws llmNamespaces egressPorts);
       case b of Some e \<Rightarrow> State_Monad.return (Some e) | None \<Rightarrow>
         ensure_policy lib c ws ''ingress-gateway'' (BuildIngressFromGatewayNetworkPolicy lib ws (rc_gateway_namespace r))
     }
   }"

section \<open>Reconcile\<close>

definition service_endpoint :: "string \<Rightarrow> string \<Rightarrow> string" where
  "service_endpoint svcName ns = svcName @ ''.'' @ ns @ ''.svc.cluster.local''"

text \<open>The loop over the container statuses: the first waiting reason that is a failure.\<close>

fun stuck_container :: "container_status list \<Rightarrow> container_waiting option" where
  "stuck_container [] = None"
| "stuck_container (cs # css) = (case cs_waiting cs of
     None \<Rightarrow> stuck_container css
   | Some w \<Rightarrow>
       if cw_reason w = ''CrashLoopBackOff'' \<or> cw_reason w = ''ImagePullBackOff''
          \<or> cw_reason w = ''ErrImagePull'' \<or> cw_reason w = ''InvalidImageName''
       then Some w else stuck_container css)"

text \<open>Update status from pod state, and the requeue interval.\<close>

definition reconcile_status ::
  "k8s_lib \<Rightarrow> 'w kclient \<Rightarrow> reconciler \<Rightarrow> workspace \<Rightarrow> string \<Rightarrow> pod \<Rightarrow> string \<Rightarrow> duration \<Rightarrow> ('w, outcome) kube" where
  "reconcile_status lib c r ws podName pod serviceEndpoint idle =
     (let ps = pod_status_of pod in
      if ps_phase ps = PodRunning \<and> isPodReady (Some pod) then
        finish_status lib c r ws
          ((summary WorkspacePhaseRunning)\<lparr>sum_pod_name := podName, sum_service_endpoint := serviceEndpoint,
             sum_ready_reason := ReasonRunning\<rparr>)
          (if idle > 0 then requeue_after (quot idle 4) else no_requeue)
      else if ps_phase ps = PodFailed then
        finish_status lib c r ws (failed_summary podName (''Pod failed: '' @ ps_reason ps)
          (RemediationPodFailed, ReasonPodFailed)) no_requeue
      else if ps_phase ps = PodUnknown then
        finish_status lib c r ws (failed_summary podName
          (if ps_message ps \<noteq> '''' then ''Pod phase Unknown: '' @ ps_message ps
           else ''Pod phase Unknown '' @ em_dash @ '' cluster node or kubelet may be unavailable'')
          (RemediationPodUnknown, ReasonPodUnknown)) no_requeue
      else case stuck_container (ps_containers ps) of
        Some w \<Rightarrow> finish_status lib c r ws (failed_summary podName
            (''Pod stuck: '' @ cw_reason w @ '' '' @ em_dash @ '' '' @ cw_message w)
            (RemediationForPodWaitingReason (cw_reason w))) no_requeue
      | None \<Rightarrow> finish_status lib c r ws
          ((summary WorkspacePhaseCreating)\<lparr>sum_pod_name := podName, sum_service_endpoint := serviceEndpoint,
             sum_message := (if ps_phase ps \<noteq> '''' then ''Pod phase: '' @ ps_phase ps else ''Pod starting''),
             sum_ready_reason := ReasonProgressing\<rparr>)
          (requeue_after (5 * Second)))"

text \<open>\<open>err != nil && !errors.IsNotFound(err)\<close> after a deletion.\<close>

definition delete_failed :: "unit res \<Rightarrow> go_error option" where
  "delete_failed d = (case d of Inl e \<Rightarrow> if is_not_found e then None else Some e | Inr _ \<Rightarrow> None)"

text \<open>The workspace has been idle too long: delete the pod and become Stopped.\<close>

definition stopped_summary :: status_summary where
  "stopped_summary = (summary WorkspacePhaseStopped)\<lparr>sum_message := ''Workspace stopped due to inactivity'',
     sum_ready_reason := ReasonStopped\<rparr>"

definition stop_idle ::
  "k8s_lib \<Rightarrow> 'w kclient \<Rightarrow> reconciler \<Rightarrow> workspace \<Rightarrow> pod \<Rightarrow> ('w, outcome) kube" where
  "stop_idle lib c r ws pod = do {
     d \<leftarrow> delete_pod c pod;
     case delete_failed d of
       Some e \<Rightarrow> State_Monad.return (no_requeue, Some (errorf_w ''delete idle pod'' e))
     | None \<Rightarrow> finish_status lib c r ws stopped_summary no_requeue
   }"

text \<open>
  The idle-timeout check. A workspace without \<open>lastAccessed\<close> is seeded with the current time by
  a patch; the rest of the reconcile goes on with the answer to that patch, but with the names it
  derived from the Workspace it read. A server that
  answers without the field leaves the zero time, which is in year 1.
\<close>

definition zero_time :: instant where
  "zero_time = - 62135596800 * Second"

definition idle_since :: "workspace \<Rightarrow> instant" where
  "idle_since ws = (case st_last_accessed (ws_status ws) of Some l \<Rightarrow> l | None \<Rightarrow> zero_time)"

definition seed_last_accessed :: "'w kclient \<Rightarrow> workspace \<Rightarrow> ('w, workspace res) kube" where
  "seed_last_accessed c ws =
     (if st_last_accessed (ws_status ws) = None then do {
        t \<leftarrow> now c;
        patch_status c ws (ws\<lparr>ws_status := (ws_status ws)\<lparr>st_last_accessed := Some t\<rparr>\<rparr>)
      } else State_Monad.return (Inr ws))"

definition reconcile_idle ::
  "k8s_lib \<Rightarrow> 'w kclient \<Rightarrow> reconciler \<Rightarrow> workspace \<Rightarrow> pod \<Rightarrow> string \<Rightarrow> ('w, outcome) kube" where
  "reconcile_idle lib c r ws pod serviceEndpoint =
     (let idle = effectiveIdleTimeout ws (rc_idle_timeout r); podName = PodName (ws_user_id ws) in
      if ps_phase (pod_status_of pod) = PodRunning \<and> isPodReady (Some pod) \<and> idle > 0 then do {
        seeded \<leftarrow> seed_last_accessed c ws;
        case seeded of
          Inl e \<Rightarrow> State_Monad.return (no_requeue, Some (errorf_w ''seed lastAccessed'' e))
        | Inr ws1 \<Rightarrow> do {
            t \<leftarrow> now c;
            if time_sub t (idle_since ws1) > idle then stop_idle lib c r ws1 pod
            else reconcile_status lib c r ws1 podName pod serviceEndpoint idle
          }
      } else reconcile_status lib c r ws podName pod serviceEndpoint idle)"

text \<open>Ensure the headless Service.\<close>

definition reconcile_service ::
  "k8s_lib \<Rightarrow> 'w kclient \<Rightarrow> reconciler \<Rightarrow> object_key \<Rightarrow> workspace \<Rightarrow> pod \<Rightarrow> ('w, outcome) kube" where
  "reconcile_service lib c r nn ws pod = do {
     let svcName = ServiceName (ws_user_id ws);
     let svcLabels = Labels (ws_user_id ws);
     x \<leftarrow> ensure_svc c \<lparr>svc_meta = meta svcName (key_namespace nn) [], svc_cluster_ip = '''',
         svc_selector = [], svc_ports = []\<rparr> (\<lambda>svc.
       case lib_set_owner lib ws ((svc_meta svc)\<lparr>mt_labels := svcLabels\<rparr>) of
         Inl e \<Rightarrow> Inl e
       | Inr m \<Rightarrow> Inr (svc\<lparr>svc_meta := m, svc_cluster_ip := ClusterIPNone, svc_selector := svcLabels,
           svc_ports := [\<lparr>sp_name = ''ttyd'', sp_port = 7681, sp_protocol = ProtocolTCP\<rparr>]\<rparr>));
     case x of
       Inl e \<Rightarrow> finish_status lib c r ws (failed_summary '''' (err_text e) (ErrorDetailsForService lib e)) no_requeue
     | Inr _ \<Rightarrow> reconcile_idle lib c r ws pod (service_endpoint svcName (key_namespace nn))
   }"

text \<open>Ensure the Pod: create it if missing, delete it if its image is outdated.\<close>

definition desired_image :: "reconciler \<Rightarrow> string" where
  "desired_image r = (if rc_workspace_image r = '''' then ''workspace:latest'' else rc_workspace_image r)"

definition rc_build_opts :: "reconciler \<Rightarrow> build_opts" where
  "rc_build_opts r = \<lparr>opt_default_ca_bundle = rc_default_ca_bundle r, opt_pip_index_url = rc_pip_index_url r,
     opt_pip_trusted_host = rc_pip_trusted_host r, opt_npm_registry = rc_npm_registry r\<rparr>"

definition create_missing_pod ::
  "k8s_lib \<Rightarrow> 'w kclient \<Rightarrow> reconciler \<Rightarrow> workspace \<Rightarrow> ('w, outcome) kube" where
  "create_missing_pod lib c r ws =
     (case BuildPod lib ws (PVCName (ws_user_id ws)) (desired_image r) (rc_build_opts r) of
        Inl e \<Rightarrow> finish_status lib c r ws
          (failed_summary '''' (err_text e) (RemediationValidation, ReasonValidationFailed)) no_requeue
      | Inr podObj \<Rightarrow> do {
          x \<leftarrow> create_pod c podObj;
          case x of
            Inl e \<Rightarrow> finish_status lib c r ws
              (failed_summary '''' (err_text e) (ErrorDetailsForPodCreate lib e)) no_requeue
          | Inr _ \<Rightarrow> State_Monad.return (requeue_after (2 * Second), None)
        })"

definition image_outdated :: "reconciler \<Rightarrow> pod \<Rightarrow> bool" where
  "image_outdated r pod \<longleftrightarrow> length (pod_containers pod) > 0
     \<and> ctr_image (pod_containers pod ! 0) \<noteq> desired_image r \<and> mt_deletion (pod_meta pod) = None"

definition reconcile_pod ::
  "k8s_lib \<Rightarrow> 'w kclient \<Rightarrow> reconciler \<Rightarrow> object_key \<Rightarrow> workspace \<Rightarrow> ('w, outcome) kube" where
  "reconcile_pod lib c r nn ws = do {
     g \<leftarrow> get_pod c \<lparr>key_namespace = key_namespace nn, key_name = PodName (ws_user_id ws)\<rparr>;
     case g of
       Inl e \<Rightarrow>
         if \<not> is_not_found e then
           retry_status lib c r ws
             (creating_summary ws (''Failed to read Pod: '' @ err_text e) (ErrorDetailsForPodGet lib e)) ''get Pod'' e
         else create_missing_pod lib c r ws
     | Inr pod \<Rightarrow>
         if image_outdated r pod then do {
           d \<leftarrow> delete_pod c pod;
           State_Monad.return (case delete_failed d of
             Some e \<Rightarrow> (no_requeue, Some (errorf_w ''delete outdated pod'' e))
           | None \<Rightarrow> (requeue_after (2 * Second), None))
         }
         else reconcile_service lib c r nn ws pod
   }"

text \<open>Ensure the PVC: it is created once and never changed.\<close>

definition create_missing_pvc ::
  "k8s_lib \<Rightarrow> 'w kclient \<Rightarrow> reconciler \<Rightarrow> workspace \<Rightarrow> ('w, outcome) kube" where
  "create_missing_pvc lib c r ws =
     (case BuildPVC lib ws of
        Inl e \<Rightarrow> finish_status lib c r ws
          (failed_summary '''' (err_text e) (RemediationValidation, ReasonValidationFailed)) no_requeue
      | Inr pvcObj \<Rightarrow> do {
          x \<leftarrow> create_pvc c pvcObj;
          case x of
            Inl e \<Rightarrow> finish_status lib c r ws
              (failed_summary '''' (err_text e) (ErrorDetailsForPVCCreate lib e)) no_requeue
          | Inr _ \<Rightarrow> finish_status lib c r ws
              (creating_summary ws ''PersistentVolumeClaim created; waiting for volume to bind'' ('''', ReasonProgressing))
              (requeue_after (2 * Second))
        })"

definition reconcile_pvc ::
  "k8s_lib \<Rightarrow> 'w kclient \<Rightarrow> reconciler \<Rightarrow> object_key \<Rightarrow> workspace \<Rightarrow> ('w, outcome) kube" where
  "reconcile_pvc lib c r nn ws = do {
     g \<leftarrow> get_pvc c \<lparr>key_namespace = key_namespace nn, key_name = PVCName (ws_user_id ws)\<rparr>;
     case g of
       Inl e \<Rightarrow>
         if \<not> is_not_found e then
           retry_status lib c r ws
             (creating_summary ws (''Failed to read PersistentVolumeClaim: '' @ err_text e)
                (ErrorDetailsForPVCGet lib e)) ''get PVC'' e
         else create_missing_pvc lib c r ws
     | Inr pvc \<Rightarrow>
         if pvc_phase pvc = ClaimLost then
           finish_status lib c r ws (failed_summary ''''
             (''PVC lost '' @ em_dash @ '' manual intervention required'') (RemediationPVCLost, ReasonPVCLost)) no_requeue
         else reconcile_pod lib c r nn ws
   }"

text \<open>Ensure the RBAC objects and the NetworkPolicies.\<close>

definition reconcile_access ::
  "k8s_lib \<Rightarrow> 'w kclient \<Rightarrow> reconciler \<Rightarrow> object_key \<Rightarrow> workspace \<Rightarrow> ('w, outcome) kube" where
  "reconcile_access lib c r nn ws = do {
     a \<leftarrow> ensureRBAC lib c ws;
     case a of
       Some e \<Rightarrow> retry_status lib c r ws
         (creating_summary ws (''RBAC reconcile failed: '' @ err_text e) (ErrorDetailsForRBAC lib e)) ''ensure RBAC'' e
     | None \<Rightarrow> do {
         b \<leftarrow> ensureNetworkPolicies lib c r ws;
         case b of
           Some e \<Rightarrow> retry_status lib c r ws
             (creating_summary ws (''NetworkPolicy reconcile failed: '' @ err_text e)
                (ErrorDetailsForNetworkPolicy lib e)) ''ensure NetworkPolicies'' e
         | None \<Rightarrow> reconcile_pvc lib c r nn ws
       }
   }"

definition reconcileDelete :: "k8s_lib \<Rightarrow> 'w kclient \<Rightarrow> workspace \<Rightarrow> ('w, outcome) kube" where
  "reconcileDelete lib c ws = do {
     u \<leftarrow> update_workspace c (ws\<lparr>ws_meta := lib_remove_finalizer lib (ws_meta ws) workspaceFinalizer\<rparr>);
     State_Monad.return (no_requeue, case u of Inl e \<Rightarrow> Some (errorf_w ''remove finalizer'' e) | Inr _ \<Rightarrow> None)
   }"

definition Reconcile ::
  "k8s_lib \<Rightarrow> 'w kclient \<Rightarrow> reconciler \<Rightarrow> object_key \<Rightarrow> ('w, outcome) kube" where
  "Reconcile lib c r nn = do {
     g \<leftarrow> get_workspace c nn;
     case g of
       Inl e \<Rightarrow> State_Monad.return (no_requeue, if is_not_found e then None else Some e)
     | Inr ws \<Rightarrow>
         if mt_deletion (ws_meta ws) \<noteq> None then reconcileDelete lib c ws
         else case ValidateSpec lib (Some ws) of
           Some e \<Rightarrow> finish_status lib c r ws
             (failed_summary '''' (err_text e) (RemediationValidation, ReasonValidationFailed)) no_requeue
         | None \<Rightarrow>
             if \<not> lib_contains_finalizer lib (ws_meta ws) workspaceFinalizer then do {
               u \<leftarrow> update_workspace c (ws\<lparr>ws_meta := lib_add_finalizer lib (ws_meta ws) workspaceFinalizer\<rparr>);
               State_Monad.return (case u of
                 Inl e \<Rightarrow> (no_requeue, Some (errorf_w ''add finalizer'' e))
               | Inr _ \<Rightarrow> (\<lparr>rq_now = True, rq_after = 0\<rparr>, None))
             }
             else if ws_phase ws = WorkspacePhaseStopped then State_Monad.return (no_requeue, None)
             else reconcile_access lib c r nn ws
   }"

end
