(* ===== verification/Controller_Trace.thy ===== *)
theory Controller_Trace
  imports Controller
begin

text \<open>
  What a reconcile does to the cluster, for every behaviour of the API server: which calls it
  makes, in which order, and with which objects. One rule per stage goes into \<open>trace_rules\<close>;
  the properties follow the structure of \<open>Reconcile\<close>.
\<close>

section \<open>Order of effects\<close>

text \<open>
  \<open>guarded X P t\<close>: whenever an effect of \<open>t\<close> satisfies \<open>X\<close>, it and the effects before it
  satisfy \<open>P\<close>.
\<close>

definition guarded :: "('e \<Rightarrow> bool) \<Rightarrow> ('e \<Rightarrow> 'e list \<Rightarrow> bool) \<Rightarrow> 'e list \<Rightarrow> bool" where
  "guarded X P t \<longleftrightarrow> (\<forall>pre e post. t = pre @ e # post \<and> X e \<longrightarrow> P e pre)"

lemma guarded_none: "list_all (\<lambda>e. \<not> X e) t \<Longrightarrow> guarded X P t"
  by (auto simp: guarded_def)

lemma guardedD: "guarded X P (pre @ e # post) \<Longrightarrow> X e \<Longrightarrow> P e pre"
  by (auto simp: guarded_def)

lemma guarded_append:
  assumes "list_all (\<lambda>e. \<not> X e) t" and "guarded X (\<lambda>e pre. P e (t @ pre)) u"
  shows "guarded X P (t @ u)"
  unfolding guarded_def
proof (intro allI impI, elim conjE)
  fix pre e post
  assume eq: "t @ u = pre @ e # post" and x: "X e"
  from eq consider us where "t = pre @ us" "us @ u = e # post" | us where "pre = t @ us" "u = us @ e # post"
    by (auto simp: append_eq_append_conv2)
  then show "P e pre"
  proof cases
    case (1 us)
    then show ?thesis
    proof (cases us)
      case Nil
      with 1 assms(2) x show ?thesis by (auto simp: guarded_def dest: spec [where x = "[]"])
    next
      case (Cons d ds)
      with 1 assms(1) x show ?thesis by auto
    qed
  next
    case (2 us)
    with assms(2) x show ?thesis by (auto simp: guarded_def)
  qed
qed

lemma guarded_mono: "guarded X P t \<Longrightarrow> (\<And>e pre. X e \<Longrightarrow> P e pre \<Longrightarrow> Q e pre) \<Longrightarrow> guarded X Q t"
  unfolding guarded_def by blast

lemma guarded_all: "list_all (\<lambda>e. X e \<longrightarrow> Q e) t \<Longrightarrow> guarded X (\<lambda>e _. Q e) t"
  by (auto simp: guarded_def)

text \<open>An action in two parts of which the first does nothing that is guarded.\<close>

lemma ensures_guarded_bind:
  assumes "ensures m (\<lambda>a t. Q a t \<and> list_all (\<lambda>e. \<not> X e) t)"
    and "\<And>a t. Q a t \<Longrightarrow> ensures (f a) (\<lambda>_ u. guarded X (\<lambda>e pre. P e (t @ pre)) u)"
  shows "ensures (State_Monad.bind m f) (\<lambda>_ t. guarded X P t)"
  by (rule ensures_bind [OF assms(1)]) (auto intro: guarded_append elim!: ensures_mono [OF assms(2)])

lemma ensures_guarded_none:
  "emits m (\<lambda>e. \<not> X e) \<Longrightarrow> ensures m (\<lambda>_ t. guarded X P t)"
  unfolding emits_def by (erule ensures_mono) (rule guarded_none)

lemma ensures_guarded_all:
  "emits m (\<lambda>e. X e \<longrightarrow> Q e) \<Longrightarrow> ensures m (\<lambda>_ t. guarded X (\<lambda>e _. Q e) t)"
  unfolding emits_def by (erule ensures_mono) (rule guarded_all)

section \<open>Rules for the calls and the stages\<close>

lemma emits_calls [trace_rules]:
  "(\<And>t. P (ReadClock t)) \<Longrightarrow> emits (now c) P"
  "(\<And>x. P (GetWorkspace k x)) \<Longrightarrow> emits (get_workspace c k) P"
  "(\<And>x. P (UpdateWorkspace ws x)) \<Longrightarrow> emits (update_workspace c ws) P"
  "(\<And>x. P (CreateWorkspace ws x)) \<Longrightarrow> emits (create_workspace c ws) P"
  "(\<And>x. P (PatchStatus ws ws' x)) \<Longrightarrow> emits (patch_status c ws ws') P"
  "(\<And>x. P (GetPVC k x)) \<Longrightarrow> emits (get_pvc c k) P"
  "(\<And>x. P (CreatePVC v x)) \<Longrightarrow> emits (create_pvc c v) P"
  "(\<And>x. P (GetPod k x)) \<Longrightarrow> emits (get_pod c k) P"
  "(\<And>x. P (CreatePod p x)) \<Longrightarrow> emits (create_pod c p) P"
  "(\<And>x. P (DeletePod p x)) \<Longrightarrow> emits (delete_pod c p) P"
  by (simp_all add: client_call_defs emits_ask)

lemma emits_ensure_calls [trace_rules]:
  "(\<And>x. P (EnsureServiceAccount (key_of (sa_meta sa)) x)) \<Longrightarrow> emits (ensure_sa c sa f1) P"
  "(\<And>x. P (EnsureRole (key_of (role_meta ro)) x)) \<Longrightarrow> emits (ensure_role c ro f2) P"
  "(\<And>x. P (EnsureRoleBinding (key_of (rb_meta rb)) x)) \<Longrightarrow> emits (ensure_rb c rb f3) P"
  "(\<And>x. P (EnsureNetworkPolicy (key_of (np_meta np)) x)) \<Longrightarrow> emits (ensure_np c np f4) P"
  "(\<And>x. P (EnsureService (key_of (svc_meta sv)) x)) \<Longrightarrow> emits (ensure_svc c sv f5) P"
  by (simp_all add: client_call_defs emits_ask)

text \<open>Bookkeeping effects: counters, log records and Kubernetes events.\<close>

fun bookkeeping :: "event \<Rightarrow> bool" where
  "bookkeeping (Count _ _) = True"
| "bookkeeping (LogRecord _ _) = True"
| "bookkeeping (KubeEvent _ _) = True"
| "bookkeeping _ = False"

lemma emits_report: "emits (report_transition r ws ph smry) bookkeeping"
  unfolding report_transition_def LogWorkspacePhaseTransition_def Let_def option.case
  by (intro trace_rules) simp_all

lemma emits_updateStatus [trace_rules]:
  assumes "\<And>x. P (PatchStatus ws (ApplyStatusSummary lib ws smry) x)" and "\<And>e. bookkeeping e \<Longrightarrow> P e"
  shows "emits (updateStatus lib c r ws smry) P"
  unfolding updateStatus_def Let_def
  by (intro trace_rules assms emits_mono [OF emits_report]) simp_all

lemma emits_finish_status [trace_rules]:
  assumes "\<And>x. P (PatchStatus ws (ApplyStatusSummary lib ws smry) x)" and "\<And>e. bookkeeping e \<Longrightarrow> P e"
  shows "emits (finish_status lib c r ws smry res) P"
  unfolding finish_status_def by (intro trace_rules assms)

lemma emits_retry_status [trace_rules]:
  assumes "\<And>x. P (PatchStatus ws (ApplyStatusSummary lib ws smry) x)" and "\<And>e. bookkeeping e \<Longrightarrow> P e"
  shows "emits (retry_status lib c r ws smry what err) P"
  unfolding retry_status_def by (intro trace_rules assms)

section \<open>Access objects\<close>

text \<open>The environment of the operator: a client and a library that keep their contracts.\<close>

locale operator_env = kube_client c + own: owner_lib "lib_set_owner lib"
    + cnd: condition_lib "lib_set_condition lib"
    + fin: finalizer_lib "lib_contains_finalizer lib" "lib_add_finalizer lib" "lib_remove_finalizer lib"
  for c :: "'w kclient" and lib :: k8s_lib

text \<open>The policy in the cluster has the name, the namespace and the whole spec of the built one.\<close>

definition same_policy :: "network_policy \<Rightarrow> network_policy \<Rightarrow> bool" where
  "same_policy d np \<longleftrightarrow> key_of (np_meta np) = key_of (np_meta d) \<and> np_pod_selector np = np_pod_selector d
     \<and> np_types np = np_types d \<and> np_ingress np = np_ingress d \<and> np_egress np = np_egress d"

definition policy_ensured :: "network_policy \<Rightarrow> event list \<Rightarrow> bool" where
  "policy_ensured d t \<longleftrightarrow> (\<exists>np. EnsureNetworkPolicy (key_of (np_meta d)) (Inr np) \<in> set t \<and> same_policy d np)"

fun is_ensure :: "event \<Rightarrow> bool" where
  "is_ensure (EnsureServiceAccount _ _) = True"
| "is_ensure (EnsureRole _ _) = True"
| "is_ensure (EnsureRoleBinding _ _) = True"
| "is_ensure (EnsureNetworkPolicy _ _) = True"
| "is_ensure _ = False"

lemma emits_access [trace_rules]:
  assumes "\<And>e. is_ensure e \<Longrightarrow> P e"
  shows "emits (ensureRBAC lib c ws) P" and "emits (ensure_policy lib c ws what built) P"
    and "emits (ensureNetworkPolicies lib c r ws) P"
proof -
  show "emits (ensureRBAC lib c ws) P"
    unfolding ensureRBAC_def Let_def by (intro trace_rules assms) simp_all
  show p: "emits (ensure_policy lib c ws what built) P" for what built
    unfolding ensure_policy_def by (intro trace_rules assms) simp_all
  show "emits (ensureNetworkPolicies lib c r ws) P"
    unfolding ensureNetworkPolicies_def Let_def by (intro trace_rules p)
qed

lemma BuildNetpol_key:
  assumes "owner_lib (lib_set_owner lib)" and "own_netpol lib ws np = Inr d"
  shows "key_of (np_meta d) = key_of (np_meta np)"
  using owner_lib.netpol_built [OF assms refl] by (simp add: key_of_def)

lemma norm_np_spec:
  assumes "norm_np x = norm_np y"
  shows "np_pod_selector x = np_pod_selector y \<and> np_types x = np_types y \<and> np_ingress x = np_ingress y
    \<and> np_egress x = np_egress y \<and> key_of (np_meta x) = key_of (np_meta y)"
  using assms erase_eqD [of "np_meta x" "np_meta y"]
  by (cases x; cases y) (simp add: norm_np_def key_of_def)

context operator_env
begin

lemma ensure_policy_done:
  assumes "\<And>d. built = Inr d \<Longrightarrow> mt_namespace (np_meta d) = ws_namespace ws"
  shows "ensures (ensure_policy lib c ws what built)
    (\<lambda>a t. a = None \<longrightarrow> (\<exists>d. built = Inr d \<and> policy_ensured d t))"
proof (cases built)
  case (Inl e)
  then show ?thesis by (simp add: ensure_policy_def ensures_return)
next
  case (Inr d)
  let ?x = "\<lparr>np_meta = meta (mt_name (np_meta d)) (ws_namespace ws) [], np_pod_selector = [],
    np_types = [], np_ingress = [], np_egress = []\<rparr>"
  let ?f = "\<lambda>np. case lib_set_owner lib ws ((np_meta np)\<lparr>mt_labels := mt_labels (np_meta d)\<rparr>) of
    Inl e \<Rightarrow> Inl e | Inr m \<Rightarrow> Inr (np\<lparr>np_meta := m, np_pod_selector := np_pod_selector d,
      np_types := np_types d, np_ingress := np_ingress d, np_egress := np_egress d\<rparr>)"
  have k: "key_of (np_meta d) = key_of (meta (mt_name (np_meta d)) (ws_namespace ws) [])"
    using assms [OF Inr] by (simp add: key_of_def)
  have "same_policy d y" if "fst (cl_ensure_np c ?x ?f w) = Inr y" for w y
  proof -
    from np_mutated [of ?x ?f w] that obtain z fz where
      z: "key_of (np_meta z) = key_of (meta (mt_name (np_meta d)) (ws_namespace ws) [])" "?f z = Inr fz"
        "norm_np y = norm_np fz"
      by (auto simp: ensures_mutated_def)
    from z(2) obtain m where m: "lib_set_owner lib ws ((np_meta z)\<lparr>mt_labels := mt_labels (np_meta d)\<rparr>) = Inr m"
      and fz: "fz = z\<lparr>np_meta := m, np_pod_selector := np_pod_selector d, np_types := np_types d,
        np_ingress := np_ingress d, np_egress := np_egress d\<rparr>"
      by (auto split: sum.splits)
    have "key_of m = key_of (np_meta z)"
      using own.set_owner_name [OF m] own.set_owner_namespace [OF m] by (simp add: key_of_def)
    with norm_np_spec [OF z(3)] fz z(1) k show ?thesis by (simp add: same_policy_def)
  qed
  then show ?thesis
    unfolding ensure_policy_def Inr sum.case ensure_np_def
    by (intro ensures_ask_bind ensures_return)
      (auto simp: policy_ensured_def k split: sum.splits)
qed

end

text \<open>The configuration the reconciler resolves for the egress policy.\<close>

definition rc_namespaces :: "reconciler \<Rightarrow> workspace \<Rightarrow> string list" where
  "rc_namespaces r ws =
     ResolveLLMEgressNamespaces (ai_egress_namespaces (spec_ai_config (ws_spec ws))) (rc_llm_namespaces r)"

definition rc_ports :: "reconciler \<Rightarrow> workspace \<Rightarrow> int list" where
  "rc_ports r ws = ResolveEgressPorts (ai_egress_ports (spec_ai_config (ws_spec ws))) (rc_egress_ports r)"

definition policies_ensured :: "k8s_lib \<Rightarrow> reconciler \<Rightarrow> workspace \<Rightarrow> event list \<Rightarrow> bool" where
  "policies_ensured lib r ws t \<longleftrightarrow> (\<exists>pols.
     workspace_policies lib ws (rc_namespaces r ws) (rc_ports r ws) (rc_gateway_namespace r) = Inr pols
     \<and> list_all (\<lambda>d. policy_ensured d t) pols)"

text \<open>The pod's account, its role and the binding between them are in the cluster.\<close>

definition rbac_ensured :: "workspace \<Rightarrow> event list \<Rightarrow> bool" where
  "rbac_ensured ws t \<longleftrightarrow> (let nm = ServiceAccountName (ws_user_id ws);
       k = \<lparr>key_namespace = ws_namespace ws, key_name = nm\<rparr> in
     (\<exists>sa. EnsureServiceAccount k (Inr sa) \<in> set t)
     \<and> (\<exists>ro. EnsureRole k (Inr ro) \<in> set t \<and> key_of (role_meta ro) = k \<and> role_rules ro = workspace_rules)
     \<and> (\<exists>rb. EnsureRoleBinding k (Inr rb) \<in> set t \<and> key_of (rb_meta rb) = k
          \<and> rb_subjects rb = [\<lparr>sub_kind = ServiceAccountKind, sub_name = nm, sub_namespace = ws_namespace ws\<rparr>]
          \<and> rb_role_ref rb = \<lparr>rr_api_group = rbac_GroupName, rr_kind = ''Role'', rr_name = nm\<rparr>))"

lemma policy_ensured_append [simp]:
  "policy_ensured d (t @ u) \<longleftrightarrow> policy_ensured d t \<or> policy_ensured d u"
  by (auto simp: policy_ensured_def)

lemma policies_ensured_append:
  "policies_ensured lib r ws u \<Longrightarrow> policies_ensured lib r ws (t @ u)"
  "policies_ensured lib r ws t \<Longrightarrow> policies_ensured lib r ws (t @ u)"
  by (auto simp: policies_ensured_def list_all_iff)

lemma rbac_ensured_mono: "rbac_ensured ws t \<Longrightarrow> set t \<subseteq> set u \<Longrightarrow> rbac_ensured ws u"
  unfolding rbac_ensured_def Let_def by blast

lemma norm_role_eqD:
  "norm_role x = norm_role y \<Longrightarrow> role_rules x = role_rules y \<and> key_of (role_meta x) = key_of (role_meta y)"
  using erase_eqD [of "role_meta x" "role_meta y"] by (cases x; cases y) (simp add: norm_role_def key_of_def)

lemma norm_rb_eqD:
  "norm_rb x = norm_rb y \<Longrightarrow> rb_subjects x = rb_subjects y \<and> rb_role_ref x = rb_role_ref y
     \<and> key_of (rb_meta x) = key_of (rb_meta y)"
  using erase_eqD [of "rb_meta x" "rb_meta y"] by (cases x; cases y) (simp add: norm_rb_def key_of_def)

context operator_env
begin

lemma owned_key: "lib_set_owner lib ws (m\<lparr>mt_labels := l\<rparr>) = Inr m' \<Longrightarrow> key_of m' = key_of m"
  using own.set_owner_name own.set_owner_namespace by (fastforce simp: key_of_def)

lemma built_namespace:
  "BuildDenyAllNetworkPolicy lib ws = Inr d \<Longrightarrow> mt_namespace (np_meta d) = ws_namespace ws"
  "BuildEgressNetworkPolicy lib ws nss ports = Inr d \<Longrightarrow> mt_namespace (np_meta d) = ws_namespace ws"
  "BuildIngressFromGatewayNetworkPolicy lib ws gw = Inr d \<Longrightarrow> mt_namespace (np_meta d) = ws_namespace ws"
  by (auto simp: BuildDenyAllNetworkPolicy_def BuildEgressNetworkPolicy_def Let_def
      BuildIngressFromGatewayNetworkPolicy_def dest: own.netpol_built [OF _ refl])

lemma ensureNetworkPolicies_done:
  "ensures (ensureNetworkPolicies lib c r ws) (\<lambda>a t. a = None \<longrightarrow> policies_ensured lib r ws t)"
  unfolding ensureNetworkPolicies_def Let_def rc_namespaces_def [symmetric] rc_ports_def [symmetric]
proof (rule ensures_bind [OF ensure_policy_done], erule built_namespace, rule ensures_case_option,
    rule ensures_bind [OF ensure_policy_done], erule built_namespace, rule ensures_case_option)
  fix a b :: "go_error option" and t u
  assume "a = None" "b = None"
    and "a = None \<longrightarrow> (\<exists>d. BuildDenyAllNetworkPolicy lib ws = Inr d \<and> policy_ensured d t)"
    and "b = None \<longrightarrow> (\<exists>d. BuildEgressNetworkPolicy lib ws (rc_namespaces r ws) (rc_ports r ws) = Inr d
        \<and> policy_ensured d u)"
  then show "ensures (ensure_policy lib c ws ''ingress-gateway''
        (BuildIngressFromGatewayNetworkPolicy lib ws (rc_gateway_namespace r)))
      (\<lambda>a v. a = None \<longrightarrow> policies_ensured lib r ws (t @ u @ v))"
    by (intro ensures_mono [OF ensure_policy_done], elim built_namespace)
      (auto simp: policies_ensured_def workspace_policies_def)
qed (auto intro: ensures_return)

lemma role_answer:
  assumes "fst (cl_ensure_role c x (\<lambda>ro. case lib_set_owner lib ws ((role_meta ro)\<lparr>mt_labels := l\<rparr>) of
      Inl e \<Rightarrow> Inl e | Inr m \<Rightarrow> Inr (ro\<lparr>role_meta := m, role_rules := rs\<rparr>)) w) = Inr y"
  shows "role_rules y = rs \<and> key_of (role_meta y) = key_of (role_meta x)"
  using role_mutated [of x "\<lambda>ro. case lib_set_owner lib ws ((role_meta ro)\<lparr>mt_labels := l\<rparr>) of
      Inl e \<Rightarrow> Inl e | Inr m \<Rightarrow> Inr (ro\<lparr>role_meta := m, role_rules := rs\<rparr>)" w] assms
  by (auto simp: ensures_mutated_def case_sum_Inr dest!: norm_role_eqD owned_key)

lemma rb_answer:
  assumes "fst (cl_ensure_rb c x (\<lambda>rb. case lib_set_owner lib ws ((rb_meta rb)\<lparr>mt_labels := l\<rparr>) of
      Inl e \<Rightarrow> Inl e | Inr m \<Rightarrow> Inr (rb\<lparr>rb_meta := m, rb_subjects := ss, rb_role_ref := rr\<rparr>)) w) = Inr y"
  shows "rb_subjects y = ss \<and> rb_role_ref y = rr \<and> key_of (rb_meta y) = key_of (rb_meta x)"
  using rb_mutated [of x "\<lambda>rb. case lib_set_owner lib ws ((rb_meta rb)\<lparr>mt_labels := l\<rparr>) of
      Inl e \<Rightarrow> Inl e | Inr m \<Rightarrow> Inr (rb\<lparr>rb_meta := m, rb_subjects := ss, rb_role_ref := rr\<rparr>)" w] assms
  by (auto simp: ensures_mutated_def case_sum_Inr dest!: norm_rb_eqD owned_key)

lemma BuildRole_rules: "BuildRole lib ws = Inr d \<Longrightarrow> role_rules d = workspace_rules"
  by (auto simp: BuildRole_Inr)

lemma ensureRBAC_done:
  "ensures (ensureRBAC lib c ws) (\<lambda>a t. a = None \<longrightarrow> rbac_ensured ws t)"
  unfolding ensureRBAC_def Let_def ensure_sa_def ensure_role_def ensure_rb_def
  by (intro ensures_ask_bind ensures_case_sum ensures_return)
    (auto simp: rbac_ensured_def key_of_def [of "meta _ _ _"] BuildRole_rules Let_def
      dest!: role_answer rb_answer split: sum.splits)

end

section \<open>Stages\<close>

fun is_create_pod :: "event \<Rightarrow> bool" where
  "is_create_pod (CreatePod _ _) = True"
| "is_create_pod _ = False"

fun is_delete_pod :: "event \<Rightarrow> bool" where
  "is_delete_pod (DeletePod _ _) = True"
| "is_delete_pod _ = False"

lemma not_pod_change [simp]:
  "bookkeeping e \<Longrightarrow> \<not> is_create_pod e" "bookkeeping e \<Longrightarrow> \<not> is_delete_pod e"
  "is_ensure e \<Longrightarrow> \<not> is_create_pod e" "is_ensure e \<Longrightarrow> \<not> is_delete_pod e"
  by (cases e; simp)+

lemma emits_reconcile_status [trace_rules]:
  assumes "\<And>smry x. P (PatchStatus ws (ApplyStatusSummary lib ws smry) x)" and "\<And>e. bookkeeping e \<Longrightarrow> P e"
  shows "emits (reconcile_status lib c r ws podName pod ep idle) P"
  unfolding reconcile_status_def Let_def by (intro trace_rules assms)

lemma emits_stop_idle [trace_rules]:
  assumes "\<And>x. P (PatchStatus ws (ApplyStatusSummary lib ws stopped_summary) x)"
    and "\<And>e. bookkeeping e \<Longrightarrow> P e" and "\<And>x. P (DeletePod pod x)"
  shows "emits (stop_idle lib c r ws pod) P"
  unfolding stop_idle_def by (intro trace_rules assms)

lemma service_no_create: "emits (reconcile_service lib c r nn ws pod) (\<lambda>e. \<not> is_create_pod e)"
  unfolding reconcile_service_def reconcile_idle_def seed_last_accessed_def Let_def
  by (intro trace_rules) simp_all

lemma create_built:
  "emits (reconcile_pvc lib c r nn ws) (\<lambda>e. is_create_pod e \<longrightarrow>
     (\<forall>p x. e = CreatePod p x \<longrightarrow>
        BuildPod lib ws (PVCName (ws_user_id ws)) (desired_image r) (rc_build_opts r) = Inr p))"
  unfolding reconcile_pvc_def reconcile_pod_def create_missing_pvc_def create_missing_pod_def
  by (intro trace_rules emits_mono [OF service_no_create]) simp_all

text \<open>What holds of a created pod and of the effects before it.\<close>

definition creation_ok :: "k8s_lib \<Rightarrow> reconciler \<Rightarrow> workspace \<Rightarrow> event \<Rightarrow> event list \<Rightarrow> bool" where
  "creation_ok lib r ws e pre \<longleftrightarrow> rbac_ensured ws pre \<and> policies_ensured lib r ws pre
     \<and> (\<forall>p x. e = CreatePod p x \<longrightarrow>
          BuildPod lib ws (PVCName (ws_user_id ws)) (desired_image r) (rc_build_opts r) = Inr p)"

lemma creation_ok_mono: "creation_ok lib r ws e pre \<Longrightarrow> creation_ok lib r ws e (t @ pre)"
  by (auto simp: creation_ok_def intro: policies_ensured_append rbac_ensured_mono)

context operator_env
begin

lemma access_guarded:
  "ensures (reconcile_access lib c r nn ws) (\<lambda>_ t. guarded is_create_pod (creation_ok lib r ws) t)"
  unfolding reconcile_access_def
proof (rule ensures_guarded_bind [where Q = "\<lambda>a t. a = None \<longrightarrow> rbac_ensured ws t"])
  show "ensures (ensureRBAC lib c ws)
      (\<lambda>a t. (a = None \<longrightarrow> rbac_ensured ws t) \<and> list_all (\<lambda>e. \<not> is_create_pod e) t)"
    by (rule ensures_conj [OF ensureRBAC_done]) (auto simp: emits_def [symmetric] intro!: trace_rules)
next
  fix a :: "go_error option" and t
  assume a: "a = None \<longrightarrow> rbac_ensured ws t"
  let ?net = "State_Monad.bind (ensureNetworkPolicies lib c r ws) (\<lambda>b. case b of
      None \<Rightarrow> reconcile_pvc lib c r nn ws
    | Some e \<Rightarrow> retry_status lib c r ws (creating_summary ws (''NetworkPolicy reconcile failed: '' @ err_text e)
                (ErrorDetailsForNetworkPolicy lib e)) ''ensure NetworkPolicies'' e)"
  have "ensures ?net (\<lambda>_ u. guarded is_create_pod (\<lambda>e pre. creation_ok lib r ws e (t @ pre)) u)" if "a = None"
  proof (rule ensures_guarded_bind [where Q = "\<lambda>b u. b = None \<longrightarrow> policies_ensured lib r ws u"])
    show "ensures (ensureNetworkPolicies lib c r ws)
        (\<lambda>b u. (b = None \<longrightarrow> policies_ensured lib r ws u) \<and> list_all (\<lambda>e. \<not> is_create_pod e) u)"
      by (rule ensures_conj [OF ensureNetworkPolicies_done]) (auto simp: emits_def [symmetric] intro!: trace_rules)
  next
    fix b :: "go_error option" and u
    assume b: "b = None \<longrightarrow> policies_ensured lib r ws u"
    have "ensures (reconcile_pvc lib c r nn ws)
        (\<lambda>_ v. guarded is_create_pod (\<lambda>e pre. creation_ok lib r ws e (t @ u @ pre)) v)" if "b = None"
    proof (rule ensures_mono [OF ensures_guarded_all [OF create_built]], erule guarded_mono)
      fix e pre
      assume e: "\<forall>p x. e = CreatePod p x \<longrightarrow>
        BuildPod lib ws (PVCName (ws_user_id ws)) (desired_image r) (rc_build_opts r) = Inr p"
      have "rbac_ensured ws (t @ u @ pre)"
        using a \<open>a = None\<close> by (auto intro: rbac_ensured_mono)
      moreover have "policies_ensured lib r ws (t @ u @ pre)"
        using b that by (auto intro: policies_ensured_append)
      ultimately show "creation_ok lib r ws e (t @ u @ pre)"
        using e by (simp add: creation_ok_def)
    qed
    then show "ensures (case b of None \<Rightarrow> reconcile_pvc lib c r nn ws
        | Some e \<Rightarrow> retry_status lib c r ws (creating_summary ws (''NetworkPolicy reconcile failed: '' @ err_text e)
                (ErrorDetailsForNetworkPolicy lib e)) ''ensure NetworkPolicies'' e)
        (\<lambda>_ v. guarded is_create_pod (\<lambda>e pre. creation_ok lib r ws e (t @ u @ pre)) v)"
      by (cases b) (simp_all add: ensures_guarded_none trace_rules)
  qed
  then show "ensures (case a of None \<Rightarrow> ?net
      | Some e \<Rightarrow> retry_status lib c r ws (creating_summary ws (''RBAC reconcile failed: '' @ err_text e)
          (ErrorDetailsForRBAC lib e)) ''ensure RBAC'' e)
      (\<lambda>_ u. guarded is_create_pod (\<lambda>e pre. creation_ok lib r ws e (t @ pre)) u)"
    by (cases a) (simp_all add: ensures_guarded_none trace_rules)
qed

end

section \<open>The whole reconcile\<close>

lemma guarded_Cons: "\<not> X d \<Longrightarrow> guarded X (\<lambda>e pre. P e (d # pre)) u \<Longrightarrow> guarded X P (d # u)"
  using guarded_append [of X "[d]" P u] by simp

lemma ensures_guarded_ask:
  assumes "\<And>a. \<not> X (ev a)"
    and "\<And>w. ensures (f (fst (op w))) (\<lambda>_ u. guarded X (\<lambda>e pre. P e (ev (fst (op w)) # pre)) u)"
  shows "ensures (State_Monad.bind (ask op ev) f) (\<lambda>_ t. guarded X P t)"
  by (rule ensures_ask_bind, rule ensures_mono [OF assms(2)]) (simp add: guarded_Cons assms(1))

text \<open>The conditions under which a reconcile gets to the workspace's objects.\<close>

definition admitted :: "k8s_lib \<Rightarrow> workspace \<Rightarrow> bool" where
  "admitted lib ws \<longleftrightarrow> mt_deletion (ws_meta ws) = None \<and> ValidateSpec lib (Some ws) = None
     \<and> lib_contains_finalizer lib (ws_meta ws) workspaceFinalizer \<and> ws_phase ws \<noteq> WorkspacePhaseStopped"

fun api_status :: "event \<Rightarrow> bool" where
  "api_status (GetWorkspace _ _) = True"
| "api_status (UpdateWorkspace _ _) = True"
| "api_status (PatchStatus _ _ _) = True"
| "api_status e = bookkeeping e"

lemma bookkeeping_api_status: "bookkeeping e \<Longrightarrow> api_status e"
  by (cases e) auto

lemma Reconcile_guarded:
  assumes quiet: "\<And>e. api_status e \<Longrightarrow> \<not> X e"
    and acc: "\<And>ws w. fst (cl_get_ws c nn w) = Inr ws \<Longrightarrow> admitted lib ws \<Longrightarrow>
      ensures (reconcile_access lib c r nn ws) (\<lambda>_ u. guarded X (\<lambda>e pre. P e (GetWorkspace nn (Inr ws) # pre)) u)"
  shows "ensures (Reconcile lib c r nn) (\<lambda>_ t. guarded X P t)"
proof -
  have ret: "ensures (State_Monad.return y) (\<lambda>_ u. guarded X R u)" for y :: outcome and R
    by (simp add: ensures_return guarded_def)
  have fin: "ensures (finish_status lib c r ws smry res) (\<lambda>_ u. guarded X R u)" for ws smry res R
    by (rule ensures_guarded_none, rule emits_mono [of _ api_status])
      (simp_all add: quiet trace_rules bookkeeping_api_status)
  have upd: "ensures (State_Monad.bind (update_workspace c ws) (\<lambda>u. State_Monad.return (h u))) (\<lambda>_ u. guarded X R u)"
    for ws R and h :: "workspace res \<Rightarrow> outcome"
    by (rule ensures_guarded_none, rule emits_mono [of _ api_status]) (simp_all add: quiet trace_rules)
  show ?thesis
    unfolding Reconcile_def get_workspace_def reconcileDelete_def
    by (rule ensures_guarded_ask, simp add: quiet, intro ensures_case_sum ensures_if ensures_case_option)
      (simp_all add: ret fin upd acc admitted_def)
qed

section \<open>Deletions\<close>

text \<open>
  A justified deletion: the pod is the one read for this workspace, and either its image is
  outdated, or it is ready, idle shutdown is on, and a clock reading is further from the last
  access than the idle timeout. The last access is that of the workspace that was read, or of
  the answer to the patch that seeded it.
\<close>

definition idle_expired :: "reconciler \<Rightarrow> workspace \<Rightarrow> event list \<Rightarrow> bool" where
  "idle_expired r ws pre \<longleftrightarrow> (\<exists>t ws1. ReadClock t \<in> set pre
     \<and> (ws1 = ws \<or> st_last_accessed (ws_status ws) = None \<and> (\<exists>n. PatchStatus ws n (Inr ws1) \<in> set pre))
     \<and> effectiveIdleTimeout ws (rc_idle_timeout r) > 0
     \<and> time_sub t (idle_since ws1) > effectiveIdleTimeout ws (rc_idle_timeout r))"

definition deletion_ok :: "reconciler \<Rightarrow> object_key \<Rightarrow> workspace \<Rightarrow> event \<Rightarrow> event list \<Rightarrow> bool" where
  "deletion_ok r nn ws e pre \<longleftrightarrow> (\<exists>p x. e = DeletePod p x
     \<and> GetPod \<lparr>key_namespace = key_namespace nn, key_name = PodName (ws_user_id ws)\<rparr> (Inr p) \<in> set pre
     \<and> (image_outdated r p
        \<or> ps_phase (pod_status_of p) = PodRunning \<and> isPodReady (Some p) \<and> idle_expired r ws pre))"

lemma idle_expired_mono: "idle_expired r ws pre \<Longrightarrow> set pre \<subseteq> set pre' \<Longrightarrow> idle_expired r ws pre'"
  unfolding idle_expired_def by blast

lemma idle_expired_Cons: "idle_expired r ws pre \<Longrightarrow> idle_expired r ws (e # pre)"
  by (erule idle_expired_mono) auto

lemma deletion_ok_mono: "deletion_ok r nn ws e pre \<Longrightarrow> set pre \<subseteq> set pre' \<Longrightarrow> deletion_ok r nn ws e pre'"
  unfolding deletion_ok_def using idle_expired_mono by blast

lemma idle_deletes:
  "ensures (reconcile_idle lib c r ws pod ep) (\<lambda>_ t. guarded is_delete_pod (\<lambda>e pre. (\<exists>x. e = DeletePod pod x)
     \<and> ps_phase (pod_status_of pod) = PodRunning \<and> isPodReady (Some pod) \<and> idle_expired r ws pre) t)"
  (is "ensures _ (\<lambda>_ t. guarded _ ?P t)")
proof -
  let ?idle = "effectiveIdleTimeout ws (rc_idle_timeout r)"
  let ?ready = "ps_phase (pod_status_of pod) = PodRunning \<and> isPodReady (Some pod) \<and> ?idle > 0"
  let ?src = "\<lambda>ws1 pre. ws1 = ws \<or> st_last_accessed (ws_status ws) = None \<and> (\<exists>n. PatchStatus ws n (Inr ws1) \<in> set pre)"
  have st: "ensures (reconcile_status lib c r ws1 (PodName (ws_user_id ws)) pod ep ?idle) (\<lambda>_ t. guarded is_delete_pod R t)" for ws1 R
    by (rule ensures_guarded_none) (simp add: trace_rules)
  have check: "ensures (do { t \<leftarrow> now c;
        if time_sub t (idle_since ws1) > ?idle then stop_idle lib c r ws1 pod
        else reconcile_status lib c r ws1 (PodName (ws_user_id ws)) pod ep ?idle })
      (\<lambda>_ t. guarded is_delete_pod (\<lambda>e pre. ?P e (u @ pre)) t)" if "?ready" and "?src ws1 u" for ws1 u
  proof -
    have "ensures (stop_idle lib c r ws1 pod) (\<lambda>_ v. guarded is_delete_pod (\<lambda>e pre. ?P e (u @ ReadClock t # pre)) v)"
      if "time_sub t (idle_since ws1) > ?idle" for t
    proof -
      have "idle_expired r ws (u @ ReadClock t # pre)" for pre
        unfolding idle_expired_def using that \<open>?ready\<close> \<open>?src ws1 u\<close>
        by (intro exI [of _ t] exI [of _ ws1]) auto
      then have "emits (stop_idle lib c r ws1 pod) (\<lambda>e. is_delete_pod e \<longrightarrow> (\<forall>pre. ?P e (u @ ReadClock t # pre)))"
        using \<open>?ready\<close> by (intro trace_rules) auto
      from ensures_guarded_all [OF this] show ?thesis
        by (rule ensures_mono) (auto elim!: guarded_mono)
    qed
    then show ?thesis
      unfolding now_def by (intro ensures_guarded_ask) (auto intro: st)
  qed
  show ?thesis
  proof (cases ?ready)
    case False
    show ?thesis unfolding reconcile_idle_def Let_def if_not_P [OF False] by (rule st)
  next
    case True
    have "ensures (seed_last_accessed c ws)
        (\<lambda>a t. (\<forall>ws1. a = Inr ws1 \<longrightarrow> ?src ws1 t) \<and> list_all (\<lambda>e. \<not> is_delete_pod e) t)"
      unfolding seed_last_accessed_def client_call_defs
      by (auto intro!: ensures_ask_bind ensures_ask ensures_return)
    then show ?thesis
      unfolding reconcile_idle_def Let_def if_P [OF True]
      by (rule ensures_guarded_bind, intro ensures_case_sum)
        (simp add: ensures_return guarded_def, rule check [OF True], blast)
  qed
qed

lemma ensures_guarded_seq:
  assumes "emits m (\<lambda>e. \<not> X e)" and "\<And>e t pre. P e pre \<Longrightarrow> P e (t @ pre)"
    and "\<And>a. ensures (f a) (\<lambda>_ u. guarded X P u)"
  shows "ensures (State_Monad.bind m f) (\<lambda>_ t. guarded X P t)"
proof (rule ensures_guarded_bind [where Q = "\<lambda>_ _. True"])
  show "ensures m (\<lambda>a t. True \<and> list_all (\<lambda>e. \<not> X e) t)"
    using assms(1) by (simp add: emits_def)
  show "ensures (f a) (\<lambda>_ u. guarded X (\<lambda>e pre. P e (t @ pre)) u)" for a t
    by (rule ensures_mono [OF assms(3)]) (auto elim!: guarded_mono intro: assms(2))
qed

lemma quiet_status:
  "ensures (finish_status lib c r ws smry res) (\<lambda>_ t. guarded is_delete_pod R t)"
  "ensures (retry_status lib c r ws smry what err) (\<lambda>_ t. guarded is_delete_pod R t)"
  "ensures (State_Monad.return y) (\<lambda>_ t. guarded is_delete_pod R t)"
  by (rule ensures_guarded_none; simp add: trace_rules)+

lemma pod_deletes:
  "ensures (reconcile_pod lib c r nn ws) (\<lambda>_ t. guarded is_delete_pod (deletion_ok r nn ws) t)"
proof -
  let ?k = "\<lparr>key_namespace = key_namespace nn, key_name = PodName (ws_user_id ws)\<rparr>"
  have cre: "ensures (create_missing_pod lib c r ws) (\<lambda>_ t. guarded is_delete_pod R t)" for R
    unfolding create_missing_pod_def by (rule ensures_guarded_none) (intro trace_rules; simp)
  have del: "ensures (do { d \<leftarrow> delete_pod c pod; State_Monad.return (h d) })
      (\<lambda>_ t. guarded is_delete_pod (\<lambda>e pre. deletion_ok r nn ws e (GetPod ?k (Inr pod) # pre)) t)"
    if "image_outdated r pod" for pod and h :: "unit res \<Rightarrow> outcome"
  proof -
    have "emits (do { d \<leftarrow> delete_pod c pod; State_Monad.return (h d) })
        (\<lambda>e. is_delete_pod e \<longrightarrow> (\<forall>pre. deletion_ok r nn ws e (GetPod ?k (Inr pod) # pre)))"
      using that by (intro trace_rules) (auto simp: deletion_ok_def)
    from ensures_guarded_all [OF this] show ?thesis by (rule ensures_mono) (auto elim!: guarded_mono)
  qed
  have svc: "ensures (reconcile_service lib c r nn ws pod)
      (\<lambda>_ t. guarded is_delete_pod (\<lambda>e pre. deletion_ok r nn ws e (GetPod ?k (Inr pod) # pre)) t)" for pod
    unfolding reconcile_service_def Let_def
  proof (rule ensures_guarded_seq)
    show "deletion_ok r nn ws e (GetPod ?k (Inr pod) # t @ pre)"
      if "deletion_ok r nn ws e (GetPod ?k (Inr pod) # pre)" for e t pre
      using that by (rule deletion_ok_mono) auto
    show "ensures (case a of Inl e \<Rightarrow> finish_status lib c r ws
          (failed_summary '''' (err_text e) (ErrorDetailsForService lib e)) no_requeue
        | Inr _ \<Rightarrow> reconcile_idle lib c r ws pod (service_endpoint (ServiceName (ws_user_id ws)) (key_namespace nn)))
      (\<lambda>_ t. guarded is_delete_pod (\<lambda>e pre. deletion_ok r nn ws e (GetPod ?k (Inr pod) # pre)) t)"
      for a :: "service res"
      by (intro ensures_case_sum quiet_status, rule ensures_mono [OF idle_deletes], erule guarded_mono)
        (auto simp: deletion_ok_def intro: idle_expired_Cons)
  qed (simp add: trace_rules)
  show ?thesis
    unfolding reconcile_pod_def get_pod_def
    by (rule ensures_guarded_ask, simp, intro ensures_case_sum ensures_if)
      (simp_all add: quiet_status cre del svc)
qed

lemma access_deletes:
  "ensures (reconcile_access lib c r nn ws) (\<lambda>_ t. guarded is_delete_pod (deletion_ok r nn ws) t)"
proof -
  have mono: "deletion_ok r nn ws e (t @ pre)" if "deletion_ok r nn ws e pre" for e t pre
    using that by (rule deletion_ok_mono) auto
  have pvc: "ensures (reconcile_pvc lib c r nn ws) (\<lambda>_ t. guarded is_delete_pod (deletion_ok r nn ws) t)"
  proof -
    have "ensures (create_missing_pvc lib c r ws) (\<lambda>_ t. guarded is_delete_pod (deletion_ok r nn ws) t)"
      unfolding create_missing_pvc_def by (rule ensures_guarded_none) (intro trace_rules; simp)
    then show ?thesis
      unfolding reconcile_pvc_def
      by (intro ensures_guarded_seq mono ensures_case_sum ensures_if quiet_status pod_deletes)
        (simp_all add: trace_rules)
  qed
  show ?thesis
    unfolding reconcile_access_def
    by (intro ensures_guarded_seq mono ensures_case_option quiet_status pvc) (simp_all add: trace_rules)
qed

section \<open>Status writes\<close>

lemma summary_phases [simp]:
  "sum_phase (summary ph) = ph" "sum_phase (failed_summary p m h) = WorkspacePhaseFailed"
  "sum_phase (creating_summary ws m h) = WorkspacePhaseCreating" "sum_phase stopped_summary = WorkspacePhaseStopped"
  by (simp_all add: summary_def failed_summary_def creating_summary_def stopped_summary_def)

lemma bookkeeping_not_patch [simp]: "\<not> bookkeeping (PatchStatus b n x)"
  by simp

lemma is_ensure_not_patch [simp]: "\<not> is_ensure (PatchStatus b n x)"
  by simp

abbreviation pod_serving :: "pod \<Rightarrow> bool" where
  "pod_serving pod \<equiv> ps_phase (pod_status_of pod) = PodRunning \<and> isPodReady (Some pod)"

text \<open>A write of phase Running happens only for a pod that runs and is ready.\<close>

fun running_write :: "event \<Rightarrow> bool" where
  "running_write (PatchStatus _ n _) \<longleftrightarrow> ws_phase n = WorkspacePhaseRunning"
| "running_write _ = False"

lemma not_running_write [simp]:
  "bookkeeping e \<Longrightarrow> \<not> running_write e" "is_ensure e \<Longrightarrow> \<not> running_write e"
  by (cases e; simp)+

lemma service_running: "emits (reconcile_service lib c r nn ws pod) (\<lambda>e. running_write e \<longrightarrow> pod_serving pod)"
  unfolding reconcile_service_def reconcile_idle_def seed_last_accessed_def stop_idle_def reconcile_status_def Let_def
  by (intro trace_rules) auto

lemma pod_running:
  "ensures (reconcile_pod lib c r nn ws) (\<lambda>_ t. guarded running_write (\<lambda>e pre. \<exists>pod. pod_serving pod \<and>
     GetPod \<lparr>key_namespace = key_namespace nn, key_name = PodName (ws_user_id ws)\<rparr> (Inr pod) \<in> set pre) t)"
  (is "ensures _ (\<lambda>_ t. guarded _ ?P t)")
proof -
  let ?k = "\<lparr>key_namespace = key_namespace nn, key_name = PodName (ws_user_id ws)\<rparr>"
  have svc: "ensures (reconcile_service lib c r nn ws pod)
      (\<lambda>_ t. guarded running_write (\<lambda>e pre. ?P e (GetPod ?k (Inr pod) # pre)) t)" for pod
    by (rule ensures_mono [OF ensures_guarded_all [OF service_running]]) (auto elim!: guarded_mono)
  have cre: "ensures (create_missing_pod lib c r ws) (\<lambda>_ t. guarded running_write R t)" for R
    unfolding create_missing_pod_def
    by (rule ensures_guarded_none) (intro trace_rules; simp)
  have del: "ensures (State_Monad.bind (delete_pod c pod) (\<lambda>d. State_Monad.return (h d)))
      (\<lambda>_ t. guarded running_write R t)" for pod R and h :: "unit res \<Rightarrow> outcome"
    by (rule ensures_guarded_none) (simp add: trace_rules)
  have ret: "ensures (retry_status lib c r ws (creating_summary ws m h) what err)
      (\<lambda>_ t. guarded running_write R t)" for m h what err R
    by (rule ensures_guarded_none) (simp add: trace_rules)
  show ?thesis
    unfolding reconcile_pod_def get_pod_def
    by (rule ensures_guarded_ask, simp, intro ensures_case_sum ensures_if)
      (simp_all add: svc [simplified] cre del ret)
qed

lemma access_running:
  "ensures (reconcile_access lib c r nn ws) (\<lambda>_ t. guarded running_write (\<lambda>e pre. \<exists>pod. pod_serving pod \<and>
     GetPod \<lparr>key_namespace = key_namespace nn, key_name = PodName (ws_user_id ws)\<rparr> (Inr pod) \<in> set pre) t)"
proof -
  have fin: "ensures (finish_status lib c r ws (failed_summary p m h) res) (\<lambda>_ t. guarded running_write R t)"
    "ensures (retry_status lib c r ws (creating_summary ws m h) what err) (\<lambda>_ t. guarded running_write R t)"
    for p m h res what err R
    by (rule ensures_guarded_none; simp add: trace_rules)+
  have cre: "ensures (create_missing_pvc lib c r ws) (\<lambda>_ t. guarded running_write R t)" for R
    unfolding create_missing_pvc_def
    by (rule ensures_guarded_none) (intro trace_rules; simp)
  show ?thesis
    unfolding reconcile_access_def reconcile_pvc_def
    by (intro ensures_guarded_seq ensures_case_option ensures_case_sum ensures_if pod_running fin cre)
      (auto simp: trace_rules)
qed

lemma Reconcile_running:
  assumes "\<And>ws. ensures (reconcile_access lib c r nn ws)
      (\<lambda>_ u. guarded running_write (\<lambda>e pre. P e (GetWorkspace nn (Inr ws) # pre)) u)"
  shows "ensures (Reconcile lib c r nn) (\<lambda>_ t. guarded running_write P t)"
proof -
  have ret: "ensures (State_Monad.return y) (\<lambda>_ u. guarded running_write R u)" for y :: outcome and R
    by (simp add: ensures_return guarded_def)
  have fin: "ensures (finish_status lib c r ws (failed_summary p m h) res) (\<lambda>_ u. guarded running_write R u)"
    for ws p m h res R
    by (rule ensures_guarded_none) (simp add: trace_rules)
  have upd: "ensures (State_Monad.bind (update_workspace c ws) (\<lambda>u. State_Monad.return (h u)))
      (\<lambda>_ u. guarded running_write R u)" for ws R and h :: "workspace res \<Rightarrow> outcome"
    by (rule ensures_guarded_none) (simp add: trace_rules)
  show ?thesis
    unfolding Reconcile_def get_workspace_def reconcileDelete_def
    by (rule ensures_guarded_ask, simp, intro ensures_case_sum ensures_if ensures_case_option)
      (simp_all add: ret fin upd assms)
qed

text \<open>Every patch leaves spec, metadata and an existing \<open>lastAccessed\<close> as they were.\<close>

lemma Reconcile_patches:
  "emits (Reconcile lib c r nn) (\<lambda>e. \<forall>b n x. e = PatchStatus b n x \<longrightarrow>
     ws_meta n = ws_meta b \<and> ws_spec n = ws_spec b
     \<and> (st_last_accessed (ws_status n) = st_last_accessed (ws_status b) \<or> st_last_accessed (ws_status b) = None))"
  unfolding Reconcile_def reconcileDelete_def reconcile_access_def reconcile_pvc_def create_missing_pvc_def
    reconcile_pod_def create_missing_pod_def reconcile_service_def reconcile_idle_def seed_last_accessed_def Let_def
  by (intro trace_rules) auto

section \<open>Outcomes\<close>

text \<open>The phase of the last status patch that the API server accepted.\<close>

fun written_phase :: "event \<Rightarrow> workspace_phase option" where
  "written_phase (PatchStatus _ n (Inr _)) = Some (ws_phase n)"
| "written_phase _ = None"

fun last_written :: "event list \<Rightarrow> workspace_phase option" where
  "last_written [] = None"
| "last_written (e # es) = (case last_written es of Some ph \<Rightarrow> Some ph | None \<Rightarrow> written_phase e)"

lemma last_written_append:
  "last_written (t @ u) = (case last_written u of Some ph \<Rightarrow> Some ph | None \<Rightarrow> last_written t)"
  by (induction t) (auto split: option.splits)

lemma last_written_later: "last_written u = Some ph \<Longrightarrow> last_written (t @ u) = Some ph"
  by (simp add: last_written_append)

lemma last_written_quiet: "list_all bookkeeping t \<Longrightarrow> last_written t = None"
proof (induction t)
  case (Cons e t)
  then show ?case by (cases e) auto
qed simp

lemma updateStatus_written:
  "ensures (updateStatus lib c r ws smry) (\<lambda>u t. u = None \<longrightarrow> last_written t = Some (sum_phase smry))"
proof -
  have rest: "ensures m (\<lambda>u v. u = None \<longrightarrow> last_written (PatchStatus ws (ApplyStatusSummary lib ws smry) (Inr ws') # v)
      = Some (sum_phase smry))" if "emits m bookkeeping" for m :: "('a, go_error option) kube" and ws'
    using that unfolding emits_def by (rule ensures_mono) (simp add: last_written_quiet)
  have bad: "ensures (State_Monad.bind (emit e) (\<lambda>_. State_Monad.return (Some err))) (\<lambda>u v. u = None \<longrightarrow> R v)"
    for e :: event and err :: go_error and R
    by (simp add: ensures_def)
  show ?thesis
    unfolding updateStatus_def patch_status_def Let_def
    by (intro ensures_ask_bind ensures_case_sum)
      (simp_all only: bad rest emits_bind emits_report emits_return)
qed

lemma finish_status_written:
  "ensures (finish_status lib c r ws smry res)
     (\<lambda>out t. snd out = None \<longrightarrow> fst out = res \<and> last_written t = Some (sum_phase smry))"
  unfolding finish_status_def
  by (rule ensures_bind [OF updateStatus_written]) (auto intro: ensures_return split: option.splits)

lemma retry_status_error: "ensures (retry_status lib c r ws smry what err) (\<lambda>out t. snd out \<noteq> None)"
  unfolding retry_status_def
  by (rule ensures_bind [where Q = "\<lambda>_ _. True"]) (auto intro: ensures_return ensures_mono [OF updateStatus_written])

definition requeues :: "ctrl_result \<Rightarrow> bool" where
  "requeues res \<longleftrightarrow> rq_now res \<or> rq_after res > 0"

lemma requeues_simps [simp]: "\<not> requeues no_requeue" "requeues (requeue_after d) \<longleftrightarrow> d > 0"
  by (simp_all add: requeues_def no_requeue_def requeue_after_def)

text \<open>Without an error and without a requeue, the last phase written is a final one.\<close>

definition settled :: "outcome \<Rightarrow> event list \<Rightarrow> bool" where
  "settled out t \<longleftrightarrow> (snd out = None \<and> \<not> requeues (fst out) \<longrightarrow>
     (\<exists>ph \<in> {WorkspacePhaseRunning, WorkspacePhaseFailed, WorkspacePhaseStopped}. last_written t = Some ph))"

lemma settled_append: "settled out u \<Longrightarrow> settled out (t @ u)"
  by (auto simp: settled_def last_written_append)

lemma ensures_settled_bind:
  assumes "\<And>a. ensures (f a) settled" and "emits m (\<lambda>_. True)"
  shows "ensures (State_Monad.bind m f) settled"
  by (rule ensures_bind [OF assms(2) [unfolded emits_def]], rule ensures_mono [OF assms(1)]) (rule settled_append)

lemma finish_settled:
  "sum_phase smry \<in> {WorkspacePhaseRunning, WorkspacePhaseFailed, WorkspacePhaseStopped} \<or> requeues res
   \<Longrightarrow> ensures (finish_status lib c r ws smry res) settled"
  by (rule ensures_mono [OF finish_status_written]) (auto simp: settled_def)

lemma return_settled:
  "ensures (State_Monad.return (res, Some e)) settled"
  "requeues res \<Longrightarrow> ensures (State_Monad.return (res, x)) settled"
  by (simp_all add: ensures_return settled_def)

lemma retry_settled: "ensures (retry_status lib c r ws smry what err) settled"
  by (rule ensures_mono [OF retry_status_error]) (auto simp: settled_def)

lemma delete_outdated_settled:
  "ensures (State_Monad.return (case delete_failed d of
     None \<Rightarrow> (requeue_after (2 * Second), None) | Some e \<Rightarrow> (no_requeue, Some (f e)))) settled"
  by (auto simp: Second_def return_settled split: option.split)

lemma access_settled: "ensures (reconcile_access lib c r nn ws) settled"
  unfolding reconcile_access_def reconcile_pvc_def create_missing_pvc_def reconcile_pod_def create_missing_pod_def
    reconcile_service_def reconcile_idle_def stop_idle_def reconcile_status_def Let_def
  by (intro ensures_settled_bind ensures_case_option ensures_case_sum ensures_if retry_settled finish_settled
      return_settled delete_outdated_settled)
    (auto simp: Second_def trace_rules seed_last_accessed_def)

section \<open>The phase reported for a pod\<close>

text \<open>
  The phase a pod stands for: Running when it runs and is ready, Failed when it has failed, is
  out of reach or a container waits for a reason that needs a human, Creating otherwise.
\<close>

definition needs_human :: "container_status \<Rightarrow> bool" where
  "needs_human cs \<longleftrightarrow> (case cs_waiting cs of None \<Rightarrow> False | Some w \<Rightarrow>
     cw_reason w \<in> {''CrashLoopBackOff'', ''ImagePullBackOff'', ''ErrImagePull'', ''InvalidImageName''})"

definition observed_phase :: "pod \<Rightarrow> workspace_phase" where
  "observed_phase pod =
     (if pod_serving pod then WorkspacePhaseRunning
      else if ps_phase (pod_status_of pod) \<in> {PodFailed, PodUnknown}
           \<or> list_ex needs_human (ps_containers (pod_status_of pod)) then WorkspacePhaseFailed
      else WorkspacePhaseCreating)"

text \<open>When to look again: a quarter of the idle timeout, never for a failure, else five seconds.\<close>

definition observed_requeue :: "duration \<Rightarrow> pod \<Rightarrow> ctrl_result" where
  "observed_requeue idle pod =
     (if pod_serving pod then (if idle > 0 then requeue_after (idle div 4) else no_requeue)
      else if observed_phase pod = WorkspacePhaseFailed then no_requeue else requeue_after (5 * Second))"

lemma stuck_container_None: "stuck_container css = None \<longleftrightarrow> \<not> list_ex needs_human css"
  by (induction css rule: stuck_container.induct) (auto simp: needs_human_def split: option.splits)

lemma stuck_container_Some: "stuck_container css = Some w \<Longrightarrow> list_ex needs_human css"
  using stuck_container_None [of css] by auto

lemma status_verdict:
  "ensures (reconcile_status lib c r ws podName pod ep idle) (\<lambda>out t. snd out = None \<longrightarrow>
     fst out = observed_requeue idle pod \<and> last_written t = Some (observed_phase pod))"
  unfolding reconcile_status_def Let_def
  by (intro ensures_if ensures_case_option; rule ensures_mono [OF finish_status_written])
    (auto simp: observed_requeue_def observed_phase_def quot_def stuck_container_None dest: stuck_container_Some)

text \<open>
  The reading of a whole trace: once the Service is confirmed for a pod that was read, and the
  pod was not deleted, a reconcile without error has reported exactly that pod.
\<close>

definition reports :: "object_key \<Rightarrow> duration \<Rightarrow> outcome \<Rightarrow> event list \<Rightarrow> bool" where
  "reports k idle out t \<longleftrightarrow> (\<forall>pod ks sv. snd out = None \<and> GetPod k (Inr pod) \<in> set t
     \<and> EnsureService ks (Inr sv) \<in> set t \<and> list_all (\<lambda>e. \<not> is_delete_pod e) t \<longrightarrow>
     fst out = observed_requeue idle pod \<and> last_written t = Some (observed_phase pod))"

fun reads_pod :: "event \<Rightarrow> bool" where
  "reads_pod (GetPod _ _) = True"
| "reads_pod (EnsureService _ _) = True"
| "reads_pod _ = False"

lemma not_reads_pod [simp]: "bookkeeping e \<Longrightarrow> \<not> reads_pod e" "is_ensure e \<Longrightarrow> \<not> reads_pod e"
  by (cases e; simp)+

lemma reports_append:
  assumes "list_all (\<lambda>e. \<not> reads_pod e) t" and "reports k idle out u"
  shows "reports k idle out (t @ u)"
proof -
  have "GetPod k x \<notin> set t" "EnsureService ks y \<notin> set t" for x ks y
    using assms(1) by (auto simp: list_all_iff)
  then have "GetPod k (Inr pod) \<in> set u" "EnsureService ks (Inr sv) \<in> set u"
    if "GetPod k (Inr pod) \<in> set (t @ u)" "EnsureService ks (Inr sv) \<in> set (t @ u)" for pod ks sv
    using that by auto
  with assms(2) show ?thesis
    unfolding reports_def list_all_append by (metis last_written_later)
qed

lemma reports_none: "list_all (\<lambda>e. \<not> reads_pod e) t \<Longrightarrow> reports k idle out t"
  by (auto simp: reports_def list_all_iff)

lemma ensures_reports_bind:
  assumes "emits m (\<lambda>e. \<not> reads_pod e)" and "\<And>a. ensures (f a) (reports k idle)"
  shows "ensures (State_Monad.bind m f) (reports k idle)"
  by (rule ensures_bind [OF assms(1) [unfolded emits_def]], rule ensures_mono [OF assms(2)]) (rule reports_append)

lemma ensures_reports_none: "emits m (\<lambda>e. \<not> reads_pod e) \<Longrightarrow> ensures m (reports k idle)"
  unfolding emits_def by (erule ensures_mono) (rule reports_none)

lemma idle_verdict:
  "ensures (reconcile_idle lib c r ws pod ep) (\<lambda>out t. snd out = None \<and> list_all (\<lambda>e. \<not> is_delete_pod e) t \<longrightarrow>
     fst out = observed_requeue (effectiveIdleTimeout ws (rc_idle_timeout r)) pod
     \<and> last_written t = Some (observed_phase pod))"
  (is "ensures _ ?V")
proof -
  let ?idle = "effectiveIdleTimeout ws (rc_idle_timeout r)"
  have st: "ensures (reconcile_status lib c r ws1 (PodName (ws_user_id ws)) pod ep ?idle) (\<lambda>out u. ?V out (t @ u))" for ws1 t
    by (rule ensures_mono [OF status_verdict]) (auto simp: last_written_append)
  have stop: "ensures (stop_idle lib c r ws1 pod) (\<lambda>out u. ?V out (t @ u))" for ws1 t
  proof -
    have any: "emits (case delete_failed d of None \<Rightarrow> finish_status lib c r ws1 stopped_summary no_requeue
        | Some e \<Rightarrow> State_Monad.return (no_requeue, Some (errorf_w ''delete idle pod'' e))) (\<lambda>_. True)" for d
      by (intro trace_rules) simp_all
    show ?thesis
      unfolding stop_idle_def delete_pod_def
      by (rule ensures_ask_bind, rule ensures_mono [OF any [unfolded emits_def]]) simp
  qed
  have check: "ensures (do { t \<leftarrow> now c;
        if time_sub t (idle_since ws1) > ?idle then stop_idle lib c r ws1 pod
        else reconcile_status lib c r ws1 (PodName (ws_user_id ws)) pod ep ?idle }) (\<lambda>out u. ?V out (t @ u))" for ws1 t
    unfolding now_def using st [of _ "t @ [ReadClock x]" for x] stop [of _ "t @ [ReadClock x]" for x]
    by (intro ensures_ask_bind ensures_if) simp_all
  have err: "ensures (State_Monad.return (no_requeue, Some e)) (\<lambda>out u. ?V out (t @ u))" for t and e :: go_error
    by (simp add: ensures_return)
  have seed: "ensures (seed_last_accessed c ws) (\<lambda>_ _. True)"
    unfolding seed_last_accessed_def client_call_defs by (intro ensures_if ensures_ask_bind ensures_ask ensures_return) simp_all
  show ?thesis
    unfolding reconcile_idle_def Let_def
    by (intro ensures_if ensures_bind [OF seed] ensures_case_sum check err st [of _ "[]", simplified])
qed

lemma access_reports:
  "ensures (reconcile_access lib c r nn ws)
     (reports \<lparr>key_namespace = key_namespace nn, key_name = PodName (ws_user_id ws)\<rparr>
       (effectiveIdleTimeout ws (rc_idle_timeout r)))"
  (is "ensures _ (reports ?k ?idle)")
proof -
  have svc: "ensures (reconcile_service lib c r nn ws pod) (\<lambda>out u. reports ?k ?idle out (GetPod ?k (Inr pod) # u))" for pod
  proof -
    let ?ep = "service_endpoint (ServiceName (ws_user_id ws)) (key_namespace nn)"
    have noget: "emits (reconcile_idle lib c r ws pod ?ep) (\<lambda>e. \<not> reads_pod e)"
      unfolding reconcile_idle_def seed_last_accessed_def Let_def by (intro trace_rules) simp_all
    have "ensures (reconcile_idle lib c r ws pod ?ep)
        (\<lambda>out u. reports ?k ?idle out (GetPod ?k (Inr pod) # EnsureService ks (Inr sv) # u))" for ks sv
      by (rule ensures_mono [OF ensures_conj [OF idle_verdict noget [unfolded emits_def]]])
        (auto simp: reports_def list_all_iff)
    moreover have "ensures (finish_status lib c r ws smry res)
        (\<lambda>out u. reports ?k ?idle out (GetPod ?k (Inr pod) # EnsureService ks (Inl e) # u))" for ks e smry res
    proof -
      have "emits (finish_status lib c r ws smry res) (\<lambda>e. \<not> reads_pod e)"
        by (simp add: trace_rules)
      then show ?thesis unfolding emits_def by (rule ensures_mono) (auto simp: reports_def list_all_iff)
    qed
    ultimately show ?thesis
      unfolding reconcile_service_def ensure_svc_def Let_def
      by (intro ensures_ask_bind ensures_case_sum) simp_all
  qed
  have none: "ensures m (\<lambda>out u. reports ?k ?idle out (GetPod ?k x # u))"
    if "emits m (\<lambda>e. \<not> reads_pod e)" for m :: "('a, outcome) kube" and x
    using that unfolding emits_def by (rule ensures_mono) (auto simp: reports_def list_all_iff)
  have pod: "ensures (reconcile_pod lib c r nn ws) (reports ?k ?idle)"
    unfolding reconcile_pod_def get_pod_def create_missing_pod_def
    by (rule ensures_ask_bind, intro ensures_case_sum ensures_if) (simp_all add: svc none trace_rules)
  show ?thesis
    unfolding reconcile_access_def reconcile_pvc_def create_missing_pvc_def
    by (intro ensures_reports_bind ensures_case_option ensures_case_sum ensures_if pod ensures_reports_none)
      (simp_all add: trace_rules)
qed

text \<open>The same for the whole reconcile, with the ways it ends before the access objects.\<close>

lemma Reconcile_settled:
  "ensures (Reconcile lib c r nn) (\<lambda>out t. settled out t
     \<or> (\<exists>e. GetWorkspace nn (Inl e) \<in> set t \<and> (is_not_found e \<or> snd out \<noteq> None))
     \<or> (\<exists>ws. GetWorkspace nn (Inr ws) \<in> set t
          \<and> (mt_deletion (ws_meta ws) \<noteq> None \<or> ws_phase ws = WorkspacePhaseStopped)))"
proof -
  have st: "ensures m (\<lambda>out u. settled out (e # u) \<or> A out u)" if "ensures m settled" for m :: "('a, outcome) kube" and e A
    using that by (rule ensures_mono) (use settled_append [of _ _ "[e]"] in auto)
  have del: "ensures (reconcileDelete lib c ws) (\<lambda>_ _. True)" for ws
    unfolding reconcileDelete_def update_workspace_def by (intro ensures_ask_bind ensures_return) simp
  have upd: "ensures (State_Monad.bind (update_workspace c ws) (\<lambda>u. State_Monad.return (case u of
      Inl e \<Rightarrow> (no_requeue, Some (errorf_w ''add finalizer'' e)) | Inr _ \<Rightarrow> (\<lparr>rq_now = True, rq_after = 0\<rparr>, None)))) settled"
    for ws
    unfolding update_workspace_def
    by (intro ensures_ask_bind ensures_return) (auto simp: settled_def requeues_def split: sum.split)
  show ?thesis
    unfolding Reconcile_def get_workspace_def
    by (rule ensures_ask_bind, intro ensures_case_sum ensures_if ensures_case_option)
      (auto intro!: ensures_return st [OF access_settled] st [OF upd] st [OF finish_settled] ensures_mono [OF del])
qed

fun reads_workspace :: "event \<Rightarrow> bool" where
  "reads_workspace (GetWorkspace _ _) = True"
| "reads_workspace _ = False"

lemma not_reads_workspace [simp]:
  "bookkeeping e \<Longrightarrow> \<not> reads_workspace e" "is_ensure e \<Longrightarrow> \<not> reads_workspace e"
  by (cases e; simp)+

lemma access_reads_once: "emits (reconcile_access lib c r nn ws) (\<lambda>e. \<not> reads_workspace e)"
  unfolding reconcile_access_def reconcile_pvc_def create_missing_pvc_def reconcile_pod_def create_missing_pod_def
    reconcile_service_def reconcile_idle_def seed_last_accessed_def Let_def
  by (intro trace_rules) simp_all

lemma Reconcile_reports:
  "ensures (Reconcile lib c r nn) (\<lambda>out t. \<forall>ws. GetWorkspace nn (Inr ws) \<in> set t \<longrightarrow>
     reports \<lparr>key_namespace = key_namespace nn, key_name = PodName (ws_user_id ws)\<rparr>
       (effectiveIdleTimeout ws (rc_idle_timeout r)) out t)"
  (is "ensures _ (\<lambda>out t. \<forall>ws. _ \<longrightarrow> ?R ws out t)")
proof -
  let ?A = "\<lambda>x out u. \<forall>ws. GetWorkspace nn (Inr ws) \<in> set (GetWorkspace nn x # u) \<longrightarrow> ?R ws out (GetWorkspace nn x # u)"
  have quiet: "ensures m (?A x)" if "emits m (\<lambda>e. \<not> reads_pod e)" for m :: "('a, outcome) kube" and x
    using that unfolding emits_def by (rule ensures_mono) (auto intro!: reports_none)
  have acc: "ensures (reconcile_access lib c r nn ws) (?A (Inr ws))" for ws
    using ensures_conj [OF access_reports access_reads_once [unfolded emits_def]]
  proof (rule ensures_mono)
    fix out u
    assume u: "?R ws out u \<and> list_all (\<lambda>e. \<not> reads_workspace e) u"
    then have "GetWorkspace nn y \<notin> set u" for y by (auto simp: list_all_iff)
    then show "?A (Inr ws) out u"
      using reports_append [of "[GetWorkspace nn (Inr ws)]" _ _ out u] u by auto
  qed
  show ?thesis
    unfolding Reconcile_def get_workspace_def reconcileDelete_def
    by (rule ensures_ask_bind, intro ensures_case_sum ensures_if ensures_case_option)
      (simp_all only: acc quiet trace_rules, simp_all add: quiet trace_rules acc del: list.set)
qed

end
