(* ===== verification/Cluster.thy ===== *)
theory Cluster
  imports Controller_Trace
begin

text \<open>
  A concrete API server: maps from keys to objects, with the documented behaviour of the calls
  (not-found and already-exists errors, UIDs given by the server, status as a subresource,
  merge patches, removal of a deleted object when its last finalizer goes). It shows that the
  contract of the client can be met, it is the cluster of the examples, and it is the world in
  which the reconciler, the gateway, the kubelet and the garbage collector act together.

  It is the API server on a good day: a call fails only for the reasons above, a read is never
  stale, and a pod that is deleted is gone at once, without a grace period. What has to hold on
  any other day is proved for every client instead.
\<close>

record cluster =
  k_clock :: instant
  k_uids :: nat
  k_ws :: "object_key \<Rightarrow> workspace option"
  k_pvc :: "object_key \<Rightarrow> pvc option"
  k_pod :: "object_key \<Rightarrow> pod option"
  k_sa :: "object_key \<Rightarrow> service_account option"
  k_role :: "object_key \<Rightarrow> role option"
  k_rb :: "object_key \<Rightarrow> role_binding option"
  k_np :: "object_key \<Rightarrow> network_policy option"
  k_svc :: "object_key \<Rightarrow> service option"

definition not_found :: go_error where
  "not_found = \<lparr>err_text = ''not found'', err_kinds = [NotFound]\<rparr>"

definition already_exists :: go_error where
  "already_exists = new_error ''already exists''"

lemma not_found_simps [simp]: "is_not_found not_found" "\<not> is_not_found already_exists"
  by (simp_all add: not_found_def already_exists_def errors_is_def new_error_def)

text \<open>An object is stored under its own key; an entry under another key does not count.\<close>

definition find_in :: "('o \<Rightarrow> object_meta) \<Rightarrow> (object_key \<Rightarrow> 'o option) \<Rightarrow> object_key \<Rightarrow> 'o option" where
  "find_in mt m k = (case m k of None \<Rightarrow> None | Some x \<Rightarrow> if key_of (mt x) = k then Some x else None)"

definition lookup :: "('o \<Rightarrow> object_meta) \<Rightarrow> (object_key \<Rightarrow> 'o option) \<Rightarrow> object_key \<Rightarrow> 'o res" where
  "lookup mt m k = (case find_in mt m k of None \<Rightarrow> Inl not_found | Some x \<Rightarrow> Inr x)"

text \<open>The server gives a created object its UID.\<close>

definition fresh_uid :: "nat \<Rightarrow> object_meta \<Rightarrow> object_meta" where
  "fresh_uid n m = m\<lparr>mt_uid := ''uid-'' @ Itoa (int n), mt_generation := 1\<rparr>"

text \<open>
  \<open>CreateOrUpdate\<close> on one kind: mutate the stored object, or the given one when there is none,
  and store the result under the key of the request.
\<close>

definition ensure_in ::
  "('o \<Rightarrow> object_meta) \<Rightarrow> ('o \<Rightarrow> 'o) \<Rightarrow> (object_key \<Rightarrow> 'o option) \<Rightarrow> 'o \<Rightarrow> ('o \<Rightarrow> 'o res)
    \<Rightarrow> 'o res \<times> (object_key \<Rightarrow> 'o option)" where
  "ensure_in mt stamp m x f = (let k = key_of (mt x) in case find_in mt m k of
     None \<Rightarrow> (case f x of Inl e \<Rightarrow> (Inl e, m) | Inr y \<Rightarrow> (Inr (stamp y), m(k \<mapsto> stamp y)))
   | Some z \<Rightarrow> (case f z of Inl e \<Rightarrow> (Inl e, m) | Inr y \<Rightarrow> (Inr y, m(k \<mapsto> y))))"

definition next_uid :: "('o \<Rightarrow> object_meta) \<Rightarrow> (object_key \<Rightarrow> 'o option) \<Rightarrow> 'o \<Rightarrow> nat \<Rightarrow> nat" where
  "next_uid mt m x n = (if find_in mt m (key_of (mt x)) = None then Suc n else n)"

definition update_in :: "workspace \<Rightarrow> cluster \<Rightarrow> workspace res \<times> cluster" where
  "update_in ws w = (let k = key_of (ws_meta ws) in case find_in ws_meta (k_ws w) k of
     None \<Rightarrow> (Inl not_found, w)
   | Some cur \<Rightarrow>
      (let new = ws\<lparr>ws_status := ws_status cur, ws_meta := (ws_meta ws)\<lparr>mt_uid := mt_uid (ws_meta cur),
             mt_deletion := mt_deletion (ws_meta cur),
             mt_generation := mt_generation (ws_meta cur) + (if ws_spec ws = ws_spec cur then 0 else 1)\<rparr>\<rparr>
       in if mt_deletion (ws_meta cur) \<noteq> None \<and> mt_finalizers (ws_meta new) = []
          then (Inr new, w\<lparr>k_ws := (k_ws w)(k := None)\<rparr>)
          else (Inr new, w\<lparr>k_ws := (k_ws w)(k \<mapsto> new)\<rparr>)))"

definition patch_in :: "workspace \<Rightarrow> workspace \<Rightarrow> cluster \<Rightarrow> workspace res \<times> cluster" where
  "patch_in base new w = (let k = key_of (ws_meta new) in case find_in ws_meta (k_ws w) k of
     None \<Rightarrow> (Inl not_found, w)
   | Some cur \<Rightarrow> (let ws = cur\<lparr>ws_status := merge_status (ws_status base) (ws_status new) (ws_status cur)\<rparr>
                 in (Inr ws, w\<lparr>k_ws := (k_ws w)(k \<mapsto> ws)\<rparr>)))"

definition cluster_client :: "cluster kclient" where
  "cluster_client = \<lparr>
     cl_now = (\<lambda>w. (k_clock w, w)),
     cl_wait = (\<lambda>d w. (None, w\<lparr>k_clock := k_clock w + max 0 d\<rparr>)),
     cl_get_ws = (\<lambda>k w. (lookup ws_meta (k_ws w) k, w)),
     cl_create_ws = (\<lambda>ws w. let k = key_of (ws_meta ws); ws' = ws\<lparr>ws_meta := fresh_uid (k_uids w) (ws_meta ws)\<rparr> in
        if find_in ws_meta (k_ws w) k \<noteq> None then (Inl already_exists, w)
        else (Inr ws', w\<lparr>k_ws := (k_ws w)(k \<mapsto> ws'), k_uids := Suc (k_uids w)\<rparr>)),
     cl_update_ws = update_in,
     cl_patch_status = patch_in,
     cl_get_pvc = (\<lambda>k w. (lookup pvc_meta (k_pvc w) k, w)),
     cl_create_pvc = (\<lambda>v w. let k = key_of (pvc_meta v); v' = v\<lparr>pvc_meta := fresh_uid (k_uids w) (pvc_meta v)\<rparr> in
        if find_in pvc_meta (k_pvc w) k \<noteq> None then (Inl already_exists, w)
        else (Inr v', w\<lparr>k_pvc := (k_pvc w)(k \<mapsto> v'), k_uids := Suc (k_uids w)\<rparr>)),
     cl_get_pod = (\<lambda>k w. (lookup pod_meta (k_pod w) k, w)),
     cl_create_pod = (\<lambda>p w. let k = key_of (pod_meta p); p' = p\<lparr>pod_meta := fresh_uid (k_uids w) (pod_meta p)\<rparr> in
        if find_in pod_meta (k_pod w) k \<noteq> None then (Inl already_exists, w)
        else (Inr p', w\<lparr>k_pod := (k_pod w)(k \<mapsto> p'), k_uids := Suc (k_uids w)\<rparr>)),
     cl_delete_pod = (\<lambda>p w. let k = key_of (pod_meta p) in
        if find_in pod_meta (k_pod w) k = None then (Inl not_found, w) else (Inr (), w\<lparr>k_pod := (k_pod w)(k := None)\<rparr>)),
     cl_ensure_sa = (\<lambda>x f w. case ensure_in sa_meta (sa_meta_update (fresh_uid (k_uids w))) (k_sa w) x f
        of (a, m) \<Rightarrow> (a, w\<lparr>k_sa := m, k_uids := next_uid sa_meta (k_sa w) x (k_uids w)\<rparr>)),
     cl_ensure_role = (\<lambda>x f w. case ensure_in role_meta (role_meta_update (fresh_uid (k_uids w))) (k_role w) x f
        of (a, m) \<Rightarrow> (a, w\<lparr>k_role := m, k_uids := next_uid role_meta (k_role w) x (k_uids w)\<rparr>)),
     cl_ensure_rb = (\<lambda>x f w. case ensure_in rb_meta (rb_meta_update (fresh_uid (k_uids w))) (k_rb w) x f
        of (a, m) \<Rightarrow> (a, w\<lparr>k_rb := m, k_uids := next_uid rb_meta (k_rb w) x (k_uids w)\<rparr>)),
     cl_ensure_np = (\<lambda>x f w. case ensure_in np_meta (np_meta_update (fresh_uid (k_uids w))) (k_np w) x f
        of (a, m) \<Rightarrow> (a, w\<lparr>k_np := m, k_uids := next_uid np_meta (k_np w) x (k_uids w)\<rparr>)),
     cl_ensure_svc = (\<lambda>x f w. case ensure_in svc_meta (svc_meta_update (fresh_uid (k_uids w))) (k_svc w) x f
        of (a, m) \<Rightarrow> (a, w\<lparr>k_svc := m, k_uids := next_uid svc_meta (k_svc w) x (k_uids w)\<rparr>))\<rparr>"

section \<open>The server keeps the contract\<close>

lemma find_in_key: "find_in mt m k = Some x \<Longrightarrow> key_of (mt x) = k"
  by (auto simp: find_in_def split: option.splits if_splits)

lemma lookup_Inr [simp]: "lookup mt m k = Inr x \<longleftrightarrow> find_in mt m k = Some x"
  by (auto simp: lookup_def split: option.splits)

lemma lookup_Inl [simp]: "lookup mt m k = Inl e \<longleftrightarrow> find_in mt m k = None \<and> e = not_found"
  by (auto simp: lookup_def split: option.splits)

lemma find_in_update [simp]:
  "find_in mt (m(k \<mapsto> x)) k' = (if k = k' then if key_of (mt x) = k then Some x else None else find_in mt m k')"
  "find_in mt (m(k := None)) k' = (if k = k' then None else find_in mt m k')"
  by (auto simp: find_in_def)

lemma ensure_in_mutated:
  assumes "\<And>y. norm (stamp y) = norm y"
  shows "ensures_mutated mt norm x f (fst (ensure_in mt stamp m x f))"
  using assms by (auto simp: ensures_mutated_def ensure_in_def Let_def dest: find_in_key
      split: option.splits sum.splits)

lemma erase_fresh [simp]: "erase (fresh_uid n m) = erase m"
  by (simp add: erase_def fresh_uid_def)

lemma fst_case_prod: "fst (case p of (a, b) \<Rightarrow> (a, f a b)) = fst p"
  by (simp add: case_prod_beta)

lemmas cluster_defs = cluster_client_def patch_in_def update_in_def

interpretation api_server: kube_client cluster_client
proof
  fix k w ws p q
  show "fst (cl_get_ws cluster_client k w) = Inr ws \<Longrightarrow> key_of (ws_meta ws) = k"
    "fst (cl_get_pvc cluster_client k w) = Inr p \<Longrightarrow> key_of (pvc_meta p) = k"
    "fst (cl_get_pod cluster_client k w) = Inr q \<Longrightarrow> key_of (pod_meta q) = k"
    by (simp_all add: cluster_client_def find_in_key)
  show "key_of (ws_meta ws) = key_of (ws_meta new) \<and> (\<exists>u. ws_status ws = merge_status (ws_status base) (ws_status new) u)"
    if "fst (cl_patch_status cluster_client base new w) = Inr ws" for base new
    using that by (auto simp: cluster_defs Let_def dest: find_in_key split: option.splits)
qed (simp_all add: cluster_client_def fst_case_prod ensure_in_mutated norm_sa_def norm_role_def norm_rb_def
    norm_np_def norm_svc_def)

interpretation operator: operator_env cluster_client sample_lib
  by unfold_locales
    (simp_all add: ctrl_owner.set_owner_owned set_status_condition_new set_status_condition_others
      fin_list.contains_iff fin_list.add_present fin_list.remove_absent
      ctrl_owner.set_owner_frame [symmetric] fin_list.add_frame [symmetric] fin_list.remove_frame [symmetric])

section \<open>Running the reconciler in the cluster\<close>

definition sys_of :: "'w \<Rightarrow> ('w, event) sys" where
  "sys_of w = \<lparr>world = w, trace = []\<rparr>"

definition reconcile_in :: "k8s_lib \<Rightarrow> reconciler \<Rightarrow> object_key \<Rightarrow> cluster \<Rightarrow> cluster" where
  "reconcile_in lib r nn w = world (snd (run_state (Reconcile lib cluster_client r nn) (sys_of w)))"

definition empty_cluster :: "instant \<Rightarrow> cluster" where
  "empty_cluster t = \<lparr>k_clock = t, k_uids = 0, k_ws = (\<lambda>_. None), k_pvc = (\<lambda>_. None), k_pod = (\<lambda>_. None),
     k_sa = (\<lambda>_. None), k_role = (\<lambda>_. None), k_rb = (\<lambda>_. None), k_np = (\<lambda>_. None), k_svc = (\<lambda>_. None)\<rparr>"

text \<open>A cluster with one Workspace, and the configuration of the examples.\<close>

definition cluster_with :: "instant \<Rightarrow> workspace \<Rightarrow> cluster" where
  "cluster_with t ws = (empty_cluster t)\<lparr>k_ws := (\<lambda>_. None)(key_of (ws_meta ws) \<mapsto> ws)\<rparr>"

definition sample_rc :: reconciler where
  "sample_rc = \<lparr>rc_workspace_image = ''img:1'', rc_llm_namespaces = [], rc_egress_ports = [],
     rc_idle_timeout = Hour, rc_gateway_namespace = ''gw'', rc_default_ca_bundle = '''',
     rc_pip_index_url = '''', rc_pip_trusted_host = '''', rc_npm_registry = '''', rc_has_recorder = True\<rparr>"

abbreviation sample_key :: "string \<Rightarrow> object_key" where
  "sample_key u \<equiv> \<lparr>key_namespace = ''devplane'', key_name = u\<rparr>"

text \<open>
  The kubelet and the pod under a key, by the lifecycle of a pod: one that is being deleted goes
  away; one whose containers have ended, in phase Succeeded or Failed, stays in that phase for
  good; any other comes up and is reported as running and ready.
\<close>

abbreviation PodSucceeded :: string where "PodSucceeded \<equiv> ''Succeeded''"

definition pod_ended :: "pod \<Rightarrow> bool" where
  "pod_ended p \<longleftrightarrow> ps_phase (pod_status_of p) \<in> {PodSucceeded, PodFailed}"

definition terminating :: "pod \<Rightarrow> bool" where
  "terminating p \<longleftrightarrow> mt_deletion (pod_meta p) \<noteq> None"

definition started :: "pod \<Rightarrow> pod" where
  "started p = p\<lparr>pod_status_of := (pod_status_of p)\<lparr>ps_phase := PodRunning,
     ps_conditions := [\<lparr>pc_type = PodReady, pc_status = ConditionTrue\<rparr>]\<rparr>\<rparr>"

definition pod_starts :: "object_key \<Rightarrow> cluster \<Rightarrow> cluster" where
  "pod_starts k w = (case k_pod w k of None \<Rightarrow> w
     | Some p \<Rightarrow> if terminating p then w\<lparr>k_pod := (k_pod w)(k := None)\<rparr>
         else if pod_ended p then w
         else w\<lparr>k_pod := (k_pod w)(k \<mapsto> started p)\<rparr>)"

end
