(* ===== verification/Convergence.thy ===== *)
theory Convergence
  imports Cluster
begin

text \<open>
  The reconciler in the concrete cluster: what one reconcile does to the objects of a
  workspace, that repeated reconciles bring a valid workspace to Running once its pod is up,
  and how an idle workspace is stopped.
\<close>

section \<open>Calls in the cluster\<close>

lemma cluster_ops [simp]:
  "cl_now cluster_client w = (k_clock w, w)"
  "cl_get_ws cluster_client k w = (lookup ws_meta (k_ws w) k, w)"
  "cl_update_ws cluster_client ws w = update_in ws w"
  "cl_patch_status cluster_client ws ws' w = patch_in ws ws' w"
  "cl_get_pvc cluster_client k w = (lookup pvc_meta (k_pvc w) k, w)"
  "cl_get_pod cluster_client k w = (lookup pod_meta (k_pod w) k, w)"
  by (simp_all add: cluster_client_def)

lemma cluster_create_pvc [simp]:
  "find_in pvc_meta (k_pvc w) (key_of (pvc_meta v)) = None \<Longrightarrow> cl_create_pvc cluster_client v w =
     (Inr (v\<lparr>pvc_meta := fresh_uid (k_uids w) (pvc_meta v)\<rparr>),
      w\<lparr>k_pvc := (k_pvc w)(key_of (pvc_meta v) \<mapsto> v\<lparr>pvc_meta := fresh_uid (k_uids w) (pvc_meta v)\<rparr>),
        k_uids := Suc (k_uids w)\<rparr>)"
  by (simp add: cluster_client_def Let_def)

lemma cluster_create_pod [simp]:
  "find_in pod_meta (k_pod w) (key_of (pod_meta p)) = None \<Longrightarrow> cl_create_pod cluster_client p w =
     (Inr (p\<lparr>pod_meta := fresh_uid (k_uids w) (pod_meta p)\<rparr>),
      w\<lparr>k_pod := (k_pod w)(key_of (pod_meta p) \<mapsto> p\<lparr>pod_meta := fresh_uid (k_uids w) (pod_meta p)\<rparr>),
        k_uids := Suc (k_uids w)\<rparr>)"
  by (simp add: cluster_client_def Let_def)

lemma cluster_delete_pod [simp]:
  "find_in pod_meta (k_pod w) (key_of (pod_meta p)) = Some q \<Longrightarrow> cl_delete_pod cluster_client p w =
     (Inr (), w\<lparr>k_pod := (k_pod w)(key_of (pod_meta p) := None)\<rparr>)"
  by (simp add: cluster_client_def Let_def)

text \<open>No foreign controller holds an object of the workspace.\<close>

definition free_at :: "('o \<Rightarrow> object_meta) \<Rightarrow> (object_key \<Rightarrow> 'o option) \<Rightarrow> workspace \<Rightarrow> object_key \<Rightarrow> bool" where
  "free_at mt m ws k \<longleftrightarrow> (\<forall>z. find_in mt m k = Some z \<longrightarrow> claimable ws (mt z))"

definition in_ns :: "workspace \<Rightarrow> string \<Rightarrow> object_key" where
  "in_ns ws nm = \<lparr>key_namespace = ws_namespace ws, key_name = nm\<rparr>"

definition claims_ok :: "workspace \<Rightarrow> cluster \<Rightarrow> bool" where
  "claims_ok ws w \<longleftrightarrow> (\<forall>nm. free_at sa_meta (k_sa w) ws (in_ns ws nm) \<and> free_at role_meta (k_role w) ws (in_ns ws nm)
     \<and> free_at rb_meta (k_rb w) ws (in_ns ws nm) \<and> free_at np_meta (k_np w) ws (in_ns ws nm)
     \<and> free_at svc_meta (k_svc w) ws (in_ns ws nm))"

lemma claimable_labels [simp]:
  "claimable ws (m\<lparr>mt_labels := l\<rparr>) = claimable ws m" "claimable ws (fresh_uid n m) = claimable ws m"
  by (simp_all add: claimable_def fresh_uid_def)

lemma claimable_meta [simp]: "claimable ws (meta nm (ws_namespace ws) l)"
  by (simp add: claimable_def)

lemma key_of_fresh [simp]: "key_of (fresh_uid n m) = key_of m" "key_of (m\<lparr>mt_labels := l\<rparr>) = key_of m"
  by (simp_all add: key_of_def fresh_uid_def)

lemma key_of_meta [simp]: "key_of (meta nm ns l) = \<lparr>key_namespace = ns, key_name = nm\<rparr>"
  by (simp add: key_of_def)

context owner_lib_total
begin

lemma ensure_claimed:
  assumes f: "\<And>z. f z = (case set_owner ws ((mt z)\<lparr>mt_labels := l\<rparr>) of Inl e \<Rightarrow> Inl e | Inr m \<Rightarrow> Inr (g z m))"
    and g: "\<And>z m. mt (g z m) = m" and st: "\<And>y. mt (stamp y) = fresh_uid n (mt y)"
    and free: "free_at mt M ws (key_of (mt x))" and x: "claimable ws (mt x)"
  shows "\<exists>y. ensure_in mt stamp M x f = (Inr y, M(key_of (mt x) \<mapsto> y)) \<and> claimable ws (mt y) \<and> key_of (mt y) = key_of (mt x)"
proof -
  have ok: "\<exists>m. f z = Inr (g z m) \<and> claimable ws m \<and> key_of m = key_of (mt z)" if "claimable ws (mt z)" for z
  proof -
    obtain m where m: "set_owner ws ((mt z)\<lparr>mt_labels := l\<rparr>) = Inr m" "claimable ws m"
      using set_owner_ok [of ws "(mt z)\<lparr>mt_labels := l\<rparr>"] \<open>claimable ws (mt z)\<close> by auto
    with set_owner_name [OF m(1)] set_owner_namespace [OF m(1)] show ?thesis
      by (auto simp: f key_of_def)
  qed
  show ?thesis
  proof (cases "find_in mt M (key_of (mt x))")
    case None
    with ok [OF x] show ?thesis by (auto simp: ensure_in_def g st)
  next
    case (Some z)
    with free ok [of z] find_in_key [OF Some] show ?thesis by (auto simp: ensure_in_def g free_at_def)
  qed
qed

end

text \<open>The parts of the cluster that the access objects do not touch.\<close>

definition same_core :: "cluster \<Rightarrow> cluster \<Rightarrow> bool" where
  "same_core w w' \<longleftrightarrow> k_clock w' = k_clock w \<and> k_ws w' = k_ws w \<and> k_pvc w' = k_pvc w \<and> k_pod w' = k_pod w"

lemma same_core_trans: "same_core a b \<Longrightarrow> same_core b d \<Longrightarrow> same_core a d"
  by (simp add: same_core_def)

lemma free_at_update:
  "free_at mt M ws k' \<Longrightarrow> claimable ws (mt y) \<Longrightarrow> free_at mt (M(k \<mapsto> y)) ws k'"
  by (simp add: free_at_def)

locale cluster_env = own: owner_lib_total "lib_set_owner lib" + cnd: condition_lib "lib_set_condition lib"
    + fin: finalizer_lib "lib_contains_finalizer lib" "lib_add_finalizer lib" "lib_remove_finalizer lib"
  for lib :: k8s_lib
begin

lemma wp_ensure_sa:
  assumes "claims_ok ws (world s)"
    and "\<And>y s'. same_core (world s) (world s') \<Longrightarrow> claims_ok ws (world s') \<Longrightarrow> Q (Inr y) s'"
  shows "wp (ensure_sa cluster_client \<lparr>sa_meta = meta nm (ws_namespace ws) []\<rparr>
      (\<lambda>z. case lib_set_owner lib ws ((sa_meta z)\<lparr>mt_labels := l\<rparr>) of
         Inl e \<Rightarrow> Inl e | Inr m \<Rightarrow> Inr (z\<lparr>sa_meta := m\<rparr>))) Q s"
proof -
  let ?x = "\<lparr>sa_meta = meta nm (ws_namespace ws) []\<rparr>" and ?n = "k_uids (world s)"
  obtain y where "ensure_in sa_meta (sa_meta_update (fresh_uid ?n)) (k_sa (world s)) ?x
      (\<lambda>z. case lib_set_owner lib ws ((sa_meta z)\<lparr>mt_labels := l\<rparr>) of
         Inl e \<Rightarrow> Inl e | Inr m \<Rightarrow> Inr (z\<lparr>sa_meta := m\<rparr>)) = (Inr y, (k_sa (world s))(in_ns ws nm \<mapsto> y))"
    and "claimable ws (sa_meta y)"
    using own.ensure_claimed [where g = "\<lambda>z m. z\<lparr>sa_meta := m\<rparr>" and l = l and mt = sa_meta and ws = ws and x = ?x
        and M = "k_sa (world s)" and stamp = "sa_meta_update (fresh_uid ?n)" and n = ?n, OF refl] assms(1)
    by (auto simp: claims_ok_def in_ns_def)
  with assms show ?thesis
    by (simp add: ensure_sa_def cluster_client_def wp_simps same_core_def claims_ok_def free_at_update)
qed

lemma wp_ensure_role:
  assumes "claims_ok ws (world s)"
    and "\<And>y s'. same_core (world s) (world s') \<Longrightarrow> claims_ok ws (world s') \<Longrightarrow> Q (Inr y) s'"
  shows "wp (ensure_role cluster_client \<lparr>role_meta = meta nm (ws_namespace ws) [], role_rules = rs0\<rparr>
      (\<lambda>z. case lib_set_owner lib ws ((role_meta z)\<lparr>mt_labels := l\<rparr>) of
         Inl e \<Rightarrow> Inl e | Inr m \<Rightarrow> Inr (z\<lparr>role_meta := m, role_rules := rs\<rparr>))) Q s"
proof -
  let ?x = "\<lparr>role_meta = meta nm (ws_namespace ws) [], role_rules = rs0\<rparr>" and ?n = "k_uids (world s)"
  obtain y where "ensure_in role_meta (role_meta_update (fresh_uid ?n)) (k_role (world s)) ?x
      (\<lambda>z. case lib_set_owner lib ws ((role_meta z)\<lparr>mt_labels := l\<rparr>) of
         Inl e \<Rightarrow> Inl e | Inr m \<Rightarrow> Inr (z\<lparr>role_meta := m, role_rules := rs\<rparr>)) = (Inr y, (k_role (world s))(in_ns ws nm \<mapsto> y))"
    and "claimable ws (role_meta y)"
    using own.ensure_claimed [where g = "\<lambda>z m. z\<lparr>role_meta := m, role_rules := rs\<rparr>" and l = l and mt = role_meta and ws = ws and x = ?x
        and M = "k_role (world s)" and stamp = "role_meta_update (fresh_uid ?n)" and n = ?n, OF refl] assms(1)
    by (auto simp: claims_ok_def in_ns_def)
  with assms show ?thesis
    by (simp add: ensure_role_def cluster_client_def wp_simps same_core_def claims_ok_def free_at_update)
qed

lemma wp_ensure_rb:
  assumes "claims_ok ws (world s)"
    and "\<And>y s'. same_core (world s) (world s') \<Longrightarrow> claims_ok ws (world s') \<Longrightarrow> Q (Inr y) s'"
  shows "wp (ensure_rb cluster_client \<lparr>rb_meta = meta nm (ws_namespace ws) [], rb_subjects = ss0, rb_role_ref = rr0\<rparr>
      (\<lambda>z. case lib_set_owner lib ws ((rb_meta z)\<lparr>mt_labels := l\<rparr>) of
         Inl e \<Rightarrow> Inl e | Inr m \<Rightarrow> Inr (z\<lparr>rb_meta := m, rb_subjects := ss, rb_role_ref := rr\<rparr>))) Q s"
proof -
  let ?x = "\<lparr>rb_meta = meta nm (ws_namespace ws) [], rb_subjects = ss0, rb_role_ref = rr0\<rparr>" and ?n = "k_uids (world s)"
  obtain y where "ensure_in rb_meta (rb_meta_update (fresh_uid ?n)) (k_rb (world s)) ?x
      (\<lambda>z. case lib_set_owner lib ws ((rb_meta z)\<lparr>mt_labels := l\<rparr>) of
         Inl e \<Rightarrow> Inl e | Inr m \<Rightarrow> Inr (z\<lparr>rb_meta := m, rb_subjects := ss, rb_role_ref := rr\<rparr>)) = (Inr y, (k_rb (world s))(in_ns ws nm \<mapsto> y))"
    and "claimable ws (rb_meta y)"
    using own.ensure_claimed [where g = "\<lambda>z m. z\<lparr>rb_meta := m, rb_subjects := ss, rb_role_ref := rr\<rparr>" and l = l and mt = rb_meta and ws = ws and x = ?x
        and M = "k_rb (world s)" and stamp = "rb_meta_update (fresh_uid ?n)" and n = ?n, OF refl] assms(1)
    by (auto simp: claims_ok_def in_ns_def)
  with assms show ?thesis
    by (simp add: ensure_rb_def cluster_client_def wp_simps same_core_def claims_ok_def free_at_update)
qed

lemma wp_ensure_svc:
  assumes "claims_ok ws (world s)"
    and "\<And>y s'. same_core (world s) (world s') \<Longrightarrow> claims_ok ws (world s') \<Longrightarrow> Q (Inr y) s'"
  shows "wp (ensure_svc cluster_client \<lparr>svc_meta = meta nm (ws_namespace ws) [], svc_cluster_ip = ip0, svc_selector = sel0, svc_ports = ps0\<rparr>
      (\<lambda>z. case lib_set_owner lib ws ((svc_meta z)\<lparr>mt_labels := l\<rparr>) of
         Inl e \<Rightarrow> Inl e | Inr m \<Rightarrow> Inr (z\<lparr>svc_meta := m, svc_cluster_ip := ip, svc_selector := sel, svc_ports := ps\<rparr>))) Q s"
proof -
  let ?x = "\<lparr>svc_meta = meta nm (ws_namespace ws) [], svc_cluster_ip = ip0, svc_selector = sel0, svc_ports = ps0\<rparr>" and ?n = "k_uids (world s)"
  obtain y where "ensure_in svc_meta (svc_meta_update (fresh_uid ?n)) (k_svc (world s)) ?x
      (\<lambda>z. case lib_set_owner lib ws ((svc_meta z)\<lparr>mt_labels := l\<rparr>) of
         Inl e \<Rightarrow> Inl e | Inr m \<Rightarrow> Inr (z\<lparr>svc_meta := m, svc_cluster_ip := ip, svc_selector := sel, svc_ports := ps\<rparr>)) = (Inr y, (k_svc (world s))(in_ns ws nm \<mapsto> y))"
    and "claimable ws (svc_meta y)"
    using own.ensure_claimed [where g = "\<lambda>z m. z\<lparr>svc_meta := m, svc_cluster_ip := ip, svc_selector := sel, svc_ports := ps\<rparr>" and l = l and mt = svc_meta and ws = ws and x = ?x
        and M = "k_svc (world s)" and stamp = "svc_meta_update (fresh_uid ?n)" and n = ?n, OF refl] assms(1)
    by (auto simp: claims_ok_def in_ns_def)
  with assms show ?thesis
    by (simp add: ensure_svc_def cluster_client_def wp_simps same_core_def claims_ok_def free_at_update)
qed

lemma wp_ensure_np:
  assumes "claims_ok ws (world s)"
    and "\<And>y s'. same_core (world s) (world s') \<Longrightarrow> claims_ok ws (world s') \<Longrightarrow> Q (Inr y) s'"
  shows "wp (ensure_np cluster_client \<lparr>np_meta = meta nm (ws_namespace ws) [], np_pod_selector = s0, np_types = t0, np_ingress = i0, np_egress = e0\<rparr>
      (\<lambda>z. case lib_set_owner lib ws ((np_meta z)\<lparr>mt_labels := l\<rparr>) of
         Inl e \<Rightarrow> Inl e | Inr m \<Rightarrow> Inr (z\<lparr>np_meta := m, np_pod_selector := s1, np_types := t1, np_ingress := i1, np_egress := e1\<rparr>))) Q s"
proof -
  let ?x = "\<lparr>np_meta = meta nm (ws_namespace ws) [], np_pod_selector = s0, np_types = t0, np_ingress = i0, np_egress = e0\<rparr>" and ?n = "k_uids (world s)"
  obtain y where "ensure_in np_meta (np_meta_update (fresh_uid ?n)) (k_np (world s)) ?x
      (\<lambda>z. case lib_set_owner lib ws ((np_meta z)\<lparr>mt_labels := l\<rparr>) of
         Inl e \<Rightarrow> Inl e | Inr m \<Rightarrow> Inr (z\<lparr>np_meta := m, np_pod_selector := s1, np_types := t1, np_ingress := i1, np_egress := e1\<rparr>)) = (Inr y, (k_np (world s))(in_ns ws nm \<mapsto> y))"
    and "claimable ws (np_meta y)"
    using own.ensure_claimed [where g = "\<lambda>z m. z\<lparr>np_meta := m, np_pod_selector := s1, np_types := t1, np_ingress := i1, np_egress := e1\<rparr>" and l = l and mt = np_meta and ws = ws and x = ?x
        and M = "k_np (world s)" and stamp = "np_meta_update (fresh_uid ?n)" and n = ?n, OF refl] assms(1)
    by (auto simp: claims_ok_def in_ns_def)
  with assms show ?thesis
    by (simp add: ensure_np_def cluster_client_def wp_simps same_core_def claims_ok_def free_at_update)
qed

lemma wp_ensure_policy:
  assumes "claims_ok ws (world s)" and "\<exists>d. built = Inr d"
    and "\<And>s'. same_core (world s) (world s') \<Longrightarrow> claims_ok ws (world s') \<Longrightarrow> Q None s'"
  shows "wp (ensure_policy lib cluster_client ws what built) Q s"
  using assms(2) by (auto simp: ensure_policy_def wp_simps intro!: wp_ensure_np [OF assms(1)] assms(3))

lemma set_owner_meta: "\<exists>m. lib_set_owner lib ws (meta nm (ws_namespace ws) l) = Inr m"
  using own.set_owner_ok [OF claimable_meta] by blast

lemma policies_build:
  "\<exists>d. BuildDenyAllNetworkPolicy lib ws = Inr d" "\<exists>d. BuildEgressNetworkPolicy lib ws nss ports = Inr d"
  "\<exists>d. BuildIngressFromGatewayNetworkPolicy lib ws gw = Inr d" "\<exists>d. BuildRole lib ws = Inr d"
  using set_owner_meta
  by (auto simp: BuildDenyAllNetworkPolicy_def BuildEgressNetworkPolicy_def BuildRole_Inr
      BuildIngressFromGatewayNetworkPolicy_def Let_def own_netpol_Inr)

lemma wp_ensureNetworkPolicies:
  assumes "claims_ok ws (world s)"
    and "\<And>s'. same_core (world s) (world s') \<Longrightarrow> claims_ok ws (world s') \<Longrightarrow> Q None s'"
  shows "wp (ensureNetworkPolicies lib cluster_client r ws) Q s"
  unfolding ensureNetworkPolicies_def Let_def wp_simps
  by (rule wp_ensure_policy [OF assms(1) policies_build(1)], simp add: wp_simps,
      rule wp_ensure_policy [OF _ policies_build(2)], assumption, simp add: wp_simps,
      rule wp_ensure_policy [OF _ policies_build(3)], assumption)
    (auto intro: assms(2) same_core_trans)

lemma wp_ensureRBAC:
  assumes "claims_ok ws (world s)"
    and "\<And>s'. same_core (world s) (world s') \<Longrightarrow> claims_ok ws (world s') \<Longrightarrow> Q None s'"
  shows "wp (ensureRBAC lib cluster_client ws) Q s"
proof -
  obtain d where "BuildRole lib ws = Inr d" using policies_build(4) by blast
  then show ?thesis
    unfolding ensureRBAC_def Let_def
    by (simp add: wp_simps, intro wp_ensure_sa [OF assms(1)])
      (simp add: wp_simps, intro wp_ensure_role, assumption, simp add: wp_simps, intro wp_ensure_rb, assumption,
        auto simp: wp_simps intro: assms(2) same_core_trans)
qed

section \<open>One reconcile\<close>

lemma wp_report:
  assumes "\<And>s'. world s' = world s \<Longrightarrow> Q () s'"
  shows "wp (report_transition r ws ph smry) Q s"
  by (simp add: report_transition_def LogWorkspacePhaseTransition_def Let_def wp_simps assms)

lemma wp_updateStatus:
  assumes "find_in ws_meta (k_ws (world s)) (key_of (ws_meta ws)) = Some ws"
    and "\<And>s'. world s' = (world s)\<lparr>k_ws := (k_ws (world s))(key_of (ws_meta ws) \<mapsto> ApplyStatusSummary lib ws smry)\<rparr>
      \<Longrightarrow> Q None s'"
  shows "wp (updateStatus lib cluster_client r ws smry) Q s"
proof -
  have eq: "ws\<lparr>ws_status := ws_status (ApplyStatusSummary lib ws smry)\<rparr> = ApplyStatusSummary lib ws smry"
    by (simp add: ApplyStatusSummary_def syncReadyCondition_def Let_def)
  have "patch_in ws (ApplyStatusSummary lib ws smry) (world s) = (Inr (ApplyStatusSummary lib ws smry),
      (world s)\<lparr>k_ws := (k_ws (world s))(key_of (ws_meta ws) \<mapsto> ApplyStatusSummary lib ws smry)\<rparr>)"
    using assms(1) by (simp add: patch_in_def Let_def, simp only: eq)
  then show ?thesis
    by (simp add: updateStatus_def patch_status_def wp_simps Let_def) (rule wp_report, simp add: assms(2))
qed

lemma wp_finish_status:
  assumes "find_in ws_meta (k_ws (world s)) (key_of (ws_meta ws)) = Some ws"
    and "\<And>s'. world s' = (world s)\<lparr>k_ws := (k_ws (world s))(key_of (ws_meta ws) \<mapsto> ApplyStatusSummary lib ws smry)\<rparr>
      \<Longrightarrow> Q (res, None) s'"
  shows "wp (finish_status lib cluster_client r ws smry res) Q s"
  unfolding finish_status_def wp_simps by (rule wp_updateStatus [OF assms(1)]) (simp add: assms(2))

text \<open>The access objects are in place and the rest of the cluster is as before.\<close>

lemma wp_reconcile_access:
  assumes "claims_ok ws (world s)"
    and "\<And>s'. same_core (world s) (world s') \<Longrightarrow> claims_ok ws (world s')
      \<Longrightarrow> wp (reconcile_pvc lib cluster_client r nn ws) Q s'"
  shows "wp (reconcile_access lib cluster_client r nn ws) Q s"
  unfolding reconcile_access_def wp_simps
  by (rule wp_ensureRBAC [OF assms(1)], simp add: wp_simps, rule wp_ensureNetworkPolicies, assumption)
    (auto intro: assms(2) same_core_trans)

end

lemma reconcile_inI:
  "wp (Reconcile lib cluster_client r nn) (\<lambda>_ s'. P (world s')) (sys_of w) \<Longrightarrow> P (reconcile_in lib r nn w)"
  by (simp add: wp_def reconcile_in_def)

lemma sys_of_world [simp]: "world (sys_of w) = w"
  by (simp add: sys_of_def)

lemma wp_admitted:
  assumes "find_in ws_meta (k_ws w) nn = Some ws" and "admitted lib ws"
    and "\<And>s. world s = w \<Longrightarrow> wp (reconcile_access lib cluster_client r nn ws) (\<lambda>_ s'. P (world s')) s"
  shows "P (reconcile_in lib r nn w)"
  using assms by (intro reconcile_inI [where P = P]) (simp add: Reconcile_def get_workspace_def wp_simps lookup_def admitted_def)

text \<open>First reconcile of a new workspace: the finalizer is registered.\<close>

lemma step_finalizer:
  assumes "finalizer_lib (lib_contains_finalizer lib) (lib_add_finalizer lib) (lib_remove_finalizer lib)"
    and "find_in ws_meta (k_ws w) nn = Some ws" and "mt_deletion (ws_meta ws) = None"
    and "ValidateSpec lib (Some ws) = None" and "\<not> lib_contains_finalizer lib (ws_meta ws) workspaceFinalizer"
  shows "reconcile_in lib r nn w =
    w\<lparr>k_ws := (k_ws w)(nn \<mapsto> ws\<lparr>ws_meta := lib_add_finalizer lib (ws_meta ws) workspaceFinalizer\<rparr>)\<rparr>"
proof (rule reconcile_inI [where P = "\<lambda>x. x = _"])
  let ?m = "lib_add_finalizer lib (ws_meta ws) workspaceFinalizer"
  have k: "key_of (ws_meta ws) = nn" using find_in_key [OF assms(2)] .
  have m: "key_of ?m = nn" "?m\<lparr>mt_uid := mt_uid (ws_meta ws), mt_deletion := None, mt_generation := mt_generation (ws_meta ws)\<rparr> = ?m"
    using k assms(3) finalizer_lib.add_frame [OF assms(1), of "ws_meta ws" workspaceFinalizer]
    by (cases "ws_meta ws"; cases ?m; simp add: key_of_def)+
  show "wp (Reconcile lib cluster_client r nn)
      (\<lambda>_ s'. world s' = w\<lparr>k_ws := (k_ws w)(nn \<mapsto> ws\<lparr>ws_meta := ?m\<rparr>)\<rparr>) (sys_of w)"
    using assms(2-5) m
    by (simp add: Reconcile_def get_workspace_def update_workspace_def wp_simps lookup_def update_in_def Let_def)
qed

lemma same_core_simps:
  "same_core w w' \<Longrightarrow> k_clock w' = k_clock w" "same_core w w' \<Longrightarrow> k_ws w' = k_ws w"
  "same_core w w' \<Longrightarrow> k_pvc w' = k_pvc w" "same_core w w' \<Longrightarrow> k_pod w' = k_pod w"
  by (simp_all add: same_core_def)

lemma claims_ok_frame [simp]:
  "claims_ok ws (w\<lparr>k_ws := a\<rparr>) = claims_ok ws w" "claims_ok ws (w\<lparr>k_pvc := b\<rparr>) = claims_ok ws w"
  "claims_ok ws (w\<lparr>k_pod := d\<rparr>) = claims_ok ws w" "claims_ok ws (w\<lparr>k_uids := n\<rparr>) = claims_ok ws w"
  by (simp_all add: claims_ok_def)

text \<open>The claim is there and not lost.\<close>

definition pvc_usable :: "workspace \<Rightarrow> cluster \<Rightarrow> bool" where
  "pvc_usable ws w \<longleftrightarrow> (\<exists>v. find_in pvc_meta (k_pvc w) (in_ns ws (PVCName (ws_user_id ws))) = Some v \<and> pvc_phase v \<noteq> ClaimLost)"

text \<open>Seeding the last access with the time of the cluster, as it comes back from the server.\<close>

definition seeded :: "instant \<Rightarrow> workspace \<Rightarrow> workspace" where
  "seeded t ws = (if st_last_accessed (ws_status ws) = None
     then ws\<lparr>ws_status := (ws_status ws)\<lparr>st_last_accessed := Some (whole_seconds t)\<rparr>\<rparr> else ws)"

lemma seeded_simps [simp]:
  "ws_meta (seeded t ws) = ws_meta ws" "ws_spec (seeded t ws) = ws_spec ws" "ws_phase (seeded t ws) = ws_phase ws"
  "st_conditions (ws_status (seeded t ws)) = st_conditions (ws_status ws)"
  by (simp_all add: seeded_def)

text \<open>Whether the idle check stops this workspace at the time of the cluster.\<close>

definition idle_over :: "reconciler \<Rightarrow> instant \<Rightarrow> workspace \<Rightarrow> bool" where
  "idle_over r t ws \<longleftrightarrow> effectiveIdleTimeout ws (rc_idle_timeout r) > 0
     \<and> time_sub t (idle_since (seeded t ws)) > effectiveIdleTimeout ws (rc_idle_timeout r)"

text \<open>
  A Workspace that was never accessed is seeded within the second, so a timeout of a second or more
  does not stop it then.
\<close>

lemma fresh_not_idle:
  assumes "st_last_accessed (ws_status ws) = None"
    and "effectiveIdleTimeout ws (rc_idle_timeout r) \<le> 0 \<or> Second \<le> effectiveIdleTimeout ws (rc_idle_timeout r)"
  shows "\<not> idle_over r t ws"
proof -
  have "time_sub t (whole_seconds t) \<le> Second" using whole_seconds_bounds [of t] by (simp add: time_sub_def)
  then show ?thesis using assms by (auto simp: idle_over_def seeded_def idle_since_def)
qed

definition idle_ws :: "reconciler \<Rightarrow> instant \<Rightarrow> workspace \<Rightarrow> workspace" where
  "idle_ws r t ws = (if effectiveIdleTimeout ws (rc_idle_timeout r) > 0 then seeded t ws else ws)"

lemma idle_ws_simps [simp]:
  "ws_meta (idle_ws r t ws) = ws_meta ws" "ws_spec (idle_ws r t ws) = ws_spec ws" "ws_phase (idle_ws r t ws) = ws_phase ws"
  by (simp_all add: idle_ws_def)

text \<open>The summary of a running workspace.\<close>

definition running_summary :: "workspace \<Rightarrow> status_summary" where
  "running_summary ws = (summary WorkspacePhaseRunning)\<lparr>sum_pod_name := PodName (ws_user_id ws),
     sum_service_endpoint := service_endpoint (ServiceName (ws_user_id ws)) (ws_namespace ws),
     sum_ready_reason := ReasonRunning\<rparr>"

lemma nn_namespace: "key_of (ws_meta ws) = nn \<Longrightarrow> key_namespace nn = ws_namespace ws"
  by (auto simp: key_of_def)

context cluster_env
begin

lemma builders:
  assumes "admitted lib ws"
  shows "\<exists>v. BuildPVC lib ws = Inr v" and "\<exists>p. BuildPod lib ws c img opts = Inr p"
proof -
  have "\<exists>m'. lib_set_owner lib ws m = Inr m'" if "mt_namespace m = ws_namespace ws" "mt_owners m = []" for m
    using own.set_owner_ok [of ws m] that by (auto simp: claimable_def)
  then show "\<exists>v. BuildPVC lib ws = Inr v" "\<exists>p. BuildPod lib ws c img opts = Inr p"
    using assms builders_succeed [of lib ws] by (simp_all add: admitted_def ValidateSpec_valid)
qed

lemma BuildPVC_meta:
  "BuildPVC lib ws = Inr v \<Longrightarrow> key_of (pvc_meta v) = in_ns ws (PVCName (ws_user_id ws)) \<and> pvc_phase v = ''''"
  using own.set_owner_name own.set_owner_namespace
  by (fastforce simp: BuildPVC_def Let_def in_ns_def key_of_def split: sum.splits)

lemma BuildPod_meta:
  "BuildPod lib ws c img opts = Inr p \<Longrightarrow> key_of (pod_meta p) = in_ns ws (PodName (ws_user_id ws))"
  using own.set_owner_name own.set_owner_namespace
  by (fastforce simp: in_ns_def key_of_def elim!: BuildPod_cases)

text \<open>A pod the operator made is neither in deletion nor ended.\<close>

lemma BuildPod_new:
  assumes "BuildPod lib ws c img opts = Inr p"
  shows "\<not> terminating p" "\<not> pod_ended p"
proof -
  have "pod_status_of p = empty_pod_status"
    using assms by (auto simp: BuildPod_def Let_def split: sum.splits)
  then show "\<not> pod_ended p" by (simp add: pod_ended_def empty_pod_status_def)
  show "\<not> terminating p"
  proof (rule BuildPod_cases [OF assms])
    fix m
    assume m: "lib_set_owner lib ws (meta (PodName (ws_user_id ws)) (ws_namespace ws) (Labels (ws_user_id ws))) = Inr m" "pod_meta p = m"
    have "mt_deletion m = None" by (subst own.set_owner_frame [OF m(1)]) simp
    with m(2) show ?thesis by (simp add: terminating_def)
  qed
qed

lemma terminating_fresh [simp]:
  "terminating (p\<lparr>pod_meta := fresh_uid n (pod_meta p)\<rparr>) = terminating p" "pod_ended (p\<lparr>pod_meta := m\<rparr>) = pod_ended p"
  by (simp_all add: terminating_def pod_ended_def fresh_uid_def)

lemma step_pvc:
  assumes "find_in ws_meta (k_ws w) nn = Some ws" and "admitted lib ws" and "claims_ok ws w"
    and "find_in pvc_meta (k_pvc w) (in_ns ws (PVCName (ws_user_id ws))) = None"
  shows "\<exists>v smry. sum_phase smry = WorkspacePhaseCreating
     \<and> find_in ws_meta (k_ws (reconcile_in lib r nn w)) nn = Some (ApplyStatusSummary lib ws smry)
     \<and> find_in pvc_meta (k_pvc (reconcile_in lib r nn w)) (in_ns ws (PVCName (ws_user_id ws))) = Some v
     \<and> pvc_phase v = '''' \<and> k_pod (reconcile_in lib r nn w) = k_pod w
     \<and> k_clock (reconcile_in lib r nn w) = k_clock w \<and> claims_ok ws (reconcile_in lib r nn w)"
proof -
  have k: "key_of (ws_meta ws) = nn" using find_in_key [OF assms(1)] .
  have ns: "\<lparr>key_namespace = key_namespace nn, key_name = PVCName (ws_user_id ws)\<rparr> = in_ns ws (PVCName (ws_user_id ws))"
    using nn_namespace [OF k] by (simp add: in_ns_def)
  obtain v where v: "BuildPVC lib ws = Inr v" using builders(1) [OF assms(2)] by blast
  note vm = BuildPVC_meta [OF v]
  show ?thesis
  proof (rule wp_admitted [OF assms(1,2)], rule wp_reconcile_access)
    fix s :: "(cluster, event) sys" and s' :: "(cluster, event) sys"
    assume w: "world s = w"
    show "claims_ok ws (world s)" using assms(3) w by simp
    assume c: "same_core (world s) (world s')" and ok: "claims_ok ws (world s')"
    note sc = same_core_simps [OF c]
    show "wp (reconcile_pvc lib cluster_client r nn ws) (\<lambda>_ s''. \<exists>v smry. sum_phase smry = WorkspacePhaseCreating
       \<and> find_in ws_meta (k_ws (world s'')) nn = Some (ApplyStatusSummary lib ws smry)
       \<and> find_in pvc_meta (k_pvc (world s'')) (in_ns ws (PVCName (ws_user_id ws))) = Some v
       \<and> pvc_phase v = '''' \<and> k_pod (world s'') = k_pod w \<and> k_clock (world s'') = k_clock w
       \<and> claims_ok ws (world s'')) s'"
      using assms(1,4) k v vm ok unfolding reconcile_pvc_def create_missing_pvc_def
      by (simp add: get_pvc_def create_pvc_def wp_simps ns sc w lookup_def)
        (rule wp_finish_status; force simp: sc w)
  qed
qed

text \<open>A reconcile that gets past the access objects and the claim goes on with the pod.\<close>

lemma wp_to_pod:
  assumes "find_in ws_meta (k_ws w) nn = Some ws" and "admitted lib ws" and "claims_ok ws w" and "pvc_usable ws w"
    and "\<And>s'. same_core w (world s') \<Longrightarrow> claims_ok ws (world s') \<Longrightarrow>
      wp (reconcile_pod lib cluster_client r nn ws) (\<lambda>_ s''. P (world s'')) s'"
  shows "P (reconcile_in lib r nn w)"
proof (rule wp_admitted [OF assms(1,2)], rule wp_reconcile_access)
  fix s s' :: "(cluster, event) sys"
  assume w: "world s = w"
  show "claims_ok ws (world s)" using assms(3) w by simp
  assume c: "same_core (world s) (world s')" and ok: "claims_ok ws (world s')"
  have "\<lparr>key_namespace = key_namespace nn, key_name = PVCName (ws_user_id ws)\<rparr> = in_ns ws (PVCName (ws_user_id ws))"
    using nn_namespace [OF find_in_key [OF assms(1)]] by (simp add: in_ns_def)
  then show "wp (reconcile_pvc lib cluster_client r nn ws) (\<lambda>_ s'. P (world s')) s'"
    using assms(4) same_core_simps [OF c] w assms(5) [of "s'\<lparr>trace := t\<rparr>" for t] c ok
    by (auto simp: pvc_usable_def reconcile_pvc_def get_pvc_def wp_simps lookup_def)
qed

lemma step_create_pod:
  assumes "find_in ws_meta (k_ws w) nn = Some ws" and "admitted lib ws" and "claims_ok ws w" and "pvc_usable ws w"
    and "find_in pod_meta (k_pod w) (in_ns ws (PodName (ws_user_id ws))) = None"
    and "BuildPod lib ws (PVCName (ws_user_id ws)) (desired_image r) (rc_build_opts r) = Inr p"
  shows "\<exists>n. k_pod (reconcile_in lib r nn w) =
       (k_pod w)(in_ns ws (PodName (ws_user_id ws)) \<mapsto> p\<lparr>pod_meta := fresh_uid n (pod_meta p)\<rparr>)
     \<and> k_ws (reconcile_in lib r nn w) = k_ws w \<and> k_pvc (reconcile_in lib r nn w) = k_pvc w
     \<and> k_clock (reconcile_in lib r nn w) = k_clock w \<and> claims_ok ws (reconcile_in lib r nn w)"
proof (rule wp_to_pod [OF assms(1-4)])
  fix s' :: "(cluster, event) sys"
  assume c: "same_core w (world s')" and ok: "claims_ok ws (world s')"
  have "\<lparr>key_namespace = key_namespace nn, key_name = PodName (ws_user_id ws)\<rparr> = in_ns ws (PodName (ws_user_id ws))"
    using nn_namespace [OF find_in_key [OF assms(1)]] by (simp add: in_ns_def)
  then show "wp (reconcile_pod lib cluster_client r nn ws) (\<lambda>_ s''. \<exists>n. k_pod (world s'') =
       (k_pod w)(in_ns ws (PodName (ws_user_id ws)) \<mapsto> p\<lparr>pod_meta := fresh_uid n (pod_meta p)\<rparr>)
     \<and> k_ws (world s'') = k_ws w \<and> k_pvc (world s'') = k_pvc w
     \<and> k_clock (world s'') = k_clock w \<and> claims_ok ws (world s'')) s'"
    using assms(5,6) BuildPod_meta [OF assms(6)] same_core_simps [OF c] ok
    by (auto simp: reconcile_pod_def create_missing_pod_def get_pod_def create_pod_def wp_simps lookup_def)
qed

text \<open>The pod is there with the operator's image: the Service is ensured, then the idle check.\<close>

lemma wp_to_idle:
  assumes "find_in ws_meta (k_ws w) nn = Some ws" and "admitted lib ws" and "claims_ok ws w" and "pvc_usable ws w"
    and "find_in pod_meta (k_pod w) (in_ns ws (PodName (ws_user_id ws))) = Some p" and "\<not> image_outdated r p"
    and "\<And>s'. same_core w (world s') \<Longrightarrow> claims_ok ws (world s') \<Longrightarrow>
      wp (reconcile_idle lib cluster_client r ws p (service_endpoint (ServiceName (ws_user_id ws)) (ws_namespace ws)))
        (\<lambda>_ s''. P (world s'')) s'"
  shows "P (reconcile_in lib r nn w)"
proof (rule wp_to_pod [OF assms(1-4)])
  fix s :: "(cluster, event) sys"
  assume c: "same_core w (world s)" and ok: "claims_ok ws (world s)"
  have ns: "key_namespace nn = ws_namespace ws" using nn_namespace [OF find_in_key [OF assms(1)]] .
  let ?s = "s\<lparr>trace := trace s @ [GetPod (in_ns ws (PodName (ws_user_id ws))) (Inr p)]\<rparr>"
  have "wp (reconcile_service lib cluster_client r nn ws p) (\<lambda>_ s''. P (world s'')) ?s"
    unfolding reconcile_service_def Let_def wp_simps ns
    by (rule wp_ensure_svc) (use ok c in \<open>auto simp: wp_simps intro: assms(7) same_core_trans\<close>)
  moreover have "\<lparr>key_namespace = key_namespace nn, key_name = PodName (ws_user_id ws)\<rparr> = in_ns ws (PodName (ws_user_id ws))"
    using ns by (simp add: in_ns_def)
  ultimately show "wp (reconcile_pod lib cluster_client r nn ws) (\<lambda>_ s''. P (world s'')) s"
    using assms(5,6) same_core_simps [OF c] by (simp add: reconcile_pod_def get_pod_def wp_simps lookup_def)
qed

lemma wp_seed:
  assumes "find_in ws_meta (k_ws (world s)) (key_of (ws_meta ws)) = Some ws"
    and "\<And>s'. find_in ws_meta (k_ws (world s')) (key_of (ws_meta ws)) = Some (seeded (k_clock (world s)) ws) \<Longrightarrow>
      k_pod (world s') = k_pod (world s) \<Longrightarrow> k_pvc (world s') = k_pvc (world s) \<Longrightarrow>
      k_clock (world s') = k_clock (world s) \<Longrightarrow>
      (\<And>v. claims_ok v (world s') = claims_ok v (world s)) \<Longrightarrow> Q (Inr (seeded (k_clock (world s)) ws)) s'"
  shows "wp (seed_last_accessed cluster_client ws) Q s"
proof (cases "st_last_accessed (ws_status ws)")
  case None
  then have sd: "seeded (k_clock (world s)) ws =
      ws\<lparr>ws_status := (ws_status ws)\<lparr>st_last_accessed := Some (whole_seconds (k_clock (world s)))\<rparr>\<rparr>"
    by (simp add: seeded_def)
  have "merge_status (ws_status ws) ((ws_status ws)\<lparr>st_last_accessed := Some t\<rparr>) (ws_status ws)
      = (ws_status ws)\<lparr>st_last_accessed := Some (whole_seconds t)\<rparr>" for t
    using None by (simp add: merge_status_def merge_field_def)
  then show ?thesis using None assms(1)
    by (simp add: seed_last_accessed_def now_def patch_status_def wp_simps patch_in_def Let_def,
        intro assms(2) [unfolded sd]) simp_all
next
  case (Some l)
  then have sd: "seeded (k_clock (world s)) ws = ws" by (simp add: seeded_def)
  show ?thesis using Some assms(1)
    by (simp add: seed_last_accessed_def wp_simps) (intro assms(2) [unfolded sd], simp_all)
qed

lemma wp_idle:
  assumes "find_in ws_meta (k_ws (world s)) (key_of (ws_meta ws)) = Some ws" and "pod_serving p"
    and "\<And>s'. find_in ws_meta (k_ws (world s')) (key_of (ws_meta ws)) = Some (idle_ws r (k_clock (world s)) ws) \<Longrightarrow>
      k_pod (world s') = k_pod (world s) \<Longrightarrow> k_pvc (world s') = k_pvc (world s) \<Longrightarrow>
      k_clock (world s') = k_clock (world s) \<Longrightarrow>
      (\<And>v. claims_ok v (world s') = claims_ok v (world s)) \<Longrightarrow>
      (if idle_over r (k_clock (world s)) ws
       then wp (stop_idle lib cluster_client r (idle_ws r (k_clock (world s)) ws) p) Q s'
       else wp (reconcile_status lib cluster_client r (idle_ws r (k_clock (world s)) ws) (PodName (ws_user_id ws)) p ep
         (effectiveIdleTimeout ws (rc_idle_timeout r))) Q s')"
  shows "wp (reconcile_idle lib cluster_client r ws p ep) Q s"
proof (cases "effectiveIdleTimeout ws (rc_idle_timeout r) > 0")
  case True
  then have i: "idle_ws r t ws = seeded t ws" for t by (simp add: idle_ws_def)
  show ?thesis
    unfolding reconcile_idle_def Let_def wp_simps using True assms(2)
    by (simp, intro wp_seed [OF assms(1)])
      (use assms(3) True in \<open>auto simp: wp_simps now_def i idle_over_def split: if_splits\<close>)
next
  case False
  with assms(2) assms(3) [of s] assms(1) show ?thesis
    by (simp add: reconcile_idle_def Let_def idle_over_def idle_ws_def)
qed

text \<open>
  A ready pod: the workspace becomes Running with the pod's name and the service endpoint, or,
  when it has been idle for too long, the pod goes and the workspace becomes Stopped. The claim
  stays either way.
\<close>

lemma step_serving:
  assumes "find_in ws_meta (k_ws w) nn = Some ws" and "admitted lib ws" and "claims_ok ws w" and "pvc_usable ws w"
    and "find_in pod_meta (k_pod w) (in_ns ws (PodName (ws_user_id ws))) = Some p" and "\<not> image_outdated r p"
    and "pod_serving p"
  shows "(let w' = reconcile_in lib r nn w; over = idle_over r (k_clock w) ws in
     find_in ws_meta (k_ws w') nn = Some (ApplyStatusSummary lib (idle_ws r (k_clock w) ws)
       (if over then stopped_summary else running_summary ws))
     \<and> k_pod w' = (if over then (k_pod w)(in_ns ws (PodName (ws_user_id ws)) := None) else k_pod w)
     \<and> k_pvc w' = k_pvc w \<and> k_clock w' = k_clock w \<and> claims_ok ws w')"
  unfolding Let_def
proof (rule wp_to_idle [OF assms(1-6)], rule wp_idle)
  fix s s' :: "(cluster, event) sys"
  have k: "key_of (ws_meta ws) = nn" using find_in_key [OF assms(1)] .
  have kp: "key_of (pod_meta p) = in_ns ws (PodName (ws_user_id ws))" using find_in_key [OF assms(5)] .
  assume c: "same_core w (world s)" and ok: "claims_ok ws (world s)"
  note sc = same_core_simps [OF c]
  show "find_in ws_meta (k_ws (world s)) (key_of (ws_meta ws)) = Some ws" using sc assms(1) k by simp
  show "pod_serving p" by (rule assms(7))
  let ?ws = "idle_ws r (k_clock (world s)) ws"
  assume s': "find_in ws_meta (k_ws (world s')) (key_of (ws_meta ws)) = Some ?ws"
    "k_pod (world s') = k_pod (world s)" "k_pvc (world s') = k_pvc (world s)" "k_clock (world s') = k_clock (world s)"
    "\<And>v. claims_ok v (world s') = claims_ok v (world s)"
  show "if idle_over r (k_clock (world s)) ws
       then wp (stop_idle lib cluster_client r ?ws p) (\<lambda>_ s''. find_in ws_meta (k_ws (world s'')) nn =
          Some (ApplyStatusSummary lib (idle_ws r (k_clock w) ws)
            (if idle_over r (k_clock w) ws then stopped_summary else running_summary ws))
          \<and> k_pod (world s'') = (if idle_over r (k_clock w) ws
              then (k_pod w)(in_ns ws (PodName (ws_user_id ws)) := None) else k_pod w)
          \<and> k_pvc (world s'') = k_pvc w \<and> k_clock (world s'') = k_clock w \<and> claims_ok ws (world s'')) s'
       else wp (reconcile_status lib cluster_client r ?ws (PodName (ws_user_id ws)) p
            (service_endpoint (ServiceName (ws_user_id ws)) (ws_namespace ws))
            (effectiveIdleTimeout ws (rc_idle_timeout r))) (\<lambda>_ s''. find_in ws_meta (k_ws (world s'')) nn =
          Some (ApplyStatusSummary lib (idle_ws r (k_clock w) ws)
            (if idle_over r (k_clock w) ws then stopped_summary else running_summary ws))
          \<and> k_pod (world s'') = (if idle_over r (k_clock w) ws
              then (k_pod w)(in_ns ws (PodName (ws_user_id ws)) := None) else k_pod w)
          \<and> k_pvc (world s'') = k_pvc w \<and> k_clock (world s'') = k_clock w \<and> claims_ok ws (world s'')) s'"
  proof (cases "idle_over r (k_clock w) ws")
    case True
    then show ?thesis
      using s' sc k kp assms(5) ok
      by (simp add: stop_idle_def delete_pod_def delete_failed_def wp_simps) (rule wp_finish_status; simp)
  next
    case False
    then show ?thesis
      using s' sc k assms(7) ok
      by (simp add: reconcile_status_def Let_def running_summary_def [symmetric] sc) (intro conjI impI; rule wp_finish_status; simp)
  qed
qed

end

section \<open>From a new workspace to a running one\<close>

lemma claims_ok_cong:
  "ws_namespace ws = ws_namespace ws' \<Longrightarrow> mt_uid (ws_meta ws) = mt_uid (ws_meta ws') \<Longrightarrow> claims_ok ws w = claims_ok ws' w"
  by (simp add: claims_ok_def free_at_def claimable_def in_ns_def)

lemma claims_ok_clock [simp]: "claims_ok ws (w\<lparr>k_clock := t\<rparr>) = claims_ok ws w"
  by (simp add: claims_ok_def)

lemma pvc_usable_cong:
  "ws_namespace ws = ws_namespace ws' \<Longrightarrow> ws_spec ws = ws_spec ws' \<Longrightarrow> k_pvc w = k_pvc w' \<Longrightarrow>
   pvc_usable ws w = pvc_usable ws' w'"
  by (simp add: pvc_usable_def in_ns_def)

lemma admitted_cong:
  "ws_meta ws = ws_meta ws' \<Longrightarrow> ws_spec ws = ws_spec ws' \<Longrightarrow> ws_phase ws' \<noteq> WorkspacePhaseStopped \<Longrightarrow>
   admitted lib ws \<Longrightarrow> admitted lib ws'"
  by (simp add: admitted_def ValidateSpec_valid)


lemma started_simps [simp]:
  "pod_serving (started p)" "pod_meta (started p) = pod_meta p" "image_outdated r (started p) = image_outdated r p"
  "pod_containers (started p) = pod_containers p" "terminating (started p) = terminating p" "\<not> pod_ended (started p)"
  by (simp_all add: started_def isPodReady_def image_outdated_def terminating_def pod_ended_def)

lemma pod_starts_simps [simp]:
  "k_ws (pod_starts k w) = k_ws w" "k_pvc (pod_starts k w) = k_pvc w" "k_clock (pod_starts k w) = k_clock w"
  "claims_ok ws (pod_starts k w) = claims_ok ws w"
  "k_pod w k = Some p \<Longrightarrow> \<not> terminating p \<Longrightarrow> \<not> pod_ended p \<Longrightarrow> k_pod (pod_starts k w) = (k_pod w)(k \<mapsto> started p)"
  by (simp_all add: pod_starts_def split: option.split)

text \<open>
  A workspace without a pod: a reconcile, the pod coming up, and at some later time \<open>t\<close> another
  reconcile.
\<close>

definition bring_up :: "k8s_lib \<Rightarrow> reconciler \<Rightarrow> object_key \<Rightarrow> workspace \<Rightarrow> instant \<Rightarrow> cluster \<Rightarrow> cluster" where
  "bring_up lib r nn ws t w = reconcile_in lib r nn
     ((pod_starts (in_ns ws (PodName (ws_user_id ws))) (reconcile_in lib r nn w))\<lparr>k_clock := t\<rparr>)"

context cluster_env
begin

lemma bring_up_result:
  assumes "find_in ws_meta (k_ws w) nn = Some ws" and "admitted lib ws" and "claims_ok ws w" and "pvc_usable ws w"
    and "find_in pod_meta (k_pod w) (in_ns ws (PodName (ws_user_id ws))) = None"
  shows "(let w' = bring_up lib r nn ws t w; over = idle_over r t ws in
     find_in ws_meta (k_ws w') nn = Some (ApplyStatusSummary lib (idle_ws r t ws)
       (if over then stopped_summary else running_summary ws))
     \<and> (find_in pod_meta (k_pod w') (in_ns ws (PodName (ws_user_id ws))) = None) = over
     \<and> k_pvc w' = k_pvc w)"
proof -
  let ?kp = "in_ns ws (PodName (ws_user_id ws))"
  obtain p where p: "BuildPod lib ws (PVCName (ws_user_id ws)) (desired_image r) (rc_build_opts r) = Inr p"
    using builders(2) [OF assms(2)] by blast
  let ?w1 = "reconcile_in lib r nn w"
  obtain n where w1: "k_pod ?w1 = (k_pod w)(?kp \<mapsto> p\<lparr>pod_meta := fresh_uid n (pod_meta p)\<rparr>)" "k_ws ?w1 = k_ws w"
    "k_pvc ?w1 = k_pvc w" "claims_ok ws ?w1"
    using step_create_pod [OF assms p] by blast
  let ?q = "started (p\<lparr>pod_meta := fresh_uid n (pod_meta p)\<rparr>)"
  let ?w2 = "(pod_starts ?kp ?w1)\<lparr>k_clock := t\<rparr>"
  have w2: "k_pod ?w2 = (k_pod w)(?kp \<mapsto> ?q)" using w1(1) BuildPod_new [OF p] by simp
  have out: "\<not> image_outdated r ?q"
    using BuildPod_image [OF p] by (auto simp: image_outdated_def)
  have "find_in pod_meta (k_pod ?w2) ?kp = Some ?q"
    using w2 BuildPod_meta [OF p] by simp
  with step_serving [where w = ?w2 and nn = nn and ws = ws and p = ?q and r = r] assms w1 w2 out
  show ?thesis
    by (simp add: bring_up_def Let_def pvc_usable_cong [of ws ws ?w2 w])
qed

end

end
