(* ===== verification/Cluster_Frames.thy ===== *)
theory Cluster_Frames
  imports Convergence
begin

text \<open>
  What a reconcile can change in the concrete cluster, in every state of it: the trace accounts
  for every change of a pod, no claim is ever changed or removed, and no NetworkPolicy is
  removed. The rules follow the structure of the program once, for any relation between the
  worlds before and after.
\<close>

text \<open>
  \<open>accounts X R m\<close>: a run of \<open>m\<close> without an effect in \<open>X\<close> relates the worlds by \<open>R\<close>.
\<close>

definition accounts :: "('e \<Rightarrow> bool) \<Rightarrow> ('w \<Rightarrow> 'w \<Rightarrow> bool) \<Rightarrow> ('w, 'e, 'a) io \<Rightarrow> bool" where
  "accounts X R m \<longleftrightarrow> (\<forall>s. \<exists>u. trace (snd (run_state m s)) = trace s @ u
     \<and> (list_all (\<lambda>e. \<not> X e) u \<longrightarrow> R (world s) (world (snd (run_state m s)))))"

named_theorems account_rules \<open>rules for \<open>accounts\<close>\<close>

lemma accounts_return [account_rules]: "reflp R \<Longrightarrow> accounts X R (State_Monad.return a)"
  by (simp add: accounts_def reflpD)

lemma accounts_emit [account_rules]: "reflp R \<Longrightarrow> accounts X R (emit e)"
  by (simp add: accounts_def reflpD)

lemma accounts_ask:
  "(\<And>w. \<not> X (ev (fst (op w))) \<Longrightarrow> R w (snd (op w))) \<Longrightarrow> accounts X R (ask op ev)"
  by (simp add: accounts_def)

lemma accounts_bind [account_rules]:
  assumes "transp R" and "accounts X R m" and "\<And>a. accounts X R (f a)"
  shows "accounts X R (State_Monad.bind m f)"
  unfolding accounts_def
proof
  fix s
  obtain a s1 where r: "run_state m s = (a, s1)" by fastforce
  with assms(2) obtain t where t: "trace s1 = trace s @ t" "list_all (\<lambda>e. \<not> X e) t \<longrightarrow> R (world s) (world s1)"
    by (auto simp: accounts_def dest: spec [where x = s])
  from assms(3) [of a] obtain u where u: "trace (snd (run_state (f a) s1)) = trace s1 @ u"
    "list_all (\<lambda>e. \<not> X e) u \<longrightarrow> R (world s1) (world (snd (run_state (f a) s1)))"
    by (auto simp: accounts_def dest: spec [where x = s1])
  show "\<exists>u. trace (snd (run_state (m \<bind> f) s)) = trace s @ u
      \<and> (list_all (\<lambda>e. \<not> X e) u \<longrightarrow> R (world s) (world (snd (run_state (m \<bind> f) s))))"
    using r t u transpD [OF assms(1)] by (intro exI [of _ "t @ u"]) auto
qed

lemma accounts_if [account_rules]:
  "accounts X R m \<Longrightarrow> accounts X R n \<Longrightarrow> accounts X R (if b then m else n)"
  by simp

lemma accounts_case_sum [account_rules]:
  "(\<And>a. accounts X R (f a)) \<Longrightarrow> (\<And>b. accounts X R (g b)) \<Longrightarrow> accounts X R (case x of Inl a \<Rightarrow> f a | Inr b \<Rightarrow> g b)"
  by (cases x) auto

lemma accounts_case_option [account_rules]:
  "accounts X R m \<Longrightarrow> (\<And>a. accounts X R (f a)) \<Longrightarrow> accounts X R (case x of None \<Rightarrow> m | Some a \<Rightarrow> f a)"
  by (cases x) auto

lemma accounts_case_prod [account_rules]:
  "(\<And>a b. accounts X R (f a b)) \<Longrightarrow> accounts X R (case x of (a, b) \<Rightarrow> f a b)"
  by (cases x) auto

lemma accountsD:
  "accounts X R m \<Longrightarrow> list_all (\<lambda>e. \<not> X e) (effects_of m s) \<Longrightarrow> R (world s) (world (snd (run_state m s)))"
  by (auto simp: accounts_def effects_of_def dest: spec [where x = s])

text \<open>
  A relation that holds across every call of the client, except perhaps the calls that leave an
  effect in \<open>X\<close>, holds across a reconcile.
\<close>

definition client_accounts :: "(event \<Rightarrow> bool) \<Rightarrow> ('w \<Rightarrow> 'w \<Rightarrow> bool) \<Rightarrow> 'w kclient \<Rightarrow> bool" where
  "client_accounts X R c \<longleftrightarrow> reflp R \<and> transp R
     \<and> accounts X R (now c) \<and> (\<forall>k. accounts X R (get_workspace c k))
     \<and> (\<forall>v. accounts X R (update_workspace c v)) \<and> (\<forall>a b. accounts X R (patch_status c a b))
     \<and> (\<forall>k. accounts X R (get_pvc c k)) \<and> (\<forall>v. accounts X R (create_pvc c v))
     \<and> (\<forall>k. accounts X R (get_pod c k)) \<and> (\<forall>p. accounts X R (create_pod c p)) \<and> (\<forall>p. accounts X R (delete_pod c p))
     \<and> (\<forall>x f. accounts X R (ensure_sa c x f)) \<and> (\<forall>x f. accounts X R (ensure_role c x f))
     \<and> (\<forall>x f. accounts X R (ensure_rb c x f)) \<and> (\<forall>x f. accounts X R (ensure_np c x f))
     \<and> (\<forall>x f. accounts X R (ensure_svc c x f))"

lemma Reconcile_accounts:
  assumes "client_accounts X R c"
  shows "accounts X R (Reconcile lib c r nn)"
proof -
  note rules = assms [unfolded client_accounts_def]
  have st: "accounts X R (updateStatus lib c r ws smry)" for ws smry
    unfolding updateStatus_def report_transition_def LogWorkspacePhaseTransition_def Let_def option.case
    by (intro account_rules) (use rules in auto)
  have fin: "accounts X R (finish_status lib c r ws smry res)" "accounts X R (retry_status lib c r ws smry what e)"
    for ws smry res what e
    unfolding finish_status_def retry_status_def by (intro account_rules st; use rules in auto)+
  have pol: "accounts X R (ensure_policy lib c ws what built)" for ws what built
    unfolding ensure_policy_def by (intro account_rules) (use rules in auto)
  have acc: "accounts X R (ensureRBAC lib c ws)" "accounts X R (ensureNetworkPolicies lib c r ws)" for ws
    unfolding ensureRBAC_def ensureNetworkPolicies_def Let_def by (intro account_rules pol; use rules in auto)+
  have idle: "accounts X R (reconcile_idle lib c r ws pod ep)" for ws pod ep
    unfolding reconcile_idle_def seed_last_accessed_def stop_idle_def reconcile_status_def Let_def
    by (intro account_rules fin) (use rules in auto)
  have pod: "accounts X R (reconcile_pod lib c r nn ws)" for ws
    unfolding reconcile_pod_def create_missing_pod_def reconcile_service_def Let_def
    by (intro account_rules fin idle) (use rules in auto)
  show ?thesis
    unfolding Reconcile_def reconcileDelete_def reconcile_access_def reconcile_pvc_def create_missing_pvc_def Let_def
    by (intro account_rules fin acc pod) (use rules in auto)
qed

section \<open>Pods and claims\<close>

definition no_new_pods :: "cluster \<Rightarrow> cluster \<Rightarrow> bool" where
  "no_new_pods w w' \<longleftrightarrow> (\<forall>k. find_in pod_meta (k_pod w) k = None \<longrightarrow> find_in pod_meta (k_pod w') k = None)"

definition no_lost_pods :: "cluster \<Rightarrow> cluster \<Rightarrow> bool" where
  "no_lost_pods w w' \<longleftrightarrow> (\<forall>k. find_in pod_meta (k_pod w) k \<noteq> None \<longrightarrow> find_in pod_meta (k_pod w') k \<noteq> None)"

definition claims_kept :: "cluster \<Rightarrow> cluster \<Rightarrow> bool" where
  "claims_kept w w' \<longleftrightarrow> (\<forall>k v. find_in pvc_meta (k_pvc w) k = Some v \<longrightarrow> find_in pvc_meta (k_pvc w') k = Some v)"

lemmas cluster_call_simps = client_call_defs cluster_client_def update_in_def patch_in_def Let_def

lemma pods_frame:
  assumes "\<And>w w'. k_pod w' = k_pod w \<Longrightarrow> R w w'" and "transp R"
    and "\<And>v. accounts X R (create_pod cluster_client v)" and "\<And>v. accounts X R (delete_pod cluster_client v)"
  shows "client_accounts X R cluster_client"
  unfolding client_accounts_def
  using assms(2-4) by (auto simp: cluster_call_simps reflp_def intro!: accounts_ask assms(1)
      split: option.splits prod.splits)

lemma new_pods_frame: "client_accounts is_create_pod no_new_pods cluster_client"
  by (rule pods_frame) (auto simp: no_new_pods_def transp_def cluster_call_simps intro!: accounts_ask)

lemma lost_pods_frame: "client_accounts is_delete_pod no_lost_pods cluster_client"
  by (rule pods_frame) (auto simp: no_lost_pods_def transp_def cluster_call_simps intro!: accounts_ask)

lemma claims_frame: "client_accounts (\<lambda>_. False) claims_kept cluster_client"
  unfolding client_accounts_def
  by (auto simp: cluster_call_simps claims_kept_def reflp_def transp_def intro!: accounts_ask
      split: option.splits prod.splits)

lemma reconcile_in_world: "reconcile_in lib r nn w = world (snd (run_state (Reconcile lib cluster_client r nn) (sys_of w)))"
  by (rule reconcile_in_def)

lemma reconcile_claims_kept: "claims_kept w (reconcile_in lib r nn w)"
  using accountsD [OF Reconcile_accounts [OF claims_frame], of lib r nn "sys_of w"]
  by (simp add: reconcile_in_def list_all_iff)

lemma created_in_trace:
  assumes "find_in pod_meta (k_pod w) k = None" and "find_in pod_meta (k_pod (reconcile_in lib r nn w)) k \<noteq> None"
  shows "\<exists>pre p x post. effects_of (Reconcile lib cluster_client r nn) (sys_of w) = pre @ CreatePod p x # post"
proof -
  have "\<not> list_all (\<lambda>e. \<not> is_create_pod e) (effects_of (Reconcile lib cluster_client r nn) (sys_of w))"
    using accountsD [OF Reconcile_accounts [OF new_pods_frame], of lib r nn "sys_of w"] assms
    by (auto simp: no_new_pods_def reconcile_in_def)
  then obtain p x where "CreatePod p x \<in> set (effects_of (Reconcile lib cluster_client r nn) (sys_of w))"
    by (auto simp: list_all_iff elim: is_create_pod.elims)
  then show ?thesis by (meson split_list)
qed

lemma deleted_in_trace:
  assumes "find_in pod_meta (k_pod w) k \<noteq> None" and "find_in pod_meta (k_pod (reconcile_in lib r nn w)) k = None"
  shows "\<exists>pre p x post. effects_of (Reconcile lib cluster_client r nn) (sys_of w) = pre @ DeletePod p x # post"
proof -
  have "\<not> list_all (\<lambda>e. \<not> is_delete_pod e) (effects_of (Reconcile lib cluster_client r nn) (sys_of w))"
    using accountsD [OF Reconcile_accounts [OF lost_pods_frame], of lib r nn "sys_of w"] assms
    by (fastforce simp: no_lost_pods_def reconcile_in_def)
  then obtain p x where "DeletePod p x \<in> set (effects_of (Reconcile lib cluster_client r nn) (sys_of w))"
    by (auto simp: list_all_iff elim: is_delete_pod.elims)
  then show ?thesis by (meson split_list)
qed

end
