(* ===== verification/Controller_Props.thy ===== *)
theory Controller_Props
  imports Cluster_Frames
begin

text \<open>
  The properties of the reconciler: what it guarantees whatever the API server answers, and how
  it behaves in the concrete cluster. Each property is followed by its application to a
  concrete workspace.
\<close>

section \<open>Examples\<close>

text \<open>A workspace with the finalizer, in a cluster with its claim and nothing else.\<close>

definition sample_fws :: workspace where
  "sample_fws = (sample_ws ''alice'')\<lparr>ws_meta := (ws_meta (sample_ws ''alice''))\<lparr>mt_finalizers := [workspaceFinalizer]\<rparr>\<rparr>"

definition sample_pvc :: pvc where
  "sample_pvc = \<lparr>pvc_meta = meta (PVCName ''alice'') ''devplane'' [], pvc_access_modes = [''ReadWriteOnce''],
     pvc_requests = [], pvc_storage_class = None, pvc_phase = ''Bound''\<rparr>"

definition sample_cluster :: "instant \<Rightarrow> cluster" where
  "sample_cluster t = (cluster_with t sample_fws)\<lparr>k_pvc := (\<lambda>_. None)(sample_key (PVCName ''alice'') \<mapsto> sample_pvc)\<rparr>"

interpretation sample_env: cluster_env sample_lib
  by (intro cluster_env.intro)
    (simp_all add: ctrl_owner.owner_lib_total_axioms status_cond.condition_lib_axioms fin_list.finalizer_lib_axioms)

lemma sample_spec_user [simp]: "user_id (spec_user (sample_spec u)) = u"
  by (simp add: sample_spec_def)

lemma sample_fws_simps [simp]:
  "ws_namespace sample_fws = ''devplane''"
  "key_of (ws_meta sample_fws) = sample_key ''alice''" "ws_status sample_fws = empty_status"
  "mt_deletion (ws_meta sample_fws) = None" "ws_spec sample_fws = sample_spec ''alice''"
  "in_ns sample_fws nm = sample_key nm"
  by (simp_all add: sample_fws_def sample_ws_def key_of_def in_ns_def)

lemma sample_admitted: "admitted sample_lib sample_fws"
proof -
  have "dns_label ''alice''" by code_simp
  then have "ValidateSpec sample_lib (Some sample_fws) = None"
    by (simp add: ValidateSpec_valid sample_spec_valid)
  then show ?thesis
    by (simp add: admitted_def empty_status_def) (simp add: sample_fws_def contains_finalizer_def)
qed

lemma sample_cluster_facts:
  "find_in ws_meta (k_ws (sample_cluster t)) (sample_key ''alice'') = Some sample_fws"
  "claims_ok sample_fws (sample_cluster t)" "pvc_usable sample_fws (sample_cluster t)"
  "find_in pod_meta (k_pod (sample_cluster t)) k = None" "k_clock (sample_cluster t) = t"
  by (simp_all add: sample_cluster_def cluster_with_def empty_cluster_def find_in_def claims_ok_def free_at_def
      pvc_usable_def sample_pvc_def)

lemma sample_pod:
  obtains p where "BuildPod sample_lib sample_fws (PVCName ''alice'') (desired_image sample_rc) (rc_build_opts sample_rc) = Inr p"
  using sample_env.builders(2) [OF sample_admitted] by blast

section \<open>Safety under every API server\<close>

text \<open>
  C1: a workspace pod is only ever created behind its isolation. Whatever the API server
  answers, when a reconcile creates a pod, then before that call in the same reconcile it has
  read the Workspace, found it valid and not Stopped, and the API server has confirmed the
  ServiceAccount, the read-only Role and its binding, and all three NetworkPolicies with
  exactly the spec built for this workspace. The pod is the one \<open>BuildPod\<close> makes for that
  Workspace, with the operator's image and the user's own claim.
\<close>

theorem pod_created_behind_policies:
  assumes "operator_env c lib"
    and "effects_of (Reconcile lib c r nn) s = pre @ CreatePod p x # post"
  shows "\<exists>ws. GetWorkspace nn (Inr ws) \<in> set pre \<and> admitted lib ws
     \<and> BuildPod lib ws (PVCName (ws_user_id ws)) (desired_image r) (rc_build_opts r) = Inr p
     \<and> rbac_ensured ws pre \<and> policies_ensured lib r ws pre"
proof -
  let ?P = "\<lambda>e pre. \<exists>ws. GetWorkspace nn (Inr ws) \<in> set pre \<and> admitted lib ws \<and> creation_ok lib r ws e pre"
  have "ensures (Reconcile lib c r nn) (\<lambda>_ t. guarded is_create_pod ?P t)"
  proof (rule Reconcile_guarded)
    show "api_status e \<Longrightarrow> \<not> is_create_pod e" for e by (cases e) auto
    show "ensures (reconcile_access lib c r nn ws)
        (\<lambda>_ u. guarded is_create_pod (\<lambda>e pre. ?P e (GetWorkspace nn (Inr ws) # pre)) u)"
      if "admitted lib ws" for ws
      using that creation_ok_mono [of lib r ws _ _ "[GetWorkspace nn (Inr ws)]"]
      by (intro ensures_mono [OF operator_env.access_guarded [OF assms(1)]]) (auto elim!: guarded_mono)
  qed
  from guardedD [OF ensuresD [OF this, of s, unfolded assms(2)]] show ?thesis
    by (auto simp: creation_ok_def)
qed

lemma sample_creates:
  "\<exists>pre p x post. effects_of (Reconcile sample_lib cluster_client sample_rc (sample_key ''alice''))
       (sys_of (sample_cluster t)) = pre @ CreatePod p x # post"
proof -
  obtain p where p: "BuildPod sample_lib sample_fws (PVCName ''alice'') (desired_image sample_rc)
      (rc_build_opts sample_rc) = Inr p" by (rule sample_pod)
  have "find_in pod_meta (k_pod (reconcile_in sample_lib sample_rc (sample_key ''alice'') (sample_cluster t)))
      (sample_key (PodName ''alice'')) \<noteq> None"
    using sample_env.step_create_pod [OF sample_cluster_facts(1) [of t] sample_admitted sample_cluster_facts(2,3)
        sample_cluster_facts(4), of sample_rc p] p sample_env.BuildPod_meta [OF p] by auto
  then show ?thesis using created_in_trace [OF sample_cluster_facts(4)] by blast
qed

theorem pod_created_behind_policies_witness:
  "\<exists>pre p x post ws. effects_of (Reconcile sample_lib cluster_client sample_rc (sample_key ''alice''))
       (sys_of (sample_cluster 0)) = pre @ CreatePod p x # post
     \<and> rbac_ensured ws pre \<and> policies_ensured sample_lib sample_rc ws pre"
  using sample_creates [of 0] pod_created_behind_policies [OF operator.operator_env_axioms] by blast

text \<open>
  C17: a reconcile deletes nothing but the workspace's own pod, and only for cause. Whatever the
  API server answers, a deleted pod is the one it had read under the pod name of the
  Workspace it reconciles, and either its image is not the operator's, or it is running and
  ready and a clock reading lies further after the last access than a positive idle timeout.
\<close>

theorem pod_deleted_for_cause:
  assumes "effects_of (Reconcile lib c r nn) s = pre @ DeletePod p x # post"
  shows "\<exists>ws. GetWorkspace nn (Inr ws) \<in> set pre \<and> admitted lib ws
     \<and> GetPod \<lparr>key_namespace = key_namespace nn, key_name = PodName (ws_user_id ws)\<rparr> (Inr p) \<in> set pre
     \<and> (image_outdated r p
        \<or> ps_phase (pod_status_of p) = PodRunning \<and> isPodReady (Some p) \<and> idle_expired r ws pre)"
proof -
  let ?P = "\<lambda>e pre. \<exists>ws. GetWorkspace nn (Inr ws) \<in> set pre \<and> admitted lib ws \<and> deletion_ok r nn ws e pre"
  have "ensures (Reconcile lib c r nn) (\<lambda>_ t. guarded is_delete_pod ?P t)"
  proof (rule Reconcile_guarded)
    show "api_status e \<Longrightarrow> \<not> is_delete_pod e" for e by (cases e) auto
    show "ensures (reconcile_access lib c r nn ws)
        (\<lambda>_ u. guarded is_delete_pod (\<lambda>e pre. ?P e (GetWorkspace nn (Inr ws) # pre)) u)"
      if "admitted lib ws" for ws
      using that deletion_ok_mono [of r nn ws]
      by (intro ensures_mono [OF access_deletes], elim guarded_mono)
        (rule exI [of _ ws], simp add: subset_insertI)
  qed
  from guardedD [OF ensuresD [OF this, of s, unfolded assms]] show ?thesis
    by (auto simp: deletion_ok_def)
qed


text \<open>The example with a ready pod that was last used two hours ago.\<close>

definition sample_idle_ws :: workspace where
  "sample_idle_ws = sample_fws\<lparr>ws_status := empty_status\<lparr>st_phase := WorkspacePhaseRunning, st_last_accessed := Some 0\<rparr>\<rparr>"

definition sample_up :: pod where
  "sample_up = started (projr (BuildPod sample_lib sample_fws (PVCName ''alice'') (desired_image sample_rc)
     (rc_build_opts sample_rc)))"

definition sample_idle :: cluster where
  "sample_idle = (sample_cluster (2 * Hour))\<lparr>k_ws := (\<lambda>_. None)(sample_key ''alice'' \<mapsto> sample_idle_ws),
     k_pod := (\<lambda>_. None)(sample_key (PodName ''alice'') \<mapsto> sample_up)\<rparr>"

lemma sample_up_facts:
  "key_of (pod_meta sample_up) = sample_key (PodName ''alice'')" "\<not> image_outdated sample_rc sample_up" "pod_serving sample_up"
proof -
  obtain p where p: "BuildPod sample_lib sample_fws (PVCName ''alice'') (desired_image sample_rc)
      (rc_build_opts sample_rc) = Inr p" by (rule sample_pod)
  show "key_of (pod_meta sample_up) = sample_key (PodName ''alice'')" "\<not> image_outdated sample_rc sample_up" "pod_serving sample_up"
    using sample_env.BuildPod_meta [OF p] BuildPod_image [OF p] by (auto simp: sample_up_def p image_outdated_def)
qed

lemma sample_idle_facts:
  "find_in ws_meta (k_ws sample_idle) (sample_key ''alice'') = Some sample_idle_ws"
  "admitted sample_lib sample_idle_ws" "claims_ok sample_idle_ws sample_idle" "pvc_usable sample_idle_ws sample_idle"
  "find_in pod_meta (k_pod sample_idle) (in_ns sample_idle_ws (PodName (ws_user_id sample_idle_ws))) = Some sample_up"
  "k_clock sample_idle = 2 * Hour" "idle_over sample_rc (2 * Hour) sample_idle_ws"
proof -
  have m: "ws_meta sample_idle_ws = ws_meta sample_fws" "ws_spec sample_idle_ws = ws_spec sample_fws"
    by (simp_all add: sample_idle_ws_def)
  show "find_in ws_meta (k_ws sample_idle) (sample_key ''alice'') = Some sample_idle_ws" "k_clock sample_idle = 2 * Hour"
    by (simp_all add: sample_idle_def sample_cluster_facts m)
  show "admitted sample_lib sample_idle_ws"
    by (rule admitted_cong [OF _ _ _ sample_admitted]) (simp_all add: m sample_idle_ws_def)
  show "claims_ok sample_idle_ws sample_idle"
    using sample_cluster_facts(2) [of "2 * Hour"] claims_ok_cong [of sample_idle_ws sample_fws] m
    by (simp add: sample_idle_def)
  show "pvc_usable sample_idle_ws sample_idle"
    using sample_cluster_facts(3) [of "2 * Hour"] pvc_usable_cong [of sample_idle_ws sample_fws sample_idle "sample_cluster (2 * Hour)"] m
    by (simp add: sample_idle_def)
  show "find_in pod_meta (k_pod sample_idle) (in_ns sample_idle_ws (PodName (ws_user_id sample_idle_ws))) = Some sample_up"
    using sample_up_facts(1) by (simp add: sample_idle_def in_ns_def m)
  show "idle_over sample_rc (2 * Hour) sample_idle_ws"
    by (simp add: idle_over_def effectiveIdleTimeout_def m sample_spec_def sample_rc_def seeded_def sample_idle_ws_def
        empty_status_def idle_since_def time_sub_def duration_units)
qed

theorem pod_deleted_for_cause_witness:
  "\<exists>pre p x post. effects_of (Reconcile sample_lib cluster_client sample_rc (sample_key ''alice''))
       (sys_of sample_idle) = pre @ DeletePod p x # post
     \<and> (image_outdated sample_rc p \<or> pod_serving p \<and> (\<exists>ws. idle_expired sample_rc ws pre))"
proof -
  have "find_in pod_meta (k_pod (reconcile_in sample_lib sample_rc (sample_key ''alice'') sample_idle))
      (in_ns sample_idle_ws (PodName (ws_user_id sample_idle_ws))) = None"
    using sample_env.step_serving [OF sample_idle_facts(1-5) sample_up_facts(2,3)] sample_idle_facts(6,7)
    by (simp add: Let_def)
  with deleted_in_trace [of sample_idle _ sample_lib sample_rc] sample_idle_facts(5)
  obtain pre p x post where e: "effects_of (Reconcile sample_lib cluster_client sample_rc (sample_key ''alice''))
       (sys_of sample_idle) = pre @ DeletePod p x # post"
    by blast
  with pod_deleted_for_cause [OF e] show ?thesis by blast
qed

text \<open>
  C18: the phase Running is only ever written for a pod that is there and ready: whatever the API
  server answers, before a status patch with phase Running the reconcile has read, under the
  pod name of the Workspace, a pod in phase Running whose Ready condition is True.
\<close>

theorem running_means_ready:
  assumes "effects_of (Reconcile lib c r nn) s = pre @ PatchStatus b n x # post"
    and "ws_phase n = WorkspacePhaseRunning"
  shows "(\<exists>ws pod. GetWorkspace nn (Inr ws) \<in> set pre
      \<and> GetPod \<lparr>key_namespace = key_namespace nn, key_name = PodName (ws_user_id ws)\<rparr> (Inr pod) \<in> set pre
      \<and> ps_phase (pod_status_of pod) = PodRunning \<and> isPodReady (Some pod))"
proof -
  let ?P = "\<lambda>e pre. \<exists>ws pod. GetWorkspace nn (Inr ws) \<in> set pre
      \<and> GetPod \<lparr>key_namespace = key_namespace nn, key_name = PodName (ws_user_id ws)\<rparr> (Inr pod) \<in> set pre
      \<and> pod_serving pod"
  have "ensures (Reconcile lib c r nn) (\<lambda>_ t. guarded running_write ?P t)"
    by (rule Reconcile_running [OF ensures_mono [OF access_running]]) (auto elim!: guarded_mono)
  from guardedD [OF ensuresD [OF this, of s, unfolded assms(1)]] assms(2) show ?thesis by auto
qed

text \<open>An API server that answers every call with success and fixed objects, for one-reconcile examples.\<close>

definition canned :: "workspace \<Rightarrow> pod \<Rightarrow> unit kclient" where
  "canned ws pod = \<lparr>
     cl_now = (\<lambda>w. (0, w)), cl_wait = (\<lambda>d w. (None, w)), cl_get_ws = (\<lambda>k w. (Inr ws, w)), cl_create_ws = (\<lambda>v w. (Inr v, w)),
     cl_update_ws = (\<lambda>v w. (Inr v, w)), cl_patch_status = (\<lambda>b v w. (Inr v, w)),
     cl_get_pvc = (\<lambda>k w. (Inr sample_pvc, w)), cl_create_pvc = (\<lambda>v w. (Inr v, w)),
     cl_get_pod = (\<lambda>k w. (Inr pod, w)), cl_create_pod = (\<lambda>v w. (Inr v, w)), cl_delete_pod = (\<lambda>v w. (Inr (), w)),
     cl_ensure_sa = (\<lambda>x f w. (f x, w)), cl_ensure_role = (\<lambda>x f w. (f x, w)), cl_ensure_rb = (\<lambda>x f w. (f x, w)),
     cl_ensure_np = (\<lambda>x f w. (f x, w)), cl_ensure_svc = (\<lambda>x f w. (f x, w))\<rparr>"

lemma canned_ops [simp]:
  "cl_now (canned ws pod) w = (0, w)" "cl_get_ws (canned ws pod) k w = (Inr ws, w)"
  "cl_patch_status (canned ws pod) b v w = (Inr v, w)" "cl_get_pvc (canned ws pod) k w = (Inr sample_pvc, w)"
  "cl_get_pod (canned ws pod) k w = (Inr pod, w)" "cl_delete_pod (canned ws pod) pd w = (Inr (), w)"
  "cl_ensure_sa (canned ws pod) sa f1 w = (f1 sa, w)" "cl_ensure_role (canned ws pod) ro f2 w = (f2 ro, w)"
  "cl_ensure_rb (canned ws pod) rb f3 w = (f3 rb, w)" "cl_ensure_np (canned ws pod) np f4 w = (f4 np, w)"
  "cl_ensure_svc (canned ws pod) sv f5 w = (f5 sv, w)"
  by (simp_all add: canned_def)

lemma sample_owner:
  "set_controller_reference sample_fws (meta nm ''devplane'' l) =
     Inr ((meta nm ''devplane'' l)\<lparr>mt_owners := [ctrl_ref sample_fws]\<rparr>)"
  "set_controller_reference sample_fws ((meta nm ''devplane'' l)\<lparr>mt_labels := l'\<rparr>) =
     Inr ((meta nm ''devplane'' l)\<lparr>mt_labels := l', mt_owners := [ctrl_ref sample_fws]\<rparr>)"
  by (simp_all add: set_controller_reference_def)

lemma canned_to_idle:
  assumes "\<not> image_outdated sample_rc pod"
    and "\<And>u. GetWorkspace (sample_key ''alice'') (Inr sample_fws) \<in> set u \<Longrightarrow>
      GetPod (sample_key (PodName ''alice'')) (Inr pod) \<in> set u \<Longrightarrow>
      (\<exists>sv. EnsureService (sample_key (ServiceName ''alice'')) (Inr sv) \<in> set u) \<Longrightarrow>
      list_all (\<lambda>e. \<not> is_delete_pod e) u \<Longrightarrow> list_all (\<lambda>e. \<forall>k x. e = GetWorkspace k x \<longrightarrow> x = Inr sample_fws) u \<Longrightarrow>
      wp (reconcile_idle sample_lib (canned sample_fws pod) sample_rc sample_fws pod
        (service_endpoint (ServiceName ''alice'') ''devplane'')) Q \<lparr>world = (), trace = u\<rparr>"
  shows "wp (Reconcile sample_lib (canned sample_fws pod) sample_rc (sample_key ''alice'')) Q (sys_of ())"
proof -
  have a: "ValidateSpec sample_lib (Some sample_fws) = None" "contains_finalizer (ws_meta sample_fws) workspaceFinalizer"
    "st_phase empty_status \<noteq> WorkspacePhaseStopped" "pvc_phase sample_pvc \<noteq> ClaimLost"
    using sample_admitted by (simp_all add: admitted_def sample_pvc_def)
  show ?thesis
    using a assms(1)
    by (simp add: Reconcile_def wp_simps client_call_defs reconcile_access_def ensureRBAC_def
        ensureNetworkPolicies_def ensure_policy_def sample_owner own_netpol_def BuildRole_def
        BuildDenyAllNetworkPolicy_def BuildEgressNetworkPolicy_def BuildIngressFromGatewayNetworkPolicy_def
        reconcile_pvc_def reconcile_pod_def reconcile_service_def sys_of_def Let_def)
      (rule assms(2); simp)
qed

text \<open>A pod in a given phase with given conditions.\<close>

definition sample_bare :: "string \<Rightarrow> pod_condition list \<Rightarrow> pod" where
  "sample_bare ph cs = \<lparr>pod_meta = meta (PodName ''alice'') ''devplane'' [], pod_service_account = '''',
     pod_security = None, pod_host_network = False, pod_host_pid = False, pod_host_ipc = False,
     pod_containers = [], pod_volumes = [],
     pod_status_of = empty_pod_status\<lparr>ps_phase := ph, ps_conditions := cs\<rparr>\<rparr>"

abbreviation sample_serving :: pod where
  "sample_serving \<equiv> sample_bare PodRunning [\<lparr>pc_type = PodReady, pc_status = ConditionTrue\<rparr>]"

lemma sample_bare_simps [simp]:
  "\<not> image_outdated r (sample_bare ph cs)" "ps_phase (pod_status_of (sample_bare ph cs)) = ph"
  "isPodReady (Some (sample_bare ph cs)) = ready_condition cs" "ps_containers (pod_status_of (sample_bare ph cs)) = []"
  by (simp_all add: image_outdated_def sample_bare_def isPodReady_def empty_pod_status_def)

lemma sample_idle_timeout: "effectiveIdleTimeout sample_fws (rc_idle_timeout sample_rc) = Hour"
  by (simp add: effectiveIdleTimeout_def sample_spec_def sample_rc_def)

lemma effects_sys_of: "effects_of m (sys_of w) = trace (snd (run_state m (sys_of w)))"
  by (simp add: effects_of_def sys_of_def)

lemma canned_serving:
  "wp (Reconcile sample_lib (canned sample_fws sample_serving) sample_rc (sample_key ''alice''))
     (\<lambda>out s. list_ex running_write (trace s)) (sys_of ())"
  by (rule canned_to_idle, simp, simp add: reconcile_idle_def seed_last_accessed_def Let_def wp_simps client_call_defs
      sample_idle_timeout Hour_def Minute_def Second_def empty_status_def idle_since_def time_sub_def
      reconcile_status_def finish_status_def updateStatus_def report_transition_def LogWorkspacePhaseTransition_def)

theorem running_means_ready_witness:
  "\<exists>pre b n x post. effects_of (Reconcile sample_lib (canned sample_fws sample_serving) sample_rc (sample_key ''alice''))
       (sys_of ()) = pre @ PatchStatus b n x # post
     \<and> ws_phase n = WorkspacePhaseRunning
     \<and> (\<exists>ws pod. GetPod (sample_key (PodName (ws_user_id ws))) (Inr pod) \<in> set pre \<and> isPodReady (Some pod))"
proof -
  let ?m = "Reconcile sample_lib (canned sample_fws sample_serving) sample_rc (sample_key ''alice'')"
  have "list_ex running_write (effects_of ?m (sys_of ()))"
    using canned_serving by (simp add: wp_def effects_sys_of)
  then obtain b n x where "PatchStatus b n x \<in> set (effects_of ?m (sys_of ()))" and n: "ws_phase n = WorkspacePhaseRunning"
    by (auto simp: list_ex_iff elim: running_write.elims)
  then obtain pre post where e: "effects_of ?m (sys_of ()) = pre @ PatchStatus b n x # post" by (meson split_list)
  from running_means_ready [OF e n]
  have "\<exists>ws pod. GetPod (sample_key (PodName (ws_user_id ws))) (Inr pod) \<in> set pre \<and> isPodReady (Some pod)" by auto
  with e n show ?thesis by blast
qed

text \<open>
  C35: the reconciler never overwrites the gateway's access time. Every status patch it sends,
  whatever the API server answers, leaves spec and metadata alone, and unless the Workspace it
  read had no access time, applying the patch to any current status of the server keeps the
  access time of the server.
\<close>

theorem patches_keep_access_time:
  "list_all (\<lambda>e. case e of
     PatchStatus b n x \<Rightarrow> ws_meta n = ws_meta b \<and> ws_spec n = ws_spec b
       \<and> (st_last_accessed (ws_status b) = None
          \<or> (\<forall>cur. st_last_accessed (merge_status (ws_status b) (ws_status n) cur) = st_last_accessed cur))
   | _ \<Rightarrow> True) (effects_of (Reconcile lib c r nn) s)"
proof (rule emitsD, rule emits_mono [OF Reconcile_patches])
  fix e
  assume "\<forall>b n x. e = PatchStatus b n x \<longrightarrow> ws_meta n = ws_meta b \<and> ws_spec n = ws_spec b
     \<and> (st_last_accessed (ws_status n) = st_last_accessed (ws_status b) \<or> st_last_accessed (ws_status b) = None)"
  then show "case e of PatchStatus b n x \<Rightarrow> ws_meta n = ws_meta b \<and> ws_spec n = ws_spec b
       \<and> (st_last_accessed (ws_status b) = None
          \<or> (\<forall>cur. st_last_accessed (merge_status (ws_status b) (ws_status n) cur) = st_last_accessed cur))
   | _ \<Rightarrow> True"
    by (cases e) (auto simp: merge_status_def merge_field_def)
qed

text \<open>
  C30: no workspace is left half made. When a reconcile ends without an error and asks for no
  further one, then the Workspace is gone, is being deleted, was already Stopped, or the last
  status the API server accepted has phase Running, Failed or Stopped: a workspace that is
  still Creating is always looked at again.
\<close>

theorem reconcile_settles:
  assumes "result_of (Reconcile lib c r nn) s = (res, None)" and "\<not> requeues res"
  shows "(\<exists>e. GetWorkspace nn (Inl e) \<in> set (effects_of (Reconcile lib c r nn) s) \<and> is_not_found e)
     \<or> (\<exists>ws. GetWorkspace nn (Inr ws) \<in> set (effects_of (Reconcile lib c r nn) s)
          \<and> (mt_deletion (ws_meta ws) \<noteq> None \<or> ws_phase ws = WorkspacePhaseStopped))
     \<or> (\<exists>ph \<in> {WorkspacePhaseRunning, WorkspacePhaseFailed, WorkspacePhaseStopped}.
          last_written (effects_of (Reconcile lib c r nn) s) = Some ph)"
  using ensuresD [OF Reconcile_settled, of lib c r nn s] assms by (auto simp: settled_def)

lemma canned_failed:
  "wp (Reconcile sample_lib (canned sample_fws (sample_bare PodFailed [])) sample_rc (sample_key ''alice''))
     (\<lambda>out s. out = (no_requeue, None) \<and> GetPod (sample_key (PodName ''alice'')) (Inr (sample_bare PodFailed [])) \<in> set (trace s)
        \<and> (\<exists>sv. EnsureService (sample_key (ServiceName ''alice'')) (Inr sv) \<in> set (trace s))
        \<and> list_all (\<lambda>e. \<not> is_delete_pod e) (trace s)
        \<and> list_all (\<lambda>e. \<forall>k x. e = GetWorkspace k x \<longrightarrow> x = Inr sample_fws) (trace s)
        \<and> GetWorkspace (sample_key ''alice'') (Inr sample_fws) \<in> set (trace s)) (sys_of ())"
  by (rule canned_to_idle, simp, simp add: reconcile_idle_def Let_def wp_simps client_call_defs
      reconcile_status_def finish_status_def updateStatus_def report_transition_def LogWorkspacePhaseTransition_def)

theorem reconcile_settles_witness:
  "let m = Reconcile sample_lib (canned sample_fws (sample_bare PodFailed [])) sample_rc (sample_key ''alice'') in
   result_of m (sys_of ()) = (no_requeue, None)
   \<and> last_written (effects_of m (sys_of ())) \<in> Some ` {WorkspacePhaseRunning, WorkspacePhaseFailed, WorkspacePhaseStopped}"
proof -
  let ?m = "Reconcile sample_lib (canned sample_fws (sample_bare PodFailed [])) sample_rc (sample_key ''alice'')"
  have r: "result_of ?m (sys_of ()) = (no_requeue, None)" using canned_failed by (simp add: wp_def result_of_def)
  have g: "x = Inr sample_fws" if "GetWorkspace k x \<in> set (effects_of ?m (sys_of ()))" for k x
    using canned_failed that by (auto simp: wp_def effects_sys_of list_all_iff)
  have "\<nexists>e. GetWorkspace (sample_key ''alice'') (Inl e) \<in> set (effects_of ?m (sys_of ()))" using g by fastforce
  moreover have "mt_deletion (ws_meta ws) = None \<and> ws_phase ws \<noteq> WorkspacePhaseStopped"
    if "GetWorkspace (sample_key ''alice'') (Inr ws) \<in> set (effects_of ?m (sys_of ()))" for ws
    using g [OF that] by (simp add: empty_status_def)
  ultimately show ?thesis using r reconcile_settles [OF r] by (auto simp: Let_def)
qed

text \<open>
  C29: the status reports what the pod shows. Whenever a reconcile without error has read the
  workspace's pod, had its Service confirmed and did not delete the pod, the last status the
  API server accepted has the phase that pod stands for: Running if it runs and is ready,
  Failed if it failed, is out of reach or has a container that waits for a human, Creating
  otherwise; and the requeue is a quarter of the idle timeout, none, or five seconds.
\<close>

theorem status_reports_pod:
  assumes "result_of (Reconcile lib c r nn) s = (res, None)"
    and "GetWorkspace nn (Inr ws) \<in> set (effects_of (Reconcile lib c r nn) s)"
    and "GetPod \<lparr>key_namespace = key_namespace nn, key_name = PodName (ws_user_id ws)\<rparr> (Inr pod)
      \<in> set (effects_of (Reconcile lib c r nn) s)"
    and "EnsureService k (Inr sv) \<in> set (effects_of (Reconcile lib c r nn) s)"
    and "list_all (\<lambda>e. \<not> is_delete_pod e) (effects_of (Reconcile lib c r nn) s)"
  shows "res = observed_requeue (effectiveIdleTimeout ws (rc_idle_timeout r)) pod
     \<and> last_written (effects_of (Reconcile lib c r nn) s) = Some (observed_phase pod)"
  using ensuresD [OF Reconcile_reports [where lib = lib and c = c and r = r and nn = nn], of s] assms by (auto simp: reports_def)

theorem status_reports_pod_witness:
  "last_written (effects_of (Reconcile sample_lib (canned sample_fws (sample_bare PodFailed [])) sample_rc
      (sample_key ''alice'')) (sys_of ())) = Some WorkspacePhaseFailed"
proof -
  let ?m = "Reconcile sample_lib (canned sample_fws (sample_bare PodFailed [])) sample_rc (sample_key ''alice'')"
  obtain sv where f: "result_of ?m (sys_of ()) = (no_requeue, None)"
    "GetWorkspace (sample_key ''alice'') (Inr sample_fws) \<in> set (effects_of ?m (sys_of ()))"
    "GetPod \<lparr>key_namespace = key_namespace (sample_key ''alice''), key_name = PodName (ws_user_id sample_fws)\<rparr>
      (Inr (sample_bare PodFailed [])) \<in> set (effects_of ?m (sys_of ()))"
    "EnsureService (sample_key (ServiceName ''alice'')) (Inr sv) \<in> set (effects_of ?m (sys_of ()))"
    "list_all (\<lambda>e. \<not> is_delete_pod e) (effects_of ?m (sys_of ()))"
    using canned_failed by (auto simp: wp_def result_of_def effects_sys_of)
  show ?thesis using status_reports_pod [OF f] by (simp add: observed_phase_def)
qed

section \<open>Ways in which a reconcile ends early\<close>

text \<open>Writing a status: one patch, then bookkeeping; the result is the requested one or the error of the patch.\<close>

lemma finish_status_effects:
  "ensures (finish_status lib c r ws smry res) (\<lambda>out t. \<exists>x post. t = PatchStatus ws (ApplyStatusSummary lib ws smry) x # post
     \<and> list_all bookkeeping post \<and> out = (case x of Inl u \<Rightarrow> (no_requeue, Some u) | Inr _ \<Rightarrow> (res, None)))"
proof -
  have after: "ensures (State_Monad.bind m (\<lambda>_. State_Monad.return a)) (\<lambda>b u. b = a \<and> list_all bookkeeping u)"
    if "emits m bookkeeping" for m :: "('w, unit) kube" and a :: "go_error option"
    by (rule ensures_bind [OF that [unfolded emits_def]]) (simp add: ensures_return)
  have "ensures (updateStatus lib c r ws smry) (\<lambda>b t. \<exists>x post. t = PatchStatus ws (ApplyStatusSummary lib ws smry) x # post
     \<and> list_all bookkeeping post \<and> b = (case x of Inl u \<Rightarrow> Some u | Inr _ \<Rightarrow> None))"
    unfolding updateStatus_def patch_status_def Let_def
    by (rule ensures_ask_bind, rule ensures_case_sum; rule ensures_mono [OF after])
      (auto simp: emits_report emits_emit)
  then show ?thesis unfolding finish_status_def
    by (rule ensures_bind) (fastforce intro!: ensures_return simp: sum.case_eq_if)
qed

text \<open>
  C36: an invalid Workspace is reported as Failed and nothing else happens. When the Workspace that
  was read is not being deleted and fails validation, the reconcile makes exactly one more call:
  the status patch of that Workspace to phase Failed, with the text of the validation error as
  message, the validation hint, and neither pod name nor endpoint, spec and metadata unchanged;
  what follows is logging, counters and events. There is no requeue, and the result is an error
  exactly if the patch failed, with that error.
\<close>

theorem invalid_spec_reported:
  assumes "fst (cl_get_ws c nn (world s)) = Inr ws" and "mt_deletion (ws_meta ws) = None"
    and "ValidateSpec lib (Some ws) = Some e"
  shows "\<exists>n x post. effects_of (Reconcile lib c r nn) s = GetWorkspace nn (Inr ws) # PatchStatus ws n x # post
     \<and> list_all bookkeeping post
     \<and> ws_phase n = WorkspacePhaseFailed \<and> st_message (ws_status n) = err_text e
     \<and> st_remediation_hint (ws_status n) = RemediationValidation
     \<and> st_pod_name (ws_status n) = '''' \<and> st_service_endpoint (ws_status n) = ''''
     \<and> ws_spec n = ws_spec ws \<and> ws_meta n = ws_meta ws
     \<and> result_of (Reconcile lib c r nn) s = (no_requeue, case x of Inl u \<Rightarrow> Some u | Inr _ \<Rightarrow> None)"
proof -
  let ?smry = "failed_summary '''' (err_text e) (RemediationValidation, ReasonValidationFailed)"
  let ?s1 = "s\<lparr>world := snd (cl_get_ws c nn (world s)), trace := trace s @ [GetWorkspace nn (Inr ws)]\<rparr>"
  let ?m = "finish_status lib c r ws ?smry no_requeue"
  have run: "run_state (Reconcile lib c r nn) s = run_state ?m ?s1"
    using assms by (simp add: Reconcile_def get_workspace_def)
  obtain x post where f: "effects_of ?m ?s1 = PatchStatus ws (ApplyStatusSummary lib ws ?smry) x # post" "list_all bookkeeping post"
    "result_of ?m ?s1 = (case x of Inl u \<Rightarrow> (no_requeue, Some u) | Inr _ \<Rightarrow> (no_requeue, None))"
    using ensuresD [OF finish_status_effects, of lib c r ws ?smry no_requeue ?s1] by blast
  have "effects_of (Reconcile lib c r nn) s = GetWorkspace nn (Inr ws) # effects_of ?m ?s1"
    unfolding effects_of_def [of "Reconcile lib c r nn"] run
    by (subst ensures_trace [OF finish_status_effects, of lib c r ws ?smry no_requeue ?s1]) simp
  moreover have "result_of (Reconcile lib c r nn) s = result_of ?m ?s1" by (simp add: result_of_def run)
  ultimately show ?thesis using f
    by (intro exI [of _ "ApplyStatusSummary lib ws ?smry"] exI [of _ x] exI [of _ post])
      (simp add: failed_summary_def summary_def split: sum.split)
qed

lemma nil_user_invalid: "ValidateSpec lib (Some (sample_ws '''')) = Some (new_error ''spec.user.id is required'')"
  by (simp add: ValidateSpec_def sample_ws_def)

theorem invalid_spec_reported_witness:
  "let m = Reconcile sample_lib (canned (sample_ws '''') sample_serving) sample_rc (sample_key '''') in
   \<exists>n x post. effects_of m (sys_of ()) = GetWorkspace (sample_key '''') (Inr (sample_ws '''')) # PatchStatus (sample_ws '''') n x # post
     \<and> ws_phase n = WorkspacePhaseFailed \<and> st_message (ws_status n) = ''spec.user.id is required''
     \<and> fst (result_of m (sys_of ())) = no_requeue"
proof -
  have "fst (cl_get_ws (canned (sample_ws '''') sample_serving) (sample_key '''') (world (sys_of ()))) = Inr (sample_ws '''')"
    "mt_deletion (ws_meta (sample_ws '''')) = None" by (simp_all add: sample_ws_def)
  from invalid_spec_reported [OF this nil_user_invalid, where r = sample_rc] show ?thesis
    by (fastforce simp: Let_def new_error_def)
qed

text \<open>
  A Stopped workspace is left alone: the reconcile reads the Workspace, and that is the only
  call it makes.
\<close>

lemma stopped_left_alone:
  assumes "cl_get_ws c nn (world s) = (Inr ws, w')" and "mt_deletion (ws_meta ws) = None"
    and "ValidateSpec lib (Some ws) = None" and "lib_contains_finalizer lib (ws_meta ws) workspaceFinalizer"
    and "ws_phase ws = WorkspacePhaseStopped"
  shows "run_state (Reconcile lib c r nn) s =
    ((no_requeue, None), s\<lparr>world := w', trace := trace s @ [GetWorkspace nn (Inr ws)]\<rparr>)"
  using assms by (simp add: Reconcile_def get_workspace_def)

text \<open>
  C37: deletion releases the Workspace. For a Workspace that is being deleted, a reconcile only
  reads it and updates it without the operator's finalizer, all other finalizers kept; the
  owned objects are left to garbage collection. In the cluster, the Workspace is then gone when
  no other finalizer holds it.
\<close>

theorem deletion_releases:
  assumes "finalizer_lib (lib_contains_finalizer lib) (lib_add_finalizer lib) (lib_remove_finalizer lib)"
    and "find_in ws_meta (k_ws w) nn = Some ws" and "mt_deletion (ws_meta ws) \<noteq> None"
  shows "(\<exists>x. effects_of (Reconcile lib cluster_client r nn) (sys_of w) =
      [GetWorkspace nn (Inr ws), UpdateWorkspace (ws\<lparr>ws_meta := lib_remove_finalizer lib (ws_meta ws) workspaceFinalizer\<rparr>) x])
    \<and> (\<forall>f. lib_contains_finalizer lib (lib_remove_finalizer lib (ws_meta ws) workspaceFinalizer) f
          \<longleftrightarrow> f \<noteq> workspaceFinalizer \<and> lib_contains_finalizer lib (ws_meta ws) f)
    \<and> (find_in ws_meta (k_ws (reconcile_in lib r nn w)) nn = None \<longleftrightarrow> set (mt_finalizers (ws_meta ws)) \<subseteq> {workspaceFinalizer})"
proof -
  let ?m = "lib_remove_finalizer lib (ws_meta ws) workspaceFinalizer"
  have k: "key_of (ws_meta ws) = nn" using find_in_key [OF assms(2)] .
  have m: "key_of ?m = nn" using k finalizer_lib.remove_frame [OF assms(1), of "ws_meta ws" workspaceFinalizer]
    by (cases "ws_meta ws"; cases ?m) (simp add: key_of_def)
  have "mt_finalizers ?m = [] \<longleftrightarrow> set (mt_finalizers (ws_meta ws)) \<subseteq> {workspaceFinalizer}"
    by (rule finalizer_lib.remove_empty [OF assms(1)])
  moreover have "key_of (?m\<lparr>mt_uid := u, mt_deletion := d, mt_generation := g\<rparr>) = key_of ?m" for u d g
    by (simp add: key_of_def)
  ultimately show ?thesis
    using assms(2,3) m finalizer_lib.remove_contains [OF assms(1)]
    by (simp add: Reconcile_def reconcileDelete_def get_workspace_def update_workspace_def reconcile_in_def
        effects_of_def sys_of_def lookup_def update_in_def Let_def)
qed

definition sample_deleted :: workspace where
  "sample_deleted = sample_fws\<lparr>ws_meta := (ws_meta sample_fws)\<lparr>mt_deletion := Some 7\<rparr>\<rparr>"

theorem deletion_releases_witness:
  "find_in ws_meta (k_ws (reconcile_in sample_lib sample_rc (sample_key ''alice'') (cluster_with 0 sample_deleted)))
     (sample_key ''alice'') = None"
proof -
  have k: "key_of (ws_meta sample_deleted) = sample_key ''alice''"
    by (simp add: sample_deleted_def sample_fws_def sample_ws_def key_of_def)
  have f: "find_in ws_meta (k_ws (cluster_with 0 sample_deleted)) (sample_key ''alice'') = Some sample_deleted"
    by (simp add: cluster_with_def find_in_def k)
  have l: "finalizer_lib (lib_contains_finalizer sample_lib) (lib_add_finalizer sample_lib) (lib_remove_finalizer sample_lib)"
    by (simp add: fin_list.finalizer_lib_axioms)
  show ?thesis
    using deletion_releases [OF l f, of sample_rc] by (simp add: sample_deleted_def sample_fws_def)
qed

section \<open>In the cluster\<close>

lemma new_workspace_up:
  assumes "cluster_env lib"
    and "find_in ws_meta (k_ws w) nn = Some ws" and "mt_deletion (ws_meta ws) = None"
    and "ValidateSpec lib (Some ws) = None" and "\<not> lib_contains_finalizer lib (ws_meta ws) workspaceFinalizer"
    and "ws_phase ws \<noteq> WorkspacePhaseStopped" and "claims_ok ws w"
    and "find_in pvc_meta (k_pvc w) (in_ns ws (PVCName (ws_user_id ws))) = None"
    and "find_in pod_meta (k_pod w) (in_ns ws (PodName (ws_user_id ws))) = None"
    and "\<not> idle_over r t ws"
  shows "\<exists>ws'. let w' = bring_up lib r nn ws t (reconcile_in lib r nn (reconcile_in lib r nn w)) in
     find_in ws_meta (k_ws w') nn = Some ws' \<and> ws_spec ws' = ws_spec ws
     \<and> ws_phase ws' = WorkspacePhaseRunning \<and> st_pod_name (ws_status ws') = PodName (ws_user_id ws)
     \<and> st_service_endpoint (ws_status ws') = service_endpoint (ServiceName (ws_user_id ws)) (ws_namespace ws)
     \<and> ready_status (st_conditions (ws_status ws')) = Some ConditionTrue
     \<and> find_in pod_meta (k_pod w') (in_ns ws (PodName (ws_user_id ws))) \<noteq> None
     \<and> find_in pvc_meta (k_pvc w') (in_ns ws (PVCName (ws_user_id ws))) \<noteq> None"
proof -
  note env = assms(1) and laws = cluster_env.axioms [OF assms(1)]
  let ?m = "lib_add_finalizer lib (ws_meta ws) workspaceFinalizer"
  let ?ws1 = "ws\<lparr>ws_meta := ?m\<rparr>" and ?w1 = "reconcile_in lib r nn w"
  have meta1: "mt_namespace ?m = ws_namespace ws" "mt_uid ?m = mt_uid (ws_meta ws)" "mt_deletion ?m = None"
    "mt_name ?m = mt_name (ws_meta ws)"
    using finalizer_lib.add_frame [OF laws(3), of "ws_meta ws" workspaceFinalizer] assms(3)
    by (cases "ws_meta ws"; cases ?m; simp)+
  have w1: "?w1 = w\<lparr>k_ws := (k_ws w)(nn \<mapsto> ?ws1)\<rparr>"
    by (rule step_finalizer [OF laws(3) assms(2-5)])
  have ad1: "admitted lib ?ws1"
    using assms(4,6) meta1 finalizer_lib.add_contains [OF laws(3)] by (simp add: admitted_def ValidateSpec_valid)
  have f1: "find_in ws_meta (k_ws ?w1) nn = Some ?ws1"
    using find_in_key [OF assms(2)] meta1 by (simp add: w1 key_of_def)
  have c1: "claims_ok ?ws1 ?w1" using assms(7) claims_ok_cong [of ?ws1 ws] meta1 by (simp add: w1)
  have in1: "in_ns ?ws1 = in_ns ws" using meta1 by (simp add: in_ns_def fun_eq_iff)
  let ?w2 = "reconcile_in lib r nn ?w1"
  obtain v smry where w2: "sum_phase smry = WorkspacePhaseCreating"
    "find_in ws_meta (k_ws ?w2) nn = Some (ApplyStatusSummary lib ?ws1 smry)"
    "find_in pvc_meta (k_pvc ?w2) (in_ns ws (PVCName (ws_user_id ws))) = Some v" "pvc_phase v = ''''"
    "k_pod ?w2 = k_pod w" "claims_ok ?ws1 ?w2"
    using cluster_env.step_pvc [OF env f1 ad1 c1, of r] assms(8) by (auto simp: in1 w1)
  let ?ws2 = "ApplyStatusSummary lib ?ws1 smry"
  have ad2: "admitted lib ?ws2" using w2(1) by (intro admitted_cong [OF _ _ _ ad1]) simp_all
  have c2: "claims_ok ?ws2 ?w2" using w2(6) claims_ok_cong [of ?ws2 ?ws1] by simp
  have in2: "in_ns ?ws2 = in_ns ws" using meta1 by (simp add: in_ns_def fun_eq_iff)
  have p2: "pvc_usable ?ws2 ?w2" using w2(3,4) by (simp add: pvc_usable_def in2)
  have n2: "find_in pod_meta (k_pod ?w2) (in_ns ?ws2 (PodName (ws_user_id ?ws2))) = None"
    using assms(9) w2(5) by (simp add: in2)
  have idle: "idle_over r t ?ws2 = idle_over r t ws"
    by (simp add: idle_over_def effectiveIdleTimeout_def seeded_def idle_since_def)
  have "bring_up lib r nn ws t ?w2 = bring_up lib r nn ?ws2 t ?w2"
    by (simp add: bring_up_def in2)
  with cluster_env.bring_up_result [OF env w2(2) ad2 c2 p2 n2, of r t] idle assms(10) w2(3) meta1
    condition_lib.ready_iff_running [OF laws(2) refl]
  show ?thesis
    by (simp add: Let_def in2 running_summary_def summary_def)
qed

text \<open>
  C5: a new workspace comes up. Take a valid Workspace without finalizer, claim or pod, whose
  object names nobody else controls. Two reconciles register the finalizer and make the claim,
  a third makes the pod; once the kubelet reports that pod ready, one more reconcile, at any
  time \<open>t\<close> that is not past the idle timeout, leaves the Workspace Running, with the pod name and
  the service endpoint in its status and the Ready condition True, and the pod and the claim in
  place.
\<close>

theorem new_workspace_reaches_running:
  assumes "cluster_env lib"
    and "find_in ws_meta (k_ws w) nn = Some ws" and "mt_deletion (ws_meta ws) = None"
    and "ValidateSpec lib (Some ws) = None" and "\<not> lib_contains_finalizer lib (ws_meta ws) workspaceFinalizer"
    and "ws_phase ws \<noteq> WorkspacePhaseStopped" and "claims_ok ws w"
    and "find_in pvc_meta (k_pvc w) (in_ns ws (PVCName (ws_user_id ws))) = None"
    and "find_in pod_meta (k_pod w) (in_ns ws (PodName (ws_user_id ws))) = None"
    and "\<not> idle_over r t ws"
  shows "\<exists>ws'. let w' = bring_up lib r nn ws t (reconcile_in lib r nn (reconcile_in lib r nn w)) in
     find_in ws_meta (k_ws w') nn = Some ws' \<and> ws_spec ws' = ws_spec ws
     \<and> ws_phase ws' = WorkspacePhaseRunning \<and> st_pod_name (ws_status ws') = PodName (ws_user_id ws)
     \<and> st_service_endpoint (ws_status ws') = service_endpoint (ServiceName (ws_user_id ws)) (ws_namespace ws)
     \<and> ready_status (st_conditions (ws_status ws')) = Some ConditionTrue
     \<and> find_in pod_meta (k_pod w') (in_ns ws (PodName (ws_user_id ws))) \<noteq> None
     \<and> find_in pvc_meta (k_pvc w') (in_ns ws (PVCName (ws_user_id ws))) \<noteq> None"
  by (rule new_workspace_up [OF assms])

lemma sample_new_facts:
  "find_in ws_meta (k_ws (cluster_with t (sample_ws ''alice''))) (sample_key ''alice'') = Some (sample_ws ''alice'')"
  "mt_deletion (ws_meta (sample_ws ''alice'')) = None" "ValidateSpec sample_lib (Some (sample_ws ''alice'')) = None"
  "\<not> lib_contains_finalizer sample_lib (ws_meta (sample_ws ''alice'')) workspaceFinalizer"
  "ws_phase (sample_ws ''alice'') \<noteq> WorkspacePhaseStopped"
  "claims_ok (sample_ws ''alice'') (cluster_with t (sample_ws ''alice''))"
  "find_in pvc_meta (k_pvc (cluster_with t (sample_ws ''alice''))) k = None"
  "find_in pod_meta (k_pod (cluster_with t (sample_ws ''alice''))) k = None"
  "\<not> idle_over sample_rc t (sample_ws ''alice'')"
proof -
  have "ValidateSpec sample_lib (Some sample_fws) = None" using sample_admitted by (simp add: admitted_def)
  then show "ValidateSpec sample_lib (Some (sample_ws ''alice'')) = None"
    by (simp add: ValidateSpec_valid sample_fws_def sample_ws_def)
  show "\<not> idle_over sample_rc t (sample_ws ''alice'')"
    by (rule fresh_not_idle) (simp_all add: sample_ws_def empty_status_def effectiveIdleTimeout_def sample_spec_def sample_rc_def duration_units)
qed (simp_all add: cluster_with_def empty_cluster_def find_in_def claims_ok_def free_at_def sample_ws_def key_of_def
    contains_finalizer_def empty_status_def)

theorem new_workspace_reaches_running_witness:
  "\<exists>ws'. find_in ws_meta (k_ws (bring_up sample_lib sample_rc (sample_key ''alice'') (sample_ws ''alice'') 9
       (reconcile_in sample_lib sample_rc (sample_key ''alice'') (reconcile_in sample_lib sample_rc (sample_key ''alice'')
         (cluster_with 0 (sample_ws ''alice'')))))) (sample_key ''alice'') = Some ws'
     \<and> ws_phase ws' = WorkspacePhaseRunning"
  using new_workspace_reaches_running [OF sample_env.cluster_env_axioms sample_new_facts(1-6)
      sample_new_facts(7) [of 0] sample_new_facts(8) [of 0] sample_new_facts(9) [of 9]]
  by (auto simp: Let_def)

text \<open>
  C28: an idle workspace is stopped and keeps its data. When the pod is ready and, at the time of
  the cluster, the last access is further back than a positive idle timeout, one reconcile
  removes the pod and makes the Workspace Stopped with its message, not Ready, with no pod name
  or endpoint; all claims stay.
\<close>

theorem idle_workspace_stopped:
  assumes "cluster_env lib"
    and "find_in ws_meta (k_ws w) nn = Some ws" and "admitted lib ws" and "claims_ok ws w" and "pvc_usable ws w"
    and "find_in pod_meta (k_pod w) (in_ns ws (PodName (ws_user_id ws))) = Some p" and "\<not> image_outdated r p"
    and "pod_serving p" and "idle_over r (k_clock w) ws"
  shows "\<exists>ws'. let w' = reconcile_in lib r nn w in
     find_in ws_meta (k_ws w') nn = Some ws' \<and> ws_phase ws' = WorkspacePhaseStopped
     \<and> st_message (ws_status ws') = ''Workspace stopped due to inactivity''
     \<and> st_pod_name (ws_status ws') = '''' \<and> st_service_endpoint (ws_status ws') = ''''
     \<and> ready_status (st_conditions (ws_status ws')) \<noteq> Some ConditionTrue
     \<and> find_in pod_meta (k_pod w') (in_ns ws (PodName (ws_user_id ws))) = None \<and> k_pvc w' = k_pvc w"
  using cluster_env.step_serving [OF assms(1-8)] assms(9)
    condition_lib.ready_iff_running [OF cluster_env.axioms(2) [OF assms(1)] refl]
  by (simp add: Let_def stopped_summary_def summary_def)

theorem idle_workspace_stopped_witness:
  "\<exists>ws'. find_in ws_meta (k_ws (reconcile_in sample_lib sample_rc (sample_key ''alice'') sample_idle)) (sample_key ''alice'')
       = Some ws' \<and> ws_phase ws' = WorkspacePhaseStopped"
  using idle_workspace_stopped [OF sample_env.cluster_env_axioms sample_idle_facts(1-5) sample_up_facts(2,3)]
    sample_idle_facts(6,7) by (auto simp: Let_def)

end
