(* ===== verification/Lifecycle_Props.thy ===== *)
theory Lifecycle_Props
  imports Lifecycle Auth_Props Controller_Props
begin

text \<open>
  Correctness of the gateway's lifecycle calls: the wait for a workspace ends, under any answers
  of the API server, as long as time passes; the gateway only ever reads, creates and patches
  the Workspace of its caller; what it creates passes the operator's validation exactly when the
  identity and the configured defaults allow it; and what happens when gateway and operator work
  on the same cluster.
\<close>

section \<open>The wait ends\<close>

text \<open>
  Time as the client's calls show it: \<open>time w\<close> is a lower bound of later readings, no call turns
  it back, and a wait that was not cancelled lasts.
\<close>

definition forward_client :: "'w kclient \<Rightarrow> ('w \<Rightarrow> instant) \<Rightarrow> bool" where
  "forward_client c time \<longleftrightarrow>
     (\<forall>w. time w \<le> fst (cl_now c w) \<and> fst (cl_now c w) \<le> time (snd (cl_now c w)))
     \<and> (\<forall>k w. time w \<le> time (snd (cl_get_ws c k w)))
     \<and> (\<forall>b n w. time w \<le> time (snd (cl_patch_status c b n w)))
     \<and> (\<forall>d w. fst (cl_wait c d w) = None \<longrightarrow> time w + d \<le> time (snd (cl_wait c d w)))"

lemma forward_clientD:
  assumes "forward_client c time"
  shows "time w \<le> fst (cl_now c w)" "time w \<le> time (snd (cl_now c w))"
    "time w \<le> time (snd (cl_get_ws c k w))" "time w \<le> time (snd (cl_patch_status c b n w))"
    "fst (cl_wait c d w) = None \<Longrightarrow> time w + d \<le> time (snd (cl_wait c d w))"
    "fst (cl_now c w) \<le> time (snd (cl_now c w))"
  using assms by (auto simp: forward_client_def intro: order_trans)

lemmas lifecycle_calls = now_def get_workspace_def patch_status_def wait_or_done_def create_workspace_def

text \<open>A pass ends the wait or goes on a poll interval later.\<close>

lemma wp_wait_pass:
  assumes "forward_client c time" and "\<And>r s'. Q (Some r) s'"
    and "\<And>b s'. time (world s) + workspaceReadyPoll \<le> time (world s') \<Longrightarrow> wp (again b) Q s'"
  shows "wp (wait_pass c key deadline rst again) Q s"
proof -
  note mono = forward_clientD [OF assms(1)]
  have poll: "wp (poll_again c key b ph (again b)) Q s'" if "time (world s) \<le> time (world s')" for s' b ph
    using that assms(2,3) mono(5) [of workspaceReadyPoll "world s'"]
    by (auto simp: poll_again_def wait_or_done_def wp_simps split: option.split intro!: assms(3))
  have le: "time (world s) \<le> time (snd (cl_get_ws c key (snd (cl_now c (world s)))))"
    using mono(2,3) by (meson order_trans)
  then have "time (world s) \<le> time (snd (cl_patch_status c b n (snd (cl_get_ws c key (snd (cl_now c (world s)))))))" for b n
    using mono(4) by (rule order_trans)
  with le poll assms(2) show ?thesis
    by (auto simp: wait_pass_def restart_stopped_def lifecycle_calls wp_simps split: sum.split)
qed

lemma wait_loop_returns:
  assumes "forward_client c time" and "deadline \<le> time (world s) + int n * workspaceReadyPoll"
  shows "wp (wait_loop (Suc n) c key deadline rst) (\<lambda>r _. \<not> Option.is_none r) s"
  using assms(2)
proof (induction n arbitrary: s rst)
  case 0
  have "\<not> fst (cl_now c (world s)) < deadline" using 0 forward_clientD(1) [OF assms(1), of "world s"] by simp
  then show ?case by (simp add: wait_pass_def now_def wp_simps)
next
  case (Suc n)
  have "wp (wait_loop (Suc n) c key deadline b) (\<lambda>r _. \<not> Option.is_none r) s'"
    if "time (world s) + workspaceReadyPoll \<le> time (world s')" for b s'
    using Suc.IH [of s' b] Suc.prems that by (simp add: algebra_simps)
  then show ?case by (subst wait_loop.simps) (rule wp_wait_pass [OF assms(1)], simp_all)
qed

text \<open>More fuel does not change a wait that returned.\<close>

lemma wait_pass_mono:
  assumes "wp (wait_pass c key deadline rst again) P s" and "\<And>r s'. P (Some r) s' \<Longrightarrow> Q (Some r) s'"
    and "\<And>b s'. wp (again b) P s' \<Longrightarrow> wp (again' b) Q s'"
  shows "wp (wait_pass c key deadline rst again') Q s"
  using assms
  by (auto simp: wait_pass_def restart_stopped_def poll_again_def lifecycle_calls wp_simps
      split: sum.splits option.splits if_splits)

lemma wait_loop_more_fuel:
  assumes "wp (wait_loop n c key deadline rst) (\<lambda>r s'. \<not> Option.is_none r \<and> Q r s') s"
  shows "wp (wait_loop (n + k) c key deadline rst) Q s"
  using assms
proof (induction n arbitrary: s rst)
  case 0
  then show ?case by (simp add: wp_simps)
next
  case (Suc n)
  then show ?case by (simp, elim wait_pass_mono) simp_all
qed

lemma wait_bound: "workspaceReadyTimeout = int 30 * workspaceReadyPoll"
  by (simp add: workspaceReadyTimeout_def workspaceReadyPoll_def duration_units)


lemma wp_eq_run: "wp m (\<lambda>r s'. (r, s') = p) s \<longleftrightarrow> run_state m s = p"
  by (simp add: wp_def)

lemma waitForRunning_fuel:
  assumes "forward_client c time"
  shows "\<exists>r s'. run_state (waitForRunning c key) s = (Some r, s')
    \<and> (\<forall>k. run_state (do { t \<leftarrow> now c; wait_loop (wait_fuel + k) c key (t + workspaceReadyTimeout) False }) s = (Some r, s'))"
proof -
  let ?t = "fst (cl_now c (world s))"
  let ?s = "s\<lparr>world := snd (cl_now c (world s)), trace := trace s @ [ReadClock ?t]\<rparr>"
  let ?loop = "\<lambda>n. run_state (wait_loop n c key (?t + workspaceReadyTimeout) False) ?s"
  have "wp (wait_loop (Suc 30) c key (?t + workspaceReadyTimeout) False) (\<lambda>r _. \<not> Option.is_none r) ?s"
    by (rule wait_loop_returns [OF assms]) (use forward_clientD(6) [OF assms] in \<open>simp add: wait_bound\<close>)
  then obtain r s' where r: "?loop wait_fuel = (Some r, s')"
    by (cases "?loop wait_fuel") (auto simp: wp_def wait_fuel_def Option.is_none_def)
  have "?loop (wait_fuel + k) = (Some r, s')" for k
    by (rule wp_eq_run [THEN iffD1], rule wait_loop_more_fuel) (simp add: wp_def r)
  with r have "\<forall>k. run_state (do { t \<leftarrow> now c; wait_loop (wait_fuel + k) c key (t + workspaceReadyTimeout) False }) s = (Some r, s')"
    by (simp add: now_def)
  with r show ?thesis by (auto simp: waitForRunning_def now_def)
qed

text \<open>
  C22: the wait for a workspace always ends. As long as the clock does not run backwards and a wait
  of two seconds takes two seconds, \<open>waitForRunning\<close> returns a result for every behaviour of the
  API server and of the workspace, within the 31 passes the model allows; more passes give the
  same result.
\<close>

theorem waitForRunning_terminates:
  assumes "forward_client c time"
  shows "\<exists>r s'. run_state (waitForRunning c key) s = (Some r, s')
    \<and> (\<forall>k. run_state (do { t \<leftarrow> now c; wait_loop (wait_fuel + k) c key (t + workspaceReadyTimeout) False }) s = (Some r, s'))"
  by (rule waitForRunning_fuel [OF assms])

lemma cluster_forward: "forward_client cluster_client k_clock"
  by (auto simp: forward_client_def cluster_client_def patch_in_def Let_def split: option.split)

text \<open>A workspace that stays in Creating: the wait gives up after a minute.\<close>

theorem waitForRunning_terminates_witness:
  "\<exists>r. fst (run_state (waitForRunning cluster_client (sample_key ''alice'')) (sys_of (cluster_with 0 (sample_ws ''alice'')))) = Some r"
  using waitForRunning_terminates [OF cluster_forward] by (metis fst_conv)

section \<open>What the gateway does to the cluster\<close>

text \<open>The kinds of calls the lifecycle operations make, whoever the caller is and whatever the answers.\<close>

fun lifecycle_kind :: "event \<Rightarrow> bool" where
  "lifecycle_kind (GetWorkspace k r) \<longleftrightarrow> True"
| "lifecycle_kind (CreateWorkspace ws r) \<longleftrightarrow> True"
| "lifecycle_kind (PatchStatus b n r) \<longleftrightarrow> True"
| "lifecycle_kind (ReadClock t) \<longleftrightarrow> True"
| "lifecycle_kind (Waited d r) \<longleftrightarrow> True"
| "lifecycle_kind (LogRecord m f) \<longleftrightarrow> True"
| "lifecycle_kind _ \<longleftrightarrow> False"

text \<open>
  The calls of the gateway for a caller: it reads the caller's Workspace, creates it, and patches
  the status of a Workspace of that very name and namespace by clearing phase, message and pod
  name, or by stamping the access time.
\<close>

fun gateway_call :: "object_key \<Rightarrow> workspace \<Rightarrow> event \<Rightarrow> bool" where
  "gateway_call key new (GetWorkspace k r) \<longleftrightarrow> k = key"
| "gateway_call key new (CreateWorkspace ws r) \<longleftrightarrow> ws = new"
| "gateway_call key new (PatchStatus b n r) \<longleftrightarrow> key_of (ws_meta b) = key \<and> (n = restarted b \<or> (\<exists>t. n = touched t b))"
| "gateway_call key new (ReadClock t) \<longleftrightarrow> True"
| "gateway_call key new (Waited d r) \<longleftrightarrow> True"
| "gateway_call key new (LogRecord m f) \<longleftrightarrow> True"
| "gateway_call key new _ \<longleftrightarrow> False"

lemma restarted_touched_meta [simp]:
  "ws_meta (restarted ws) = ws_meta ws" "ws_meta (touched t ws) = ws_meta ws"
  "ws_spec (restarted ws) = ws_spec ws" "ws_spec (touched t ws) = ws_spec ws"
  by (simp_all add: restarted_def touched_def)

lemma emits_create_for [trace_rules]:
  "(\<And>r. P (CreateWorkspace (new_workspace cfg ns cl) r)) \<Longrightarrow> (\<And>m f. P (LogRecord m f)) \<Longrightarrow> emits (create_for c cfg ns cl) P"
  unfolding create_for_def create_workspace_def by (intro trace_rules)

lemma emits_restart_stopped [trace_rules]:
  "(\<And>r. P (PatchStatus ws (restarted ws) r)) \<Longrightarrow> (\<And>m f. P (LogRecord m f)) \<Longrightarrow> emits (restart_stopped c key ws) P"
  unfolding restart_stopped_def patch_status_def by (intro trace_rules)

lemma emits_Touch [trace_rules]:
  "(\<And>t r. P (PatchStatus ws (touched t ws) r)) \<Longrightarrow> (\<And>t. P (ReadClock t)) \<Longrightarrow> (\<And>m f. P (LogRecord m f))
   \<Longrightarrow> emits (TouchLastAccessed c ws) P"
  unfolding TouchLastAccessed_def patch_status_def now_def by (intro trace_rules)

lemma emits_Touch_call: "emits (TouchLastAccessed c ws) lifecycle_kind"
  by (rule emits_Touch) auto

lemma emits_wait_loop: "emits (wait_loop n c key deadline rst) lifecycle_kind"
proof (induction n arbitrary: rst)
  case (Suc n)
  then show ?case unfolding wait_loop.simps wait_pass_def poll_again_def now_def get_workspace_def wait_or_done_def
    by (intro trace_rules) simp_all
qed simp

lemma emits_EnsureExists: "emits (EnsureExists c cfg ns cl) lifecycle_kind"
  unfolding EnsureExists_def Let_def get_workspace_def by (intro trace_rules) auto

lemma emits_EnsureWorkspace: "emits (EnsureWorkspace c cfg ns cl) lifecycle_kind"
  unfolding EnsureWorkspace_def Let_def get_workspace_def wait_and_touch_def waitForRunning_def now_def
  by (intro trace_rules emits_wait_loop) auto

text \<open>
  With an API server that answers a read with the object asked for and a patch with the object
  patched, the lifecycle calls for a user stay with the Workspace named by the user id in the
  gateway's namespace. The Workspace they hand on is that one, so that the calls made with it
  later stay there too.
\<close>

context keyed_client
begin

lemma restart_keyed:
  "key_of (ws_meta ws) = key \<Longrightarrow> emits (restart_stopped c key' ws) (gateway_call key new)"
  by (rule emits_restart_stopped) auto

lemma touch_keyed:
  assumes "key_of (ws_meta ws) = key"
  shows "ensures (TouchLastAccessed c ws) (\<lambda>ws' t. list_all (gateway_call key new) t \<and> key_of (ws_meta ws') = key)"
proof -
  have log: "ensures (emit (LogRecord m f) \<bind> (\<lambda>_. State_Monad.return x)) (\<lambda>b u. b = x \<and> (\<exists>m f. u = [LogRecord m f]))"
    for m f and x :: workspace
    by (rule ensures_bind [OF ensures_emit [where Q = "\<lambda>_ t. t = [LogRecord m f]"]]) (auto intro!: post_rules)
  show ?thesis unfolding TouchLastAccessed_def now_def patch_status_def
    by (intro post_rules) (use assms patch_key in \<open>auto intro!: ensures_mono [OF log]\<close>)
qed

lemma wait_loop_keyed:
  "ensures (wait_loop n c key deadline rst) (\<lambda>r t. list_all (gateway_call key new) t
     \<and> (\<forall>b ws. r = Some (b, Inr ws) \<longrightarrow> key_of (ws_meta ws) = key))"
proof (induction n arbitrary: rst)
  case (Suc n)
  let ?Q = "\<lambda>r t. list_all (gateway_call key new) t \<and> (\<forall>b ws. r = Some (b, Inr ws) \<longrightarrow> key_of (ws_meta ws) = key)"
  have poll: "ensures (poll_again c key b ph (wait_loop n c key deadline b)) ?Q" for b ph
    unfolding poll_again_def wait_or_done_def
    by (rule ensures_bind [OF ensures_emit [where Q = "\<lambda>_ t. t = [LogRecord ''Waiting for workspace'' [(''workspace'', key_name key), (''phase'', ph)]]"]])
      (auto intro!: post_rules ensures_mono [OF Suc.IH])
  have stopped: "ensures (do { p \<leftarrow> restart_stopped c key ws;
       case p of Inl e \<Rightarrow> State_Monad.return (Some (True, Inl e))
       | Inr ws' \<Rightarrow> poll_again c key True (ws_phase ws') (wait_loop n c key deadline True) }) ?Q"
    if "key_of (ws_meta ws) = key" for ws
    by (rule ensures_bind [OF restart_keyed [OF that, unfolded emits_def]]) (auto intro!: post_rules ensures_mono [OF poll])
  show ?case unfolding wait_loop.simps wait_pass_def now_def get_workspace_def
    by (intro post_rules) (auto intro!: ensures_mono [OF poll] ensures_mono [OF stopped] dest: read_key)
qed (auto intro!: post_rules)

lemma wait_and_touch_keyed:
  "ensures (wait_and_touch c key d) (\<lambda>r t. list_all (gateway_call key new) t
     \<and> (\<forall>d ws. r = Some (d, Inr ws) \<longrightarrow> key_of (ws_meta ws) = key))"
proof -
  let ?Q = "\<lambda>r t. list_all (gateway_call key new) t \<and> (\<forall>d ws. r = Some (d, Inr ws) \<longrightarrow> key_of (ws_meta ws) = key)"
  have w: "ensures (waitForRunning c key) ?Q"
    unfolding waitForRunning_def now_def by (intro post_rules) (auto intro!: ensures_mono [OF wait_loop_keyed])
  have t: "ensures (do { ws' \<leftarrow> TouchLastAccessed c ws; State_Monad.return (Some (x, Inr ws')) }) ?Q"
    if "key_of (ws_meta ws) = key" for ws x
    by (rule ensures_bind [OF touch_keyed [OF that, of new]]) (auto intro!: post_rules)
  show ?thesis unfolding wait_and_touch_def
    by (rule ensures_bind [OF w], intro post_rules) (auto intro!: ensures_mono [OF t])
qed

lemma creation_keyed:
  "ensures (create_for c cfg ns cl) (\<lambda>_ t. list_all (gateway_call (user_key ns cl) (new_workspace cfg ns cl)) t)"
  unfolding emits_def [symmetric] by (rule emits_create_for) simp_all

lemma EnsureExists_keyed:
  "emits (EnsureExists c cfg ns cl) (gateway_call (user_key ns cl) (new_workspace cfg ns cl))"
  unfolding EnsureExists_def Let_def get_workspace_def emits_def
  by (intro post_rules) (auto intro!: ensures_bind [OF creation_keyed] post_rules
      ensures_bind [OF restart_keyed [unfolded emits_def]] dest: read_key)

lemma EnsureWorkspace_keyed:
  "ensures (EnsureWorkspace c cfg ns cl) (\<lambda>r t. list_all (gateway_call (user_key ns cl) (new_workspace cfg ns cl)) t
     \<and> (\<forall>d ws. r = Some (d, Inr ws) \<longrightarrow> key_of (ws_meta ws) = user_key ns cl))"
  unfolding EnsureWorkspace_def Let_def get_workspace_def
  by (intro post_rules) (auto intro!: ensures_bind [OF creation_keyed]
      ensures_mono [OF wait_and_touch_keyed] post_rules)

end

section \<open>What EnsureWorkspace returns\<close>

definition read_running :: "object_key \<Rightarrow> workspace \<Rightarrow> event list \<Rightarrow> bool" where
  "read_running key ws t \<longleftrightarrow> GetWorkspace key (Inr ws) \<in> set t \<and> ws_phase ws = WorkspacePhaseRunning"

lemma read_running_append [simp]: "read_running key ws u \<Longrightarrow> read_running key ws (t @ u)"
  "read_running key ws t \<Longrightarrow> read_running key ws (t @ u)" "read_running key ws t \<Longrightarrow> read_running key ws (e # t)"
  by (auto simp: read_running_def)

abbreviation wait_post :: "object_key \<Rightarrow> (bool \<times> workspace res) option \<Rightarrow> event list \<Rightarrow> bool" where
  "wait_post key r t \<equiv> (\<forall>b ws. r = Some (b, Inr ws) \<longrightarrow> read_running key ws t)
     \<and> list_all (\<lambda>e. \<forall>w x. e \<noteq> CreateWorkspace w x) t"

lemma poll_again_post:
  assumes "ensures m (wait_post key)"
  shows "ensures (poll_again c key rst ph m) (wait_post key)"
  unfolding poll_again_def wait_or_done_def
  by (rule ensures_bind [OF ensures_emit [where Q = "\<lambda>_ t. t = [LogRecord ''Waiting for workspace'' [(''workspace'', key_name key), (''phase'', ph)]]"]])
    (auto intro!: post_rules ensures_mono [OF assms])

lemma restart_post: "ensures (restart_stopped c key ws) (\<lambda>_ t. list_all (\<lambda>e. \<forall>w x. e \<noteq> CreateWorkspace w x) t)"
  using emits_restart_stopped [of "\<lambda>e. \<forall>w x. e \<noteq> CreateWorkspace w x" ws c key] by (simp add: emits_def)

lemma wait_loop_post: "ensures (wait_loop n c key deadline rst) (wait_post key)"
proof (induction n arbitrary: rst)
  case 0
  show ?case by (simp add: ensures_return)
next
  case (Suc n)
  have stopped: "ensures (do { p \<leftarrow> restart_stopped c key ws;
             case p of Inl e \<Rightarrow> State_Monad.return (Some (True, Inl e))
             | Inr ws' \<Rightarrow> poll_again c key True (ws_phase ws') (wait_loop n c key deadline True) }) (wait_post key)" for ws
    by (rule ensures_bind [OF restart_post])
      (auto intro!: post_rules ensures_mono [OF poll_again_post [OF Suc.IH]])
  show ?case unfolding wait_loop.simps wait_pass_def now_def get_workspace_def
    by (intro post_rules) (auto intro!: ensures_mono [OF poll_again_post [OF Suc.IH]] ensures_mono [OF stopped] simp: read_running_def)
qed

definition stamped :: "object_key \<Rightarrow> workspace \<Rightarrow> event list \<Rightarrow> bool" where
  "stamped key ws t \<longleftrightarrow> (\<exists>ws0 tm r. read_running key ws0 t \<and> PatchStatus ws0 (touched tm ws0) r \<in> set t
     \<and> ws = (case r of Inl _ \<Rightarrow> touched tm ws0 | Inr w \<Rightarrow> w))"

lemma stamped_append [simp]: "stamped key ws u \<Longrightarrow> stamped key ws (t @ u)" "stamped key ws u \<Longrightarrow> stamped key ws (e # u)"
  unfolding stamped_def by (fastforce simp: read_running_def)+

abbreviation no_creation :: "event list \<Rightarrow> bool" where
  "no_creation t \<equiv> list_all (\<lambda>e. \<forall>w x. e \<noteq> CreateWorkspace w x) t"

lemma stampedI:
  "read_running key ws0 t \<Longrightarrow> PatchStatus ws0 (touched tm ws0) (Inl e) \<in> set t \<Longrightarrow> stamped key (touched tm ws0) t"
  "read_running key ws0 t \<Longrightarrow> PatchStatus ws0 (touched tm ws0) (Inr w) \<in> set t \<Longrightarrow> stamped key w t"
  unfolding stamped_def by (metis old.sum.simps(5), metis old.sum.simps(6))

lemma touch_post:
  assumes "read_running key ws t0"
  shows "ensures (TouchLastAccessed c ws) (\<lambda>ws' t. stamped key ws' (t0 @ t) \<and> no_creation t)"
proof -
  have log: "ensures (emit (LogRecord m f) \<bind> (\<lambda>_. State_Monad.return (touched tm ws)))
     (\<lambda>b u. stamped key b (t0 @ ReadClock tm # PatchStatus ws (touched tm ws) (Inl e) # u)
       \<and> no_creation u)" for m f tm e
    by (rule ensures_bind [OF ensures_emit [where Q = "\<lambda>_ t. t = [LogRecord m f]"]])
      (use assms in \<open>auto intro!: post_rules stampedI(1)\<close>)
  show ?thesis unfolding TouchLastAccessed_def now_def patch_status_def
    by (intro post_rules) (use assms in \<open>auto intro!: log stampedI(2)\<close>)
qed

lemma wait_and_touch_post:
  "ensures (wait_and_touch c key d) (\<lambda>r t. no_creation t \<and> (\<forall>d' w. r = Some (d', w) \<longrightarrow> ed_created d' = ed_created d)
     \<and> (\<forall>d' ws. r = Some (d', Inr ws) \<longrightarrow> stamped key ws t))"
proof -
  have wait: "ensures (waitForRunning c key) (wait_post key)"
    unfolding waitForRunning_def now_def by (intro post_rules) (auto intro!: ensures_mono [OF wait_loop_post])
  show ?thesis unfolding wait_and_touch_def
  proof (rule ensures_bind [OF wait])
    fix r t
    assume r: "wait_post key r t"
    have "ensures (do { ws' \<leftarrow> TouchLastAccessed c ws;
           State_Monad.return (Some (d\<lparr>ed_restarted := b\<rparr>, Inr ws')) })
       (\<lambda>r u. no_creation (t @ u) \<and> (\<forall>d' w. r = Some (d', w) \<longrightarrow> ed_created d' = ed_created d)
         \<and> (\<forall>d' ws. r = Some (d', Inr ws) \<longrightarrow> stamped key ws (t @ u)))" if "r = Some (b, Inr ws)" for b ws
      by (rule ensures_bind [OF touch_post [of key ws t]]) (use r that in \<open>auto intro!: post_rules\<close>)
    with r show "ensures (case r of None \<Rightarrow> State_Monad.return None
       | Some (rst, Inl e) \<Rightarrow> State_Monad.return (Some (d\<lparr>ed_restarted := rst\<rparr>, Inl e))
       | Some (rst, Inr ws) \<Rightarrow> do { ws' \<leftarrow> TouchLastAccessed c ws;
           State_Monad.return (Some (d\<lparr>ed_restarted := rst\<rparr>, Inr ws')) })
       (\<lambda>r u. no_creation (t @ u) \<and> (\<forall>d' w. r = Some (d', w) \<longrightarrow> ed_created d' = ed_created d)
         \<and> (\<forall>d' ws. r = Some (d', Inr ws) \<longrightarrow> stamped key ws (t @ u)))"
      by (intro post_rules) auto
  qed
qed

lemma create_post:
  "ensures (create_for c cfg ns cl) (\<lambda>_ t. \<exists>m f r. t = [LogRecord m f, CreateWorkspace (new_workspace cfg ns cl) r])"
  unfolding create_for_def create_workspace_def
  by (rule ensures_bind [OF ensures_emit [where Q = "\<lambda>_ t. \<exists>m f. t = [LogRecord m f]"]]) (auto intro!: post_rules)

definition creation_after_miss :: "object_key \<Rightarrow> bool \<Rightarrow> event list \<Rightarrow> bool" where
  "creation_after_miss key created t \<longleftrightarrow>
     (if created then \<exists>e m f w r rest. is_not_found e \<and> t = GetWorkspace key (Inl e) # LogRecord m f # CreateWorkspace w r # rest
        \<and> no_creation rest else no_creation t)"

lemma EnsureWorkspace_post:
  "ensures (EnsureWorkspace c cfg ns cl) (\<lambda>r t. \<forall>d w. r = Some (d, w) \<longrightarrow>
     creation_after_miss (user_key ns cl) (ed_created d) t \<and> (\<forall>ws. w = Inr ws \<longrightarrow> stamped (user_key ns cl) ws t))"
  unfolding EnsureWorkspace_def Let_def get_workspace_def
proof (intro post_rules, goal_cases)
  case (2 w e)
  show ?case
  proof (rule ensures_bind [OF create_post])
    fix a t
    assume "\<exists>m f r. t = [LogRecord m f, CreateWorkspace (new_workspace cfg ns cl) r]"
    then obtain m f r where t: "t = [LogRecord m f, CreateWorkspace (new_workspace cfg ns cl) r]" by blast
    show "ensures (case a of Inl e' \<Rightarrow> State_Monad.return (Some (no_details\<lparr>ed_created := True\<rparr>, Inl e'))
          | Inr _ \<Rightarrow> wait_and_touch c (user_key ns cl) (no_details\<lparr>ed_created := True\<rparr>))
       (\<lambda>b u. \<forall>d wa. b = Some (d, wa) \<longrightarrow>
          creation_after_miss (user_key ns cl) (ed_created d) (GetWorkspace (user_key ns cl) (fst (cl_get_ws c (user_key ns cl) w)) # t @ u) \<and>
          (\<forall>ws. wa = Inr ws \<longrightarrow> stamped (user_key ns cl) ws (GetWorkspace (user_key ns cl) (fst (cl_get_ws c (user_key ns cl) w)) # t @ u)))"
      by (intro post_rules) (use 2 t in \<open>auto intro!: ensures_mono [OF wait_and_touch_post] simp: creation_after_miss_def\<close>)
  qed
qed (auto intro!: ensures_mono [OF wait_and_touch_post] simp: creation_after_miss_def no_details_def)

text \<open>
  C33: when \<open>EnsureWorkspace\<close> returns a Workspace, then the gateway read it in phase Running under
  the caller's key and stamped its access time, and the object returned is the one the patch left
  (the server's on success, the local one on failure). It reports \<open>Created\<close> exactly when it made
  the one create call, right after the API server said the Workspace was not found.
\<close>

theorem EnsureWorkspace_returns_running:
  assumes "result_of (EnsureWorkspace c cfg ns cl) s = Some (d, w)"
  shows "creation_after_miss (user_key ns cl) (ed_created d) (effects_of (EnsureWorkspace c cfg ns cl) s)
    \<and> (\<forall>ws. w = Inr ws \<longrightarrow> stamped (user_key ns cl) ws (effects_of (EnsureWorkspace c cfg ns cl) s))"
  using ensuresD [OF EnsureWorkspace_post, of c cfg ns cl s] assms by simp

definition sample_lc :: lifecycle_config where
  "sample_lc = \<lparr>lc_providers = [\<lparr>prov_name = ''local'', prov_endpoint = ''http://vllm'', prov_models = [''m'']\<rparr>],
     lc_cpu = ''2'', lc_memory = ''4Gi'', lc_storage = ''20Gi'', lc_storage_class = ''''\<rparr>"

lemma sample_user [simp]: "clm_user_id (sample_claims id) = ''alice''"
proof -
  have "sanitizeUserID id ''alice'' = ''alice''" by code_simp
  then show ?thesis by (simp add: sample_claims_def)
qed

lemma sample_user_key [simp]: "user_key ''devplane'' (sample_claims id) = sample_key ''alice''"
  by (simp add: user_key_def)

text \<open>A running workspace: the call returns it at once, stamped with the time of the cluster.\<close>

definition sample_up :: workspace where
  "sample_up = (sample_ws ''alice'')\<lparr>ws_status := empty_status\<lparr>st_phase := WorkspacePhaseRunning\<rparr>\<rparr>"

lemma wait_31: "wait_loop wait_fuel c key dl rst = wait_pass c key dl rst (wait_loop 30 c key dl)"
  by (simp add: wait_fuel_def eval_nat_numeral)

theorem EnsureWorkspace_returns_running_witness:
  "stamped (sample_key ''alice'') (touched Minute sample_up)
     (effects_of (EnsureWorkspace cluster_client sample_lc ''devplane'' (sample_claims id)) (sys_of (cluster_with Minute sample_up)))"
proof -
  have "result_of (EnsureWorkspace cluster_client sample_lc ''devplane'' (sample_claims id)) (sys_of (cluster_with Minute sample_up))
      = Some (no_details, Inr (touched Minute sample_up))"
    by (simp add: EnsureWorkspace_def Let_def result_of_def wait_and_touch_def waitForRunning_def wait_pass_def wait_31
        client_call_defs cluster_client_def lookup_def sys_of_def cluster_with_def empty_cluster_def find_in_def
        patch_in_def TouchLastAccessed_def sample_up_def sample_ws_def touched_def key_of_def no_details_def
        workspaceReadyTimeout_def duration_units merge_status_def whole_seconds_def empty_status_def)
  from EnsureWorkspace_returns_running [OF this] show ?thesis by simp
qed

section \<open>Gateway and operator agree on names\<close>

text \<open>Defaults of the gateway the operator accepts.\<close>

definition defaults_ok :: "k8s_lib \<Rightarrow> lifecycle_config \<Rightarrow> bool" where
  "defaults_ok lib cfg \<longleftrightarrow> quantity_ok lib (lc_cpu cfg) \<and> quantity_ok lib (lc_memory cfg)
     \<and> quantity_ok lib (lc_storage cfg) \<and> lc_providers cfg \<noteq> [] \<and> list_all provider_ok (lc_providers cfg)"

lemma new_workspace_valid:
  "ValidateSpec lib (Some (new_workspace cfg ns cl)) = None \<longleftrightarrow>
     dns_label (clm_user_id cl) \<and> length (clm_user_id cl) \<le> 49 \<and> clm_email cl \<noteq> '''' \<and> defaults_ok lib cfg"
  by (auto simp: ValidateSpec_valid spec_valid_def new_workspace_def defaults_ok_def idle_timeout_ok_def)

text \<open>
  C31: the Workspace the gateway creates for a verified token passes the operator's validation
  exactly when the lower-cased subject has a letter or a digit, the token carries an email and
  the configured defaults are valid; nothing else about the identity can make it fail.
\<close>

theorem gateway_workspace_accepted:
  assumes "token_claims uni tok = Inr cl"
  shows "ValidateSpec lib (Some (new_workspace cfg ns cl)) = None \<longleftrightarrow>
    list_ex is_alnum (ToLower uni (idt_subject tok)) \<and> clm_email cl \<noteq> '''' \<and> defaults_ok lib cfg"
proof -
  from assms have id: "clm_user_id cl = sanitizeUserID uni (idt_subject tok)"
    by (auto simp: token_claims_def split: sum.splits)
  have "dns_label (clm_user_id cl) \<and> length (clm_user_id cl) \<le> 49 \<longleftrightarrow> list_ex is_alnum (ToLower uni (idt_subject tok))"
    using sanitize_label [of uni "idt_subject tok"] sanitize_empty [of uni "idt_subject tok"]
    by (auto simp: id dns_label_def)
  then show ?thesis unfolding new_workspace_valid by blast
qed

lemma sample_claims_token:
  "token_claims uni \<lparr>idt_subject = ''alice'', idt_email = Inr ''alice@example.com''\<rparr> = Inr (sample_claims uni)"
  by (simp add: token_claims_def sample_claims_def)

lemma sample_defaults: "defaults_ok sample_lib sample_lc"
  using sample_admitted
  by (simp add: admitted_def ValidateSpec_valid spec_valid_def sample_fws_def sample_ws_def sample_spec_def
      defaults_ok_def sample_lc_def)

theorem gateway_workspace_accepted_witness:
  "ValidateSpec sample_lib (Some (new_workspace sample_lc ''devplane'' (sample_claims id))) = None"
  using gateway_workspace_accepted [OF sample_claims_token [of id], of sample_lib sample_lc "''devplane''"] sample_defaults
  by (simp add: sample_claims_def ToLower_def is_ascii_def lower_ascii_def char_class_defs)

end
