(* ===== verification/System.thy ===== *)
theory System
  imports Lifecycle_Props
begin

text \<open>
  Operator, gateway and cluster together: the steps each of them, the kubelet, the storage
  provisioner, the garbage collector, users and time can make on the cluster, invariants of every
  reachable cluster, and what a first login and the return to a stopped workspace lead to.
\<close>

section \<open>Steps of the system\<close>

definition run_in :: "(cluster, event, 'a) io \<Rightarrow> cluster \<Rightarrow> cluster" where
  "run_in m w = world (snd (run_state m (sys_of w)))"

text \<open>
  The garbage collector of Kubernetes removes objects whose owners are gone. The owners of the
  objects here are Workspaces, by their UID; an object without owners is never collected. A
  collection takes some of the orphans of a moment, of any kind.
\<close>

definition orphaned :: "cluster \<Rightarrow> object_meta \<Rightarrow> bool" where
  "orphaned w m \<longleftrightarrow> mt_owners m \<noteq> [] \<and> (\<forall>o' \<in> set (mt_owners m). \<forall>k ws. k_ws w k = Some ws \<longrightarrow> mt_uid (ws_meta ws) \<noteq> or_uid o')"

definition pruned :: "('o \<Rightarrow> object_meta) \<Rightarrow> cluster \<Rightarrow> (object_key \<Rightarrow> 'o option) \<Rightarrow> (object_key \<Rightarrow> 'o option) \<Rightarrow> bool" where
  "pruned mt w m m' \<longleftrightarrow> (\<forall>k. m' k = m k \<or> m' k = None \<and> (\<exists>x. m k = Some x \<and> orphaned w (mt x)))"

definition collected :: "cluster \<Rightarrow> cluster \<Rightarrow> bool" where
  "collected w w' \<longleftrightarrow> k_clock w' = k_clock w \<and> k_uids w' = k_uids w \<and> k_ws w' = k_ws w
     \<and> pruned pvc_meta w (k_pvc w) (k_pvc w') \<and> pruned pod_meta w (k_pod w) (k_pod w')
     \<and> pruned sa_meta w (k_sa w) (k_sa w') \<and> pruned role_meta w (k_role w) (k_role w')
     \<and> pruned rb_meta w (k_rb w) (k_rb w') \<and> pruned np_meta w (k_np w) (k_np w') \<and> pruned svc_meta w (k_svc w) (k_svc w')"

inductive system_step :: "k8s_lib \<Rightarrow> reconciler \<Rightarrow> lifecycle_config \<Rightarrow> cluster \<Rightarrow> cluster \<Rightarrow> bool"
  for lib r cfg where
  operator: "system_step lib r cfg w (run_in (Reconcile lib cluster_client r nn) w)"
| ensure_exists: "system_step lib r cfg w (run_in (EnsureExists cluster_client cfg ns cl) w)"
| ensure_workspace: "system_step lib r cfg w (run_in (EnsureWorkspace cluster_client cfg ns cl) w)"
| touch: "system_step lib r cfg w (run_in (TouchLastAccessed cluster_client ws) w)"
| kubelet: "k_pod w k = Some p \<Longrightarrow> system_step lib r cfg w (w\<lparr>k_pod := (k_pod w)(k \<mapsto> p\<lparr>pod_status_of := st\<rparr>)\<rparr>)"
| pod_gone: "system_step lib r cfg w (w\<lparr>k_pod := (k_pod w)(k := None)\<rparr>)"
| provisioner: "k_pvc w k = Some v \<Longrightarrow> system_step lib r cfg w (w\<lparr>k_pvc := (k_pvc w)(k \<mapsto> v\<lparr>pvc_phase := ph\<rparr>)\<rparr>)"
| collector: "collected w w' \<Longrightarrow> system_step lib r cfg w w'"
| users: "system_step lib r cfg w (w\<lparr>k_ws := m\<rparr>)"
| time: "k_clock w \<le> t \<Longrightarrow> system_step lib r cfg w (w\<lparr>k_clock := t\<rparr>)"

section \<open>Every pod is one the operator built\<close>

definition built_pod :: "k8s_lib \<Rightarrow> reconciler \<Rightarrow> pod \<Rightarrow> bool" where
  "built_pod lib r p \<longleftrightarrow> (\<exists>ws q. ValidateSpec lib (Some ws) = None
     \<and> BuildPod lib ws (PVCName (ws_user_id ws)) (desired_image r) (rc_build_opts r) = Inr q
     \<and> p = q\<lparr>pod_meta := pod_meta p, pod_status_of := pod_status_of p\<rparr>)"

definition pods_built :: "k8s_lib \<Rightarrow> reconciler \<Rightarrow> cluster \<Rightarrow> bool" where
  "pods_built lib r w \<longleftrightarrow> (\<forall>k p. k_pod w k = Some p \<longrightarrow> built_pod lib r p)"

lemma built_pod_frame [simp]:
  "built_pod lib r (p\<lparr>pod_meta := m\<rparr>) = built_pod lib r p" "built_pod lib r (p\<lparr>pod_status_of := st\<rparr>) = built_pod lib r p"
proof -
  have eq: "p\<lparr>pod_meta := m\<rparr> = q\<lparr>pod_meta := m, pod_status_of := pod_status_of p\<rparr>
      \<longleftrightarrow> p = q\<lparr>pod_meta := pod_meta p, pod_status_of := pod_status_of p\<rparr>"
    "p\<lparr>pod_status_of := st\<rparr> = q\<lparr>pod_meta := pod_meta p, pod_status_of := st\<rparr>
      \<longleftrightarrow> p = q\<lparr>pod_meta := pod_meta p, pod_status_of := pod_status_of p\<rparr>" for q :: pod
    by (cases p; cases q; simp)+
  then show "built_pod lib r (p\<lparr>pod_meta := m\<rparr>) = built_pod lib r p"
    "built_pod lib r (p\<lparr>pod_status_of := st\<rparr>) = built_pod lib r p" by (simp_all add: built_pod_def)
qed

fun bad_creation :: "k8s_lib \<Rightarrow> reconciler \<Rightarrow> event \<Rightarrow> bool" where
  "bad_creation lib r (CreatePod p x) \<longleftrightarrow> \<not> built_pod lib r p"
| "bad_creation lib r _ \<longleftrightarrow> False"

lemma created_pods_built: "emits (Reconcile lib c r nn) (\<lambda>e. \<not> bad_creation lib r e)"
proof -
  have pvc: "emits (reconcile_pvc lib c r nn ws) (\<lambda>e. \<not> bad_creation lib r e)"
    if "ValidateSpec lib (Some ws) = None" for ws
  proof (rule emits_mono [OF create_built])
    fix e
    assume "is_create_pod e \<longrightarrow> (\<forall>p x. e = CreatePod p x \<longrightarrow>
        BuildPod lib ws (PVCName (ws_user_id ws)) (desired_image r) (rc_build_opts r) = Inr p)"
    with that show "\<not> bad_creation lib r e" by (cases e) (auto simp: built_pod_def)
  qed
  show ?thesis unfolding Reconcile_def reconcileDelete_def reconcile_access_def
    by (intro trace_rules emits_mono [OF emits_access(1)] emits_mono [OF emits_access(2)] pvc) (auto elim: bad_creation.elims)
qed

lemma built_frame: "client_accounts (bad_creation lib r) (\<lambda>w w'. pods_built lib r w \<longrightarrow> pods_built lib r w') cluster_client"
proof (rule pods_frame)
  show "transp (\<lambda>w w'. pods_built lib r w \<longrightarrow> pods_built lib r w')" by (simp add: transp_def)
  show "accounts (bad_creation lib r) (\<lambda>w w'. pods_built lib r w \<longrightarrow> pods_built lib r w') (create_pod cluster_client v)" for v
    unfolding create_pod_def by (rule accounts_ask) (simp add: cluster_client_def Let_def pods_built_def)
  show "accounts (bad_creation lib r) (\<lambda>w w'. pods_built lib r w \<longrightarrow> pods_built lib r w') (delete_pod cluster_client v)" for v
    unfolding delete_pod_def by (rule accounts_ask) (simp add: cluster_client_def Let_def pods_built_def)
qed (simp add: pods_built_def)

lemma operator_pods_built:
  assumes "pods_built lib r w"
  shows "pods_built lib r (run_in (Reconcile lib cluster_client r nn) w)"
proof -
  have "list_all (\<lambda>e. \<not> bad_creation lib r e) (effects_of (Reconcile lib cluster_client r nn) (sys_of w))"
    by (rule emitsD [OF created_pods_built])
  from accountsD [OF Reconcile_accounts [OF built_frame] this] assms show ?thesis by (simp add: run_in_def)
qed

text \<open>The gateway leaves everything but Workspaces alone.\<close>

definition same_objects :: "cluster \<Rightarrow> cluster \<Rightarrow> bool" where
  "same_objects w w' \<longleftrightarrow> k_pod w' = k_pod w \<and> k_pvc w' = k_pvc w \<and> k_sa w' = k_sa w \<and> k_role w' = k_role w
     \<and> k_rb w' = k_rb w \<and> k_np w' = k_np w \<and> k_svc w' = k_svc w"

lemma same_objects_order: "reflp same_objects" "transp same_objects"
  by (auto simp: reflp_def transp_def same_objects_def)

lemma gateway_calls_frame [account_rules]:
  "accounts (\<lambda>_. False) same_objects (now cluster_client)"
  "accounts (\<lambda>_. False) same_objects (wait_or_done cluster_client d)"
  "accounts (\<lambda>_. False) same_objects (get_workspace cluster_client k)"
  "accounts (\<lambda>_. False) same_objects (create_workspace cluster_client ws)"
  "accounts (\<lambda>_. False) same_objects (patch_status cluster_client b n)"
  by (auto simp: cluster_call_simps same_objects_def intro!: accounts_ask split: option.splits)

lemma restart_frame: "accounts (\<lambda>_. False) same_objects (restart_stopped cluster_client key ws)"
  unfolding restart_stopped_def by (intro account_rules same_objects_order)

lemma touch_frame: "accounts (\<lambda>_. False) same_objects (TouchLastAccessed cluster_client ws)"
  unfolding TouchLastAccessed_def by (intro account_rules same_objects_order)

lemma create_frame: "accounts (\<lambda>_. False) same_objects (create_for cluster_client cfg ns cl)"
  unfolding create_for_def by (intro account_rules same_objects_order)

lemma wait_frame: "accounts (\<lambda>_. False) same_objects (wait_loop n cluster_client key deadline rst)"
proof (induction n arbitrary: rst)
  case (Suc n)
  then show ?case unfolding wait_loop.simps wait_pass_def poll_again_def
    by (intro account_rules same_objects_order restart_frame)
qed (simp add: accounts_return same_objects_order)

lemma exists_frame: "accounts (\<lambda>_. False) same_objects (EnsureExists cluster_client cfg ns cl)"
  unfolding EnsureExists_def Let_def by (intro account_rules same_objects_order restart_frame create_frame)

lemma workspace_frame: "accounts (\<lambda>_. False) same_objects (EnsureWorkspace cluster_client cfg ns cl)"
  unfolding EnsureWorkspace_def Let_def wait_and_touch_def waitForRunning_def
  by (intro account_rules same_objects_order wait_frame touch_frame create_frame)

lemma run_frame: "accounts (\<lambda>_. False) same_objects m \<Longrightarrow> same_objects w (run_in m w)"
  using accountsD [of "\<lambda>_. False" same_objects m "sys_of w"] by (simp add: run_in_def list_all_iff)

text \<open>
  A step keeps a claim, up to the phase the provisioner reports, unless the claim is an orphan at
  the time of the step.
\<close>

definition claim_kept :: "cluster \<Rightarrow> object_key \<Rightarrow> pvc \<Rightarrow> bool" where
  "claim_kept w k v \<longleftrightarrow> (\<exists>ph. find_in pvc_meta (k_pvc w) k = Some (v\<lparr>pvc_phase := ph\<rparr>))"

definition data_kept :: "cluster \<Rightarrow> cluster \<Rightarrow> bool" where
  "data_kept w w' \<longleftrightarrow> (\<forall>k v. find_in pvc_meta (k_pvc w) k = Some v \<longrightarrow> claim_kept w' k v \<or> orphaned w (pvc_meta v))"

lemma claim_kept_self: "find_in pvc_meta (k_pvc w) k = Some v \<Longrightarrow> claim_kept w k v"
  unfolding claim_kept_def by (metis pvc.surjective pvc.update_convs(5))

lemma data_kept_same: "k_pvc w' = k_pvc w \<Longrightarrow> data_kept w w'"
  by (auto simp: data_kept_def claim_kept_self)

lemma data_kept_claims: "claims_kept w w' \<Longrightarrow> data_kept w w'"
  by (auto simp: data_kept_def claims_kept_def claim_kept_self)

lemma collected_kept: "collected w w' \<Longrightarrow> data_kept w w'"
  unfolding data_kept_def
proof (intro allI impI)
  fix k v
  assume c: "collected w w'" and f: "find_in pvc_meta (k_pvc w) k = Some v"
  then have "k_pvc w k = Some v" by (auto simp: find_in_def split: option.splits if_splits)
  moreover have "k_pvc w' k = k_pvc w k \<or> (\<exists>x. k_pvc w k = Some x \<and> orphaned w (pvc_meta x))"
    using c by (auto simp: collected_def pruned_def)
  ultimately show "claim_kept w' k v \<or> orphaned w (pvc_meta v)"
    using f by (auto intro!: claim_kept_self simp: find_in_def)
qed

lemma collected_built: "collected w w' \<Longrightarrow> pods_built lib r w \<Longrightarrow> pods_built lib r w'"
  unfolding collected_def pruned_def pods_built_def by (metis option.distinct(1))

lemma provisioned_kept:
  assumes "k_pvc w k = Some v"
  shows "data_kept w (w\<lparr>k_pvc := (k_pvc w)(k \<mapsto> v\<lparr>pvc_phase := ph\<rparr>)\<rparr>)"
  unfolding data_kept_def
proof (intro allI impI)
  fix k' v'
  assume f: "find_in pvc_meta (k_pvc w) k' = Some v'"
  show "claim_kept (w\<lparr>k_pvc := (k_pvc w)(k \<mapsto> v\<lparr>pvc_phase := ph\<rparr>)\<rparr>) k' v' \<or> orphaned w (pvc_meta v')"
  proof (cases "k' = k")
    case True
    with f assms have "v' = v" "key_of (pvc_meta v) = k" by (auto simp: find_in_def split: if_splits)
    with True show ?thesis by (auto simp: find_in_def claim_kept_def)
  next
    case False
    with f show ?thesis by (auto intro: claim_kept_self)
  qed
qed

lemma system_step_kept:
  assumes "system_step lib r cfg w w'" and "pods_built lib r w"
  shows "pods_built lib r w' \<and> data_kept w w'"
  using assms
proof (induction rule: system_step.induct)
  case (operator w nn)
  then show ?case
    using operator_pods_built reconcile_claims_kept [of w lib r nn]
    by (auto simp: reconcile_in_def run_in_def [symmetric] intro: data_kept_claims)
next
  case (ensure_exists w ns cl)
  then show ?case using run_frame [OF exists_frame] by (auto simp: same_objects_def pods_built_def intro!: data_kept_same)
next
  case (ensure_workspace w ns cl)
  then show ?case using run_frame [OF workspace_frame] by (auto simp: same_objects_def pods_built_def intro!: data_kept_same)
next
  case (touch w ws)
  then show ?case using run_frame [OF touch_frame] by (auto simp: same_objects_def pods_built_def intro!: data_kept_same)
next
  case (provisioner w k v ph)
  then show ?case using provisioned_kept [OF provisioner(1)] by (simp add: pods_built_def)
next
  case (collector w w')
  then show ?case using collected_built collected_kept by blast
qed (auto simp: pods_built_def intro!: data_kept_same)

lemma system_kept:
  assumes "(system_step lib r cfg)\<^sup>*\<^sup>* w w'" and "pods_built lib r w"
  shows "pods_built lib r w'"
    and "find_in pvc_meta (k_pvc w) k = Some v \<Longrightarrow> claim_kept w' k v
      \<or> (\<exists>w1. (system_step lib r cfg)\<^sup>*\<^sup>* w w1 \<and> (system_step lib r cfg)\<^sup>*\<^sup>* w1 w' \<and> orphaned w1 (pvc_meta v))"
proof -
  have "pods_built lib r w' \<and> (find_in pvc_meta (k_pvc w) k = Some v \<longrightarrow> claim_kept w' k v
      \<or> (\<exists>w1. (system_step lib r cfg)\<^sup>*\<^sup>* w w1 \<and> (system_step lib r cfg)\<^sup>*\<^sup>* w1 w' \<and> orphaned w1 (pvc_meta v)))"
    using assms
  proof (induction rule: rtranclp_induct)
    case base
    then show ?case by (simp add: claim_kept_self)
  next
    case (step y z)
    then have y: "pods_built lib r y" by blast
    note k = system_step_kept [OF step(2) y]
    have "claim_kept z k v \<or> orphaned y (pvc_meta v)" if "claim_kept y k v"
    proof -
      from that obtain ph where ph: "find_in pvc_meta (k_pvc y) k = Some (v\<lparr>pvc_phase := ph\<rparr>)" by (auto simp: claim_kept_def)
      with k have "claim_kept z k (v\<lparr>pvc_phase := ph\<rparr>) \<or> orphaned y (pvc_meta v)" by (fastforce simp: data_kept_def)
      then show ?thesis by (auto simp: claim_kept_def)
    qed
    moreover have "(system_step lib r cfg)\<^sup>*\<^sup>* w1 z" if "(system_step lib r cfg)\<^sup>*\<^sup>* w1 y" for w1
      using that step(2) by (rule rtranclp.rtrancl_into_rtrancl)
    ultimately show ?case using k step(1,2) step(3) [OF step(4)] by blast
  qed
  then show "pods_built lib r w'"
    and "find_in pvc_meta (k_pvc w) k = Some v \<Longrightarrow> claim_kept w' k v
      \<or> (\<exists>w1. (system_step lib r cfg)\<^sup>*\<^sup>* w w1 \<and> (system_step lib r cfg)\<^sup>*\<^sup>* w1 w' \<and> orphaned w1 (pvc_meta v))" by simp_all
qed

text \<open>
  C4: in every cluster that operator, gateway, kubelet, provisioner, garbage collector, users and
  time can reach from one whose pods were built by the operator (an empty one, for instance), in
  any order of their steps and whatever users write into Workspaces or delete of them: every pod
  is hardened, runs the operator's image and mounts one claim, that of a valid user id; and every
  claim that was there is still there with only its phase changed, or else at some moment on the
  way no Workspace with the UID of an owner of the claim existed: the data of a user goes with the
  Workspace, through garbage collection, and in no other way - not by stopping, waking, an image
  change, or anything the operator and the gateway do.
\<close>

theorem system_pods_hardened_data_kept:
  assumes "(system_step lib r cfg)\<^sup>*\<^sup>* w w'" and "pods_built lib r w"
  shows "(\<forall>k p. k_pod w' k = Some p \<longrightarrow> pod_hardened p \<and> (\<exists>c. pod_containers p = [c] \<and> ctr_image c = desired_image r)
      \<and> (\<exists>u. dns_label u \<and> length u \<le> 49 \<and> pod_claims p = {PVCName u}))
    \<and> (\<forall>k v. find_in pvc_meta (k_pvc w) k = Some v \<longrightarrow>
        (\<exists>ph. find_in pvc_meta (k_pvc w') k = Some (v\<lparr>pvc_phase := ph\<rparr>))
        \<or> (\<exists>w1. (system_step lib r cfg)\<^sup>*\<^sup>* w w1 \<and> (system_step lib r cfg)\<^sup>*\<^sup>* w1 w' \<and> mt_owners (pvc_meta v) \<noteq> []
             \<and> (\<forall>o' \<in> set (mt_owners (pvc_meta v)). \<forall>kw ws. k_ws w1 kw = Some ws \<longrightarrow> mt_uid (ws_meta ws) \<noteq> or_uid o')))"
proof -
  note b = system_kept(1) [OF assms] and d = system_kept(2) [OF assms, unfolded claim_kept_def orphaned_def]
  have "pod_hardened p \<and> (\<exists>c. pod_containers p = [c] \<and> ctr_image c = desired_image r)
      \<and> (\<exists>u. dns_label u \<and> length u \<le> 49 \<and> pod_claims p = {PVCName u})" if "k_pod w' k = Some p" for k p
  proof -
    from b that obtain ws q where v: "ValidateSpec lib (Some ws) = None"
      and q: "BuildPod lib ws (PVCName (ws_user_id ws)) (desired_image r) (rc_build_opts r) = Inr q"
      and p: "p = q\<lparr>pod_meta := pod_meta p, pod_status_of := pod_status_of p\<rparr>"
      unfolding pods_built_def built_pod_def by blast
    have "pod_hardened p = pod_hardened q" "pod_containers p = pod_containers q" "pod_claims p = pod_claims q"
      by (subst p, simp add: pod_hardened_def pod_claims_def)+
    then show ?thesis using BuildPod_hardened_lemma [OF q] BuildPod_image [OF q] BuildPod_claims [OF q] v
      by (auto simp: ValidateSpec_valid spec_valid_def)
  qed
  with d show ?thesis by (intro conjI allI impI) blast+
qed

theorem system_pods_hardened_data_kept_witness:
  "\<exists>w p. (system_step sample_lib sample_rc sample_lc)\<^sup>*\<^sup>* (sample_cluster 0) w
     \<and> k_pod w (sample_key (PodName ''alice'')) = Some p \<and> pod_hardened p
     \<and> (\<exists>ph. find_in pvc_meta (k_pvc w) (sample_key (PVCName ''alice'')) = Some (sample_pvc\<lparr>pvc_phase := ph\<rparr>))"
proof -
  let ?w = "reconcile_in sample_lib sample_rc (sample_key ''alice'') (sample_cluster 0)"
  obtain p where p: "BuildPod sample_lib sample_fws (PVCName ''alice'') (desired_image sample_rc)
      (rc_build_opts sample_rc) = Inr p" by (rule sample_pod)
  have "find_in pod_meta (k_pod ?w) (sample_key (PodName ''alice'')) \<noteq> None"
    using sample_env.step_create_pod [OF sample_cluster_facts(1) [of 0] sample_admitted sample_cluster_facts(2,3)
        sample_cluster_facts(4), of sample_rc p] p sample_env.BuildPod_meta [OF p] by auto
  then obtain q where q: "k_pod ?w (sample_key (PodName ''alice'')) = Some q"
    by (auto simp: find_in_def split: option.splits)
  have s: "(system_step sample_lib sample_rc sample_lc)\<^sup>*\<^sup>* (sample_cluster 0) ?w"
    using system_step.operator [of sample_lib sample_rc sample_lc "sample_cluster 0" "sample_key ''alice''"]
    by (simp add: reconcile_in_def run_in_def)
  have "pods_built sample_lib sample_rc (sample_cluster 0)"
    by (simp add: pods_built_def sample_cluster_def cluster_with_def empty_cluster_def)
  note all = system_pods_hardened_data_kept [OF s this]
  from conjunct1 [OF all] q have "pod_hardened q" by blast
  moreover have "find_in pvc_meta (k_pvc (sample_cluster 0)) (sample_key (PVCName ''alice'')) = Some sample_pvc"
    "mt_owners (pvc_meta sample_pvc) = []"
    by (simp_all add: sample_cluster_def cluster_with_def sample_pvc_def find_in_def key_of_def)
  with conjunct2 [OF all] have "\<exists>ph. find_in pvc_meta (k_pvc ?w) (sample_key (PVCName ''alice'')) = Some (sample_pvc\<lparr>pvc_phase := ph\<rparr>)"
    by blast
  ultimately show ?thesis using q s by blast
qed

section \<open>A first login\<close>

definition created_ws :: "lifecycle_config \<Rightarrow> string \<Rightarrow> claims \<Rightarrow> cluster \<Rightarrow> workspace" where
  "created_ws cfg ns cl w = (new_workspace cfg ns cl)\<lparr>ws_meta := fresh_uid (k_uids w) (ws_meta (new_workspace cfg ns cl))\<rparr>"

lemma created_ws_simps [simp]:
  "ws_spec (created_ws cfg ns cl w) = ws_spec (new_workspace cfg ns cl)"
  "ws_status (created_ws cfg ns cl w) = empty_status"
  "ws_namespace (created_ws cfg ns cl w) = ns" "mt_deletion (ws_meta (created_ws cfg ns cl w)) = None"
  "mt_finalizers (ws_meta (created_ws cfg ns cl w)) = []"
  "key_of (ws_meta (created_ws cfg ns cl w)) = user_key ns cl"
  by (simp_all add: created_ws_def new_workspace_def fresh_uid_def user_key_def key_of_def)

lemma new_workspace_key [simp]: "key_of (ws_meta (new_workspace cfg ns cl)) = user_key ns cl"
  by (simp add: new_workspace_def user_key_def key_of_def)

lemma EnsureExists_missing:
  assumes "find_in ws_meta (k_ws w) (user_key ns cl) = None"
  shows "fst (run_state (EnsureExists cluster_client cfg ns cl) (sys_of w)) =
      (no_details\<lparr>ed_created := True\<rparr>, Inr (created_ws cfg ns cl w))"
    and "run_in (EnsureExists cluster_client cfg ns cl) w =
      w\<lparr>k_ws := (k_ws w)(user_key ns cl \<mapsto> created_ws cfg ns cl w), k_uids := Suc (k_uids w)\<rparr>"
  using assms
  by (simp_all add: EnsureExists_def create_for_def client_call_defs cluster_client_def lookup_def run_in_def
      sys_of_def Let_def created_ws_def)

lemma EnsureExists_stopped:
  assumes "find_in ws_meta (k_ws w) (user_key ns cl) = Some ws" and "ws_phase ws = WorkspacePhaseStopped"
  shows "fst (run_state (EnsureExists cluster_client cfg ns cl) (sys_of w)) =
      (no_details\<lparr>ed_restarted := True\<rparr>, Inr (restarted ws))"
    and "run_in (EnsureExists cluster_client cfg ns cl) w = w\<lparr>k_ws := (k_ws w)(user_key ns cl \<mapsto> restarted ws)\<rparr>"
proof -
  have k: "key_of (ws_meta ws) = user_key ns cl" by (rule find_in_key [OF assms(1)])

  have r: "ws\<lparr>ws_status := ws_status (restarted ws)\<rparr> = restarted ws" by (simp add: restarted_def)
  have s: "merge_status (ws_status ws) (ws_status (restarted ws)) (ws_status ws) = ws_status (restarted ws)"
    by (rule merge_status_same) (simp add: restarted_def)
  show "fst (run_state (EnsureExists cluster_client cfg ns cl) (sys_of w)) =
      (no_details\<lparr>ed_restarted := True\<rparr>, Inr (restarted ws))"
    "run_in (EnsureExists cluster_client cfg ns cl) w = w\<lparr>k_ws := (k_ws w)(user_key ns cl \<mapsto> restarted ws)\<rparr>"
    using assms k
    by (simp_all add: r s EnsureExists_def restart_stopped_def client_call_defs cluster_client_def patch_in_def lookup_def
        run_in_def sys_of_def Let_def)
qed

text \<open>
  C15: a first login leads to a running workspace. For a verified token whose subject gives a name
  and which carries an email, with valid defaults, in a cluster without that user's Workspace,
  claim or pod and whose object names nobody else controls, and with an operator whose idle timeout
  is off or at least a second (the resolution of the access time): the gateway's \<open>EnsureExists\<close> creates
  the Workspace, and two reconciles, a third that makes the pod, the pod coming up and one more
  reconcile, at any time, leave it Running with the pod name and the service endpoint in its status and the
  Ready condition True.
\<close>

theorem first_login_reaches_running:
  assumes "cluster_env lib" and "token_claims uni tok = Inr cl"
    and "list_ex is_alnum (ToLower uni (idt_subject tok))" and "clm_email cl \<noteq> ''''" and "defaults_ok lib cfg"
    and "find_in ws_meta (k_ws w) (user_key ns cl) = None"
    and "claims_ok (created_ws cfg ns cl w) w"
    and "find_in pvc_meta (k_pvc w) \<lparr>key_namespace = ns, key_name = PVCName (clm_user_id cl)\<rparr> = None"
    and "find_in pod_meta (k_pod w) \<lparr>key_namespace = ns, key_name = PodName (clm_user_id cl)\<rparr> = None"
    and "rc_idle_timeout r \<le> 0 \<or> Second \<le> rc_idle_timeout r"
  shows "\<exists>ws'. let nn = user_key ns cl; ws = created_ws cfg ns cl w;
       w1 = run_in (EnsureExists cluster_client cfg ns cl) w;
       w' = bring_up lib r nn ws t (reconcile_in lib r nn (reconcile_in lib r nn w1)) in
     fst (run_state (EnsureExists cluster_client cfg ns cl) (sys_of w)) = (no_details\<lparr>ed_created := True\<rparr>, Inr ws)
     \<and> find_in ws_meta (k_ws w') nn = Some ws' \<and> ws_phase ws' = WorkspacePhaseRunning
     \<and> st_pod_name (ws_status ws') = PodName (clm_user_id cl)
     \<and> st_service_endpoint (ws_status ws') = service_endpoint (ServiceName (clm_user_id cl)) ns
     \<and> ready_status (st_conditions (ws_status ws')) = Some ConditionTrue"
proof -
  let ?ws = "created_ws cfg ns cl w" and ?nn = "user_key ns cl"
  let ?w1 = "w\<lparr>k_ws := (k_ws w)(?nn \<mapsto> ?ws), k_uids := Suc (k_uids w)\<rparr>"
  have id: "clm_user_id cl = sanitizeUserID uni (idt_subject tok)"
    using assms(2) by (auto simp: token_claims_def split: sum.splits)
  have uid: "ws_user_id ?ws = clm_user_id cl" by (simp add: new_workspace_def)
  have valid: "ValidateSpec lib (Some ?ws) = None"
    using assms(3-5) sanitize_label [of uni "idt_subject tok"] sanitize_empty [of uni "idt_subject tok"]
      new_workspace_valid [of lib cfg ns cl] by (simp add: ValidateSpec_valid id)
  have nofin: "\<not> lib_contains_finalizer lib (ws_meta ?ws) workspaceFinalizer"
    using finalizer_lib.contains_iff [OF cluster_env.axioms(3) [OF assms(1)]] by simp
  have idle: "\<not> idle_over r t ?ws"
    by (rule fresh_not_idle) (use assms(10) in \<open>simp_all add: empty_status_def effectiveIdleTimeout_def new_workspace_def\<close>)
  have ns: "in_ns ?ws x = \<lparr>key_namespace = ns, key_name = x\<rparr>" for x by (simp add: in_ns_def)
  have f: "find_in ws_meta (k_ws ?w1) ?nn = Some ?ws" by simp
  have ph: "ws_phase ?ws \<noteq> WorkspacePhaseStopped" by (simp add: empty_status_def)
  from new_workspace_up [OF assms(1) f _ valid nofin ph _ _ _ idle] assms(7-9) uid ns
    EnsureExists_missing [OF assms(6), of cfg]
  show ?thesis by (simp add: Let_def) blast
qed

theorem first_login_reaches_running_witness:
  "\<exists>ws'. find_in ws_meta (k_ws (bring_up sample_lib sample_rc (sample_key ''alice'')
       (created_ws sample_lc ''devplane'' (sample_claims id) (empty_cluster 0)) 9
       (reconcile_in sample_lib sample_rc (sample_key ''alice'') (reconcile_in sample_lib sample_rc (sample_key ''alice'')
         (run_in (EnsureExists cluster_client sample_lc ''devplane'' (sample_claims id)) (empty_cluster 0))))))
       (sample_key ''alice'') = Some ws' \<and> ws_phase ws' = WorkspacePhaseRunning"
proof -
  have "list_ex is_alnum (ToLower id (idt_subject \<lparr>idt_subject = ''alice'', idt_email = Inr ''alice@example.com''\<rparr>))"
    by (simp add: ToLower_def is_ascii_def lower_ascii_def char_class_defs)
  moreover have "clm_email (sample_claims id) \<noteq> ''''" by (simp add: sample_claims_def)
  moreover have "claims_ok (created_ws sample_lc ''devplane'' (sample_claims id) (empty_cluster 0)) (empty_cluster 0)"
    by (simp add: claims_ok_def free_at_def empty_cluster_def find_in_def)
  moreover have "find_in ws_meta (k_ws (empty_cluster 0)) k = None" "find_in pvc_meta (k_pvc (empty_cluster 0)) k = None"
    "find_in pod_meta (k_pod (empty_cluster 0)) k = None" for k by (simp_all add: empty_cluster_def find_in_def)
  moreover have "Second \<le> rc_idle_timeout sample_rc" by (simp add: sample_rc_def duration_units)
  ultimately show ?thesis
    using first_login_reaches_running [OF sample_env.cluster_env_axioms sample_claims_token, where uni = id
        and w = "empty_cluster 0" and cfg = sample_lc and ns = "''devplane''" and r = sample_rc and t = 9] sample_defaults
    by (auto simp: Let_def)
qed

section \<open>Coming back to a stopped workspace\<close>

text \<open>
  C16: a workspace that was stopped for inactivity does not come back. The gateway restarts it by
  clearing the phase, but leaves the time of last access as it was; the operator then creates the
  pod, and as soon as the pod is ready the idle check, with the old access time, stops the
  workspace and removes the pod again: the user never sees phase Running.
\<close>

theorem woken_workspace_stopped_again:
  assumes "cluster_env lib"
    and "find_in ws_meta (k_ws w) (user_key ns cl) = Some ws" and "ws_phase ws = WorkspacePhaseStopped"
    and "admitted lib (restarted ws)" and "claims_ok ws w" and "pvc_usable ws w"
    and "find_in pod_meta (k_pod w) (in_ns ws (PodName (ws_user_id ws))) = None"
    and "idle_over r t ws"
  shows "\<exists>ws'. let nn = user_key ns cl; w1 = run_in (EnsureExists cluster_client cfg ns cl) w;
       w' = bring_up lib r nn ws t w1 in
     fst (run_state (EnsureExists cluster_client cfg ns cl) (sys_of w)) = (no_details\<lparr>ed_restarted := True\<rparr>, Inr (restarted ws))
     \<and> ws_phase (restarted ws) = '''' \<and> find_in ws_meta (k_ws w1) nn = Some (restarted ws)
     \<and> find_in pod_meta (k_pod (reconcile_in lib r nn w1)) (in_ns ws (PodName (ws_user_id ws))) \<noteq> None
     \<and> find_in ws_meta (k_ws w') nn = Some ws' \<and> ws_phase ws' = WorkspacePhaseStopped
     \<and> find_in pod_meta (k_pod w') (in_ns ws (PodName (ws_user_id ws))) = None"
proof -
  let ?nn = "user_key ns cl" and ?ws = "restarted ws" and ?k = "in_ns ws (PodName (ws_user_id ws))"
  let ?w1 = "w\<lparr>k_ws := (k_ws w)(?nn \<mapsto> ?ws)\<rparr>"
  have k: "key_of (ws_meta ws) = ?nn" by (rule find_in_key [OF assms(2)])
  have rs: "ws_meta ?ws = ws_meta ws" "ws_spec ?ws = ws_spec ws" "ws_phase ?ws = ''''" by (simp_all add: restarted_def)
  have f: "find_in ws_meta (k_ws ?w1) ?nn = Some ?ws" using k rs by simp
  have ns: "in_ns ?ws = in_ns ws" by (simp add: in_ns_def fun_eq_iff rs)
  have c: "claims_ok ?ws ?w1" using assms(5) claims_ok_cong [of ?ws ws] rs by simp
  have p: "pvc_usable ?ws ?w1" using assms(6) by (simp add: pvc_usable_def ns rs)
  have n: "find_in pod_meta (k_pod ?w1) (in_ns ?ws (PodName (ws_user_id ?ws))) = None" using assms(7) by (simp add: ns rs)
  have "effectiveIdleTimeout ?ws d = effectiveIdleTimeout ws d" for d by (simp add: effectiveIdleTimeout_def rs)
  moreover have "idle_since (seeded t ?ws) = idle_since (seeded t ws)"
    by (simp add: seeded_def idle_since_def restarted_def)
  ultimately have idle: "idle_over r t ?ws" using assms(8) by (simp add: idle_over_def)
  obtain q where q: "BuildPod lib ?ws (PVCName (ws_user_id ?ws)) (desired_image r) (rc_build_opts r) = Inr q"
    using cluster_env.builders(2) [OF assms(1,4)] by blast
  have up: "find_in pod_meta (k_pod (reconcile_in lib r ?nn ?w1)) ?k \<noteq> None"
    using cluster_env.step_create_pod [OF assms(1) f assms(4) c p n q] cluster_env.BuildPod_meta [OF assms(1) q]
    by (auto simp: ns rs)
  have "bring_up lib r ?nn ws t ?w1 = bring_up lib r ?nn ?ws t ?w1" by (simp add: bring_up_def ns rs)
  with cluster_env.bring_up_result [OF assms(1) f assms(4) c p n, of r t] idle up f
    EnsureExists_stopped [OF assms(2,3), of cfg]
  show ?thesis by (simp add: Let_def ns rs stopped_summary_def summary_def)
qed

text \<open>The example: stopped after its last access at time 0, woken two hours later.\<close>

definition sample_sleeping :: workspace where
  "sample_sleeping = sample_fws\<lparr>ws_status := empty_status\<lparr>st_phase := WorkspacePhaseStopped, st_last_accessed := Some 0\<rparr>\<rparr>"

definition sample_night :: cluster where
  "sample_night = (sample_cluster (2 * Hour))\<lparr>k_ws := (\<lambda>_. None)(sample_key ''alice'' \<mapsto> sample_sleeping)\<rparr>"

lemma sample_night_facts:
  "find_in ws_meta (k_ws sample_night) (user_key ''devplane'' (sample_claims id)) = Some sample_sleeping"
  "ws_phase sample_sleeping = WorkspacePhaseStopped" "admitted sample_lib (restarted sample_sleeping)"
  "claims_ok sample_sleeping sample_night" "pvc_usable sample_sleeping sample_night"
  "find_in pod_meta (k_pod sample_night) (in_ns sample_sleeping (PodName (ws_user_id sample_sleeping))) = None"
  "idle_over sample_rc (2 * Hour) sample_sleeping"
proof -
  have m: "ws_meta sample_sleeping = ws_meta sample_fws" "ws_spec sample_sleeping = ws_spec sample_fws"
    by (simp_all add: sample_sleeping_def)
  show "find_in ws_meta (k_ws sample_night) (user_key ''devplane'' (sample_claims id)) = Some sample_sleeping"
    by (simp add: sample_night_def sample_cluster_facts m)
  show "ws_phase sample_sleeping = WorkspacePhaseStopped" by (simp add: sample_sleeping_def)
  show "admitted sample_lib (restarted sample_sleeping)"
    by (rule admitted_cong [OF _ _ _ sample_admitted]) (simp_all add: m restarted_def)
  show "claims_ok sample_sleeping sample_night"
    using sample_cluster_facts(2) [of "2 * Hour"] claims_ok_cong [of sample_sleeping sample_fws] m
    by (simp add: sample_night_def)
  show "pvc_usable sample_sleeping sample_night"
    using sample_cluster_facts(3) [of "2 * Hour"] pvc_usable_cong [of sample_sleeping sample_fws sample_night "sample_cluster (2 * Hour)"] m
    by (simp add: sample_night_def)
  show "find_in pod_meta (k_pod sample_night) (in_ns sample_sleeping (PodName (ws_user_id sample_sleeping))) = None"
    by (simp add: sample_night_def sample_cluster_def cluster_with_def empty_cluster_def find_in_def)
  show "idle_over sample_rc (2 * Hour) sample_sleeping"
    by (simp add: idle_over_def effectiveIdleTimeout_def m sample_spec_def sample_rc_def seeded_def sample_sleeping_def
        empty_status_def idle_since_def time_sub_def duration_units)
qed

theorem woken_workspace_stopped_again_witness:
  "\<exists>ws'. find_in ws_meta (k_ws (bring_up sample_lib sample_rc (sample_key ''alice'') sample_sleeping (2 * Hour)
       (run_in (EnsureExists cluster_client sample_lc ''devplane'' (sample_claims id)) sample_night))) (sample_key ''alice'')
     = Some ws' \<and> ws_phase ws' = WorkspacePhaseStopped"
  using woken_workspace_stopped_again [OF sample_env.cluster_env_axioms sample_night_facts, of sample_lc]
  by (auto simp: Let_def)

end
