(* ===== verification/Go_Format.thy ===== *)
theory Go_Format
  imports Go_Time
begin

text \<open>
  More of Go's formatting as the gateway uses it: \<open>Time.UTC().Format(time.RFC3339Nano)\<close> for an
  instant counted in nanoseconds from the Unix epoch, fields joined by a separator, and that
  decimal numbers and joined fields can be read back.
\<close>

section \<open>RFC3339Nano\<close>

text \<open>The proleptic Gregorian date of a day number counted from 1970-01-01.\<close>

definition civil_date :: "int \<Rightarrow> int \<times> int \<times> int" where
  "civil_date days =
     (let z = days + 719468;
          era = z div 146097;
          doe = z mod 146097;
          yoe = (doe - doe div 1460 + doe div 36524 - doe div 146096) div 365;
          doy = doe - (365 * yoe + yoe div 4 - yoe div 100);
          mp = (5 * doy + 2) div 153;
          d = doy - (153 * mp + 2) div 5 + 1;
          m = (if mp < 10 then mp + 3 else mp - 9)
      in (yoe + era * 400 + (if m \<le> 2 then 1 else 0), m, d))"

text \<open>\<open>appendInt\<close>: at least \<open>w\<close> digits, the sign in front.\<close>

definition pad_int :: "nat \<Rightarrow> int \<Rightarrow> string" where
  "pad_int w i = (let s = digits_of (nat \<bar>i\<bar>) in
     (if i < 0 then ''-'' else []) @ replicate (w - length s) CHR ''0'' @ s)"

definition nano_fraction :: "int \<Rightarrow> string" where
  "nano_fraction n = (if n = 0 then [] else ''.'' @ TrimRight (pad_int 9 n) CHR ''0'')"

definition RFC3339Nano :: "instant \<Rightarrow> string" where
  "RFC3339Nano t =
     (let secs = t div Second; r = secs mod 86400 in
      case civil_date (secs div 86400) of (y, m, d) \<Rightarrow>
        pad_int 4 y @ ''-'' @ pad_int 2 m @ ''-'' @ pad_int 2 d @ ''T''
        @ pad_int 2 (r div 3600) @ '':'' @ pad_int 2 (r mod 3600 div 60) @ '':'' @ pad_int 2 (r mod 60)
        @ nano_fraction (t mod Second) @ ''Z'')"

section \<open>Joined fields\<close>

fun join_with :: "char \<Rightarrow> string list \<Rightarrow> string" where
  "join_with c [] = []"
| "join_with c [x] = x"
| "join_with c (x # y # xs) = x @ c # join_with c (y # xs)"

section \<open>Lemmas\<close>

lemma digits_of_chars: "set (digits_of n) \<subseteq> {c. is_digit c}"
proof (induction n rule: digits_of.induct)
  case (1 n)
  have digit: "is_digit (char_of (48 + m))" if "m < 10" for m :: nat
    using that by (simp add: is_digit_def)
  show ?case using 1 digit [of n] digit [of "n mod 10"] by (subst digits_of.simps) auto
qed

lemma bar_not_digit [simp]: "\<not> is_digit CHR ''|''"
  by (simp add: is_digit_def)

lemma digits_no_bar [simp]: "CHR ''|'' \<notin> set (digits_of n)"
  using digits_of_chars [of n] bar_not_digit by blast

lemma Itoa_no_bar [simp]: "CHR ''|'' \<notin> set (Itoa i)"
  by (simp add: Itoa_def)

lemma pad_int_no_bar: "CHR ''|'' \<notin> set (pad_int w i)"
  by (simp add: pad_int_def Let_def)

lemma RFC3339Nano_no_bar: "CHR ''|'' \<notin> set (RFC3339Nano t)"
  using pad_int_no_bar set_TrimRight [of "pad_int 9 (t mod Second)" "CHR ''0''"]
  by (auto simp: RFC3339Nano_def Let_def nano_fraction_def split: prod.split)

text \<open>Reading a decimal number back.\<close>

lemma parse_digits_append:
  "list_all is_digit s \<Longrightarrow> parse_digits a (s @ t) = parse_digits (the (parse_digits a s)) t"
  by (induction a s rule: parse_digits.induct) auto

lemma parse_digits_total: "list_all is_digit s \<Longrightarrow> parse_digits a s \<noteq> None"
  by (induction a s rule: parse_digits.induct) auto

lemma digits_of_all: "list_all is_digit (digits_of n)"
  using digits_of_chars by (auto simp: list_all_iff)

lemma parse_digits_of: "parse_digits 0 (digits_of n) = Some n"
proof (induction n rule: digits_of.induct)
  case (1 n)
  have digit: "is_digit (char_of (48 + m))" if "m < 10" for m :: nat
    using that by (simp add: is_digit_def)
  show ?case
  proof (cases "n < 10")
    case True
    then show ?thesis using digit by (subst digits_of.simps) simp
  next
    case False
    have "parse_digits 0 (digits_of n) = parse_digits (n div 10) [char_of (48 + n mod 10)]"
      using False 1 parse_digits_append [OF digits_of_all, of 0 "n div 10"] by (subst digits_of.simps) simp
    also have "\<dots> = Some n" using digit [of "n mod 10"] by simp
    finally show ?thesis .
  qed
qed

lemma digits_of_nonempty [simp]: "digits_of n \<noteq> []"
  by (subst digits_of.simps) simp

lemma digits_of_inject: "digits_of m = digits_of n \<longleftrightarrow> m = n"
  by (metis option.inject parse_digits_of)

lemma digits_of_no_sign: "digits_of n \<noteq> CHR ''-'' # s"
proof
  assume "digits_of n = CHR ''-'' # s"
  then have "is_digit CHR ''-''" using digits_of_all [of n] by simp
  then show False by (simp add: is_digit_def)
qed

lemma Itoa_inject: "Itoa i = Itoa j \<longleftrightarrow> i = j"
  using digits_of_no_sign [symmetric] by (auto simp: Itoa_def digits_of_inject digits_of_no_sign)

text \<open>Fields without the separator can be read back from the joined text.\<close>

lemma Split_append: "c \<notin> set x \<Longrightarrow> Split (x @ c # s) c = x # Split s c"
  by (induction x) auto

lemma Split_alone: "c \<notin> set x \<Longrightarrow> Split x c = [x]"
  by (induction x) auto

lemma Split_join: "xs \<noteq> [] \<Longrightarrow> list_all (\<lambda>x. c \<notin> set x) xs \<Longrightarrow> Split (join_with c xs) c = xs"
  by (induction c xs rule: join_with.induct) (simp_all add: Split_append Split_alone)

lemma join_inject:
  assumes "join_with c xs = join_with c ys" and "xs \<noteq> []" and "ys \<noteq> []"
    and "list_all (\<lambda>x. c \<notin> set x) xs" and "list_all (\<lambda>x. c \<notin> set x) ys"
  shows "xs = ys"
  using assms by (metis Split_join)

end
