(* ===== verification/Gateway_Env.thy ===== *)
theory Gateway_Env
  imports Lifecycle Go_Format Go_Json
begin

text \<open>
  What the gateway's handlers work with: the environment of one request (clock, random ids, file
  system, network, OAuth2 endpoint) as a record of functions over the state \<open>'w\<close> of whatever
  answers, the effects of the gateway, and the small shared files of \<open>pkg/gateway\<close>:
  structured logs and audit records (\<open>audit.go\<close>), counters (\<open>metrics.go\<close>), request ids
  (\<open>requestid.go\<close>) and JSON error responses (\<open>auth_http.go\<close>).
\<close>

section \<open>Effects\<close>

type_synonym log_fields = "(string \<times> string) list"

datatype same_site = SameSiteDefault | SameSiteLax

record cookie =
  ck_name :: string
  ck_value :: string
  ck_path :: string
  ck_max_age :: int
  ck_expires :: "instant option"
  ck_http_only :: bool
  ck_secure :: bool
  ck_same_site :: same_site

text \<open>
  \<open>tok_id_token\<close> is \<open>token.Extra("id_token")\<close> when it is a string; a zero \<open>Expiry\<close> is \<open>None\<close>.
\<close>

record oauth_token =
  tok_id_token :: "string option"
  tok_expiry :: "instant option"

datatype peer = Client | Backend

text \<open>
  A response of the backend: its status, headers and body, or the error of reading the body.
\<close>

record http_response =
  rsp_status :: int
  rsp_headers :: "(string \<times> string) list"
  rsp_body :: "string res"
  rsp_content_length :: int

text \<open>
  The settings of a WebSocket upgrade and of a WebSocket dial. The origin check is given the
  \<open>Origin\<close> header of the request.
\<close>

record ws_upgrader =
  wu_handshake_timeout :: duration
  wu_check_origin :: "string \<Rightarrow> bool"
  wu_subprotocols :: "string list"

record ws_dialer =
  wd_proxy_from_environment :: bool
  wd_handshake_timeout :: duration

datatype gw_event =
    Now instant
  | Uuid string
  | MkdirAll string "unit res"
  | OpenFile string "unit res"
  | FileWrite string string "unit res"
  | FileClose string
  | Info string log_fields
  | LogError go_error string log_fields
  | Inc string "string list"
  | SetHeader string string
  | SetCookie cookie
  | WriteHeader int
  | Write string
  | HttpError string int
  | Redirect string int
  | Validated string "claims res"
  | Limited string "bool \<times> string"
  | Ensured string claims "ensure_details \<times> workspace res"
  | EnsuredRunning string claims "(ensure_details \<times> workspace res) option"
  | Touched workspace
  | DialTCP string "unit res"
  | Exchanged string "oauth_token res"
  | Upgraded "string res"
  | DialWS string "string option" "unit res"
  | ReadLimit peer int
  | ReadMessage peer "(int \<times> string) res"
  | WriteMessage peer int string "unit res"
  | CloseConn peer
  | Forwarded string "http_response res"
  | Delivered http_response
  | MetricsPage
  | AuthEffect auth_event
  | KubeEffect event

type_synonym ('w, 'a) gw = "('w, gw_event, 'a) io"

text \<open>The environment of the gateway process.\<close>

record 'w gw_env =
  ge_getenv :: "string \<Rightarrow> string"
  ge_lower :: "string \<Rightarrow> string"
  ge_now :: "'w \<Rightarrow> instant \<times> 'w"
  ge_uuid :: "'w \<Rightarrow> string \<times> 'w"
  ge_mkdir :: "string \<Rightarrow> 'w \<Rightarrow> unit res \<times> 'w"
  ge_open :: "string \<Rightarrow> 'w \<Rightarrow> unit res \<times> 'w"
  ge_write :: "string \<Rightarrow> string \<Rightarrow> 'w \<Rightarrow> unit res \<times> 'w"
  ge_dial_tcp :: "string \<Rightarrow> 'w \<Rightarrow> unit res \<times> 'w"
  ge_auth_code_url :: "string \<Rightarrow> string"
  ge_exchange :: "string \<Rightarrow> 'w \<Rightarrow> oauth_token res \<times> 'w"
  ge_upgrade :: "ws_upgrader \<Rightarrow> 'w \<Rightarrow> string res \<times> 'w"
  ge_dial_ws :: "ws_dialer \<Rightarrow> duration \<Rightarrow> string \<Rightarrow> string option \<Rightarrow> 'w \<Rightarrow> unit res \<times> 'w"
  ge_read :: "peer \<Rightarrow> 'w \<Rightarrow> (int \<times> string) res \<times> 'w"
  ge_send :: "peer \<Rightarrow> int \<Rightarrow> string \<Rightarrow> 'w \<Rightarrow> unit res \<times> 'w"
  ge_is_close :: "go_error \<Rightarrow> int list \<Rightarrow> bool"
  ge_round_trip :: "string \<Rightarrow> 'w \<Rightarrow> http_response res \<times> 'w"

definition gw_now :: "'w gw_env \<Rightarrow> ('w, instant) gw" where
  "gw_now env = ask (ge_now env) Now"

definition NewString :: "'w gw_env \<Rightarrow> ('w, string) gw" where
  "NewString env = ask (ge_uuid env) Uuid"

text \<open>
  A logger is the list of values attached to it by \<open>WithValues\<close>; it puts them before the fields
  of a record.
\<close>

definition log_info :: "log_fields \<Rightarrow> string \<Rightarrow> log_fields \<Rightarrow> ('w, unit) gw" where
  "log_info log msg kvs = emit (Info msg (log @ kvs))"

definition log_error :: "log_fields \<Rightarrow> go_error \<Rightarrow> string \<Rightarrow> log_fields \<Rightarrow> ('w, unit) gw" where
  "log_error log e msg kvs = emit (LogError e msg (log @ kvs))"

section \<open>Log keys and events\<close>

abbreviation LogKeyComponent :: string where "LogKeyComponent \<equiv> ''devplane.component''"
abbreviation LogKeyEvent :: string where "LogKeyEvent \<equiv> ''devplane.event''"
abbreviation LogKeyUserID :: string where "LogKeyUserID \<equiv> ''userId''"
abbreviation LogKeyNamespace :: string where "LogKeyNamespace \<equiv> ''namespace''"
abbreviation LogKeyWorkspace :: string where "LogKeyWorkspace \<equiv> ''workspace''"
abbreviation LogKeyRequestID :: string where "LogKeyRequestID \<equiv> ''devplane.request_id''"
abbreviation ComponentGateway :: string where "ComponentGateway \<equiv> ''gateway''"

abbreviation AuditSchemaVersion :: string where "AuditSchemaVersion \<equiv> ''1''"
abbreviation LogKeyAuditSchema :: string where "LogKeyAuditSchema \<equiv> ''devplane.audit.schema_version''"
abbreviation LogKeyActorSubject :: string where "LogKeyActorSubject \<equiv> ''actor.subject''"
abbreviation LogKeyAuditAction :: string where "LogKeyAuditAction \<equiv> ''action''"
abbreviation LogKeyAuditOutcome :: string where "LogKeyAuditOutcome \<equiv> ''outcome''"
abbreviation LogKeyAuditReason :: string where "LogKeyAuditReason \<equiv> ''reason''"
abbreviation OutcomeSuccess :: string where "OutcomeSuccess \<equiv> ''success''"
abbreviation OutcomeFailure :: string where "OutcomeFailure \<equiv> ''failure''"
abbreviation OutcomeDenied :: string where "OutcomeDenied \<equiv> ''denied''"

abbreviation EventAuditOIDCLoginRedirect :: string where
  "EventAuditOIDCLoginRedirect \<equiv> ''devplane.audit.oidc.login.redirect''"
abbreviation EventAuditOIDCCallbackSuccess :: string where
  "EventAuditOIDCCallbackSuccess \<equiv> ''devplane.audit.oidc.callback.success''"
abbreviation EventAuditOIDCCallbackFailure :: string where
  "EventAuditOIDCCallbackFailure \<equiv> ''devplane.audit.oidc.callback.failure''"
abbreviation EventAuditWorkspaceEnsureExists :: string where
  "EventAuditWorkspaceEnsureExists \<equiv> ''devplane.audit.workspace.ensure_exists''"
abbreviation EventAuditWorkspaceEnsureRunning :: string where
  "EventAuditWorkspaceEnsureRunning \<equiv> ''devplane.audit.workspace.ensure_running''"
abbreviation EventAuditWSSessionStart :: string where
  "EventAuditWSSessionStart \<equiv> ''devplane.audit.ws.session.start''"
abbreviation EventAuditWSSessionEnd :: string where
  "EventAuditWSSessionEnd \<equiv> ''devplane.audit.ws.session.end''"
abbreviation EventAuditAuthTokenRejected :: string where
  "EventAuditAuthTokenRejected \<equiv> ''devplane.audit.auth.token.rejected''"
abbreviation EventAuditRateLimitExceeded :: string where
  "EventAuditRateLimitExceeded \<equiv> ''devplane.audit.rate_limit.exceeded''"

abbreviation EventAuthFailure :: string where "EventAuthFailure \<equiv> ''gateway.auth.failure''"
abbreviation EventWorkspaceError :: string where "EventWorkspaceError \<equiv> ''gateway.workspace.error''"
abbreviation EventOIDCTokenExchange :: string where
  "EventOIDCTokenExchange \<equiv> ''gateway.oidc.token_exchange.failure''"
abbreviation EventOIDCInvalidIDToken :: string where
  "EventOIDCInvalidIDToken \<equiv> ''gateway.oidc.id_token.invalid''"
abbreviation EventWSProxyStart :: string where "EventWSProxyStart \<equiv> ''gateway.ws.proxy.start''"
abbreviation EventWSProxyBackendNotReady :: string where
  "EventWSProxyBackendNotReady \<equiv> ''gateway.ws.backend_not_ready''"
abbreviation EventWSProxySessionEnd :: string where
  "EventWSProxySessionEnd \<equiv> ''gateway.ws.session.end''"
abbreviation EventHTTPBackendUnreachable :: string where
  "EventHTTPBackendUnreachable \<equiv> ''gateway.http.backend_unreachable''"
abbreviation EventRateLimited :: string where "EventRateLimited \<equiv> ''gateway.rate_limit.exceeded''"

abbreviation WorkspaceErrorCodeUnavailable :: string where
  "WorkspaceErrorCodeUnavailable \<equiv> ''workspace_unavailable''"
abbreviation WorkspaceErrorCodeNotReady :: string where
  "WorkspaceErrorCodeNotReady \<equiv> ''workspace_not_ready''"
abbreviation RateLimitErrorCode :: string where "RateLimitErrorCode \<equiv> ''rate_limited''"

section \<open>Audit records\<close>

definition EnsureAction :: "ensure_details \<Rightarrow> string" where
  "EnsureAction d =
     (if ed_created d then ''create'' else if ed_restarted d then ''restart'' else ''get'')"

definition LogAudit :: "log_fields \<Rightarrow> string \<Rightarrow> string \<Rightarrow> string \<Rightarrow> log_fields \<Rightarrow> ('w, unit) gw" where
  "LogAudit log msg requestID event kvs =
     (let args = [(LogKeyAuditSchema, AuditSchemaVersion), (LogKeyComponent, ComponentGateway), (LogKeyEvent, event)];
          args = (if requestID \<noteq> '''' then args @ [(LogKeyRequestID, requestID)] else args)
      in log_info log msg (args @ kvs))"

definition LogWorkspaceLifecycleAudit ::
  "log_fields \<Rightarrow> string \<Rightarrow> string \<Rightarrow> string \<Rightarrow> string \<Rightarrow> claims option \<Rightarrow> workspace option \<Rightarrow> ensure_details
    \<Rightarrow> ('w, unit) gw" where
  "LogWorkspaceLifecycleAudit log msg requestID event ns clo wso d = (case (clo, wso) of
     (Some cl, Some ws) \<Rightarrow> LogAudit log msg requestID event
        [(LogKeyActorSubject, clm_sub cl), (LogKeyUserID, clm_user_id cl), (LogKeyNamespace, ns),
         (LogKeyWorkspace, mt_name (ws_meta ws)), (LogKeyAuditAction, EnsureAction d),
         (LogKeyAuditOutcome, OutcomeSuccess)]
   | _ \<Rightarrow> State_Monad.return ())"

definition LogOIDCCallbackSuccess :: "log_fields \<Rightarrow> string \<Rightarrow> claims option \<Rightarrow> ('w, unit) gw" where
  "LogOIDCCallbackSuccess log requestID clo = (case clo of
     None \<Rightarrow> State_Monad.return ()
   | Some cl \<Rightarrow> LogAudit log ''audit: OIDC callback succeeded'' requestID EventAuditOIDCCallbackSuccess
        [(LogKeyActorSubject, clm_sub cl), (LogKeyUserID, clm_user_id cl), (LogKeyAuditOutcome, OutcomeSuccess)])"

definition LogOIDCCallbackFailure :: "log_fields \<Rightarrow> string \<Rightarrow> string \<Rightarrow> ('w, unit) gw" where
  "LogOIDCCallbackFailure log requestID reason =
     LogAudit log ''audit: OIDC callback failed'' requestID EventAuditOIDCCallbackFailure
       [(LogKeyAuditOutcome, OutcomeFailure), (LogKeyAuditReason, reason)]"

definition LogAuthTokenRejected ::
  "log_fields \<Rightarrow> string \<Rightarrow> string \<Rightarrow> string \<Rightarrow> int \<Rightarrow> string \<Rightarrow> ('w, unit) gw" where
  "LogAuthTokenRejected log requestID remote reason httpStatus code' =
     LogAudit log ''audit: token rejected'' requestID EventAuditAuthTokenRejected
       [(LogKeyAuditOutcome, OutcomeDenied), (''remote'', remote), (LogKeyAuditReason, reason),
        (''httpStatus'', Itoa httpStatus), (''errorCode'', code')]"

definition LogRateLimitAudit :: "log_fields \<Rightarrow> string \<Rightarrow> string \<Rightarrow> string \<Rightarrow> string \<Rightarrow> ('w, unit) gw" where
  "LogRateLimitAudit log requestID endpoint scope userID =
     LogAudit log ''audit: rate limit exceeded'' requestID EventAuditRateLimitExceeded
       [(LogKeyAuditOutcome, OutcomeDenied), (''endpoint'', endpoint), (''scope'', scope), (LogKeyUserID, userID)]"

section \<open>Counters\<close>

definition RecordJSONAPIError :: "int \<Rightarrow> string \<Rightarrow> ('w, unit) gw" where
  "RecordJSONAPIError httpStatus code' =
     emit (Inc ''devplane_gateway_json_api_errors_total'' [Itoa httpStatus, code'])"

definition RecordRateLimitHit :: "string \<Rightarrow> string \<Rightarrow> ('w, unit) gw" where
  "RecordRateLimitHit endpoint scope = emit (Inc ''devplane_gateway_rate_limit_hits_total'' [endpoint, scope])"

text \<open>The value of the counter after a trace.\<close>

definition RateLimitHitsTotal :: "gw_event list \<Rightarrow> string \<Rightarrow> string \<Rightarrow> nat" where
  "RateLimitHitsTotal t endpoint scope =
     count_list t (Inc ''devplane_gateway_rate_limit_hits_total'' [endpoint, scope])"

section \<open>Requests and error responses\<close>

text \<open>
  A request as the handlers read it: headers, cookies and query parameters, the first of a name
  being the one \<open>Get\<close> and \<open>Cookie\<close> return. \<open>Header.Get\<close> ignores the case of a name; the list has
  the names as the handlers spell them.
\<close>

record http_request =
  rq_method :: string
  rq_path :: string
  rq_headers :: "(string \<times> string) list"
  rq_cookies :: "(string \<times> string) list"
  rq_query :: "(string \<times> string) list"
  rq_remote :: string

definition get_or_empty :: "(string \<times> string) list \<Rightarrow> string \<Rightarrow> string" where
  "get_or_empty m k = (case map_of m k of None \<Rightarrow> '''' | Some v \<Rightarrow> v)"

definition RequestID :: "'w gw_env \<Rightarrow> http_request \<Rightarrow> ('w, string) gw" where
  "RequestID env r =
     (let hdr = get_or_empty (rq_headers r) ''X-Request-ID'' in
      if hdr \<noteq> '''' then do {
        _ \<leftarrow> emit (SetHeader ''X-Request-ID'' hdr);
        State_Monad.return hdr }
      else do {
        uid \<leftarrow> NewString env;
        _ \<leftarrow> emit (SetHeader ''X-Request-ID'' uid);
        State_Monad.return uid })"

definition WriteJSONError :: "int \<Rightarrow> string \<Rightarrow> ('w, unit) gw" where
  "WriteJSONError status code' = do {
     _ \<leftarrow> RecordJSONAPIError status code';
     _ \<leftarrow> emit (SetHeader ''Content-Type'' ''application/json; charset=utf-8'');
     _ \<leftarrow> emit (WriteHeader status);
     emit (Write (json_object [(''error'', json_string code')] @ [CHR 0x0A])) }"

definition WriteJSONAuthError :: "int \<Rightarrow> string \<Rightarrow> ('w, unit) gw" where
  "WriteJSONAuthError status code' = WriteJSONError status code'"

lemmas log_defs = log_info_def log_error_def LogAudit_def LogWorkspaceLifecycleAudit_def LogOIDCCallbackSuccess_def
  LogOIDCCallbackFailure_def LogAuthTokenRejected_def LogRateLimitAudit_def RecordJSONAPIError_def RecordRateLimitHit_def

section \<open>Rules for effects without an answer\<close>

lemma ensures_emit_bind [post_rules]:
  assumes "ensures (f ()) (\<lambda>b u. R b (e # u))"
  shows "ensures (State_Monad.bind (emit e) f) R"
  by (rule ensures_bind [OF ensures_emit, where Q = "\<lambda>_ t. t = [e]"]) (use assms in auto)

declare ensures_emit [post_rules]

lemma ensures_bind_assoc [post_rules]:
  "ensures (State_Monad.bind m (\<lambda>a. State_Monad.bind (f a) g)) R \<Longrightarrow> ensures (State_Monad.bind (State_Monad.bind m f) g) R"
  by simp

lemma ensures_bind_case_sum [post_rules]:
  "(\<And>a. x = Inl a \<Longrightarrow> ensures (State_Monad.bind (f a) h) Q) \<Longrightarrow> (\<And>b. x = Inr b \<Longrightarrow> ensures (State_Monad.bind (g b) h) Q)
   \<Longrightarrow> ensures (State_Monad.bind (case x of Inl a \<Rightarrow> f a | Inr b \<Rightarrow> g b) h) Q"
  by (cases x) auto

lemma ensures_bind_case_option [post_rules]:
  "(x = None \<Longrightarrow> ensures (State_Monad.bind m h) Q) \<Longrightarrow> (\<And>a. x = Some a \<Longrightarrow> ensures (State_Monad.bind (f a) h) Q)
   \<Longrightarrow> ensures (State_Monad.bind (case x of None \<Rightarrow> m | Some a \<Rightarrow> f a) h) Q"
  by (cases x) auto

lemma ensures_bind_if [post_rules]:
  "(b \<Longrightarrow> ensures (State_Monad.bind m h) Q) \<Longrightarrow> (\<not> b \<Longrightarrow> ensures (State_Monad.bind n h) Q)
   \<Longrightarrow> ensures (State_Monad.bind (if b then m else n) h) Q"
  by simp

lemma ensures_bind_return [post_rules]:
  "ensures (h a) Q \<Longrightarrow> ensures (State_Monad.bind (State_Monad.return a) h) Q"
  by simp

section \<open>An example\<close>

text \<open>An environment that takes everything; its state counts the readings of the clock.\<close>

definition sample_gw :: "(string \<Rightarrow> string) \<Rightarrow> nat gw_env" where
  "sample_gw getenv = \<lparr>ge_getenv = getenv, ge_lower = id, ge_now = (\<lambda>w. (int w * Second, Suc w)),
     ge_uuid = (\<lambda>w. (''id-'' @ digits_of w, Suc w)), ge_mkdir = (\<lambda>_ w. (Inr (), w)), ge_open = (\<lambda>_ w. (Inr (), w)),
     ge_write = (\<lambda>_ _ w. (Inr (), w)), ge_dial_tcp = (\<lambda>_ w. (Inr (), w)), ge_auth_code_url = (\<lambda>st. ''https://idp/auth?state='' @ st),
     ge_exchange = (\<lambda>_ w. (Inr \<lparr>tok_id_token = Some ''token'', tok_expiry = None\<rparr>, w)), ge_upgrade = (\<lambda>_ w. (Inr ''tty'', w)),
     ge_dial_ws = (\<lambda>_ _ _ _ w. (Inr (), w)), ge_read = (\<lambda>_ w. (Inl (new_error ''closed''), w)),
     ge_send = (\<lambda>_ _ _ w. (Inr (), w)), ge_is_close = (\<lambda>_ _. False),
     ge_round_trip = (\<lambda>_ w. (Inl (new_error ''refused''), w))\<rparr>"

end
