(* ===== verification/Pages.thy ===== *)
theory Pages
  imports Gateway_Env
begin

text \<open>
  The texts the gateway serves itself (\<open>cmd/gateway/main.go\<close>): the loading page, with its values
  escaped as \<open>html/template\<close> does in text, and the style sheet injected into the terminal page of
  the backend.
\<close>

section \<open>The loading page\<close>

text \<open>Escaping of a value in the text of an element.\<close>

definition html_escape_char :: "char \<Rightarrow> string" where
  "html_escape_char c =
     (if code c = 0 then [CHR 0xEF, CHR 0xBF, CHR 0xBD]
      else if c = CHR 0x22 then ''&#34;''
      else if c = CHR ''&'' then ''&amp;''
      else if c = CHR 0x27 then ''&#39;''
      else if c = CHR ''+'' then ''&#43;''
      else if c = CHR ''<'' then ''&lt;''
      else if c = CHR ''>'' then ''&gt;''
      else [c])"

definition html_escape :: "string \<Rightarrow> string" where
  "html_escape s = concat (map html_escape_char s)"

definition page_lines :: "string list \<Rightarrow> string" where
  "page_lines ls = concat (map (\<lambda>l. l @ [CHR 0x0A]) ls)"

text \<open>The template up to the first value; the dash in the title is three bytes.\<close>

definition loading_head :: string where
  \<open>loading_head = page_lines [
    ''<!DOCTYPE html>'',
    ''<html lang="en">'',
    ''<head>'',
    ''  <meta charset="UTF-8">'',
    ''  <meta http-equiv="refresh" content="3">'',
    ''  <meta name="viewport" content="width=device-width, initial-scale=1.0">'',
    ''  <title>DevPlane '' @ [CHR 0xE2, CHR 0x80, CHR 0x93] @ '' Workspace Starting</title>'',
    ''  <style>'',
    ''    *, *::before, *::after { box-sizing: border-box; margin: 0; padding: 0; }'',
    ''    body {'',
    ''      display: flex; flex-direction: column; align-items: center;'',
    ''      justify-content: center; min-height: 100vh;'',
    ''      background: #0d1117; color: #e6edf3;'',
    ''      font-family: ui-monospace, SFMono-Regular, Menlo, Consolas, monospace;'',
    ''    }'',
    ''    .spinner {'',
    ''      width: 56px; height: 56px;'',
    ''      border: 5px solid #30363d; border-top-color: #58a6ff;'',
    ''      border-radius: 50%; animation: spin 0.9s linear infinite;'',
    ''      margin-bottom: 2rem;'',
    ''    }'',
    ''    @keyframes spin { to { transform: rotate(360deg); } }'',
    ''    h1 { font-size: 1.25rem; font-weight: 600; margin-bottom: 0.5rem; }'',
    ''    p  { font-size: 0.875rem; color: #8b949e; }'',
    ''  </style>'',
    ''</head>'',
    ''<body>'',
    ''  <div class="spinner"></div>''] @ ''  <h1>Hello ''\<close>

definition loading_middle :: string where
  "loading_middle = page_lines ['', your workspace is spawning&hellip;</h1>''] @ ''  <p>Phase: ''"

definition loading_tail :: string where
  "loading_tail = page_lines [''</p>'', ''</body>''] @ ''</html>''"

record loading_page_data =
  lp_display_name :: string
  lp_phase :: string

definition loading_page :: "loading_page_data \<Rightarrow> string" where
  "loading_page d =
     loading_head @ html_escape (lp_display_name d) @ loading_middle @ html_escape (lp_phase d) @ loading_tail"

definition serveLoadingPage :: "string \<Rightarrow> string \<Rightarrow> ('w, unit) gw" where
  "serveLoadingPage displayName phase = do {
     _ \<leftarrow> emit (SetHeader ''Content-Type'' ''text/html; charset=utf-8'');
     _ \<leftarrow> emit (WriteHeader 200);
     emit (Write (loading_page \<lparr>lp_display_name = displayName, lp_phase = phase\<rparr>)) }"

section \<open>The style sheet of the terminal page\<close>

definition fullWidthTerminalCSS :: string where
  "fullWidthTerminalCSS =
     ''<style>html,body{width:100%;height:100%;margin:0;padding:0;overflow:hidden;box-sizing:border-box}''
     @ ''body>div,#terminal{width:100%!important;height:100%!important;margin:0!important;padding:0!important;''
     @ ''box-sizing:border-box}</style>''"

text \<open>\<open>bytes.Replace\<close> with a count of one.\<close>

fun replace_first :: "string \<Rightarrow> string \<Rightarrow> string \<Rightarrow> string" where
  "replace_first [] old new = (if old = [] then new else [])"
| "replace_first (c # cs) old new =
     (if HasPrefix (c # cs) old then new @ drop (length old) (c # cs) else c # replace_first cs old new)"

definition headClose :: string where "headClose = ''</head>''"

definition injectFullWidthTerminalCSS :: "http_response \<Rightarrow> http_response res" where
  "injectFullWidthTerminalCSS resp =
     (if rsp_status resp \<noteq> 200 then Inr resp
      else if \<not> Contains (get_or_empty (rsp_headers resp) ''Content-Type'') ''text/html'' then Inr resp
      else case rsp_body resp of
        Inl e \<Rightarrow> Inl e
      | Inr body \<Rightarrow>
          if \<not> Contains body headClose then Inr resp
          else (let injected = replace_first body headClose (fullWidthTerminalCSS @ headClose) in
            Inr (resp\<lparr>rsp_body := Inr injected, rsp_content_length := int (length injected),
              rsp_headers := AList.delete ''Transfer-Encoding''
                (AList.update ''Content-Length'' (Itoa (int (length injected))) (rsp_headers resp))\<rparr>)))"

section \<open>Lemmas\<close>

text \<open>No value can open or close an element, an attribute or a character reference of its own.\<close>

lemma html_escape_safe:
  "set (html_escape s) \<inter> {CHR ''<'', CHR ''>'', CHR 0x22, CHR 0x27} = {}"
  by (induction s) (auto simp: html_escape_def html_escape_char_def)

lemma replace_first_split:
  assumes "Contains s old" and "old \<noteq> []"
  shows "\<exists>a b. s = a @ old @ b \<and> replace_first s old new = a @ new @ b \<and> \<not> Contains (a @ butlast old) old"
  using assms(1)
proof (induction s)
  case Nil
  then show ?case using assms(2) by simp
next
  case (Cons c cs)
  show ?case
  proof (cases "HasPrefix (c # cs) old")
    case True
    then have "c # cs = old @ drop (length old) (c # cs)" by (metis HasPrefix_def append_take_drop_id)
    moreover have "\<not> Contains (butlast old) old"
      using assms(2) by (cases old rule: rev_cases) (auto simp: Contains_sublist dest!: sublist_length_le)
    ultimately show ?thesis using True by (intro exI [of _ "[]"] exI [of _ "drop (length old) (c # cs)"]) auto
  next
    case False
    then obtain a b where ab: "cs = a @ old @ b" "replace_first cs old new = a @ new @ b" "\<not> Contains (a @ butlast old) old"
      using Cons by auto
    have "\<not> HasPrefix (c # a @ butlast old) old"
    proof
      assume "HasPrefix (c # a @ butlast old) old"
      then have "prefix old (c # a @ butlast old)" by (simp add: HasPrefix_prefix)
      moreover have "prefix (c # a @ butlast old) (c # cs)"
        using assms(2) by (auto simp: ab(1) prefix_def) (metis append_butlast_last_id append_assoc)
      ultimately have "prefix old (c # cs)" by (rule prefix_order.trans)
      then show False using False by (simp add: HasPrefix_prefix)
    qed
    with ab False show ?thesis by (intro exI [of _ "c # a"] exI [of _ b]) auto
  qed
qed

text \<open>
  The injection puts the style sheet right before the first end of the head and changes nothing
  else of the body; the declared length is that of the new body.
\<close>

lemma inject_body:
  assumes "rsp_status resp = 200" and "Contains (get_or_empty (rsp_headers resp) ''Content-Type'') ''text/html''"
    and "rsp_body resp = Inr body" and "Contains body headClose"
  shows "\<exists>a b. body = a @ headClose @ b \<and> \<not> Contains a headClose
    \<and> injectFullWidthTerminalCSS resp = Inr (resp\<lparr>rsp_body := Inr (a @ fullWidthTerminalCSS @ headClose @ b),
        rsp_content_length := int (length body + length fullWidthTerminalCSS),
        rsp_headers := AList.delete ''Transfer-Encoding''
          (AList.update ''Content-Length'' (Itoa (int (length body + length fullWidthTerminalCSS))) (rsp_headers resp))\<rparr>)"
proof -
  obtain a b where ab: "body = a @ headClose @ b"
    "replace_first body headClose (fullWidthTerminalCSS @ headClose) = a @ (fullWidthTerminalCSS @ headClose) @ b"
    "\<not> Contains (a @ butlast headClose) headClose"
    using replace_first_split [OF assms(4), of "fullWidthTerminalCSS @ headClose"] by (auto simp del: replace_first.simps simp: headClose_def)
  have "\<not> Contains a headClose"
    using ab(3) by (auto simp: Contains_sublist sublist_append)
  then show ?thesis using assms ab
    by (intro exI [of _ a] exI [of _ b]) (simp add: injectFullWidthTerminalCSS_def Let_def algebra_simps)
qed

end
