(* ===== verification/Proxy.thy ===== *)
theory Proxy
  imports Gateway_Env
begin

text \<open>
  \<open>pkg/gateway/proxy.go\<close>: the WebSocket tunnel between a browser and the terminal server of a
  workspace pod. Two goroutines copy frames, one per direction; the handler waits for the first of
  them to end. They run in any interleaving: a schedule says whose turn it is, a turn being one
  call on a connection or one callback. A schedule that ends before the handler has returned gives
  \<open>None\<close>. The callbacks are functions on the state \<open>'c\<close> their closures share.
\<close>

section \<open>Addresses\<close>

definition gw_ttydPort :: int where "gw_ttydPort = 7681"

definition backendDialTimeout :: duration where "backendDialTimeout = 30 * Second"

definition maxWSFrameBytes :: int where "maxWSFrameBytes = 2 ^ 20"

definition backendReadyTimeout :: duration where "backendReadyTimeout = 5 * Second"

text \<open>The upgrade accepts every origin and offers the protocol of the terminal server.\<close>

definition upgrader :: ws_upgrader where
  "upgrader = \<lparr>wu_handshake_timeout = 10 * Second, wu_check_origin = (\<lambda>_. True), wu_subprotocols = [''tty'']\<rparr>"

definition wsBackendDialer :: ws_dialer where
  "wsBackendDialer = \<lparr>wd_proxy_from_environment = True, wd_handshake_timeout = backendDialTimeout\<rparr>"

text \<open>\<open>url.URL.String\<close> for a scheme and a host: a byte a host may not have becomes \<open>%XX\<close>.\<close>

definition host_char :: "char \<Rightarrow> bool" where
  "host_char c \<longleftrightarrow> is_alnum c \<or> 65 \<le> code c \<and> code c \<le> 90
     \<or> c \<in> set ''-_.~!$&()*+,;=:[]<>'' \<or> c = CHR 0x27 \<or> c = CHR 0x22"

definition upper_hex :: "nat \<Rightarrow> char" where
  "upper_hex n = char_of (if n < 10 then 48 + n else 55 + n)"

definition escape_host :: "string \<Rightarrow> string" where
  "escape_host s = concat (map (\<lambda>c. if host_char c then [c]
     else [CHR ''%'', upper_hex (code c div 16), upper_hex (code c mod 16)]) s)"

definition url_string :: "string \<Rightarrow> string \<Rightarrow> string" where
  "url_string scheme host = scheme @ ''://'' @ escape_host host"

definition BackendURL :: "string \<Rightarrow> string" where
  "BackendURL serviceEndpoint = url_string ''ws'' (serviceEndpoint @ '':'' @ Itoa gw_ttydPort)"

definition BackendHTTPURL :: "string \<Rightarrow> string" where
  "BackendHTTPURL serviceEndpoint = url_string ''http'' (serviceEndpoint @ '':'' @ Itoa gw_ttydPort)"

definition JoinHostPort :: "string \<Rightarrow> string \<Rightarrow> string" where
  "JoinHostPort host port =
     (if CHR '':'' \<in> set host then ''['' @ host @ '']:'' @ port else host @ '':'' @ port)"

definition BackendReady :: "'w gw_env \<Rightarrow> string \<Rightarrow> ('w, bool) gw" where
  "BackendReady env serviceEndpoint =
     (let addr = JoinHostPort serviceEndpoint (Itoa gw_ttydPort) in do {
        r \<leftarrow> ask (ge_dial_tcp env addr) (DialTCP addr);
        State_Monad.return (case r of Inl _ \<Rightarrow> False | Inr _ \<Rightarrow> True) })"

section \<open>Copying frames\<close>

text \<open>Message types and close codes of the protocol.\<close>

definition CloseMessage :: int where "CloseMessage = 8"
definition CloseNormalClosure :: int where "CloseNormalClosure = 1000"
definition CloseGoingAway :: int where "CloseGoingAway = 1001"

text \<open>\<open>websocket.FormatCloseMessage(1000, "")\<close>: the code, most significant byte first.\<close>

definition normal_close_payload :: string where
  "normal_close_payload = [char_of (1000 div 256 :: nat), char_of (1000 mod 256 :: nat)]"

text \<open>Where a copy loop is: before a read, or with a message on its way.\<close>

datatype copy_pc = CopyRead | CopyWrite int string | CopyActivity int string | CopyFrame int string | CopyEnd

type_synonym ('w, 'c) activity_fn = "'c \<Rightarrow> ('w, 'c) gw"
type_synonym ('w, 'c) frame_observer = "string \<Rightarrow> int \<Rightarrow> string \<Rightarrow> 'c \<Rightarrow> ('w, 'c) gw"

text \<open>
  One turn of \<open>copyFrames\<close>: where the loop is then, the state of the callbacks, and the error it
  sent on the channel.
\<close>

definition copyFrames ::
  "'w gw_env \<Rightarrow> peer \<Rightarrow> peer \<Rightarrow> string \<Rightarrow> ('w, 'c) activity_fn option \<Rightarrow> ('w, 'c) frame_observer option
    \<Rightarrow> copy_pc \<Rightarrow> 'c \<Rightarrow> ('w, copy_pc \<times> 'c \<times> go_error option) gw" where
  "copyFrames env dst src direction onActivity onFrame pc c = (case pc of
     CopyRead \<Rightarrow> do {
       r \<leftarrow> ask (ge_read env src) (ReadMessage src);
       case r of
         Inl e \<Rightarrow> do {
           _ \<leftarrow> (if ge_is_close env e [CloseNormalClosure, CloseGoingAway]
                then ask (ge_send env dst CloseMessage normal_close_payload) (WriteMessage dst CloseMessage normal_close_payload)
                else State_Monad.return (Inr ()));
           State_Monad.return (CopyEnd, c, Some e) }
       | Inr (msgType, d) \<Rightarrow> State_Monad.return (CopyWrite msgType d, c, None) }
   | CopyWrite msgType d \<Rightarrow> do {
       r \<leftarrow> ask (ge_send env dst msgType d) (WriteMessage dst msgType d);
       case r of
         Inl e \<Rightarrow> State_Monad.return (CopyEnd, c, Some e)
       | Inr _ \<Rightarrow> State_Monad.return (CopyActivity msgType d, c, None) }
   | CopyActivity msgType d \<Rightarrow> do {
       c' \<leftarrow> (case onActivity of None \<Rightarrow> State_Monad.return c | Some f \<Rightarrow> f c);
       State_Monad.return (CopyFrame msgType d, c', None) }
   | CopyFrame msgType d \<Rightarrow> do {
       c' \<leftarrow> (case onFrame of None \<Rightarrow> State_Monad.return c | Some f \<Rightarrow> f direction msgType d c);
       State_Monad.return (CopyRead, c', None) }
   | CopyEnd \<Rightarrow> State_Monad.return (CopyEnd, c, None))"

section \<open>The tunnel\<close>

record 'c tunnel =
  tn_out :: copy_pc
  tn_in :: copy_pc
  tn_errc :: "go_error list"
  tn_cb :: 'c

datatype turn = FirstLoop | SecondLoop | Handler

text \<open>
  The two loops with the labels \<open>ServeWS\<close> gives them: the first reads from the backend and writes
  to the client, the second the other way round.
\<close>

definition first_loop ::
  "'w gw_env \<Rightarrow> ('w, 'c) activity_fn option \<Rightarrow> ('w, 'c) frame_observer option \<Rightarrow> 'c tunnel \<Rightarrow> ('w, 'c tunnel) gw" where
  "first_loop env onActivity onFrame st = do {
     x \<leftarrow> copyFrames env Client Backend ''client_to_backend'' onActivity onFrame (tn_out st) (tn_cb st);
     (case x of (pc, c, e) \<Rightarrow> State_Monad.return
        (st\<lparr>tn_out := pc, tn_cb := c, tn_errc := tn_errc st @ (case e of None \<Rightarrow> [] | Some e \<Rightarrow> [e])\<rparr>)) }"

definition second_loop ::
  "'w gw_env \<Rightarrow> ('w, 'c) activity_fn option \<Rightarrow> ('w, 'c) frame_observer option \<Rightarrow> 'c tunnel \<Rightarrow> ('w, 'c tunnel) gw" where
  "second_loop env onActivity onFrame st = do {
     x \<leftarrow> copyFrames env Backend Client ''backend_to_client'' onActivity onFrame (tn_in st) (tn_cb st);
     (case x of (pc, c, e) \<Rightarrow> State_Monad.return
        (st\<lparr>tn_in := pc, tn_cb := c, tn_errc := tn_errc st @ (case e of None \<Rightarrow> [] | Some e \<Rightarrow> [e])\<rparr>)) }"

fun run_tunnel ::
  "'w gw_env \<Rightarrow> ('w, 'c) activity_fn option \<Rightarrow> ('w, 'c) frame_observer option \<Rightarrow> turn list \<Rightarrow> 'c tunnel
    \<Rightarrow> ('w, go_error option \<times> 'c tunnel) gw" where
  "run_tunnel env onActivity onFrame [] st = State_Monad.return (None, st)"
| "run_tunnel env onActivity onFrame (Handler # ts) st = (case tn_errc st of
     [] \<Rightarrow> run_tunnel env onActivity onFrame ts st
   | e # es \<Rightarrow> State_Monad.return (Some e, st\<lparr>tn_errc := es\<rparr>))"
| "run_tunnel env onActivity onFrame (FirstLoop # ts) st = do {
     st' \<leftarrow> first_loop env onActivity onFrame st;
     run_tunnel env onActivity onFrame ts st' }"
| "run_tunnel env onActivity onFrame (SecondLoop # ts) st = do {
     st' \<leftarrow> second_loop env onActivity onFrame st;
     run_tunnel env onActivity onFrame ts st' }"

text \<open>
  \<open>ServeWS\<close>: the result is what the function returned, \<open>Some None\<close> being nil, with the state of
  the callbacks; \<open>None\<close> while the tunnel is still open.
\<close>

definition ServeWS ::
  "'w gw_env \<Rightarrow> turn list \<Rightarrow> log_fields \<Rightarrow> string \<Rightarrow> ('w, 'c) activity_fn option \<Rightarrow> ('w, 'c) frame_observer option \<Rightarrow> 'c
    \<Rightarrow> ('w, go_error option option \<times> 'c) gw" where
  "ServeWS env sched log backendURL onActivity onFrame c = do {
     u \<leftarrow> ask (ge_upgrade env upgrader) Upgraded;
     case u of
       Inl e \<Rightarrow> State_Monad.return (Some (Some (errorf_w ''upgrade client connection'' e)), c)
     | Inr subproto \<Rightarrow>
       (let hdr = (if subproto \<noteq> '''' then Some subproto else None) in do {
          b \<leftarrow> ask (ge_dial_ws env wsBackendDialer backendDialTimeout backendURL hdr) (DialWS backendURL hdr);
          case b of
            Inl e \<Rightarrow> do {
              _ \<leftarrow> emit (CloseConn Client);
              State_Monad.return (Some (Some (errorf_w (''dial backend '' @ Quote backendURL) e)), c) }
          | Inr _ \<Rightarrow> do {
              _ \<leftarrow> emit (ReadLimit Client maxWSFrameBytes);
              _ \<leftarrow> emit (ReadLimit Backend maxWSFrameBytes);
              _ \<leftarrow> log_info log ''WebSocket tunnel open''
                [(LogKeyComponent, ComponentGateway), (LogKeyEvent, EventWSProxyStart), (''backend'', backendURL)];
              x \<leftarrow> run_tunnel env onActivity onFrame sched \<lparr>tn_out = CopyRead, tn_in = CopyRead, tn_errc = [], tn_cb = c\<rparr>;
              (case x of
                 (None, st) \<Rightarrow> State_Monad.return (None, tn_cb st)
               | (Some e, st) \<Rightarrow> do {
                   _ \<leftarrow> log_info log ''WebSocket tunnel closed''
                     [(LogKeyComponent, ComponentGateway), (LogKeyEvent, EventWSProxySessionEnd),
                      (''backend'', backendURL), (''reason'', err_text e)];
                   _ \<leftarrow> emit (CloseConn Backend);
                   _ \<leftarrow> emit (CloseConn Client);
                   State_Monad.return (Some None, tn_cb st) }) } }) }"

end
