(* ===== verification/Recording.thy ===== *)
theory Recording
  imports Gateway_Env Go_Crypto
begin

text \<open>
  \<open>pkg/gateway/session_recording.go\<close>: the optional record of a terminal session. Every frame
  becomes one JSON line with a hash over its fields and the hash of the line before it; when the
  session ends a manifest keeps the number of frames and the last hash.

  A recorder is passed through the calls explicitly; \<open>None\<close> is the nil pointer. Its mutex makes
  each call one step. \<open>sr_file\<close> is the path of the open file; after \<open>Close\<close> it is \<open>None\<close>, and
  the encoder, which still holds the closed file, fails.
\<close>

section \<open>Data\<close>

type_synonym session_recording_mode = string

abbreviation SessionRecordingOff :: session_recording_mode where "SessionRecordingOff \<equiv> ''off''"
abbreviation SessionRecordingMetadataOnly :: session_recording_mode where
  "SessionRecordingMetadataOnly \<equiv> ''metadata''"
abbreviation SessionRecordingFull :: session_recording_mode where "SessionRecordingFull \<equiv> ''full''"

record session_recording_config =
  src_enabled :: bool
  src_mode :: session_recording_mode
  src_dir :: string

record session_meta =
  sm_session_id :: string
  sm_request_id :: string
  sm_subject :: string
  sm_user_id :: string
  sm_namespace :: string
  sm_workspace :: string
  sm_backend :: string
  sm_remote :: string
  sm_started_at :: string

record session_frame_record =
  fr_timestamp :: string
  fr_seq :: "64 word"
  fr_direction :: string
  fr_message_type :: int
  fr_payload_bytes :: nat
  fr_payload_sha :: string
  fr_prev_hash :: string
  fr_entry_hash :: string
  fr_payload_b64 :: string

record session_manifest =
  man_schema_version :: string
  man_mode :: string
  man_meta :: session_meta
  man_frame_count :: "64 word"
  man_final_hash :: string
  man_closed_at :: string
  man_close_reason :: string

record session_recorder =
  sr_log :: log_fields
  sr_cfg :: session_recording_config
  sr_meta :: session_meta
  sr_file :: "string option"
  sr_enc_err :: "go_error option"
  sr_seq :: "64 word"
  sr_prev :: string

section \<open>Paths\<close>

text \<open>\<open>filepath.Clean\<close> and \<open>filepath.Join\<close> on Unix.\<close>

fun clean_parts :: "bool \<Rightarrow> string list \<Rightarrow> string list \<Rightarrow> string list" where
  "clean_parts rooted out [] = rev out"
| "clean_parts rooted out (p # ps) =
     (if p = '''' \<or> p = ''.'' then clean_parts rooted out ps
      else if p = ''..'' then
        (case out of
           [] \<Rightarrow> clean_parts rooted (if rooted then [] else [''..'']) ps
         | x # xs \<Rightarrow> clean_parts rooted (if x = ''..'' then ''..'' # out else xs) ps)
      else clean_parts rooted (p # out) ps)"

definition filepath_Clean :: "string \<Rightarrow> string" where
  "filepath_Clean s =
     (if s = '''' then ''.''
      else let rooted = HasPrefix s ''/'';
               r = join_with CHR ''/'' (clean_parts rooted [] (Split s CHR ''/''))
           in if rooted then CHR ''/'' # r else if r = '''' then ''.'' else r)"

definition filepath_Join :: "string \<Rightarrow> string \<Rightarrow> string" where
  "filepath_Join a b =
     (case filter (\<lambda>x. x \<noteq> '''') [a, b] of [] \<Rightarrow> '''' | xs \<Rightarrow> filepath_Clean (join_with CHR ''/'' xs))"

section \<open>Encoding\<close>

text \<open>A field with \<open>omitempty\<close> is left out when it is the empty string.\<close>

definition str_field :: "string \<Rightarrow> string \<Rightarrow> (string \<times> string) list" where
  "str_field k v = [(k, json_string v)]"

definition opt_field :: "string \<Rightarrow> string \<Rightarrow> (string \<times> string) list" where
  "opt_field k v = (if v = '''' then [] else [(k, json_string v)])"

definition frame_fields :: "session_frame_record \<Rightarrow> (string \<times> string) list" where
  "frame_fields r =
     str_field ''timestampUtc'' (fr_timestamp r)
     @ [(''seq'', digits_of (unat (fr_seq r)))]
     @ str_field ''direction'' (fr_direction r)
     @ [(''messageType'', Itoa (fr_message_type r)), (''payloadBytes'', digits_of (fr_payload_bytes r))]
     @ str_field ''payloadSha256'' (fr_payload_sha r)
     @ str_field ''prevHash'' (fr_prev_hash r)
     @ str_field ''entryHash'' (fr_entry_hash r)
     @ opt_field ''payloadBase64'' (fr_payload_b64 r)"

text \<open>\<open>enc.Encode\<close>: the object and a newline.\<close>

definition frame_line :: "session_frame_record \<Rightarrow> string" where
  "frame_line r = json_object (frame_fields r) @ [CHR 0x0A]"

text \<open>An object written with \<open>SetIndent("", "  ")\<close> at a depth; the values are already encoded.\<close>

definition json_indented :: "nat \<Rightarrow> (string \<times> string) list \<Rightarrow> string" where
  "json_indented d fs =
     (let nl = (\<lambda>n. CHR 0x0A # replicate (2 * n) CHR '' '') in
      ''{'' @ json_sep (map (\<lambda>(k, v). nl (Suc d) @ json_string k @ '': '' @ v) fs) @ nl d @ ''}'')"

definition meta_fields :: "session_meta \<Rightarrow> (string \<times> string) list" where
  "meta_fields m =
     str_field ''sessionId'' (sm_session_id m)
     @ opt_field ''requestId'' (sm_request_id m)
     @ opt_field ''subject'' (sm_subject m)
     @ opt_field ''userId'' (sm_user_id m)
     @ opt_field ''namespace'' (sm_namespace m)
     @ opt_field ''workspace'' (sm_workspace m)
     @ opt_field ''backend'' (sm_backend m)
     @ opt_field ''remote'' (sm_remote m)
     @ str_field ''startedAt'' (sm_started_at m)"

definition manifest_text :: "session_manifest \<Rightarrow> string" where
  "manifest_text m = json_indented 0
     (str_field ''schemaVersion'' (man_schema_version m)
      @ str_field ''mode'' (man_mode m)
      @ [(''meta'', json_indented 1 (meta_fields (man_meta m))),
         (''frameCount'', digits_of (unat (man_frame_count m)))]
      @ str_field ''finalHash'' (man_final_hash m)
      @ str_field ''closedAt'' (man_closed_at m)
      @ opt_field ''closeReason'' (man_close_reason m)) @ [CHR 0x0A]"

section \<open>Configuration\<close>

text \<open>
  \<open>strings.EqualFold\<close> against a text in lower case whose letters have no other fold than their
  ASCII capitals, as those of \<open>true\<close>.
\<close>

definition EqualFold_ascii :: "string \<Rightarrow> string \<Rightarrow> bool" where
  "EqualFold_ascii s t \<longleftrightarrow> map lower_ascii s = t"

definition SessionRecordingConfigFromEnv :: "'w gw_env \<Rightarrow> session_recording_config" where
  "SessionRecordingConfigFromEnv env =
     (let enabled = EqualFold_ascii (TrimSpace (ge_getenv env ''SESSION_RECORDING_ENABLED'')) ''true'';
          m = ToLower (ge_lower env) (TrimSpace (ge_getenv env ''SESSION_RECORDING_MODE''));
          mode = (if m = '''' \<or> m = ''metadata'' then SessionRecordingMetadataOnly
                  else if m = ''full'' then SessionRecordingFull
                  else if m = ''off'' then SessionRecordingOff
                  else SessionRecordingMetadataOnly);
          dir = TrimSpace (ge_getenv env ''SESSION_RECORDING_DIR'');
          dir = (if dir = '''' then ''/tmp/devplane-sessions'' else dir);
          mode = (if \<not> enabled then SessionRecordingOff else mode)
      in \<lparr>src_enabled = (enabled \<and> mode \<noteq> SessionRecordingOff), src_mode = mode, src_dir = dir\<rparr>)"

section \<open>The recorder\<close>

definition fill_session_id :: "'w gw_env \<Rightarrow> session_meta \<Rightarrow> ('w, session_meta) gw" where
  "fill_session_id env m =
     (if sm_session_id m = '''' then do {
        u \<leftarrow> NewString env;
        State_Monad.return (m\<lparr>sm_session_id := u\<rparr>) }
      else State_Monad.return m)"

definition fill_started_at :: "'w gw_env \<Rightarrow> session_meta \<Rightarrow> ('w, session_meta) gw" where
  "fill_started_at env m =
     (if sm_started_at m = '''' then do {
        t \<leftarrow> gw_now env;
        State_Monad.return (m\<lparr>sm_started_at := RFC3339Nano t\<rparr>) }
      else State_Monad.return m)"

definition NewSessionRecorder ::
  "'w gw_env \<Rightarrow> log_fields \<Rightarrow> session_recording_config \<Rightarrow> session_meta \<Rightarrow> ('w, session_recorder option) gw" where
  "NewSessionRecorder env log cfg m0 =
     (if \<not> src_enabled cfg \<or> src_mode cfg = SessionRecordingOff then State_Monad.return None
      else do {
        m1 \<leftarrow> fill_session_id env m0;
        m2 \<leftarrow> fill_started_at env m1;
        d \<leftarrow> ask (ge_mkdir env (src_dir cfg)) (MkdirAll (src_dir cfg));
        case d of
          Inl e \<Rightarrow> do {
            _ \<leftarrow> log_error log e ''session recording disabled: failed to create directory'' [(''dir'', src_dir cfg)];
            State_Monad.return None }
        | Inr _ \<Rightarrow> (let recordPath = filepath_Join (src_dir cfg) (sm_session_id m2 @ ''.ndjson'') in do {
            f \<leftarrow> ask (ge_open env recordPath) (OpenFile recordPath);
            case f of
              Inl e \<Rightarrow> do {
                _ \<leftarrow> log_error log e ''session recording disabled: failed to create file'' [(''path'', recordPath)];
                State_Monad.return None }
            | Inr _ \<Rightarrow> do {
                _ \<leftarrow> log_info log ''Session recording enabled''
                  [(''sessionId'', sm_session_id m2), (''mode'', src_mode cfg), (''path'', recordPath),
                   (LogKeyComponent, ComponentGateway), (LogKeyEvent, ''devplane.session_recording.start'')];
                State_Monad.return (Some \<lparr>sr_log = log, sr_cfg = cfg, sr_meta = m2, sr_file = Some recordPath,
                  sr_enc_err = None, sr_seq = 0, sr_prev = ''''\<rparr>) } }) })"

text \<open>The text an entry hash covers, and the hash.\<close>

definition sum_input :: "string \<Rightarrow> 64 word \<Rightarrow> string \<Rightarrow> int \<Rightarrow> string \<Rightarrow> string \<Rightarrow> string" where
  "sum_input prev q direction messageType payloadSHA ts =
     join_with CHR ''|'' [prev, digits_of (unat q), direction, Itoa messageType, payloadSHA, ts]"

definition hash_text :: "string \<Rightarrow> string" where
  "hash_text s = EncodeToString (Sum256 s)"

text \<open>
  \<open>enc.Encode(rec)\<close> on the recorder's file. A \<open>json.Encoder\<close> keeps the error of its first failed
  write and returns it from then on without another write.
\<close>

definition encode_frame :: "'w gw_env \<Rightarrow> session_recorder \<Rightarrow> session_frame_record \<Rightarrow> ('w, unit res) gw" where
  "encode_frame env r rec = (case sr_enc_err r of
     Some e \<Rightarrow> State_Monad.return (Inl e)
   | None \<Rightarrow> (case sr_file r of
       None \<Rightarrow> State_Monad.return (Inl (new_error (''write ''
          @ filepath_Join (src_dir (sr_cfg r)) (sm_session_id (sr_meta r) @ ''.ndjson'') @ '': file already closed'')))
     | Some path \<Rightarrow> ask (ge_write env path (frame_line rec)) (FileWrite path (frame_line rec))))"

definition frame_record :: "session_recorder \<Rightarrow> string \<Rightarrow> int \<Rightarrow> string \<Rightarrow> instant \<Rightarrow> session_frame_record" where
  "frame_record r direction messageType payload t =
     (let payloadSHA = hash_text payload;
          ts = RFC3339Nano t;
          entryHash = hash_text (sum_input (sr_prev r) (sr_seq r) direction messageType payloadSHA ts)
      in \<lparr>fr_timestamp = ts, fr_seq = sr_seq r, fr_direction = direction, fr_message_type = messageType,
          fr_payload_bytes = length payload, fr_payload_sha = payloadSHA, fr_prev_hash = sr_prev r,
          fr_entry_hash = entryHash,
          fr_payload_b64 = (if src_mode (sr_cfg r) = SessionRecordingFull then base64_encode payload else '''')\<rparr>)"

definition RecordFrame ::
  "'w gw_env \<Rightarrow> string \<Rightarrow> int \<Rightarrow> string \<Rightarrow> session_recorder option \<Rightarrow> ('w, session_recorder option) gw" where
  "RecordFrame env direction messageType payload ro = (case ro of
     None \<Rightarrow> State_Monad.return None
   | Some r0 \<Rightarrow> (let r = r0\<lparr>sr_seq := sr_seq r0 + 1\<rparr> in do {
       t \<leftarrow> gw_now env;
       (let rec = frame_record r direction messageType payload t in do {
          x \<leftarrow> encode_frame env r rec;
          case x of
            Inl e \<Rightarrow> do {
              _ \<leftarrow> log_error (sr_log r) e ''session recording write failed''
                [(''sessionId'', sm_session_id (sr_meta r)), (LogKeyComponent, ComponentGateway),
                 (LogKeyEvent, ''devplane.session_recording.write_error'')];
              State_Monad.return (Some (r\<lparr>sr_enc_err := Some e\<rparr>)) }
          | Inr _ \<Rightarrow> State_Monad.return (Some (r\<lparr>sr_prev := fr_entry_hash rec\<rparr>)) }) }))"

definition manifest_of :: "session_recorder \<Rightarrow> string \<Rightarrow> instant \<Rightarrow> session_manifest" where
  "manifest_of r closeReason t =
     \<lparr>man_schema_version = ''1'', man_mode = src_mode (sr_cfg r), man_meta = sr_meta r, man_frame_count = sr_seq r,
      man_final_hash = sr_prev r, man_closed_at = RFC3339Nano t, man_close_reason = closeReason\<rparr>"

definition Close :: "'w gw_env \<Rightarrow> go_error option \<Rightarrow> session_recorder option \<Rightarrow> ('w, session_recorder option) gw" where
  "Close env closeErr ro = (case ro of
     None \<Rightarrow> State_Monad.return None
   | Some r \<Rightarrow> (case sr_file r of
       None \<Rightarrow> State_Monad.return (Some r)
     | Some path \<Rightarrow> (let manifestPath = filepath_Join (src_dir (sr_cfg r)) (sm_session_id (sr_meta r) @ ''.manifest.json'') in do {
         _ \<leftarrow> emit (FileClose path);
         f \<leftarrow> ask (ge_open env manifestPath) (OpenFile manifestPath);
         _ \<leftarrow> (case f of
            Inr _ \<Rightarrow> do {
              t \<leftarrow> gw_now env;
              (let text' = manifest_text (manifest_of r (case closeErr of None \<Rightarrow> '''' | Some e \<Rightarrow> err_text e) t) in do {
                 _ \<leftarrow> ask (ge_write env manifestPath text') (FileWrite manifestPath text');
                 emit (FileClose manifestPath) }) }
          | Inl e \<Rightarrow> log_error (sr_log r) e ''session recording manifest write failed''
              [(''sessionId'', sm_session_id (sr_meta r))]);
         _ \<leftarrow> log_info (sr_log r) ''Session recording closed''
           [(''sessionId'', sm_session_id (sr_meta r)), (''frameCount'', digits_of (unat (sr_seq r))),
            (''finalHash'', sr_prev r), (''manifestPath'', manifestPath),
            (LogKeyComponent, ComponentGateway), (LogKeyEvent, ''devplane.session_recording.end'')];
         State_Monad.return (Some (r\<lparr>sr_file := None\<rparr>)) })))"

end
