(* ===== verification/Ratelimit.thy ===== *)
theory Ratelimit
  imports Complex_Main Go_Time "HOL-Library.AList"
begin

text \<open>
  \<open>pkg/gateway/ratelimit.go\<close>: the optional global and per-identity rate limits of an endpoint.
  The token bucket of \<open>golang.org/x/time/rate\<close> and the decimal conversion \<open>strconv.ParseFloat\<close>
  are arguments; of a \<open>float64\<close> the code only compares with zero. The contract of a token bucket
  is a locale, in which the bound on what one identity gets through is proved; a bucket with
  exact arithmetic provides it.
\<close>

section \<open>The code\<close>

datatype float64 = NaN | Finite rat | PosInf | NegInf

definition fpos :: "float64 \<Rightarrow> bool" where
  "fpos f = (case f of Finite q \<Rightarrow> q > 0 | PosInf \<Rightarrow> True | _ \<Rightarrow> False)"

definition fnonpos :: "float64 \<Rightarrow> bool" where
  "fnonpos f = (case f of Finite q \<Rightarrow> q \<le> 0 | NegInf \<Rightarrow> True | _ \<Rightarrow> False)"

text \<open>\<open>rate.NewLimiter\<close>, \<open>Limiter.Allow\<close> at a time, and \<open>strconv.ParseFloat\<close>.\<close>

record 'l rate_lib =
  rl_new :: "float64 \<Rightarrow> int \<Rightarrow> 'l"
  rl_allow :: "instant \<Rightarrow> 'l \<Rightarrow> bool \<times> 'l"
  rl_parse_float :: "string \<Rightarrow> float64 option"

record 'l endpoint_limiter =
  el_global :: "'l option"
  el_user_rps :: float64
  el_user_burst :: int
  el_users :: "(string \<times> 'l) list"

definition NewEndpointLimiter ::
  "'l rate_lib \<Rightarrow> float64 \<Rightarrow> int \<Rightarrow> float64 \<Rightarrow> int \<Rightarrow> 'l endpoint_limiter option" where
  "NewEndpointLimiter lib globalRPS globalBurst userRPS userBurst =
     (let g = (if fpos globalRPS \<and> globalBurst > 0 then Some (rl_new lib globalRPS globalBurst) else None)
      in if fnonpos userRPS \<and> g = None then None
         else Some \<lparr>el_global = g, el_user_rps = userRPS,
                el_user_burst = (if userBurst \<le> 0 then 1 else userBurst), el_users = []\<rparr>)"

text \<open>\<open>users.LoadOrStore(key, NewLimiter(...))\<close> and \<open>Allow\<close> on what it returns.\<close>

definition user_allow :: "'l rate_lib \<Rightarrow> instant \<Rightarrow> string \<Rightarrow> 'l endpoint_limiter \<Rightarrow> bool \<times> 'l endpoint_limiter" where
  "user_allow lib t userKey e =
     (let lim = (case map_of (el_users e) userKey of
            None \<Rightarrow> rl_new lib (el_user_rps e) (el_user_burst e) | Some l \<Rightarrow> l)
      in case rl_allow lib t lim of
           (ok, lim') \<Rightarrow> (ok, e\<lparr>el_users := AList.update userKey lim' (el_users e)\<rparr>))"

definition Allow ::
  "'l rate_lib \<Rightarrow> instant \<Rightarrow> string \<Rightarrow> 'l endpoint_limiter option \<Rightarrow> (bool \<times> string) \<times> 'l endpoint_limiter option" where
  "Allow lib t userKey eo = (case eo of
     None \<Rightarrow> ((True, ''''), None)
   | Some e \<Rightarrow>
      (case (case el_global e of None \<Rightarrow> (True, e)
             | Some g \<Rightarrow> (case rl_allow lib t g of (ok, g') \<Rightarrow> (ok, e\<lparr>el_global := Some g'\<rparr>))) of
         (False, e) \<Rightarrow> ((False, ''global''), Some e)
       | (True, e) \<Rightarrow>
           if fnonpos (el_user_rps e) then ((True, ''''), Some e)
           else (case user_allow lib t userKey e of
               (False, e) \<Rightarrow> ((False, ''user''), Some e)
             | (True, e) \<Rightarrow> ((True, ''''), Some e))))"

definition parseFloatEnv :: "'l rate_lib \<Rightarrow> (string \<Rightarrow> string) \<Rightarrow> string \<Rightarrow> float64" where
  "parseFloatEnv lib getenv key =
     (let v = getenv key in if v = '''' then Finite 0
      else case rl_parse_float lib v of None \<Rightarrow> Finite 0 | Some f \<Rightarrow> f)"

definition parseIntEnv :: "(string \<Rightarrow> string) \<Rightarrow> string \<Rightarrow> int" where
  "parseIntEnv getenv key =
     (let v = getenv key in if v = '''' then 0 else case Atoi v of None \<Rightarrow> 0 | Some n \<Rightarrow> n)"

definition LoadEndpointLimiterFromEnv ::
  "'l rate_lib \<Rightarrow> (string \<Rightarrow> string) \<Rightarrow> string \<Rightarrow> 'l endpoint_limiter option" where
  "LoadEndpointLimiterFromEnv lib getenv pfx = NewEndpointLimiter lib
     (parseFloatEnv lib getenv (pfx @ ''GLOBAL_RPS'')) (parseIntEnv getenv (pfx @ ''GLOBAL_BURST''))
     (parseFloatEnv lib getenv (pfx @ ''PER_USER_RPS'')) (parseIntEnv getenv (pfx @ ''PER_USER_BURST''))"

section \<open>Requests over time\<close>

text \<open>A sequence of requests, each with its time and identity, and the decisions.\<close>

fun allow_run ::
  "'l rate_lib \<Rightarrow> (instant \<times> string) list \<Rightarrow> 'l endpoint_limiter option \<Rightarrow> bool list \<times> 'l endpoint_limiter option" where
  "allow_run lib [] e = ([], e)"
| "allow_run lib ((t, k) # rs) e = (case Allow lib t k e of ((ok, _), e') \<Rightarrow>
     (case allow_run lib rs e' of (oks, e'') \<Rightarrow> (ok # oks, e'')))"

text \<open>How many requests of one identity were let through.\<close>

fun granted :: "string \<Rightarrow> (instant \<times> string) list \<Rightarrow> bool list \<Rightarrow> rat" where
  "granted k ((t, k') # rs) (ok # oks) = (if k' = k \<and> ok then 1 else 0) + granted k rs oks"
| "granted k _ _ = 0"

section \<open>Token buckets\<close>

text \<open>
  The documented behaviour of \<open>rate.Limiter\<close>: a bucket of size \<open>b\<close>, initially full, refilled at
  \<open>r\<close> tokens per second and never beyond its size; a request is let through when a whole token is
  there, and takes it. \<open>level l t\<close> is what the bucket holds at time \<open>t\<close>, \<open>cap l\<close> what it can hold.
\<close>

locale token_bucket =
  fixes lib :: "'l rate_lib"
    and level :: "'l \<Rightarrow> instant \<Rightarrow> rat"
    and speed :: "'l \<Rightarrow> rat"
    and cap :: "'l \<Rightarrow> rat"
  assumes fresh_speed: "r > 0 \<Longrightarrow> speed (rl_new lib (Finite r) b) = r / of_int Second"
    and fresh_cap: "b > 0 \<Longrightarrow> cap (rl_new lib (Finite r) b) = of_int b"
    and capped: "level l t \<le> cap l"
    and taken: "rl_allow lib t l = (True, l') \<Longrightarrow> level l' t \<le> level l t - 1"
    and kept: "rl_allow lib t l = (False, l') \<Longrightarrow> level l' t \<le> level l t"
    and speed_kept: "rl_allow lib t l = (ok, l') \<Longrightarrow> speed l' = speed l"
    and cap_kept: "rl_allow lib t l = (ok, l') \<Longrightarrow> cap l' = cap l"
    and refill: "t \<le> t' \<Longrightarrow> level l t' \<le> level l t + speed l * of_int (t' - t)"
    and grows: "t \<le> t' \<Longrightarrow> level l t \<le> level l t'"
    and nonneg: "level (snd (rl_allow lib t l)) t \<ge> 0"
begin

text \<open>What is left for an identity: its bucket, or a full one when it has none yet.\<close>

definition left :: "'l endpoint_limiter \<Rightarrow> string \<Rightarrow> instant \<Rightarrow> rat" where
  "left e k t = (case map_of (el_users e) k of None \<Rightarrow> of_int (el_user_burst e) | Some l \<Rightarrow> level l t)"

definition limited :: "'l endpoint_limiter \<Rightarrow> rat \<Rightarrow> int \<Rightarrow> bool" where
  "limited e r b \<longleftrightarrow> el_user_rps e = Finite r \<and> el_user_burst e = b \<and> r > 0 \<and> b > 0
     \<and> (\<forall>(k, l) \<in> set (el_users e). speed l = r / of_int Second \<and> cap l = of_int b)"

lemma limited_user:
  "limited e r b \<Longrightarrow> map_of (el_users e) k = Some l \<Longrightarrow> speed l = r / of_int Second \<and> cap l = of_int b"
  by (auto simp: limited_def dest: map_of_SomeD)

text \<open>However long an identity was away, it finds no more than its burst.\<close>

lemma left_capped: "limited e r b \<Longrightarrow> left e k t \<le> of_int b"
proof (cases "map_of (el_users e) k")
  case (Some l)
  assume "limited e r b"
  from limited_user [OF this Some] capped [of l t] Some show ?thesis by (simp add: left_def)
qed (simp add: left_def limited_def)

lemma user_allow_step:
  assumes "limited e r b" and "user_allow lib t k e = (ok, e')"
  shows "limited e' r b" and "left e' k t \<le> left e k t - (if ok then 1 else 0)" and "left e' k t \<ge> 0"
    and "k' \<noteq> k \<Longrightarrow> map_of (el_users e') k' = map_of (el_users e) k'"
proof -
  define lim where "lim = (case map_of (el_users e) k of None \<Rightarrow> rl_new lib (el_user_rps e) (el_user_burst e) | Some l \<Rightarrow> l)"
  from assms(2) obtain lim' where a: "rl_allow lib t lim = (ok, lim')"
    and e': "e' = e\<lparr>el_users := AList.update k lim' (el_users e)\<rparr>"
    by (auto simp: user_allow_def Let_def lim_def split: prod.splits)
  have sp: "speed lim = r / of_int Second \<and> cap lim = of_int b"
    using assms(1) fresh_speed fresh_cap limited_user [OF assms(1)]
    by (auto simp: lim_def limited_def split: option.split)
  have sub: "set (AList.update k lim' us) \<subseteq> insert (k, lim') (set us)" for us
    by (induction us) auto
  have "speed l = r / of_int Second \<and> cap l = of_int b" if "(j, l) \<in> set (el_users e')" for j l
    using that sub [of "el_users e"] assms(1) speed_kept [OF a] cap_kept [OF a] sp by (auto simp: e' limited_def)
  with assms(1) show "limited e' r b" by (auto simp: limited_def e')
  have lev: "level lim t \<le> left e k t" using assms(1) capped [of lim t] sp
    by (auto simp: lim_def left_def limited_def split: option.split)
  have new: "left e' k t = level lim' t" by (simp add: left_def e' update_conv')
  show "left e' k t \<le> left e k t - (if ok then 1 else 0)"
    using taken [of t lim lim'] kept [of t lim lim'] a lev new by (cases ok) auto
  show "left e' k t \<ge> 0" using nonneg [of t lim] a new by simp
  show "k' \<noteq> k \<Longrightarrow> map_of (el_users e') k' = map_of (el_users e) k'" by (simp add: e' update_conv')
qed

lemma global_step:
  assumes "limited e r b"
  shows "limited (e\<lparr>el_global := g\<rparr>) r b" "left (e\<lparr>el_global := g\<rparr>) k t = left e k t"
  using assms by (simp_all add: limited_def left_def split: option.split)

lemma Allow_step:
  assumes "limited e r b" and "Allow lib t k (Some e) = ((ok, sc), eo)" and "left e k' t \<ge> 0"
  obtains e' where "eo = Some e'" and "limited e' r b" and "left e' k' t \<ge> 0"
    and "left e' k' t \<le> left e k' t - (if k = k' \<and> ok then 1 else 0)"
proof -
  obtain okg e1 where g: "(case el_global e of None \<Rightarrow> (True, e)
       | Some g \<Rightarrow> (case rl_allow lib t g of (ok, g') \<Rightarrow> (ok, e\<lparr>el_global := Some g'\<rparr>))) = (okg, e1)"
    by fastforce
  then have e1: "limited e1 r b" "\<And>j. left e1 j t = left e j t"
    using assms(1) by (auto simp: global_step split: option.splits prod.splits)
  show ?thesis
  proof (cases okg)
    case False
    with assms(2) g have "eo = Some e1" "\<not> ok" by (auto simp: Allow_def)
    with e1 assms(3) show ?thesis by (auto intro: that)
  next
    case True
    have np: "\<not> fnonpos (el_user_rps e1)" using e1(1) by (simp add: limited_def fnonpos_def)
    obtain oku e2 where u: "user_allow lib t k e1 = (oku, e2)" by fastforce
    with assms(2) g True np have res: "eo = Some e2" "ok = oku" by (auto simp: Allow_def split: bool.splits)
    note st = user_allow_step [OF e1(1) u]
    show ?thesis
    proof (cases "k = k'")
      case True
      with st e1(2) res show ?thesis by (intro that [of e2]) auto
    next
      case False
      with st(4) have "left e2 k' t = left e1 k' t" using u
        by (auto simp: left_def user_allow_def Let_def split: prod.splits option.split)
      with False st e1(2) res assms(3) show ?thesis by (intro that [of e2]) auto
    qed
  qed
qed

lemma left_refill:
  assumes "limited e r b" and "t \<le> t'"
  shows "left e k t' \<le> left e k t + r / of_int Second * of_int (t' - t)"
proof (cases "map_of (el_users e) k")
  case None
  have "0 \<le> r / of_int Second * of_int (t' - t)" using assms by (simp add: limited_def duration_units)
  with None show ?thesis by (simp add: left_def)
next
  case (Some l)
  then show ?thesis using refill [OF assms(2), of l] limited_user [OF assms(1) Some] by (simp add: left_def)
qed

lemma left_grows: "t \<le> t' \<Longrightarrow> left e k t \<le> left e k t'"
  using grows by (auto simp: left_def split: option.split)

text \<open>What one identity gets through between \<open>t0\<close> and \<open>t1\<close> is bounded by its bucket and the refill.\<close>

lemma run_bound:
  assumes "limited e r b" and "left e k t0 \<ge> 0" and "sorted (map fst rs)"
    and "\<And>t j. (t, j) \<in> set rs \<Longrightarrow> t0 \<le> t \<and> t \<le> t1" and "t0 \<le> t1"
  shows "granted k rs (fst (allow_run lib rs (Some e))) \<le> left e k t0 + r / of_int Second * of_int (t1 - t0)"
  using assms
proof (induction rs arbitrary: e t0)
  case Nil
  then show ?case by (simp add: limited_def duration_units)
next
  case (Cons tj rs)
  obtain t j where tj: "tj = (t, j)" by (cases tj)
  with Cons.prems(4) have t: "t0 \<le> t" "t \<le> t1" by auto
  have l0: "left e k t \<ge> 0" using Cons.prems(2) left_grows [OF t(1)] by (rule order_trans)
  obtain ok sc eo where a: "Allow lib t j (Some e) = ((ok, sc), eo)" by (metis surj_pair)
  from Allow_step [OF Cons.prems(1) a l0] obtain e' where e': "eo = Some e'" "limited e' r b" "left e' k t \<ge> 0"
    "left e' k t \<le> left e k t - (if j = k \<and> ok then 1 else 0)" .
  have later: "t \<le> u \<and> u \<le> t1" if "(u, i) \<in> set rs" for u i
    using Cons.prems(3,4) that by (force simp: tj)
  have "granted k rs (fst (allow_run lib rs (Some e'))) \<le> left e' k t + r / of_int Second * of_int (t1 - t)"
    using Cons.prems(3) t by (intro Cons.IH [OF e'(2,3) _ later]) auto
  moreover have "granted k (tj # rs) (fst (allow_run lib (tj # rs) (Some e)))
      = (if j = k \<and> ok then 1 else 0) + granted k rs (fst (allow_run lib rs (Some e')))"
    using a e'(1) by (simp add: tj split: prod.split)
  moreover have "r / of_int Second * of_int (t1 - t) + r / of_int Second * of_int (t - t0)
      = r / of_int Second * of_int (t1 - t0)" by (simp add: algebra_simps)
  ultimately show ?case using e'(4) left_refill [OF Cons.prems(1) t(1), of k] by linarith
qed

text \<open>After any requests up to time \<open>t1\<close> the limits are as configured and no bucket is overdrawn.\<close>

lemma run_settled:
  assumes "limited e r b" and "sorted (map fst hs @ [t1])" and "\<And>t. t \<in> set (map fst hs @ [t1]) \<Longrightarrow> left e k t \<ge> 0"
  shows "\<exists>e'. snd (allow_run lib hs (Some e)) = Some e' \<and> limited e' r b \<and> left e' k t1 \<ge> 0"
  using assms
proof (induction hs arbitrary: e)
  case (Cons tj hs)
  obtain t j where tj: "tj = (t, j)" by (cases tj)
  obtain ok sc eo where a: "Allow lib t j (Some e) = ((ok, sc), eo)" by (metis surj_pair)
  have "left e k t \<ge> 0" using Cons.prems(3) by (simp add: tj)
  from Allow_step [OF Cons.prems(1) a this] obtain e' where e': "eo = Some e'" "limited e' r b" "left e' k t \<ge> 0" by blast
  have "left e' k u \<ge> 0" if "u \<in> set (map fst hs @ [t1])" for u
    using that Cons.prems(2) order_trans [OF e'(3) left_grows] by (auto simp: tj)
  from Cons.IH [OF e'(2) _ this] Cons.prems(2) show ?case using a e'(1) by (simp add: tj case_prod_beta)
qed simp

lemma window_bound:
  assumes "NewEndpointLimiter lib grps gb (Finite r) b = Some e" and "r > 0" and "sorted (map fst (hs @ rs))"
    and "\<And>t j. (t, j) \<in> set rs \<Longrightarrow> t0 \<le> t \<and> t \<le> t1" and "t0 \<le> t1"
  shows "granted k rs (fst (allow_run lib rs (snd (allow_run lib hs (Some e))))) \<le> of_int (max 1 b) + r / of_int Second * of_int (t1 - t0)"
proof (cases rs)
  case Nil
  then show ?thesis using assms(2,5) by (simp add: duration_units)
next
  case (Cons tj rs')
  let ?t = "fst tj"
  have e: "limited e r (max 1 b)" "\<And>t. left e k t = of_int (max 1 b)"
    using assms(1,2) by (auto simp: NewEndpointLimiter_def Let_def limited_def left_def fnonpos_def split: if_splits)
  have t: "t0 \<le> ?t" "?t \<le> t1" using assms(4) [of ?t "snd tj"] by (simp_all add: Cons)
  have "sorted (map fst hs @ [?t])" using assms(3) by (auto simp: Cons sorted_append)
  moreover have "left e k t \<ge> 0" for t by (simp add: e(2))
  ultimately obtain e' where e': "snd (allow_run lib hs (Some e)) = Some e'" "limited e' r (max 1 b)" "left e' k ?t \<ge> 0"
    using run_settled [OF e(1)] by blast
  have "granted k rs (fst (allow_run lib rs (Some e'))) \<le> left e' k ?t + r / of_int Second * of_int (t1 - ?t)"
    using assms(3,4) t by (intro run_bound [OF e'(2,3)]) (fastforce simp: Cons sorted_append)+
  also have "\<dots> \<le> of_int (max 1 b) + r / of_int Second * of_int (t1 - t0)"
    using t assms(2) by (intro add_mono left_capped [OF e'(2)] mult_left_mono) (simp_all add: duration_units)
  finally show ?thesis by (simp add: e'(1))
qed

end

section \<open>A bucket with exact arithmetic\<close>

record bucket =
  bk_rate :: rat
  bk_size :: int
  bk_tokens :: rat
  bk_last :: instant

definition bk_level :: "bucket \<Rightarrow> instant \<Rightarrow> rat" where
  "bk_level l t = max 0 (min (of_int (bk_size l))
     (if t \<le> bk_last l then bk_tokens l else bk_tokens l + max 0 (bk_rate l) * of_int (t - bk_last l)))"

definition bucket_lib :: "(string \<Rightarrow> float64 option) \<Rightarrow> bucket rate_lib" where
  "bucket_lib pf = \<lparr>
     rl_new = (\<lambda>f b. \<lparr>bk_rate = (case f of Finite r \<Rightarrow> r / of_int Second | _ \<Rightarrow> 0), bk_size = b,
        bk_tokens = of_int b, bk_last = 0\<rparr>),
     rl_allow = (\<lambda>t l. let v = bk_level l t in
        if v \<ge> 1 then (True, l\<lparr>bk_tokens := v - 1, bk_last := t\<rparr>) else (False, l\<lparr>bk_tokens := v, bk_last := t\<rparr>)),
     rl_parse_float = pf\<rparr>"

lemma bk_level_last: "bk_level (l\<lparr>bk_tokens := v, bk_last := t\<rparr>) t = max 0 (min (of_int (bk_size l)) v)"
  by (simp add: bk_level_def)

lemma bk_refill:
  assumes "t \<le> t'"
  shows "bk_level l t' \<le> bk_level l t + max 0 (bk_rate l) * of_int (t' - t)"
proof -
  define r where "r = max 0 (bk_rate l)"
  define A where "A = r * of_int (t - bk_last l)"
  define B where "B = r * of_int (t' - t)"
  have B: "0 \<le> B" using assms by (simp add: B_def r_def)
  have AB: "r * of_int (t' - bk_last l) = A + B" by (simp add: A_def B_def algebra_simps)
  have A: "A \<le> 0" if "t \<le> bk_last l" using that by (simp add: A_def r_def mult_nonneg_nonpos)
  have "bk_level l t' = max 0 (min (of_int (bk_size l)) (if t' \<le> bk_last l then bk_tokens l else bk_tokens l + (A + B)))"
    by (simp only: bk_level_def AB flip: r_def)
  moreover have "bk_level l t = max 0 (min (of_int (bk_size l)) (if t \<le> bk_last l then bk_tokens l else bk_tokens l + A))"
    by (simp only: bk_level_def A_def flip: r_def)
  ultimately show ?thesis using A B assms unfolding r_def [symmetric] B_def [symmetric]
    by (auto split: if_splits)
qed

lemma bk_grows:
  assumes "t \<le> t'"
  shows "bk_level l t \<le> bk_level l t'"
proof -
  define r where "r = max 0 (bk_rate l)"
  define A where "A = r * of_int (t - bk_last l)"
  define B where "B = r * of_int (t' - bk_last l)"
  have "A \<le> B" using assms unfolding A_def B_def by (intro mult_left_mono) (auto simp: r_def)
  moreover have "0 \<le> B" if "bk_last l < t'" using that by (simp add: B_def r_def)
  moreover have "bk_level l t' = max 0 (min (of_int (bk_size l)) (if t' \<le> bk_last l then bk_tokens l else bk_tokens l + B))"
    by (simp only: bk_level_def B_def flip: r_def)
  moreover have "bk_level l t = max 0 (min (of_int (bk_size l)) (if t \<le> bk_last l then bk_tokens l else bk_tokens l + A))"
    by (simp only: bk_level_def A_def flip: r_def)
  ultimately show ?thesis using assms by (auto split: if_splits)
qed

interpretation exact_bucket: token_bucket "bucket_lib pf" bk_level "\<lambda>l. max 0 (bk_rate l)" "\<lambda>l. of_int (max 0 (bk_size l))"
proof
  fix r :: rat and b :: int and t t' :: instant and l l' ok
  show "r > 0 \<Longrightarrow> max 0 (bk_rate (rl_new (bucket_lib pf) (Finite r) b)) = r / of_int Second"
    by (simp add: bucket_lib_def duration_units)
  show "b > 0 \<Longrightarrow> of_int (max 0 (bk_size (rl_new (bucket_lib pf) (Finite r) b))) = (of_int b :: rat)"
    by (simp add: bucket_lib_def)
  show "bk_level l t \<le> of_int (max 0 (bk_size l))" by (simp add: bk_level_def)
  show "rl_allow (bucket_lib pf) t l = (True, l') \<Longrightarrow> bk_level l' t \<le> bk_level l t - 1"
    "rl_allow (bucket_lib pf) t l = (False, l') \<Longrightarrow> bk_level l' t \<le> bk_level l t"
    "rl_allow (bucket_lib pf) t l = (ok, l') \<Longrightarrow> max 0 (bk_rate l') = max 0 (bk_rate l)"
    "rl_allow (bucket_lib pf) t l = (ok, l') \<Longrightarrow> of_int (max 0 (bk_size l')) = (of_int (max 0 (bk_size l)) :: rat)"
    by (auto simp: bucket_lib_def Let_def bk_level_last split: if_splits) (simp add: bk_level_def)
  show "t \<le> t' \<Longrightarrow> bk_level l t' \<le> bk_level l t + max 0 (bk_rate l) * of_int (t' - t)" by (rule bk_refill)
  show "t \<le> t' \<Longrightarrow> bk_level l t \<le> bk_level l t'" by (rule bk_grows)
  show "bk_level (snd (rl_allow (bucket_lib pf) t l)) t \<ge> 0" by (simp add: bk_level_def)
qed

section \<open>Properties\<close>

text \<open>
  C23: with a per-identity limit of \<open>r\<close> requests per second and burst \<open>b\<close>, one identity gets at
  most \<open>max 1 b + r * d\<close> requests through an endpoint in any window of \<open>d\<close> seconds: whatever
  requests \<open>hs\<close> the limiter has seen before the window since the gateway made it, whatever the
  other identities do and whatever the global limit is. Being quiet saves up no more than the
  burst, and the requests of others do not add to its share.
\<close>

theorem user_rate_bounded:
  assumes "token_bucket lib level speed cap"
    and "NewEndpointLimiter lib grps gb (Finite r) b = Some e" and "r > 0"
    and "sorted (map fst (hs @ rs))" and "\<forall>(t, j) \<in> set rs. t0 \<le> t \<and> t \<le> t1" and "t0 \<le> t1"
  shows "granted k rs (fst (allow_run lib rs (snd (allow_run lib hs (Some e))))) \<le> of_int (max 1 b) + r / of_int Second * of_int (t1 - t0)"
  using token_bucket.window_bound [OF assms(1,2,3,4) _ assms(6)] assms(5) by auto

text \<open>The example: one request at the start, an hour of silence, then three at once.\<close>

definition sample_requests :: "(instant \<times> string) list" where
  "sample_requests = [(Hour, ''alice''), (Hour, ''bob''), (Hour, ''alice''), (Hour, ''alice'')]"

theorem user_rate_bounded_witness:
  "\<exists>e. NewEndpointLimiter (bucket_lib (\<lambda>_. None)) (Finite 0) 0 (Finite 1) 2 = Some e
     \<and> granted ''alice'' sample_requests (fst (allow_run (bucket_lib (\<lambda>_. None)) sample_requests
         (snd (allow_run (bucket_lib (\<lambda>_. None)) [(0, ''alice'')] (Some e))))) \<le> 2"
proof -
  obtain e where e: "NewEndpointLimiter (bucket_lib (\<lambda>_. None)) (Finite 0) 0 (Finite 1) 2 = Some e"
    by (simp add: NewEndpointLimiter_def fnonpos_def)
  have "granted ''alice'' sample_requests (fst (allow_run (bucket_lib (\<lambda>_. None)) sample_requests
         (snd (allow_run (bucket_lib (\<lambda>_. None)) [(0, ''alice'')] (Some e)))))
      \<le> of_int (max 1 2) + 1 / of_int Second * of_int (Hour - Hour)"
    by (rule user_rate_bounded [OF exact_bucket.token_bucket_axioms e]) (simp_all add: sample_requests_def duration_units)
  with e show ?thesis by simp
qed

end
