(* ===== verification/Handlers.thy ===== *)
theory Handlers
  imports Pages Proxy Recording Ratelimit
begin

text \<open>
  The HTTP handlers of the gateway (\<open>cmd/gateway/main.go\<close>). They reach the validator, the
  lifecycle manager and the rate limiters through interfaces; so here each is a parameter, and a
  call leaves its result on the trace. A handler gives \<open>None\<close> while it is still waiting, for the
  workspace or for the tunnel to end.
\<close>

section \<open>Interfaces\<close>

type_synonym 'w token_validator_fn = "string \<Rightarrow> ('w, claims res) gw"
type_synonym 'w limiter_fn = "string \<Rightarrow> ('w, bool \<times> string) gw"

record 'w workspace_lifecycle =
  wl_ensure_exists :: "string \<Rightarrow> claims \<Rightarrow> ('w, ensure_details \<times> workspace res) gw"
  wl_ensure_workspace :: "string \<Rightarrow> claims \<Rightarrow> ('w, (ensure_details \<times> workspace res) option) gw"
  wl_touch :: "workspace \<Rightarrow> ('w, workspace) gw"

definition call_validate :: "'w token_validator_fn \<Rightarrow> string \<Rightarrow> ('w, claims res) gw" where
  "call_validate v tok = do { r \<leftarrow> v tok; _ \<leftarrow> emit (Validated tok r); State_Monad.return r }"

definition call_allow :: "'w limiter_fn \<Rightarrow> string \<Rightarrow> ('w, bool \<times> string) gw" where
  "call_allow l key = do { r \<leftarrow> l key; _ \<leftarrow> emit (Limited key r); State_Monad.return r }"

definition call_ensure_exists ::
  "'w workspace_lifecycle \<Rightarrow> string \<Rightarrow> claims \<Rightarrow> ('w, ensure_details \<times> workspace res) gw" where
  "call_ensure_exists lc ns cl = do {
     r \<leftarrow> wl_ensure_exists lc ns cl; _ \<leftarrow> emit (Ensured ns cl r); State_Monad.return r }"

definition call_ensure_workspace ::
  "'w workspace_lifecycle \<Rightarrow> string \<Rightarrow> claims \<Rightarrow> ('w, (ensure_details \<times> workspace res) option) gw" where
  "call_ensure_workspace lc ns cl = do {
     r \<leftarrow> wl_ensure_workspace lc ns cl; _ \<leftarrow> emit (EnsuredRunning ns cl r); State_Monad.return r }"

definition call_touch :: "'w workspace_lifecycle \<Rightarrow> workspace \<Rightarrow> ('w, workspace) gw" where
  "call_touch lc ws = do { _ \<leftarrow> emit (Touched ws); wl_touch lc ws }"

section \<open>Tokens\<close>

definition extractToken :: "http_request \<Rightarrow> string res" where
  "extractToken r =
     (let auth = get_or_empty (rq_headers r) ''Authorization'' in
      if HasPrefix auth ''Bearer '' then Inr (TrimPrefix auth ''Bearer '')
      else let other = (let q = get_or_empty (rq_query r) ''token'' in
             if q \<noteq> '''' then Inr q
             else Inl (new_error ''no token in Authorization header, devplane_token cookie, or ?token query param''))
        in case map_of (rq_cookies r) ''devplane_token'' of
             Some c \<Rightarrow> if c \<noteq> '''' then Inr c else other
           | None \<Rightarrow> other)"

text \<open>The cookie that removes a cookie of that name.\<close>

definition expired_cookie :: "string \<Rightarrow> bool \<Rightarrow> cookie" where
  "expired_cookie name secure =
     \<lparr>ck_name = name, ck_value = '''', ck_path = ''/'', ck_max_age = -1, ck_expires = None, ck_http_only = True,
      ck_secure = secure, ck_same_site = SameSiteDefault\<rparr>"

section \<open>The workspace API\<close>

text \<open>The JSON body of \<open>GET /api/workspace\<close>.\<close>

definition workspaceAPIResponse :: "claims \<Rightarrow> workspace \<Rightarrow> bool \<Rightarrow> (string \<times> string) list" where
  "workspaceAPIResponse cl ws ready =
     str_field ''name'' (mt_name (ws_meta ws))
     @ str_field ''namespace'' (mt_namespace (ws_meta ws))
     @ str_field ''userId'' (clm_user_id cl)
     @ str_field ''email'' (clm_email cl)
     @ str_field ''phase'' (ws_phase ws)
     @ opt_field ''serviceEndpoint'' (st_service_endpoint (ws_status ws))
     @ opt_field ''podName'' (st_pod_name (ws_status ws))
     @ opt_field ''message'' (st_message (ws_status ws))
     @ [(''ttydReady'', if ready then ''true'' else ''false'')]"

definition api_respond :: "'w gw_env \<Rightarrow> claims \<Rightarrow> workspace \<Rightarrow> ('w, unit) gw" where
  "api_respond env cl ws = do {
     ready \<leftarrow> (if ws_phase ws = WorkspacePhaseRunning \<and> st_service_endpoint (ws_status ws) \<noteq> ''''
              then BackendReady env (st_service_endpoint (ws_status ws)) else State_Monad.return False);
     _ \<leftarrow> emit (SetHeader ''Content-Type'' ''application/json; charset=utf-8'');
     _ \<leftarrow> emit (WriteHeader 200);
     emit (Write (json_object (workspaceAPIResponse cl ws ready) @ [CHR 0x0A])) }"

text \<open>The answer to a request over its rate limit.\<close>

definition rate_limited :: "log_fields \<Rightarrow> string \<Rightarrow> string \<Rightarrow> string \<Rightarrow> claims \<Rightarrow> ('w, unit) gw" where
  "rate_limited lg reqID endpoint scope cl = do {
     _ \<leftarrow> RecordRateLimitHit endpoint scope;
     _ \<leftarrow> log_info lg ''Rate limit exceeded''
       [(LogKeyComponent, ComponentGateway), (LogKeyEvent, EventRateLimited), (''scope'', scope), (''user'', clm_user_id cl)];
     _ \<leftarrow> LogRateLimitAudit lg reqID endpoint scope (clm_user_id cl);
     WriteJSONError 429 RateLimitErrorCode }"

definition handleWorkspaceAPI ::
  "'w gw_env \<Rightarrow> 'w token_validator_fn \<Rightarrow> 'w workspace_lifecycle \<Rightarrow> 'w limiter_fn \<Rightarrow> string \<Rightarrow> bool \<Rightarrow> log_fields
    \<Rightarrow> http_request \<Rightarrow> ('w, unit) gw" where
  "handleWorkspaceAPI env validator lifecycle lifecycleRL ns secure lg0 r =
     (if rq_method r \<noteq> ''GET'' \<and> rq_method r \<noteq> ''POST'' then emit (HttpError ''Method not allowed'' 405)
      else do {
        reqID \<leftarrow> RequestID env r;
        (let lg = lg0 @ [(LogKeyRequestID, reqID)] in
         case extractToken r of
           Inl _ \<Rightarrow> do {
             _ \<leftarrow> LogAuthTokenRejected lg reqID (rq_remote r) ''missing_token'' 401 AuthErrorCodeUnauthorized;
             WriteJSONAuthError 401 AuthErrorCodeUnauthorized }
         | Inr rawToken \<Rightarrow> do {
             v \<leftarrow> call_validate validator rawToken;
             case v of
               Inl e \<Rightarrow> do {
                 _ \<leftarrow> emit (SetCookie (expired_cookie ''devplane_token'' secure));
                 (case AuthErrorResponse (Some e) of (st, code') \<Rightarrow> do {
                    _ \<leftarrow> LogAuthTokenRejected lg reqID (rq_remote r) ''invalid_token'' st code';
                    WriteJSONAuthError st code' }) }
             | Inr cl \<Rightarrow> do {
                 a \<leftarrow> call_allow lifecycleRL (clm_sub cl);
                 if \<not> fst a then rate_limited lg reqID ''lifecycle'' (snd a) cl
                 else do {
                   w \<leftarrow> call_ensure_exists lifecycle ns cl;
                   case w of
                     (_, Inl e) \<Rightarrow> do {
                       _ \<leftarrow> log_error lg e ''EnsureExists failed (API)''
                         [(LogKeyComponent, ComponentGateway), (LogKeyEvent, EventWorkspaceError), (''user'', clm_user_id cl)];
                       WriteJSONError 500 WorkspaceErrorCodeUnavailable }
                   | (details, Inr ws) \<Rightarrow> do {
                       _ \<leftarrow> LogWorkspaceLifecycleAudit lg ''audit: workspace ensure (API)'' reqID
                         EventAuditWorkspaceEnsureExists ns (Some cl) (Some ws) details;
                       api_respond env cl ws } } } }) })"

definition handleHealth :: "('w, unit) gw" where
  "handleHealth = do { _ \<leftarrow> emit (WriteHeader 200); emit (Write ''ok'') }"

section \<open>The OIDC login\<close>

definition state_cookie :: "string \<Rightarrow> bool \<Rightarrow> cookie" where
  "state_cookie state secure =
     \<lparr>ck_name = ''devplane_state'', ck_value = state, ck_path = ''/'', ck_max_age = 600, ck_expires = None,
      ck_http_only = True, ck_secure = secure, ck_same_site = SameSiteLax\<rparr>"

definition session_cookie :: "string \<Rightarrow> instant \<Rightarrow> bool \<Rightarrow> cookie" where
  "session_cookie rawIDToken expiry secure =
     \<lparr>ck_name = ''devplane_token'', ck_value = rawIDToken, ck_path = ''/'', ck_max_age = 0, ck_expires = Some expiry,
      ck_http_only = True, ck_secure = secure, ck_same_site = SameSiteLax\<rparr>"

definition handleLogin :: "'w gw_env \<Rightarrow> bool \<Rightarrow> log_fields \<Rightarrow> http_request \<Rightarrow> ('w, unit) gw" where
  "handleLogin env secure lg0 r = do {
     reqID \<leftarrow> RequestID env r;
     (let lg = lg0 @ [(LogKeyRequestID, reqID)] in do {
        state \<leftarrow> NewString env;
        _ \<leftarrow> emit (SetCookie (state_cookie state secure));
        _ \<leftarrow> LogAudit lg ''audit: OIDC login redirect'' reqID EventAuditOIDCLoginRedirect
          [(LogKeyAuditOutcome, OutcomeSuccess), (''remote'', rq_remote r)];
        _ \<leftarrow> log_info lg ''Redirecting to IdP'' [(''remote'', rq_remote r)];
        emit (Redirect (ge_auth_code_url env state) 302) }) }"

text \<open>The end of \<open>handleCallback\<close>, with a token that was validated.\<close>

definition finish_login ::
  "'w gw_env \<Rightarrow> bool \<Rightarrow> log_fields \<Rightarrow> string \<Rightarrow> oauth_token \<Rightarrow> string \<Rightarrow> claims \<Rightarrow> ('w, unit) gw" where
  "finish_login env secure lg reqID token rawIDToken cl = do {
     expiry \<leftarrow> (case tok_expiry token of
        Some t \<Rightarrow> State_Monad.return t
      | None \<Rightarrow> do { t \<leftarrow> gw_now env; State_Monad.return (t + Hour) });
     _ \<leftarrow> emit (SetCookie (session_cookie rawIDToken expiry secure));
     _ \<leftarrow> LogOIDCCallbackSuccess lg reqID (Some cl);
     emit (Redirect ''/'' 302) }"

definition handleCallback ::
  "'w gw_env \<Rightarrow> 'w token_validator_fn \<Rightarrow> bool \<Rightarrow> log_fields \<Rightarrow> http_request \<Rightarrow> ('w, unit) gw" where
  "handleCallback env validator secure lg0 r = do {
     reqID \<leftarrow> RequestID env r;
     (let lg = lg0 @ [(LogKeyRequestID, reqID)] in
      case map_of (rq_cookies r) ''devplane_state'' of
        None \<Rightarrow> do {
          _ \<leftarrow> LogOIDCCallbackFailure lg reqID ''missing_state_cookie'';
          emit (HttpError ''Missing state cookie'' 400) }
      | Some stateCookie \<Rightarrow>
          if get_or_empty (rq_query r) ''state'' \<noteq> stateCookie then do {
            _ \<leftarrow> LogOIDCCallbackFailure lg reqID ''state_mismatch'';
            emit (HttpError ''State mismatch'' 400) }
          else do {
            _ \<leftarrow> emit (SetCookie (expired_cookie ''devplane_state'' secure));
            x \<leftarrow> ask (ge_exchange env (get_or_empty (rq_query r) ''code'')) (Exchanged (get_or_empty (rq_query r) ''code''));
            case x of
              Inl e \<Rightarrow> do {
                _ \<leftarrow> log_error lg e ''Token exchange failed'' [(LogKeyComponent, ComponentGateway), (LogKeyEvent, EventOIDCTokenExchange)];
                _ \<leftarrow> LogOIDCCallbackFailure lg reqID ''token_exchange_failed'';
                emit (HttpError ''Token exchange failed'' 502) }
            | Inr token \<Rightarrow>
                (case tok_id_token token of
                   None \<Rightarrow> do {
                     _ \<leftarrow> LogOIDCCallbackFailure lg reqID ''missing_id_token'';
                     emit (HttpError ''Missing id_token in token response'' 502) }
                 | Some rawIDToken \<Rightarrow>
                     if rawIDToken = '''' then do {
                       _ \<leftarrow> LogOIDCCallbackFailure lg reqID ''missing_id_token'';
                       emit (HttpError ''Missing id_token in token response'' 502) }
                     else do {
                       v \<leftarrow> call_validate validator rawIDToken;
                       case v of
                         Inl e \<Rightarrow> do {
                           _ \<leftarrow> log_info lg ''Invalid ID token after OAuth exchange''
                             [(LogKeyComponent, ComponentGateway), (LogKeyEvent, EventOIDCInvalidIDToken), (''error'', err_text e)];
                           _ \<leftarrow> LogOIDCCallbackFailure lg reqID ''invalid_id_token'';
                           emit (HttpError ''Invalid ID token'' 401) }
                       | Inr cl \<Rightarrow> finish_login env secure lg reqID token rawIDToken cl }) }) }"

section \<open>The web terminal\<close>

text \<open>
  \<open>httputil.ReverseProxy.ServeHTTP\<close>: the answer of the backend, changed by \<open>ModifyResponse\<close>, or
  the error handler. The target is the URL the gateway built; \<open>url.Parse\<close> gives it back. For an
  answer 101 the library goes on to copy bytes between the two connections, which is not modelled.
\<close>

definition reverse_proxy ::
  "'w gw_env \<Rightarrow> string \<Rightarrow> (http_response \<Rightarrow> http_response res) \<Rightarrow> (go_error \<Rightarrow> ('w, unit) gw) \<Rightarrow> ('w, unit) gw" where
  "reverse_proxy env target modifyResponse errorHandler = do {
     x \<leftarrow> ask (ge_round_trip env target) (Forwarded target);
     case x of
       Inl e \<Rightarrow> errorHandler e
     | Inr resp \<Rightarrow> (case modifyResponse resp of Inl e \<Rightarrow> errorHandler e | Inr resp' \<Rightarrow> emit (Delivered resp')) }"

definition handleProxy ::
  "'w gw_env \<Rightarrow> 'w token_validator_fn \<Rightarrow> 'w workspace_lifecycle \<Rightarrow> string \<Rightarrow> bool \<Rightarrow> log_fields \<Rightarrow> http_request
    \<Rightarrow> ('w, unit) gw" where
  "handleProxy env validator lifecycle ns secure lg r = (case extractToken r of
     Inl _ \<Rightarrow> emit (Redirect ''/login'' 302)
   | Inr rawToken \<Rightarrow> do {
       v \<leftarrow> call_validate validator rawToken;
       case v of
         Inl e \<Rightarrow> do {
           _ \<leftarrow> emit (SetCookie (expired_cookie ''devplane_token'' secure));
           emit (Redirect ''/login'' 302) }
       | Inr cl \<Rightarrow> do {
           w \<leftarrow> call_ensure_exists lifecycle ns cl;
           case w of
             (_, Inl e) \<Rightarrow> do {
               _ \<leftarrow> emit (HttpError ''Failed to provision workspace'' 500);
               log_error lg e ''EnsureExists failed''
                 [(LogKeyComponent, ComponentGateway), (LogKeyEvent, EventWorkspaceError), (''user'', clm_user_id cl)] }
           | (_, Inr ws) \<Rightarrow>
               (let displayName = (if clm_email cl = '''' then clm_user_id cl else clm_email cl);
                    endpoint = st_service_endpoint (ws_status ws) in
                if ws_phase ws \<noteq> WorkspacePhaseRunning \<or> endpoint = ''''
                then serveLoadingPage displayName (ws_phase ws)
                else reverse_proxy env (BackendHTTPURL endpoint) injectFullWidthTerminalCSS
                  (\<lambda>e. do {
                     _ \<leftarrow> log_info lg ''Backend not reachable, serving loading page''
                       [(LogKeyComponent, ComponentGateway), (LogKeyEvent, EventHTTPBackendUnreachable),
                        (''user'', clm_user_id cl), (''endpoint'', endpoint), (''error'', err_text e)];
                     serveLoadingPage displayName (ws_phase ws) })) } })"

section \<open>The terminal WebSocket\<close>

text \<open>
  The state the two callbacks of a session share: the time of the last touch, the Workspace object
  and the recorder. The two copy loops call \<open>onActivity\<close> without a lock; here a call is one step.
\<close>

record session_state =
  ss_last_touch :: "instant option"
  ss_ws :: workspace
  ss_recorder :: "session_recorder option"

definition onActivity :: "'w gw_env \<Rightarrow> 'w workspace_lifecycle \<Rightarrow> session_state \<Rightarrow> ('w, session_state) gw" where
  "onActivity env lifecycle s = do {
     t \<leftarrow> gw_now env;
     if (case ss_last_touch s of None \<Rightarrow> False | Some l \<Rightarrow> time_sub t l < Minute) then State_Monad.return s
     else do {
       t' \<leftarrow> gw_now env;
       ws \<leftarrow> call_touch lifecycle (ss_ws s);
       State_Monad.return (s\<lparr>ss_last_touch := Some t', ss_ws := ws\<rparr>) } }"

definition onFrame :: "'w gw_env \<Rightarrow> string \<Rightarrow> int \<Rightarrow> string \<Rightarrow> session_state \<Rightarrow> ('w, session_state) gw" where
  "onFrame env direction msgType payload s = do {
     rec \<leftarrow> RecordFrame env direction msgType payload (ss_recorder s);
     State_Monad.return (s\<lparr>ss_recorder := rec\<rparr>) }"

text \<open>What follows the return of \<open>ServeWS\<close>: the recorder is closed, and an error is audited.\<close>

definition end_session ::
  "'w gw_env \<Rightarrow> log_fields \<Rightarrow> string \<Rightarrow> string \<Rightarrow> claims \<Rightarrow> go_error option \<Rightarrow> session_state \<Rightarrow> ('w, unit option) gw" where
  "end_session env lg reqID ns cl eo s = do {
     _ \<leftarrow> Close env eo (ss_recorder s);
     _ \<leftarrow> (case eo of
        None \<Rightarrow> State_Monad.return ()
      | Some e \<Rightarrow> do {
          _ \<leftarrow> LogAudit lg ''audit: WebSocket session end'' reqID EventAuditWSSessionEnd
            [(LogKeyActorSubject, clm_sub cl), (LogKeyUserID, clm_user_id cl), (LogKeyNamespace, ns),
             (LogKeyWorkspace, mt_name (ws_meta (ss_ws s))), (LogKeyAuditOutcome, OutcomeSuccess),
             (LogKeyAuditReason, err_text e)];
          log_info lg ''WebSocket session ended''
            [(LogKeyComponent, ComponentGateway), (LogKeyEvent, EventWSProxySessionEnd), (''user'', clm_user_id cl),
             (''reason'', err_text e)] });
     State_Monad.return (Some ()) }"

text \<open>The session once the workspace runs and its terminal server answers.\<close>

definition proxy_session ::
  "'w gw_env \<Rightarrow> turn list \<Rightarrow> 'w workspace_lifecycle \<Rightarrow> string \<Rightarrow> log_fields \<Rightarrow> log_fields \<Rightarrow> string \<Rightarrow> http_request \<Rightarrow> claims
    \<Rightarrow> workspace \<Rightarrow> ('w, unit option) gw" where
  "proxy_session env sched lifecycle ns proxyLog lg reqID r cl ws =
     (let endpoint = st_service_endpoint (ws_status ws); backendURL = BackendURL endpoint in do {
        rec \<leftarrow> NewSessionRecorder env lg (SessionRecordingConfigFromEnv env)
          \<lparr>sm_session_id = '''', sm_request_id = reqID, sm_subject = clm_sub cl, sm_user_id = clm_user_id cl,
           sm_namespace = ns, sm_workspace = mt_name (ws_meta ws), sm_backend = endpoint, sm_remote = rq_remote r,
           sm_started_at = ''''\<rparr>;
        _ \<leftarrow> LogAudit lg ''audit: WebSocket session start'' reqID EventAuditWSSessionStart
          [(LogKeyActorSubject, clm_sub cl), (LogKeyUserID, clm_user_id cl), (LogKeyNamespace, ns),
           (LogKeyWorkspace, mt_name (ws_meta ws)), (LogKeyAuditOutcome, OutcomeSuccess), (''backendHost'', endpoint)];
        _ \<leftarrow> log_info lg ''Proxying WebSocket''
          [(LogKeyComponent, ComponentGateway), (LogKeyEvent, EventWSProxyStart), (''user'', clm_user_id cl),
           (''backend'', backendURL)];
        x \<leftarrow> ServeWS env sched proxyLog backendURL (Some (onActivity env lifecycle)) (Some (onFrame env))
          \<lparr>ss_last_touch = None, ss_ws = ws, ss_recorder = rec\<rparr>;
        case fst x of
          None \<Rightarrow> State_Monad.return None
        | Some eo \<Rightarrow> end_session env lg reqID ns cl eo (snd x) })"

definition handleWS ::
  "'w gw_env \<Rightarrow> turn list \<Rightarrow> 'w token_validator_fn \<Rightarrow> 'w workspace_lifecycle \<Rightarrow> 'w limiter_fn \<Rightarrow> string \<Rightarrow> log_fields
    \<Rightarrow> http_request \<Rightarrow> ('w, unit option) gw" where
  "handleWS env sched validator lifecycle wsRL ns lg0 r = do {
     reqID \<leftarrow> RequestID env r;
     (let lg = lg0 @ [(LogKeyRequestID, reqID)] in
      case extractToken r of
        Inl _ \<Rightarrow> do {
          _ \<leftarrow> LogAuthTokenRejected lg reqID (rq_remote r) ''missing_token'' 401 AuthErrorCodeUnauthorized;
          _ \<leftarrow> WriteJSONAuthError 401 AuthErrorCodeUnauthorized;
          _ \<leftarrow> log_info lg ''Missing token''
            [(LogKeyComponent, ComponentGateway), (LogKeyEvent, EventAuthFailure), (''remote'', rq_remote r)];
          State_Monad.return (Some ()) }
      | Inr rawToken \<Rightarrow> do {
          v \<leftarrow> call_validate validator rawToken;
          case v of
            Inl e \<Rightarrow> (case AuthErrorResponse (Some e) of (st, code') \<Rightarrow> do {
              _ \<leftarrow> LogAuthTokenRejected lg reqID (rq_remote r) ''invalid_token'' st code';
              _ \<leftarrow> WriteJSONAuthError st code';
              _ \<leftarrow> log_info lg ''Token validation failed''
                [(LogKeyComponent, ComponentGateway), (LogKeyEvent, EventAuthFailure), (''remote'', rq_remote r),
                 (''status'', Itoa st), (''code'', code')];
              State_Monad.return (Some ()) })
          | Inr cl \<Rightarrow> do {
              a \<leftarrow> call_allow wsRL (clm_sub cl);
              if \<not> fst a then do {
                _ \<leftarrow> rate_limited lg reqID ''websocket'' (snd a) cl;
                State_Monad.return (Some ()) }
              else do {
                w \<leftarrow> call_ensure_workspace lifecycle ns cl;
                case w of
                  None \<Rightarrow> State_Monad.return None
                | Some (_, Inl e) \<Rightarrow> do {
                    _ \<leftarrow> log_error lg e ''EnsureWorkspace failed''
                      [(LogKeyComponent, ComponentGateway), (LogKeyEvent, EventWorkspaceError), (''user'', clm_user_id cl)];
                    _ \<leftarrow> WriteJSONError 500 WorkspaceErrorCodeUnavailable;
                    State_Monad.return (Some ()) }
                | Some (details, Inr ws) \<Rightarrow> do {
                    _ \<leftarrow> LogWorkspaceLifecycleAudit lg ''audit: workspace ensure (WebSocket)'' reqID
                      EventAuditWorkspaceEnsureRunning ns (Some cl) (Some ws) details;
                    ready \<leftarrow> BackendReady env (st_service_endpoint (ws_status ws));
                    if \<not> ready then do {
                      _ \<leftarrow> log_info lg ''Backend not ready yet, returning 503''
                        [(LogKeyComponent, ComponentGateway), (LogKeyEvent, EventWSProxyBackendNotReady),
                         (''user'', clm_user_id cl), (''endpoint'', st_service_endpoint (ws_status ws))];
                      _ \<leftarrow> WriteJSONError 503 WorkspaceErrorCodeNotReady;
                      State_Monad.return (Some ()) }
                    else proxy_session env sched lifecycle ns lg0 lg reqID r cl ws } } } }) }"

end
