(* ===== verification/Gateway.thy ===== *)
theory Gateway
  imports Handlers
begin

text \<open>
  The gateway process (\<open>main\<close> of \<open>cmd/gateway/main.go\<close>): its configuration from the environment,
  the concrete validator, lifecycle manager and rate limiters behind the handlers' interfaces, and
  the routes. \<open>json.Unmarshal\<close> of the provider list and the Unicode tables are arguments.
\<close>

section \<open>Configuration\<close>

definition mustEnv :: "(string \<Rightarrow> string) \<Rightarrow> string \<Rightarrow> string + string" where
  "mustEnv getenv key =
     (let v = getenv key in
      if v = '''' then Inl (''required env var '' @ Quote key @ '' is not set'' @ [CHR 0x0A]) else Inr v)"

definition envOr :: "(string \<Rightarrow> string) \<Rightarrow> string \<Rightarrow> string \<Rightarrow> string" where
  "envOr getenv key dflt = (let v = getenv key in if v \<noteq> '''' then v else dflt)"

definition parseOIDCClockSkew :: "(string \<Rightarrow> string) \<Rightarrow> duration res" where
  "parseOIDCClockSkew getenv =
     (let s = TrimSpace (getenv ''OIDC_CLOCK_SKEW'') in
      if s = '''' then Inr (60 * Second)
      else case ParseDuration s of
        Inl e \<Rightarrow> Inl e
      | Inr d \<Rightarrow> if d < 0 then Inl (new_error ''duration must be >= 0'') else Inr d)"

datatype validator_choice = FixedIdentity claims | OIDCValidator oidc_config

record gateway_config =
  gc_client_secret :: string
  gc_redirect_url :: string
  gc_namespace :: string
  gc_port :: string
  gc_cookie_secure :: bool
  gc_validator :: validator_choice
  gc_lifecycle :: lifecycle_config

text \<open>The first failure ends the process with a message.\<close>

definition or_exit :: "string + 'a \<Rightarrow> ('a \<Rightarrow> string + 'b) \<Rightarrow> string + 'b" where
  "or_exit x f = (case x of Inl msg \<Rightarrow> Inl msg | Inr a \<Rightarrow> f a)"

definition default_providers :: string where
  \<open>default_providers =
     ''[{"name":"local","endpoint":"http://vllm.ai-system.svc:8000","models":["deepseek-coder-33b-instruct"]}]''\<close>

definition choose_validator ::
  "(string \<Rightarrow> string) \<Rightarrow> (string \<Rightarrow> string) \<Rightarrow> string \<Rightarrow> string \<Rightarrow> string + validator_choice" where
  "choose_validator uni getenv issuerURL clientID =
     (if getenv ''GATEWAY_DEV_INSECURE_FIXED_IDENTITY'' = ''1''
      then Inr (FixedIdentity (NewFixedIdentityValidator uni (envOr getenv ''GATEWAY_DEV_USER_SUB'' ''dev-user'')
             (envOr getenv ''GATEWAY_DEV_USER_EMAIL'' ''dev@localhost'')))
      else case parseOIDCClockSkew getenv of
        Inl e \<Rightarrow> Inl (''invalid OIDC_CLOCK_SKEW: '' @ err_text e @ [CHR 0x0A])
      | Inr skew \<Rightarrow> Inr (OIDCValidator \<lparr>oc_issuer_url = issuerURL, oc_client_id = clientID,
             oc_audience = TrimSpace (getenv ''OIDC_AUDIENCE''), oc_clock_skew = skew\<rparr>))"

definition lifecycle_from_env :: "(string \<Rightarrow> string) \<Rightarrow> ai_provider list \<Rightarrow> lifecycle_config" where
  "lifecycle_from_env getenv providers =
     \<lparr>lc_providers = providers, lc_cpu = envOr getenv ''DEFAULT_CPU'' ''2'', lc_memory = envOr getenv ''DEFAULT_MEMORY'' ''4Gi'',
      lc_storage = envOr getenv ''DEFAULT_STORAGE'' ''20Gi'', lc_storage_class = getenv ''DEFAULT_STORAGE_CLASS''\<rparr>"

definition gateway_config_from_env ::
  "(string \<Rightarrow> string) \<Rightarrow> (string \<Rightarrow> ai_provider list res) \<Rightarrow> (string \<Rightarrow> string) \<Rightarrow> string + gateway_config" where
  "gateway_config_from_env uni unmarshal getenv =
     or_exit (mustEnv getenv ''OIDC_ISSUER_URL'') (\<lambda>issuerURL.
     or_exit (mustEnv getenv ''OIDC_CLIENT_ID'') (\<lambda>clientID.
     or_exit (mustEnv getenv ''OIDC_CLIENT_SECRET'') (\<lambda>clientSecret.
     or_exit (mustEnv getenv ''OIDC_REDIRECT_URL'') (\<lambda>redirectURL.
     case unmarshal (envOr getenv ''AI_PROVIDERS_JSON'' default_providers) of
       Inl e \<Rightarrow> Inl (''failed to parse AI_PROVIDERS_JSON: '' @ err_text e @ [CHR 0x0A])
     | Inr providers \<Rightarrow>
         or_exit (choose_validator uni getenv issuerURL clientID) (\<lambda>v. Inr
           \<lparr>gc_client_secret = clientSecret, gc_redirect_url = redirectURL,
            gc_namespace = envOr getenv ''NAMESPACE'' ''default'', gc_port = envOr getenv ''PORT'' ''8080'',
            gc_cookie_secure = HasPrefix redirectURL ''https://'', gc_validator = v,
            gc_lifecycle = lifecycle_from_env getenv providers\<rparr>)))))"

section \<open>The parts behind the interfaces\<close>

text \<open>The state of the process: the token cache and the rate limiters, beside the outside world.\<close>

record ('w, 'l) gateway_world =
  gwd_validator :: validator
  gwd_lifecycle_rl :: "'l endpoint_limiter option"
  gwd_ws_rl :: "'l endpoint_limiter option"
  gwd_env :: 'w

record ('w, 'l) gateway =
  gt_uni :: "string \<Rightarrow> string"
  gt_env :: "('w, 'l) gateway_world gw_env"
  gt_oidc :: "'w oidc_env"
  gt_client :: "('w, 'l) gateway_world kclient"
  gt_rate :: "'l rate_lib"
  gt_cfg :: gateway_config

text \<open>Run an action of a component on its part of the state, its effects tagged.\<close>

definition zoom :: "('w \<Rightarrow> 'v) \<Rightarrow> ('v \<Rightarrow> 'w \<Rightarrow> 'w) \<Rightarrow> ('d \<Rightarrow> 'e) \<Rightarrow> ('v, 'd, 'a) io \<Rightarrow> ('w, 'e, 'a) io" where
  "zoom get put ev m = State (\<lambda>s. case run_state m \<lparr>world = get (world s), trace = []\<rparr> of
     (a, s') \<Rightarrow> (a, s\<lparr>world := put (world s') (world s), trace := trace s @ map ev (trace s')\<rparr>))"

definition gateway_validate :: "('w, 'l) gateway \<Rightarrow> ('w, 'l) gateway_world token_validator_fn" where
  "gateway_validate g tok = (case gc_validator (gt_cfg g) of
     FixedIdentity cl \<Rightarrow> State_Monad.return (fixed_Validate cl tok)
   | OIDCValidator _ \<Rightarrow>
       zoom (\<lambda>w. \<lparr>aw_validator = gwd_validator w, aw_env = gwd_env w\<rparr>)
         (\<lambda>a w. w\<lparr>gwd_validator := aw_validator a, gwd_env := aw_env a\<rparr>) AuthEffect
         (Validate (gt_uni g) (gt_oidc g) tok))"

definition kube_part :: "('w, event, 'a) io \<Rightarrow> ('w, 'a) gw" where
  "kube_part m = zoom id (\<lambda>w _. w) KubeEffect m"

definition gateway_lifecycle :: "('w, 'l) gateway \<Rightarrow> ('w, 'l) gateway_world workspace_lifecycle" where
  "gateway_lifecycle g =
     (let m = NewLifecycleManager (gt_client g) (gc_lifecycle (gt_cfg g)) in
      \<lparr>wl_ensure_exists = (\<lambda>ns cl. kube_part (EnsureExists (lm_client m) (lm_cfg m) ns cl)),
       wl_ensure_workspace = (\<lambda>ns cl. kube_part (EnsureWorkspace (lm_client m) (lm_cfg m) ns cl)),
       wl_touch = (\<lambda>ws. kube_part (TouchLastAccessed (lm_client m) ws))\<rparr>)"

lemma gateway_lifecycle_eq:
  "gateway_lifecycle g =
     \<lparr>wl_ensure_exists = (\<lambda>ns cl. kube_part (EnsureExists (gt_client g) (gc_lifecycle (gt_cfg g)) ns cl)),
      wl_ensure_workspace = (\<lambda>ns cl. kube_part (EnsureWorkspace (gt_client g) (gc_lifecycle (gt_cfg g)) ns cl)),
      wl_touch = (\<lambda>ws. kube_part (TouchLastAccessed (gt_client g) ws))\<rparr>"
  by (simp add: gateway_lifecycle_def Let_def)

text \<open>\<open>Allow\<close> on a limiter of the process: a nil limiter allows everything, a bucket reads the clock.\<close>

definition lifecycle_allow :: "('w, 'l) gateway \<Rightarrow> ('w, 'l) gateway_world limiter_fn" where
  "lifecycle_allow g key = do {
     l \<leftarrow> ask_silent (\<lambda>w. (gwd_lifecycle_rl w, w));
     case l of
       None \<Rightarrow> State_Monad.return (fst (Allow (gt_rate g) 0 key None))
     | Some _ \<Rightarrow> do {
         t \<leftarrow> gw_now (gt_env g);
         ask_silent (\<lambda>w. case Allow (gt_rate g) t key (gwd_lifecycle_rl w) of (r, l) \<Rightarrow> (r, w\<lparr>gwd_lifecycle_rl := l\<rparr>)) } }"

definition ws_allow :: "('w, 'l) gateway \<Rightarrow> ('w, 'l) gateway_world limiter_fn" where
  "ws_allow g key = do {
     l \<leftarrow> ask_silent (\<lambda>w. (gwd_ws_rl w, w));
     case l of
       None \<Rightarrow> State_Monad.return (fst (Allow (gt_rate g) 0 key None))
     | Some _ \<Rightarrow> do {
         t \<leftarrow> gw_now (gt_env g);
         ask_silent (\<lambda>w. case Allow (gt_rate g) t key (gwd_ws_rl w) of (r, l) \<Rightarrow> (r, w\<lparr>gwd_ws_rl := l\<rparr>)) } }"

text \<open>The limiters and the empty token cache a process starts with.\<close>

definition gateway_start :: "('w, 'l) gateway \<Rightarrow> validator \<Rightarrow> 'w \<Rightarrow> ('w, 'l) gateway_world" where
  "gateway_start g v w =
     \<lparr>gwd_validator = v,
      gwd_lifecycle_rl = LoadEndpointLimiterFromEnv (gt_rate g) (ge_getenv (gt_env g)) ''GATEWAY_RL_LIFECYCLE_'',
      gwd_ws_rl = LoadEndpointLimiterFromEnv (gt_rate g) (ge_getenv (gt_env g)) ''GATEWAY_RL_WS_'', gwd_env = w\<rparr>"

section \<open>Routes\<close>

text \<open>The pattern \<open>/\<close> takes every path no other pattern has.\<close>

definition finished :: "('w, unit) gw \<Rightarrow> ('w, unit option) gw" where
  "finished m = do { _ \<leftarrow> m; State_Monad.return (Some ()) }"

definition serve :: "('w, 'l) gateway \<Rightarrow> turn list \<Rightarrow> http_request \<Rightarrow> (('w, 'l) gateway_world, unit option) gw" where
  "serve g sched r =
     (let env = gt_env g; cfg = gt_cfg g; ns = gc_namespace cfg; secure = gc_cookie_secure cfg;
          validator = gateway_validate g; lifecycle = gateway_lifecycle g; p = rq_path r in
      if p = ''/metrics'' then finished (emit MetricsPage)
      else if p = ''/health'' then finished handleHealth
      else if p = ''/api/workspace''
      then finished (handleWorkspaceAPI env validator lifecycle (lifecycle_allow g) ns secure [] r)
      else if p = ''/ws'' then handleWS env sched validator lifecycle (ws_allow g) ns [] r
      else if p = ''/login'' then finished (handleLogin env secure [] r)
      else if p = ''/callback'' then finished (handleCallback env validator secure [] r)
      else finished (handleProxy env validator lifecycle ns secure [] r))"

end
