(* ===== verification/Keepalive.thy ===== *)
theory Keepalive
  imports System Gateway
begin

text \<open>
  A terminal session and the idle check of the operator. Every frame of a session calls
  \<open>onActivity\<close>, which stamps the Workspace at most once a minute; the operator stops a workspace
  whose stamp is older than the idle timeout. Here both work on one cluster, with time passing and
  other sessions stamping the same Workspace.
\<close>

section \<open>Frames on the cluster\<close>

text \<open>A gateway whose clock is that of the cluster and whose lifecycle manager talks to it.\<close>

definition on_cluster :: "cluster gw_env \<Rightarrow> cluster workspace_lifecycle \<Rightarrow> bool" where
  "on_cluster env lc \<longleftrightarrow> ge_now env = (\<lambda>w. (k_clock w, w)) \<and> wl_touch lc = (\<lambda>ws. kube_part (TouchLastAccessed cluster_client ws))"

definition activity_in :: "cluster gw_env \<Rightarrow> cluster workspace_lifecycle \<Rightarrow> session_state \<Rightarrow> cluster \<Rightarrow> session_state \<times> cluster" where
  "activity_in env lc s w = (case run_state (onActivity env lc s) \<lparr>world = w, trace = []\<rparr> of (s', x) \<Rightarrow> (s', world x))"

text \<open>The stamp of an object \<open>b\<close> at time \<open>t\<close>, in whole seconds on the wire, merged into the stored one.\<close>

definition stamped :: "instant \<Rightarrow> workspace \<Rightarrow> workspace \<Rightarrow> workspace" where
  "stamped t b cur = cur\<lparr>ws_status := (ws_status cur)\<lparr>st_last_accessed :=
     merge_field (map_option whole_seconds (st_last_accessed (ws_status b))) (Some (whole_seconds t))
       (st_last_accessed (ws_status cur))\<rparr>\<rparr>"

lemma stamped_simps [simp]:
  "ws_meta (stamped t b cur) = ws_meta cur" "ws_spec (stamped t b cur) = ws_spec cur" "ws_phase (stamped t b cur) = ws_phase cur"
  by (simp_all add: stamped_def)

lemma merge_touched: "merge_status (ws_status b) (ws_status (touched t b)) u =
    u\<lparr>st_last_accessed := merge_field (map_option whole_seconds (st_last_accessed (ws_status b))) (Some (whole_seconds t))
      (st_last_accessed u)\<rparr>"
  by (simp add: merge_status_def touched_def)

lemma touch_in:
  assumes "find_in ws_meta (k_ws w) (key_of (ws_meta b)) = Some cur"
  shows "fst (run_state (TouchLastAccessed cluster_client b) \<lparr>world = w, trace = tr\<rparr>) = stamped (k_clock w) b cur"
    and "world (snd (run_state (TouchLastAccessed cluster_client b) \<lparr>world = w, trace = tr\<rparr>)) =
      w\<lparr>k_ws := (k_ws w)(key_of (ws_meta b) \<mapsto> stamped (k_clock w) b cur)\<rparr>"
proof -
  have m: "ws_meta (touched t b) = ws_meta b" for t by (simp add: touched_def)
  show "fst (run_state (TouchLastAccessed cluster_client b) \<lparr>world = w, trace = tr\<rparr>) = stamped (k_clock w) b cur"
    "world (snd (run_state (TouchLastAccessed cluster_client b) \<lparr>world = w, trace = tr\<rparr>)) =
      w\<lparr>k_ws := (k_ws w)(key_of (ws_meta b) \<mapsto> stamped (k_clock w) b cur)\<rparr>"
    using assms m by (simp_all add: TouchLastAccessed_def now_def patch_status_def cluster_client_def patch_in_def Let_def
        merge_touched stamped_def)
qed

lemma touch_in_missing:
  assumes "find_in ws_meta (k_ws w) (key_of (ws_meta b)) = None"
  shows "world (snd (run_state (TouchLastAccessed cluster_client b) \<lparr>world = w, trace = tr\<rparr>)) = w"
proof -
  have m: "ws_meta (touched t b) = ws_meta b" for t by (simp add: touched_def)
  show ?thesis
    using assms m by (simp add: TouchLastAccessed_def now_def patch_status_def cluster_client_def patch_in_def Let_def)
qed

text \<open>A frame within a minute of the last stamp changes nothing; any other frame stamps the object of the session.\<close>

lemma activity_quiet:
  assumes "on_cluster env lc" and "ss_last_touch s = Some l" and "k_clock w - l < Minute"
  shows "activity_in env lc s w = (s, w)"
proof -
  have "time_sub (k_clock w) l < Minute" using assms(3) by (auto simp: time_sub_def duration_units)
  then show ?thesis using assms(1,2) by (simp add: activity_in_def onActivity_def gw_now_def on_cluster_def)
qed

lemma activity_stamps:
  assumes "on_cluster env lc" and "case ss_last_touch s of None \<Rightarrow> True | Some l \<Rightarrow> Minute \<le> k_clock w - l"
    and "find_in ws_meta (k_ws w) (key_of (ws_meta (ss_ws s))) = Some cur"
  shows "activity_in env lc s w =
    (s\<lparr>ss_last_touch := Some (k_clock w), ss_ws := stamped (k_clock w) (ss_ws s) cur\<rparr>,
     w\<lparr>k_ws := (k_ws w)(key_of (ws_meta (ss_ws s)) \<mapsto> stamped (k_clock w) (ss_ws s) cur)\<rparr>)"
proof -
  have "\<not> time_sub (k_clock w) l < Minute" if "ss_last_touch s = Some l" for l
    using assms(2) that by (auto simp: time_sub_def duration_units)
  then show ?thesis
    using assms(1) touch_in [OF assms(3)]
    by (simp add: activity_in_def onActivity_def gw_now_def on_cluster_def call_touch_def kube_part_def zoom_def case_prod_beta
        split: option.splits)
qed

section \<open>Steps while a user is active\<close>

text \<open>
  A state has the cluster, the session and the time of its last frame; \<open>gap\<close> is the longest time
  the user leaves between two frames.
\<close>

inductive live_step ::
  "k8s_lib \<Rightarrow> reconciler \<Rightarrow> cluster gw_env \<Rightarrow> cluster workspace_lifecycle \<Rightarrow> object_key \<Rightarrow> duration
    \<Rightarrow> cluster \<times> session_state \<times> instant \<Rightarrow> cluster \<times> session_state \<times> instant \<Rightarrow> bool"
  for lib r env lc nn gap where
  frame: "activity_in env lc s w = (s', w') \<Longrightarrow> live_step lib r env lc nn gap (w, s, a) (w', s', k_clock w)"
| operator: "live_step lib r env lc nn gap (w, s, a) (reconcile_in lib r nn w, s, a)"
| other_touch: "live_step lib r env lc nn gap (w, s, a) (run_in (TouchLastAccessed cluster_client b) w, s, a)"
| time: "k_clock w \<le> t \<Longrightarrow> t \<le> a + gap \<Longrightarrow> live_step lib r env lc nn gap (w, s, a) (w\<lparr>k_clock := t\<rparr>, s, a)"

text \<open>The workspace \<open>ws\<close> is up in \<open>w\<close>, with pod \<open>p\<close>, and the operator has nothing to change.\<close>

definition up :: "k8s_lib \<Rightarrow> reconciler \<Rightarrow> object_key \<Rightarrow> cluster \<Rightarrow> workspace \<Rightarrow> pod \<Rightarrow> bool" where
  "up lib r nn w ws p \<longleftrightarrow> find_in ws_meta (k_ws w) nn = Some ws \<and> admitted lib ws \<and> claims_ok ws w \<and> pvc_usable ws w
     \<and> find_in pod_meta (k_pod w) (in_ns ws (PodName (ws_user_id ws))) = Some p \<and> \<not> image_outdated r p \<and> pod_serving p"

text \<open>
  The idle timeout is off, or leaves a minute and a second beyond the gap: a stamp is made at most
  once a minute, and it is stored in whole seconds.
\<close>

definition generous :: "reconciler \<Rightarrow> duration \<Rightarrow> workspace \<Rightarrow> bool" where
  "generous r gap ws \<longleftrightarrow> effectiveIdleTimeout ws (rc_idle_timeout r) \<le> 0 \<or> Minute + Second + gap \<le> effectiveIdleTimeout ws (rc_idle_timeout r)"

text \<open>
  The stamp in the cluster is one of whole seconds, as every stored time, at least that of the
  session's object, and not in the future.
\<close>

definition stamp_ok :: "object_key \<Rightarrow> cluster \<Rightarrow> session_state \<Rightarrow> workspace \<Rightarrow> instant \<Rightarrow> bool" where
  "stamp_ok nn w s ws la \<longleftrightarrow> st_last_accessed (ws_status ws) = Some la \<and> whole_seconds la = la \<and> la \<le> k_clock w
     \<and> key_of (ws_meta (ss_ws s)) = nn
     \<and> (case st_last_accessed (ws_status (ss_ws s)) of None \<Rightarrow> True | Some b \<Rightarrow> b \<le> la)"

definition alive ::
  "k8s_lib \<Rightarrow> reconciler \<Rightarrow> object_key \<Rightarrow> duration \<Rightarrow> cluster \<times> session_state \<times> instant \<Rightarrow> bool" where
  "alive lib r nn gap x \<longleftrightarrow> (case x of (w, s, a) \<Rightarrow> \<exists>ws p la l. up lib r nn w ws p \<and> generous r gap ws \<and> stamp_ok nn w s ws la
     \<and> ss_last_touch s = Some l \<and> l < la + Second \<and> a < l + Minute \<and> a \<le> k_clock w \<and> k_clock w \<le> a + gap)"

lemma up_status:
  assumes "up lib r nn w ws p" and "ws_meta ws' = ws_meta ws" and "ws_spec ws' = ws_spec ws"
    and "ws_phase ws' \<noteq> WorkspacePhaseStopped"
  shows "up lib r nn (w\<lparr>k_ws := (k_ws w)(nn \<mapsto> ws')\<rparr>) ws' p"
proof -
  note u = assms(1) [unfolded up_def]
  have k: "key_of (ws_meta ws') = nn" using u assms(2) find_in_key by metis
  have n: "in_ns ws' = in_ns ws" by (simp add: in_ns_def fun_eq_iff assms(2))
  have "admitted lib ws'" using u assms(2-4) by (intro admitted_cong [of ws ws' lib]) auto
  moreover have "claims_ok ws' w" using u claims_ok_cong [of ws' ws w] assms(2) by simp
  moreover have "pvc_usable ws' w" using u pvc_usable_cong [of ws' ws w w] assms(2,3) by simp
  ultimately show ?thesis using u k n assms(3) by (simp add: up_def pvc_usable_def)
qed

lemma generous_spec: "ws_spec ws' = ws_spec ws \<Longrightarrow> generous r gap ws' = generous r gap ws"
  by (simp add: generous_def effectiveIdleTimeout_def)

lemma up_not_stopped: "up lib r nn w ws p \<Longrightarrow> ws_phase ws \<noteq> WorkspacePhaseStopped"
  by (simp add: up_def admitted_def)

text \<open>Stamping, by this session or another.\<close>

lemma stamped_clock:
  assumes "st_last_accessed (ws_status cur) = Some la" and "whole_seconds la = la" and "la \<le> t"
    and "case st_last_accessed (ws_status b) of None \<Rightarrow> True | Some x \<Rightarrow> x \<le> la"
  shows "st_last_accessed (ws_status (stamped t b cur)) = Some (whole_seconds t)"
proof -
  have "la \<le> whole_seconds t" using whole_seconds_mono [OF assms(3)] assms(2) by simp
  moreover have "whole_seconds x \<le> la" if "st_last_accessed (ws_status b) = Some x" for x
    using whole_seconds_mono [of x la] assms(2,4) that by simp
  ultimately show ?thesis using assms(1) by (auto simp: stamped_def merge_field_def split: option.splits)
qed

lemma frame_alive:
  assumes oc: "on_cluster env lc" and u: "up lib r nn w ws p" and g: "generous r gap ws" and st: "stamp_ok nn w s ws la"
    and l: "case ss_last_touch s of None \<Rightarrow> True | Some l \<Rightarrow> l < la + Second" and gap: "0 \<le> gap"
    and a: "activity_in env lc s w = (s', w')"
  shows "alive lib r nn gap (w', s', k_clock w)"
proof (cases "case ss_last_touch s of None \<Rightarrow> True | Some l \<Rightarrow> Minute \<le> k_clock w - l")
  case False
  then obtain l where "ss_last_touch s = Some l" "k_clock w - l < Minute" by (auto split: option.splits)
  then show ?thesis using activity_quiet [OF oc] a u g st l gap by (auto simp: alive_def)
next
  case True
  have k: "key_of (ws_meta (ss_ws s)) = nn" using st by (simp add: stamp_ok_def)
  have f: "find_in ws_meta (k_ws w) (key_of (ws_meta (ss_ws s))) = Some ws" using u k by (simp add: up_def)
  let ?ws = "stamped (k_clock w) (ss_ws s) ws"
  let ?la = "whole_seconds (k_clock w)"
  note b = whole_seconds_bounds [of "k_clock w"]
  have la: "st_last_accessed (ws_status ?ws) = Some ?la" using st stamped_clock [of ws la] by (simp add: stamp_ok_def)
  have r: "s' = s\<lparr>ss_last_touch := Some (k_clock w), ss_ws := ?ws\<rparr>" "w' = w\<lparr>k_ws := (k_ws w)(nn \<mapsto> ?ws)\<rparr>"
    using activity_stamps [OF oc True f] a k by auto
  have "up lib r nn w' ?ws p" unfolding r(2) by (rule up_status [OF u]) (use up_not_stopped [OF u] in simp_all)
  moreover have "generous r gap ?ws" using g generous_spec [of ?ws ws] by simp
  moreover have "stamp_ok nn w' s' ?ws ?la"
    using la find_in_key [of ws_meta "k_ws w" nn ws] u b by (simp add: stamp_ok_def r up_def)
  moreover have "k_clock w < k_clock w + Minute" by (simp add: duration_units)
  ultimately show ?thesis
    unfolding alive_def case_prod_conv using gap r b
    by (intro exI [of _ ?ws] exI [of _ p] exI [of _ ?la] exI [of _ "k_clock w"]) simp
qed

lemma not_idle:
  assumes "generous r gap ws" and "st_last_accessed (ws_status ws) = Some la" and "la \<le> t" and "t < la + Minute + Second + gap"
  shows "\<not> idle_over r t ws"
proof -
  have "time_sub t la \<le> t - la" using assms(3) by (simp add: time_sub_def)
  then show ?thesis using assms by (auto simp: idle_over_def seeded_def idle_since_def generous_def)
qed

text \<open>A reconcile of an active workspace leaves it running, with its pod and its stamp.\<close>

lemma operator_alive:
  assumes env: "cluster_env lib" and al: "alive lib r nn gap (w, s, a)"
  shows "alive lib r nn gap (reconcile_in lib r nn w, s, a)"
    and "\<exists>ws p. up lib r nn (reconcile_in lib r nn w) ws p \<and> ws_phase ws = WorkspacePhaseRunning"
proof -
  obtain ws p la l where u: "up lib r nn w ws p" and g: "generous r gap ws" and st: "stamp_ok nn w s ws la"
    and l: "ss_last_touch s = Some l" "l < la + Second" "a < l + Minute" "a \<le> k_clock w" "k_clock w \<le> a + gap"
    using al by (auto simp: alive_def)
  have la: "st_last_accessed (ws_status ws) = Some la" "la \<le> k_clock w" using st by (auto simp: stamp_ok_def)
  have i: "\<not> idle_over r (k_clock w) ws" using not_idle [OF g la] l by simp
  let ?w = "reconcile_in lib r nn w" and ?ws = "ApplyStatusSummary lib (idle_ws r (k_clock w) ws) (running_summary ws)"
  have s: "find_in ws_meta (k_ws ?w) nn = Some ?ws" "k_pod ?w = k_pod w" "k_pvc ?w = k_pvc w" "k_clock ?w = k_clock w" "claims_ok ws ?w"
    using cluster_env.step_serving [OF env, of w nn ws p r] u i by (auto simp: up_def Let_def)
  have ws: "ws_meta ?ws = ws_meta ws" "ws_spec ?ws = ws_spec ws" "ws_phase ?ws = WorkspacePhaseRunning"
    "st_last_accessed (ws_status ?ws) = Some la"
    using la by (simp_all add: running_summary_def summary_def idle_ws_def seeded_def)
  have n: "in_ns ?ws = in_ns ws" by (simp add: in_ns_def fun_eq_iff ws)
  have "admitted lib ?ws" using u ws by (intro admitted_cong [of ws ?ws lib]) (auto simp: up_def)
  moreover have "claims_ok ?ws ?w" using s(5) claims_ok_cong [of ?ws ws ?w] ws by simp
  moreover have "pvc_usable ?ws ?w" using u pvc_usable_cong [of ?ws ws ?w w] ws s(3) by (simp add: up_def)
  ultimately have u': "up lib r nn ?w ?ws p" using u s n ws by (simp add: up_def)
  then show "\<exists>ws p. up lib r nn ?w ws p \<and> ws_phase ws = WorkspacePhaseRunning" using ws by blast
  have "stamp_ok nn ?w s ?ws la" using st s ws by (simp add: stamp_ok_def)
  moreover have "generous r gap ?ws" using g generous_spec ws by blast
  ultimately show "alive lib r nn gap (?w, s, a)"
    unfolding alive_def case_prod_conv using u' l s(4) by (intro exI [of _ ?ws] exI [of _ p] exI [of _ la] exI [of _ l]) simp
qed

lemma touch_alive:
  assumes al: "alive lib r nn gap (w, s, a)"
  shows "alive lib r nn gap (run_in (TouchLastAccessed cluster_client b) w, s, a)"
proof -
  obtain ws p la l where u: "up lib r nn w ws p" and g: "generous r gap ws" and st: "stamp_ok nn w s ws la"
    and l: "ss_last_touch s = Some l" "l < la + Second" "a < l + Minute" "a \<le> k_clock w" "k_clock w \<le> a + gap"
    using al by (auto simp: alive_def)
  let ?w = "run_in (TouchLastAccessed cluster_client b) w"
  show ?thesis
  proof (cases "find_in ws_meta (k_ws w) (key_of (ws_meta b))")
    case None
    then show ?thesis using al touch_in_missing by (simp add: run_in_def sys_of_def)
  next
    case (Some cur)
    let ?c = "stamped (k_clock w) b cur"
    have w: "?w = w\<lparr>k_ws := (k_ws w)(key_of (ws_meta b) \<mapsto> ?c)\<rparr>" using touch_in [OF Some] by (simp add: run_in_def sys_of_def)
    show ?thesis
    proof (cases "key_of (ws_meta b) = nn")
      case False
      then have "up lib r nn ?w ws p" using u by (simp add: w up_def pvc_usable_def)
      moreover have "stamp_ok nn ?w s ws la" using st by (simp add: w stamp_ok_def)
      ultimately show ?thesis unfolding alive_def case_prod_conv using g l
        by (intro exI [of _ ws] exI [of _ p] exI [of _ la] exI [of _ l]) (simp add: w)
    next
      case True
      then have c: "cur = ws" using Some u by (simp add: up_def)
      define la' where "la' = (case st_last_accessed (ws_status ?c) of None \<Rightarrow> 0 | Some x \<Rightarrow> x)"
      have "la \<le> whole_seconds (k_clock w)" using st whole_seconds_mono [of la "k_clock w"] by (simp add: stamp_ok_def)
      then have la': "st_last_accessed (ws_status ?c) = Some la'" "la \<le> la'" "la' \<le> k_clock w" "whole_seconds la' = la'"
        using st whole_seconds_bounds [of "k_clock w"]
        by (auto simp: la'_def c stamp_ok_def stamped_def merge_field_def split: option.splits)
      have "up lib r nn ?w ?c p" unfolding w True by (rule up_status [OF u]) (use up_not_stopped [OF u] in \<open>simp_all add: c\<close>)
      moreover have "stamp_ok nn ?w s ?c la'" using st la' by (auto simp: w stamp_ok_def split: option.splits)
      moreover have "generous r gap ?c" using g generous_spec [of ?c ws] by (simp add: c)
      ultimately show ?thesis unfolding alive_def case_prod_conv using l la'(2)
        by (intro exI [of _ ?c] exI [of _ p] exI [of _ la'] exI [of _ l]) (simp add: w)
    qed
  qed
qed

lemma time_alive:
  assumes "alive lib r nn gap (w, s, a)" and "k_clock w \<le> t" and "t \<le> a + gap"
  shows "alive lib r nn gap (w\<lparr>k_clock := t\<rparr>, s, a)"
proof -
  have "up lib r nn w ws p = up lib r nn (w\<lparr>k_clock := t\<rparr>) ws p" for ws p by (simp add: up_def pvc_usable_def)
  moreover have "stamp_ok nn (w\<lparr>k_clock := t\<rparr>) s ws la" if "stamp_ok nn w s ws la" for ws la
    using that assms(2) by (simp add: stamp_ok_def)
  ultimately show ?thesis using assms unfolding alive_def by fastforce
qed

lemma live_step_alive:
  assumes "cluster_env lib" and "on_cluster env lc" and "0 \<le> gap"
    and "live_step lib r env lc nn gap x y" and "alive lib r nn gap x"
  shows "alive lib r nn gap y"
  using assms(4,5)
proof cases
  case (frame s w s' w' a)
  then obtain ws p la l where "up lib r nn w ws p" "generous r gap ws" "stamp_ok nn w s ws la" "ss_last_touch s = Some l" "l < la + Second"
    using assms(5) by (auto simp: alive_def)
  then show ?thesis using frame_alive [OF assms(2) _ _ _ _ assms(3)] frame by fastforce
next
  case (operator w s a)
  then show ?thesis using operator_alive(1) [OF assms(1)] assms(5) by simp
next
  case (other_touch w s a b)
  then show ?thesis using touch_alive assms(5) by simp
next
  case (time w t a s)
  then show ?thesis using time_alive assms(5) by simp
qed

text \<open>
  C13: an active user is not stopped. Take a workspace that is up, a session that was just opened
  on it, and an idle timeout that is off or at least a minute and a second longer than the user's
  longest pause between two frames. From the first frame on, in every order of frames, reconciles,
  stamps by other sessions and time passing within the pause, a reconcile leaves the Workspace
  Running with its pod in place. The stamp that the operator compares lags the frames by less than
  a minute and a second: a frame within a minute of the last stamp makes none, and a stamp is
  stored in whole seconds.
\<close>

theorem active_session_stays_up:
  assumes "cluster_env lib" and "on_cluster env lc" and "up lib r nn w ws p" and "generous r gap ws" and "0 \<le> gap"
    and "stamp_ok nn w s ws la" and "ss_last_touch s = None" and "activity_in env lc s w = (s1, w1)"
    and "(live_step lib r env lc nn gap)\<^sup>*\<^sup>* (w1, s1, k_clock w) (w', s', a')"
  shows "\<exists>ws' p'. up lib r nn (reconcile_in lib r nn w') ws' p' \<and> ws_phase ws' = WorkspacePhaseRunning"
proof -
  have "alive lib r nn gap (w1, s1, k_clock w)"
    using frame_alive [OF assms(2-4,6) _ assms(5,8)] assms(7) by simp
  with assms(9) have "alive lib r nn gap (w', s', a')"
    by (induction rule: rtranclp_induct) (use live_step_alive [OF assms(1,2,5)] in blast)+
  then show ?thesis by (rule operator_alive(2) [OF assms(1)])
qed

text \<open>The example: the workspace of the idle example, a session opened at the last moment, and a pause of half an hour.\<close>

definition cluster_gw :: "cluster gw_env" where
  "cluster_gw = \<lparr>ge_getenv = (\<lambda>_. ''''), ge_lower = id, ge_now = (\<lambda>w. (k_clock w, w)),
     ge_uuid = (\<lambda>w. (''id'', w)), ge_mkdir = (\<lambda>_ w. (Inr (), w)), ge_open = (\<lambda>_ w. (Inr (), w)),
     ge_write = (\<lambda>_ _ w. (Inr (), w)), ge_dial_tcp = (\<lambda>_ w. (Inr (), w)), ge_auth_code_url = id,
     ge_exchange = (\<lambda>_ w. (Inl (new_error ''no code''), w)), ge_upgrade = (\<lambda>_ w. (Inr ''tty'', w)),
     ge_dial_ws = (\<lambda>_ _ _ _ w. (Inr (), w)), ge_read = (\<lambda>_ w. (Inl (new_error ''closed''), w)),
     ge_send = (\<lambda>_ _ _ w. (Inr (), w)), ge_is_close = (\<lambda>_ _. False),
     ge_round_trip = (\<lambda>_ w. (Inl (new_error ''refused''), w))\<rparr>"

definition cluster_lifecycle :: "cluster workspace_lifecycle" where
  "cluster_lifecycle = \<lparr>wl_ensure_exists = (\<lambda>ns cl. kube_part (EnsureExists cluster_client sample_lc ns cl)),
     wl_ensure_workspace = (\<lambda>ns cl. kube_part (EnsureWorkspace cluster_client sample_lc ns cl)),
     wl_touch = (\<lambda>ws. kube_part (TouchLastAccessed cluster_client ws))\<rparr>"

theorem active_session_stays_up_witness:
  "let s = \<lparr>ss_last_touch = None, ss_ws = sample_idle_ws, ss_recorder = None\<rparr>;
       w = snd (activity_in cluster_gw cluster_lifecycle s sample_idle)\<lparr>k_clock := 2 * Hour + 30 * Minute\<rparr>
   in \<exists>ws' p'. up sample_lib sample_rc (sample_key ''alice'') (reconcile_in sample_lib sample_rc (sample_key ''alice'') w) ws' p'
        \<and> ws_phase ws' = WorkspacePhaseRunning"
proof -
  let ?s = "\<lparr>ss_last_touch = None, ss_ws = sample_idle_ws, ss_recorder = None\<rparr>" and ?nn = "sample_key ''alice''"
  have oc: "on_cluster cluster_gw cluster_lifecycle" by (simp add: on_cluster_def cluster_gw_def cluster_lifecycle_def)
  have u: "up sample_lib sample_rc ?nn sample_idle sample_idle_ws Controller_Props.sample_up"
    using sample_idle_facts(1-5) Controller_Props.sample_up_facts(2,3) by (simp add: up_def)
  have m: "ws_meta sample_idle_ws = ws_meta sample_fws" "ws_spec sample_idle_ws = ws_spec sample_fws"
    by (simp_all add: sample_idle_ws_def)
  have g: "generous sample_rc (30 * Minute) sample_idle_ws"
    by (simp add: generous_def effectiveIdleTimeout_def m sample_spec_def sample_rc_def duration_units)
  obtain la where la: "st_last_accessed (ws_status sample_idle_ws) = Some la" "la \<le> 2 * Hour" "whole_seconds la = la"
    by (simp add: sample_idle_ws_def duration_units whole_seconds_def)
  have st: "stamp_ok ?nn sample_idle ?s sample_idle_ws la"
    using la sample_idle_facts(6) find_in_key [OF sample_idle_facts(1)] by (simp add: stamp_ok_def)
  obtain s1 w1 where a: "activity_in cluster_gw cluster_lifecycle ?s sample_idle = (s1, w1)" by fastforce
  have k: "k_clock w1 = 2 * Hour"
    using activity_stamps [OF oc, where s = ?s and w = sample_idle and cur = sample_idle_ws] a u sample_idle_facts(6) st by (auto simp: up_def stamp_ok_def)
  have "live_step sample_lib sample_rc cluster_gw cluster_lifecycle ?nn (30 * Minute) (w1, s1, k_clock sample_idle)
      (w1\<lparr>k_clock := 2 * Hour + 30 * Minute\<rparr>, s1, k_clock sample_idle)"
    by (rule live_step.time) (simp_all add: k sample_idle_facts(6) duration_units)
  then have "(live_step sample_lib sample_rc cluster_gw cluster_lifecycle ?nn (30 * Minute))\<^sup>*\<^sup>* (w1, s1, k_clock sample_idle)
      (w1\<lparr>k_clock := 2 * Hour + 30 * Minute\<rparr>, s1, k_clock sample_idle)"
    by (rule r_into_rtranclp)
  from active_session_stays_up [OF sample_env.cluster_env_axioms oc u g _ st _ a this] a
  show ?thesis by (simp add: duration_units)
qed

end
