(* ===== verification/Healing.thy ===== *)
theory Healing
  imports Controller_Props
begin

text \<open>
  What the operator repairs, and what it does not: a missing finalizer, a missing claim, an
  outdated pod, a missing pod. Reconciles alternate with a kubelet that removes a pod in deletion,
  starts one that can start and leaves one that has ended. A rank counts the repairs still to do;
  every round lowers it, and at rank zero the workspace is Running and stays so, unless it has a pod
  on the right image that has ended: that one the operator reports and never replaces.
\<close>

section \<open>Rounds\<close>

text \<open>The kubelet acts on the pod under the key, and some time later the operator reconciles.\<close>

definition round_at :: "k8s_lib \<Rightarrow> reconciler \<Rightarrow> object_key \<Rightarrow> object_key \<Rightarrow> instant \<Rightarrow> cluster \<Rightarrow> cluster" where
  "round_at lib r nn kp t w = reconcile_in lib r nn ((pod_starts kp w)\<lparr>k_clock := t\<rparr>)"

definition rounds :: "k8s_lib \<Rightarrow> reconciler \<Rightarrow> object_key \<Rightarrow> object_key \<Rightarrow> instant list \<Rightarrow> cluster \<Rightarrow> cluster" where
  "rounds lib r nn kp ts w = fold (round_at lib r nn kp) ts w"

abbreviation pod_key :: "workspace \<Rightarrow> object_key" where
  "pod_key ws \<equiv> in_ns ws (PodName (ws_user_id ws))"

abbreviation claim_key :: "workspace \<Rightarrow> object_key" where
  "claim_key ws \<equiv> in_ns ws (PVCName (ws_user_id ws))"

text \<open>How many repairs a workspace still needs.\<close>

definition todo :: "k8s_lib \<Rightarrow> reconciler \<Rightarrow> workspace \<Rightarrow> cluster \<Rightarrow> nat" where
  "todo lib r ws w =
     (if \<not> lib_contains_finalizer lib (ws_meta ws) workspaceFinalizer then 4
      else if find_in pvc_meta (k_pvc w) (claim_key ws) = None then 3
      else case find_in pod_meta (k_pod w) (pod_key ws) of
        None \<Rightarrow> 1
      | Some p \<Rightarrow> if terminating p then 1 else if image_outdated r p then 2 else 0)"

text \<open>The pod under a key stands in the way: it has ended, and nothing about it makes the operator delete it.\<close>

definition stuck :: "reconciler \<Rightarrow> object_key \<Rightarrow> cluster \<Rightarrow> bool" where
  "stuck r kp w \<longleftrightarrow> (\<exists>p. find_in pod_meta (k_pod w) kp = Some p \<and> \<not> terminating p \<and> \<not> image_outdated r p \<and> pod_ended p)"

definition same_fate :: "reconciler \<Rightarrow> object_key \<Rightarrow> cluster \<Rightarrow> cluster \<Rightarrow> bool" where
  "same_fate r kp w w' \<longleftrightarrow> stuck r kp w' = stuck r kp w
     \<and> (stuck r kp w \<longrightarrow> find_in pod_meta (k_pod w') kp = find_in pod_meta (k_pod w) kp)"

text \<open>
  What every round keeps: the resource of \<open>ws0\<close>, valid, not deleted and not stopped, its objects
  free of other controllers, its claim not lost, and an access time from \<open>A\<close>.
\<close>

definition healable :: "k8s_lib \<Rightarrow> object_key \<Rightarrow> instant option set \<Rightarrow> workspace \<Rightarrow> cluster \<Rightarrow> workspace \<Rightarrow> bool" where
  "healable lib nn A ws0 w ws \<longleftrightarrow> find_in ws_meta (k_ws w) nn = Some ws \<and> mt_deletion (ws_meta ws) = None
     \<and> ValidateSpec lib (Some ws) = None \<and> ws_phase ws \<noteq> WorkspacePhaseStopped \<and> claims_ok ws w
     \<and> ws_spec ws = ws_spec ws0 \<and> ws_namespace ws = ws_namespace ws0
     \<and> (\<forall>v. find_in pvc_meta (k_pvc w) (claim_key ws0) = Some v \<longrightarrow> pvc_phase v \<noteq> ClaimLost)
     \<and> st_last_accessed (ws_status ws) \<in> A"

text \<open>At no time of \<open>T\<close> is a workspace idle that was accessed at a time of \<open>A\<close>.\<close>

definition awake :: "reconciler \<Rightarrow> workspace \<Rightarrow> instant option set \<Rightarrow> instant set \<Rightarrow> bool" where
  "awake r ws A T \<longleftrightarrow> (None \<in> A \<longrightarrow> (\<lambda>t. Some (whole_seconds t)) ` T \<subseteq> A)
     \<and> (effectiveIdleTimeout ws (rc_idle_timeout r) \<le> 0
        \<or> (\<forall>t \<in> T. \<forall>a. Some a \<in> A \<longrightarrow> time_sub t a \<le> effectiveIdleTimeout ws (rc_idle_timeout r)))"

text \<open>The status of a workspace in order.\<close>

definition healed :: "workspace \<Rightarrow> workspace \<Rightarrow> bool" where
  "healed ws0 ws \<longleftrightarrow> ws_phase ws = WorkspacePhaseRunning \<and> st_pod_name (ws_status ws) = PodName (ws_user_id ws0)
     \<and> st_service_endpoint (ws_status ws) = service_endpoint (ServiceName (ws_user_id ws0)) (ws_namespace ws0)
     \<and> ready_status (st_conditions (ws_status ws)) = Some ConditionTrue"

text \<open>Where the repairs end: the workspace runs on a serving pod, or its ended pod is reported.\<close>

definition outcome_of :: "reconciler \<Rightarrow> workspace \<Rightarrow> cluster \<Rightarrow> workspace \<Rightarrow> bool" where
  "outcome_of r ws0 w ws \<longleftrightarrow> (\<exists>p. find_in pod_meta (k_pod w) (pod_key ws0) = Some p \<and> \<not> terminating p \<and> \<not> image_outdated r p
     \<and> (if pod_ended p then ws_phase ws = observed_phase p else pod_serving p \<and> healed ws0 ws))"

section \<open>One round\<close>

lemma find_pod_starts:
  "find_in pod_meta (k_pod (pod_starts k w)) k = (case find_in pod_meta (k_pod w) k of None \<Rightarrow> None
     | Some p \<Rightarrow> if terminating p then None else if pod_ended p then Some p else Some (started p))"
  by (auto simp: find_in_def pod_starts_def split: option.splits)

lemma todo_started [simp]: "todo lib r ws ((pod_starts (pod_key ws) w)\<lparr>k_clock := t\<rparr>) = todo lib r ws w"
  by (auto simp: todo_def find_pod_starts split: option.splits)

lemma same_fate_trans: "same_fate r kp a b \<Longrightarrow> same_fate r kp b d \<Longrightarrow> same_fate r kp a d"
  by (simp add: same_fate_def)

lemma same_fate_pod: "find_in pod_meta (k_pod w') kp = find_in pod_meta (k_pod w) kp \<Longrightarrow> same_fate r kp w w'"
  by (simp add: same_fate_def stuck_def)

lemma same_fate_started: "same_fate r kp w ((pod_starts kp w)\<lparr>k_clock := t\<rparr>)"
  by (auto simp: same_fate_def stuck_def find_pod_starts split: option.splits)

lemma healable_started [simp]:
  "healable lib nn A ws0 ((pod_starts kp w)\<lparr>k_clock := t\<rparr>) ws = healable lib nn A ws0 w ws"
  by (simp add: healable_def)

lemma healable_keys: "healable lib nn A ws0 w ws \<Longrightarrow> pod_key ws = pod_key ws0 \<and> claim_key ws = claim_key ws0"
  by (simp add: healable_def in_ns_def)

lemma awake_not_idle:
  assumes "awake r ws0 A T" and "healable lib nn A ws0 w ws" and "t \<in> T"
  shows "\<not> idle_over r t ws" and "st_last_accessed (ws_status (idle_ws r t ws)) \<in> A"
proof -
  let ?i = "effectiveIdleTimeout ws (rc_idle_timeout r)"
  have i: "?i = effectiveIdleTimeout ws0 (rc_idle_timeout r)" using assms(2) by (simp add: healable_def effectiveIdleTimeout_def)

  have a: "st_last_accessed (ws_status ws) \<in> A" using assms(2) by (simp add: healable_def)
  then have s: "\<exists>l. idle_since (seeded t ws) = l \<and> st_last_accessed (ws_status (seeded t ws)) = Some l \<and> (Some l \<in> A)"
    using assms(1,3) by (cases "st_last_accessed (ws_status ws)") (auto simp: seeded_def idle_since_def awake_def)
  then show "\<not> idle_over r t ws" using assms(1,3) unfolding idle_over_def awake_def i by force
  show "st_last_accessed (ws_status (idle_ws r t ws)) \<in> A" using s a by (auto simp: idle_ws_def)
qed

context cluster_env
begin

lemma step_outdated:
  assumes "find_in ws_meta (k_ws w) nn = Some ws" and "admitted lib ws" and "claims_ok ws w" and "pvc_usable ws w"
    and "find_in pod_meta (k_pod w) (pod_key ws) = Some p" and "image_outdated r p"
  shows "k_pod (reconcile_in lib r nn w) = (k_pod w)(pod_key ws := None)
     \<and> k_ws (reconcile_in lib r nn w) = k_ws w \<and> k_pvc (reconcile_in lib r nn w) = k_pvc w
     \<and> claims_ok ws (reconcile_in lib r nn w)"
proof (rule wp_to_pod [OF assms(1-4)])
  fix s' :: "(cluster, event) sys"
  assume c: "same_core w (world s')" and ok: "claims_ok ws (world s')"
  have "\<lparr>key_namespace = key_namespace nn, key_name = PodName (ws_user_id ws)\<rparr> = pod_key ws"
    using nn_namespace [OF find_in_key [OF assms(1)]] by (simp add: in_ns_def)
  then show "wp (reconcile_pod lib cluster_client r nn ws) (\<lambda>_ s''. k_pod (world s'') = (k_pod w)(pod_key ws := None)
     \<and> k_ws (world s'') = k_ws w \<and> k_pvc (world s'') = k_pvc w \<and> claims_ok ws (world s'')) s'"
    using assms(5,6) find_in_key [OF assms(5)] same_core_simps [OF c] ok
    by (simp add: reconcile_pod_def get_pod_def delete_pod_def delete_failed_def wp_simps lookup_def)
qed

text \<open>A pod that is not serving is reported and left alone.\<close>

lemma status_written:
  "\<exists>smry res. reconcile_status lib c r ws pn p ep idle = finish_status lib c r ws smry res \<and> sum_phase smry = observed_phase p"
  using stuck_container_None [of "ps_containers (pod_status_of p)"]
  by (cases "stuck_container (ps_containers (pod_status_of p))")
    (auto simp: reconcile_status_def Let_def observed_phase_def summary_def failed_summary_def)

lemma step_down:
  assumes "find_in ws_meta (k_ws w) nn = Some ws" and "admitted lib ws" and "claims_ok ws w" and "pvc_usable ws w"
    and "find_in pod_meta (k_pod w) (pod_key ws) = Some p" and "\<not> image_outdated r p" and "\<not> pod_serving p"
  shows "\<exists>smry. find_in ws_meta (k_ws (reconcile_in lib r nn w)) nn = Some (ApplyStatusSummary lib ws smry)
     \<and> sum_phase smry = observed_phase p \<and> k_pod (reconcile_in lib r nn w) = k_pod w
     \<and> k_pvc (reconcile_in lib r nn w) = k_pvc w \<and> claims_ok ws (reconcile_in lib r nn w)"
proof (rule wp_to_idle [OF assms(1-6)])
  fix s :: "(cluster, event) sys"
  have k: "key_of (ws_meta ws) = nn" using find_in_key [OF assms(1)] .
  assume c: "same_core w (world s)" and ok: "claims_ok ws (world s)"
  let ?P = "\<lambda>w'. \<exists>smry. find_in ws_meta (k_ws w') nn = Some (ApplyStatusSummary lib ws smry)
     \<and> sum_phase smry = observed_phase p \<and> k_pod w' = k_pod w \<and> k_pvc w' = k_pvc w \<and> claims_ok ws w'"
  have fin: "wp (finish_status lib cluster_client r ws smry res) (\<lambda>_ s''. ?P (world s'')) s"
    if "sum_phase smry = observed_phase p" for smry res
    by (rule wp_finish_status) (use that k ok assms(1) same_core_simps [OF c] in auto)
  have "reconcile_idle lib cluster_client r ws p ep =
      reconcile_status lib cluster_client r ws (PodName (ws_user_id ws)) p ep (effectiveIdleTimeout ws (rc_idle_timeout r))" for ep
    using assms(7) by (auto simp: reconcile_idle_def Let_def)
  moreover obtain smry res where "sum_phase smry = observed_phase p"
    "reconcile_status lib cluster_client r ws (PodName (ws_user_id ws)) p
       (service_endpoint (ServiceName (ws_user_id ws)) (ws_namespace ws)) (effectiveIdleTimeout ws (rc_idle_timeout r))
     = finish_status lib cluster_client r ws smry res"
    using status_written by blast
  ultimately show "wp (reconcile_idle lib cluster_client r ws p (service_endpoint (ServiceName (ws_user_id ws)) (ws_namespace ws)))
      (\<lambda>_ s''. ?P (world s'')) s"
    using fin by simp
qed

text \<open>A workspace with its finalizer that is healable is admitted; its claim is usable when it is there.\<close>

lemma healable_admitted:
  assumes "healable lib nn A ws0 w ws" and "todo lib r ws w < 4"
  shows "admitted lib ws" and "todo lib r ws w < 3 \<Longrightarrow> pvc_usable ws w"
  using assms healable_keys [OF assms(1)]
  by (auto simp: healable_def admitted_def todo_def pvc_usable_def split: if_splits)

lemma todo_pod:
  assumes "admitted lib ws" and "pvc_usable ws w"
  shows "todo lib r ws w = (case find_in pod_meta (k_pod w) (pod_key ws) of
      None \<Rightarrow> 1 | Some p \<Rightarrow> if terminating p then 1 else if image_outdated r p then 2 else 0)"
  using assms by (auto simp: todo_def admitted_def pvc_usable_def)

lemma healable_frame:
  assumes "healable lib nn A ws0 w ws" and "k_ws w' = k_ws w" "k_pvc w' = k_pvc w" "claims_ok ws w'"
  shows "healable lib nn A ws0 w' ws"
  using assms by (simp add: healable_def)

text \<open>Each repair, by what is missing.\<close>

lemma repair_finalizer:
  assumes "healable lib nn A ws0 w ws" and "todo lib r ws w = 4"
  shows "\<exists>ws'. healable lib nn A ws0 (reconcile_in lib r nn w) ws' \<and> todo lib r ws' (reconcile_in lib r nn w) < 4
     \<and> k_pod (reconcile_in lib r nn w) = k_pod w"
proof -
  let ?m = "lib_add_finalizer lib (ws_meta ws) workspaceFinalizer"
  let ?ws = "ws\<lparr>ws_meta := ?m\<rparr>"
  have h: "find_in ws_meta (k_ws w) nn = Some ws" "mt_deletion (ws_meta ws) = None" "ValidateSpec lib (Some ws) = None"
    "\<not> lib_contains_finalizer lib (ws_meta ws) workspaceFinalizer"
    using assms by (auto simp: healable_def todo_def split: if_splits option.splits)
  have m: "mt_namespace ?m = ws_namespace ws" "mt_uid ?m = mt_uid (ws_meta ws)" "mt_deletion ?m = None" "mt_name ?m = mt_name (ws_meta ws)"
    using fin.add_frame [of "ws_meta ws" workspaceFinalizer] h(2) by (cases "ws_meta ws"; cases ?m; simp)+
  have w: "reconcile_in lib r nn w = w\<lparr>k_ws := (k_ws w)(nn \<mapsto> ?ws)\<rparr>"
    by (rule step_finalizer [OF fin.finalizer_lib_axioms h])
  have "healable lib nn A ws0 (reconcile_in lib r nn w) ?ws"
    using assms(1) m find_in_key [OF h(1)] claims_ok_cong [of ?ws ws]
    by (auto simp: healable_def w key_of_def ValidateSpec_valid)
  moreover have "todo lib r ?ws (reconcile_in lib r nn w) < 4"
    using fin.add_contains by (simp add: todo_def split: option.split)
  ultimately show ?thesis by (intro exI [of _ ?ws]) (simp add: w)
qed

lemma repair_claim:
  assumes "healable lib nn A ws0 w ws" and "todo lib r ws w = 3"
  shows "\<exists>ws'. healable lib nn A ws0 (reconcile_in lib r nn w) ws' \<and> todo lib r ws' (reconcile_in lib r nn w) < 3
     \<and> k_pod (reconcile_in lib r nn w) = k_pod w"
proof -
  note k = healable_keys [OF assms(1)]
  have h: "find_in ws_meta (k_ws w) nn = Some ws" "claims_ok ws w" using assms(1) by (simp_all add: healable_def)
  have ad: "admitted lib ws" using healable_admitted(1) [OF assms(1), of r] assms(2) by simp
  have no: "find_in pvc_meta (k_pvc w) (claim_key ws) = None"
    using assms(2) by (auto simp: todo_def split: if_splits option.splits)
  obtain v smry where s: "sum_phase smry = WorkspacePhaseCreating"
    "find_in ws_meta (k_ws (reconcile_in lib r nn w)) nn = Some (ApplyStatusSummary lib ws smry)"
    "find_in pvc_meta (k_pvc (reconcile_in lib r nn w)) (claim_key ws) = Some v" "pvc_phase v = ''''"
    "k_pod (reconcile_in lib r nn w) = k_pod w" "claims_ok ws (reconcile_in lib r nn w)"
    using step_pvc [OF h(1) ad h(2) no] by blast
  let ?ws = "ApplyStatusSummary lib ws smry"
  have "healable lib nn A ws0 (reconcile_in lib r nn w) ?ws"
    using assms(1) s k claims_ok_cong [of ?ws ws] by (auto simp: healable_def ValidateSpec_valid)
  moreover have "todo lib r ?ws (reconcile_in lib r nn w) < 3"
    using s(3) ad by (auto simp: todo_def admitted_def in_ns_def split: option.split)
  ultimately show ?thesis using s(5) by blast
qed

lemma repair_pod:
  assumes "healable lib nn A ws0 w ws" and "todo lib r ws w = 1 \<or> todo lib r ws w = 2"
    and "\<And>p. find_in pod_meta (k_pod w) (pod_key ws) = Some p \<Longrightarrow> \<not> terminating p"
  shows "healable lib nn A ws0 (reconcile_in lib r nn w) ws \<and> todo lib r ws (reconcile_in lib r nn w) < todo lib r ws w
     \<and> same_fate r (pod_key ws) w (reconcile_in lib r nn w)"
proof -
  have h: "find_in ws_meta (k_ws w) nn = Some ws" "claims_ok ws w" using assms(1) by (simp_all add: healable_def)
  have ad: "admitted lib ws" and u: "pvc_usable ws w" using healable_admitted [OF assms(1), of r] assms(2) by auto
  show ?thesis
  proof (cases "find_in pod_meta (k_pod w) (pod_key ws)")
    case None
    obtain p where p: "BuildPod lib ws (PVCName (ws_user_id ws)) (desired_image r) (rc_build_opts r) = Inr p"
      using builders(2) [OF ad] by blast
    obtain n where s: "k_pod (reconcile_in lib r nn w) = (k_pod w)(pod_key ws \<mapsto> p\<lparr>pod_meta := fresh_uid n (pod_meta p)\<rparr>)"
      "k_ws (reconcile_in lib r nn w) = k_ws w" "k_pvc (reconcile_in lib r nn w) = k_pvc w" "claims_ok ws (reconcile_in lib r nn w)"
      using step_create_pod [OF h(1) ad h(2) u None p] by blast
    have "\<not> image_outdated r (p\<lparr>pod_meta := fresh_uid n (pod_meta p)\<rparr>)"
      using BuildPod_image [OF p] by (auto simp: image_outdated_def)
    moreover have u': "pvc_usable ws (reconcile_in lib r nn w)" using u s(3) by (simp add: pvc_usable_def)
    moreover have "\<not> terminating (p\<lparr>pod_meta := fresh_uid n (pod_meta p)\<rparr>)" "\<not> pod_ended (p\<lparr>pod_meta := m\<rparr>)" for m
      using BuildPod_new [OF p] by (simp_all add: pod_ended_def)
    ultimately show ?thesis
      using s BuildPod_meta [OF p] None healable_frame [OF assms(1) s(2-4)]
      by (simp add: todo_pod [OF ad u] todo_pod [OF ad u'] same_fate_def stuck_def)
  next
    case (Some p)
    then have out: "image_outdated r p" "\<not> terminating p" using assms(2,3) by (auto simp: todo_def split: if_splits)
    note s = step_outdated [OF h(1) ad h(2) u Some out(1)]
    then have u': "pvc_usable ws (reconcile_in lib r nn w)" using u by (simp add: pvc_usable_def)
    show ?thesis using s Some out healable_frame [OF assms(1)]
      by (simp add: todo_pod [OF ad u] todo_pod [OF ad u'] same_fate_def stuck_def)
  qed
qed

text \<open>Nothing left to repair: the pod that came up is served, one that has ended is reported, and everything stays as it is.\<close>

lemma settled:
  assumes "healable lib nn A ws0 w ws" and "todo lib r ws w = 0"
  obtains p where "find_in pod_meta (k_pod w) (pod_key ws) = Some p" "\<not> terminating p" "\<not> image_outdated r p"
    "admitted lib ws" "pvc_usable ws w" "find_in ws_meta (k_ws w) nn = Some ws" "claims_ok ws w"
proof -
  have "admitted lib ws" "pvc_usable ws w" using healable_admitted [OF assms(1), of r] assms(2) by auto
  moreover obtain p where "find_in pod_meta (k_pod w) (pod_key ws) = Some p" "\<not> terminating p" "\<not> image_outdated r p"
    using assms(2) by (auto simp: todo_def split: if_splits option.splits)
  moreover have "find_in ws_meta (k_ws w) nn = Some ws" "claims_ok ws w" using assms(1) by (simp_all add: healable_def)
  ultimately show ?thesis using that by blast
qed

lemma todo_status: "k_pod w' = k_pod w \<Longrightarrow> k_pvc w' = k_pvc w \<Longrightarrow> ws_meta ws' = ws_meta ws \<Longrightarrow> ws_spec ws' = ws_spec ws \<Longrightarrow>
    todo lib r ws' w' = todo lib r ws w"
  by (simp add: todo_def in_ns_def)

lemma repaired:
  assumes "healable lib nn A ws0 w ws" and "todo lib r ws w = 0" and "awake r ws0 A T" "t \<in> T" and "\<not> stuck r (pod_key ws) w"
  defines "w' \<equiv> round_at lib r nn (pod_key ws) t w" and "ws' \<equiv> ApplyStatusSummary lib (idle_ws r t ws) (running_summary ws)"
  shows "healable lib nn A ws0 w' ws' \<and> todo lib r ws' w' = 0 \<and> same_fate r (pod_key ws) w w'
    \<and> (\<exists>p. find_in pod_meta (k_pod w') (pod_key ws) = Some (started p) \<and> \<not> terminating p)"
proof -
  let ?w = "(pod_starts (pod_key ws) w)\<lparr>k_clock := t\<rparr>"
  have h: "healable lib nn A ws0 ?w ws" "todo lib r ws ?w = 0" using assms(1,2) by simp_all
  obtain p where p: "find_in pod_meta (k_pod w) (pod_key ws) = Some p" "\<not> terminating p" "\<not> image_outdated r p" "admitted lib ws"
    using settled [OF assms(1,2)] by metis
  then have q: "find_in pod_meta (k_pod ?w) (pod_key ws) = Some (started p)" "\<not> image_outdated r (started p)"
    using assms(5) by (auto simp: find_pod_starts stuck_def)
  have f: "find_in ws_meta (k_ws ?w) nn = Some ws" "claims_ok ws ?w" "pvc_usable ws ?w"
    using settled [OF h] by metis+
  note n = awake_not_idle [OF assms(3,1,4)]
  have s: "find_in ws_meta (k_ws w') nn = Some ws'" "k_pod w' = k_pod ?w" "k_pvc w' = k_pvc ?w" "claims_ok ws w'"
    using step_serving [OF f(1) p(4) f(2,3) q started_simps(1)] n(1) by (simp_all add: w'_def ws'_def round_at_def Let_def)
  have m: "ws_phase ws' = WorkspacePhaseRunning" "ws_meta ws' = ws_meta ws" "ws_spec ws' = ws_spec ws"
    "st_last_accessed (ws_status ws') = st_last_accessed (ws_status (idle_ws r t ws))"
    by (simp_all add: ws'_def running_summary_def summary_def)
  have "healable lib nn A ws0 w' ws'"
    using assms(1) s n(2) m claims_ok_cong [of ws' ws] by (auto simp: healable_def ValidateSpec_valid)
  moreover have "todo lib r ws' w' = 0" using todo_status [OF s(2,3) m(2,3)] h(2) by simp
  moreover have "same_fate r (pod_key ws) w w'"
    by (rule same_fate_trans [OF same_fate_started same_fate_pod]) (simp add: s(2))
  ultimately show ?thesis using q s(2) p(2) by auto
qed

lemma left_alone:
  fixes t :: instant
  assumes "healable lib nn A ws0 w ws" and "todo lib r ws w = 0" and "stuck r (pod_key ws) w"
  defines "w' \<equiv> round_at lib r nn (pod_key ws) t w"
  shows "\<exists>ws' p. healable lib nn A ws0 w' ws' \<and> todo lib r ws' w' = 0 \<and> same_fate r (pod_key ws) w w'
    \<and> find_in pod_meta (k_pod w) (pod_key ws) = Some p \<and> ws_phase ws' = observed_phase p"
proof -
  let ?w = "(pod_starts (pod_key ws) w)\<lparr>k_clock := t\<rparr>"
  have h: "healable lib nn A ws0 ?w ws" "todo lib r ws ?w = 0" using assms(1,2) by simp_all
  obtain p where p: "find_in pod_meta (k_pod w) (pod_key ws) = Some p" "\<not> terminating p" "\<not> image_outdated r p" "pod_ended p"
    using assms(3) by (auto simp: stuck_def)
  then have q: "find_in pod_meta (k_pod ?w) (pod_key ws) = Some p" by (simp add: find_pod_starts)
  have f: "find_in ws_meta (k_ws ?w) nn = Some ws" "admitted lib ws" "claims_ok ws ?w" "pvc_usable ws ?w"
    using settled [OF h] by metis+
  have "\<not> pod_serving p" using p(4) by (auto simp: pod_ended_def)
  from step_down [OF f q p(3) this] obtain smry where
    s: "find_in ws_meta (k_ws w') nn = Some (ApplyStatusSummary lib ws smry)" "sum_phase smry = observed_phase p"
    "k_pod w' = k_pod ?w" "k_pvc w' = k_pvc ?w" "claims_ok ws w'" by (auto simp: w'_def round_at_def)
  let ?ws = "ApplyStatusSummary lib ws smry"
  have "observed_phase p \<noteq> WorkspacePhaseStopped" by (simp add: observed_phase_def)
  then have "healable lib nn A ws0 w' ?ws"
    using assms(1) s claims_ok_cong [of ?ws ws] by (auto simp: healable_def ValidateSpec_valid)
  moreover have "todo lib r ?ws w' = 0" using todo_status [OF s(3,4), of ?ws ws r] h(2) by simp
  moreover have "same_fate r (pod_key ws) w w'"
    by (rule same_fate_trans [OF same_fate_started same_fate_pod]) (simp add: s(3))
  ultimately show ?thesis using p(1) s(2) by (intro exI [of _ ?ws] exI [of _ p]) simp
qed

section \<open>All rounds\<close>

lemma round_heals:
  assumes "healable lib nn A ws0 w ws" and "awake r ws0 A T" "t \<in> T"
  defines "w' \<equiv> round_at lib r nn (pod_key ws0) t w"
  shows "\<exists>ws'. healable lib nn A ws0 w' ws' \<and> todo lib r ws' w' \<le> todo lib r ws w - 1
    \<and> same_fate r (pod_key ws0) w w' \<and> (todo lib r ws w = 0 \<longrightarrow> outcome_of r ws0 w' ws')"
proof -
  let ?w = "(pod_starts (pod_key ws0) w)\<lparr>k_clock := t\<rparr>"
  have k: "pod_key ws0 = pod_key ws" using healable_keys [OF assms(1)] by simp
  have h: "healable lib nn A ws0 ?w ws" "todo lib r ws ?w = todo lib r ws w" using assms(1) by (simp_all add: k)
  have fate: "same_fate r (pod_key ws) w w'" if "same_fate r (pod_key ws) ?w w'"
    by (rule same_fate_trans [OF same_fate_started [of r "pod_key ws" w t]]) (use that in \<open>simp add: k\<close>)
  have "todo lib r ws w \<in> {0, 1, 2, 3, 4}" by (auto simp: todo_def split: option.split)
  then consider "todo lib r ws w = 0" "stuck r (pod_key ws) w" | "todo lib r ws w = 0" "\<not> stuck r (pod_key ws) w"
    | "todo lib r ws w = 1 \<or> todo lib r ws w = 2" | "todo lib r ws w = 3" | "todo lib r ws w = 4"
    by auto
  then show ?thesis
  proof cases
    case 1
    from left_alone [OF assms(1) this, of t] obtain ws' p where
      s: "healable lib nn A ws0 w' ws'" "todo lib r ws' w' = 0" "same_fate r (pod_key ws) w w'"
      "find_in pod_meta (k_pod w) (pod_key ws) = Some p" "ws_phase ws' = observed_phase p" unfolding w'_def k by blast
    then have "outcome_of r ws0 w' ws'" using 1(2) by (auto simp: outcome_of_def k same_fate_def stuck_def)
    with s k show ?thesis by auto
  next
    case 2
    let ?ws = "ApplyStatusSummary lib (idle_ws r t ws) (running_summary ws)"
    have "healed ws0 ?ws"
      using assms(1) cnd.ready_iff_running [OF refl] by (simp add: healed_def healable_def running_summary_def summary_def)
    moreover from repaired [OF assms(1) 2(1) assms(2,3) 2(2)] obtain p where
      s: "healable lib nn A ws0 w' ?ws" "todo lib r ?ws w' = 0" "same_fate r (pod_key ws) w w'"
      "find_in pod_meta (k_pod w') (pod_key ws) = Some (started p)" "\<not> terminating p" unfolding w'_def k by blast
    moreover have "\<not> image_outdated r (started p)"
      using s(2,4,5) healable_keys [OF s(1)] by (auto simp: todo_def k [symmetric] split: if_splits)
    ultimately have "outcome_of r ws0 w' ?ws" by (auto simp: outcome_of_def k)
    with s k show ?thesis by auto
  next
    case 3
    have "\<not> terminating p" if "find_in pod_meta (k_pod ?w) (pod_key ws) = Some p" for p
      using that by (auto simp: k find_pod_starts split: option.splits if_splits)
    with repair_pod [OF h(1), of r] h(2) fate 3 show ?thesis unfolding w'_def round_at_def k by (intro exI [of _ ws]) auto
  next
    case 4
    with repair_claim [OF h(1), of r] h(2) fate same_fate_pod show ?thesis unfolding w'_def round_at_def k by fastforce
  next
    case 5
    with repair_finalizer [OF h(1), of r] h(2) fate same_fate_pod show ?thesis unfolding w'_def round_at_def k by fastforce
  qed
qed

lemma rounds_heal:
  assumes "healable lib nn A ws0 w ws" and "awake r ws0 A T" "set ts \<subseteq> T"
  defines "w' \<equiv> rounds lib r nn (pod_key ws0) ts w"
  shows "\<exists>ws'. healable lib nn A ws0 w' ws' \<and> todo lib r ws' w' \<le> todo lib r ws w - length ts
    \<and> same_fate r (pod_key ws0) w w' \<and> (todo lib r ws w < length ts \<longrightarrow> outcome_of r ws0 w' ws')"
  unfolding w'_def using assms(1,3)
proof (induction ts arbitrary: w ws)
  case (Cons t ts)
  then obtain ws1 where 1: "healable lib nn A ws0 (round_at lib r nn (pod_key ws0) t w) ws1"
    "todo lib r ws1 (round_at lib r nn (pod_key ws0) t w) \<le> todo lib r ws w - 1"
    "same_fate r (pod_key ws0) w (round_at lib r nn (pod_key ws0) t w)"
    "todo lib r ws w = 0 \<longrightarrow> outcome_of r ws0 (round_at lib r nn (pod_key ws0) t w) ws1"
    using round_heals [OF Cons.prems(1) assms(2), of t] by auto
  show ?case
  proof (cases ts)
    case Nil
    with 1 show ?thesis by (auto simp: rounds_def)
  next
    case (Cons t' ts')
    with Cons.IH [OF 1(1)] Cons.prems(2) 1 show ?thesis
      by (fastforce simp: rounds_def intro: same_fate_trans)
  qed
qed (auto simp: rounds_def same_fate_def)

end

text \<open>The times of the rounds against the last access, or against each other when there was none.\<close>

definition never_idle :: "reconciler \<Rightarrow> workspace \<Rightarrow> instant list \<Rightarrow> bool" where
  "never_idle r ws ts \<longleftrightarrow> (let idle = effectiveIdleTimeout ws (rc_idle_timeout r) in
     idle \<le> 0 \<or> (\<forall>t \<in> set ts. \<forall>a \<in> (case st_last_accessed (ws_status ws) of None \<Rightarrow> whole_seconds ` set ts | Some a \<Rightarrow> {a}). time_sub t a \<le> idle))"

lemma never_idle_awake:
  "never_idle r ws ts \<Longrightarrow> awake r ws (insert (st_last_accessed (ws_status ws))
     (case st_last_accessed (ws_status ws) of None \<Rightarrow> (\<lambda>t. Some (whole_seconds t)) ` set ts | Some a \<Rightarrow> {})) (set ts)"
  by (auto simp: never_idle_def awake_def Let_def split: option.splits)

lemma rounds_claims_kept: "claims_kept w (rounds lib r nn kp ts w)"
proof (induction ts arbitrary: w)
  case (Cons t ts)
  have "claims_kept w (round_at lib r nn kp t w)"
    using reconcile_claims_kept [of "(pod_starts kp w)\<lparr>k_clock := t\<rparr>"] by (simp add: round_at_def claims_kept_def)
  with Cons.IH [of "round_at lib r nn kp t w"] show ?case by (auto simp: rounds_def claims_kept_def)
qed (simp add: rounds_def claims_kept_def)


text \<open>
  The example: neither finalizer nor claim, and a pod that has failed, on an old image or on the
  configured one.
\<close>

definition sample_failed :: pod where
  "sample_failed = sample_up\<lparr>pod_status_of := (pod_status_of sample_up)\<lparr>ps_phase := PodFailed\<rparr>\<rparr>"

definition sample_broken :: "string \<Rightarrow> cluster" where
  "sample_broken img = (cluster_with 0 (sample_ws ''alice''))\<lparr>k_pod := (\<lambda>_. None)(sample_key (PodName ''alice'') \<mapsto>
     sample_failed\<lparr>pod_containers := map (ctr_image_update (\<lambda>_. img)) (pod_containers sample_up)\<rparr>)\<rparr>"

lemma sample_broken_facts:
  "find_in ws_meta (k_ws (sample_broken img)) (sample_key ''alice'') = Some (sample_ws ''alice'')"
  "claims_ok (sample_ws ''alice'') (sample_broken img)" "find_in pvc_meta (k_pvc (sample_broken img)) k = None"
  using sample_new_facts(1,6,7) [of 0] by (simp_all add: sample_broken_def)

lemma sample_broken_stuck: "stuck sample_rc (pod_key (sample_ws ''alice'')) (sample_broken img) \<longleftrightarrow> img = desired_image sample_rc"
proof -
  obtain p where p: "BuildPod sample_lib sample_fws (PVCName ''alice'') (desired_image sample_rc)
      (rc_build_opts sample_rc) = Inr p" by (rule sample_pod)
  have "pod_key (sample_ws ''alice'') = sample_key (PodName ''alice'')" by (simp add: in_ns_def sample_ws_def)
  moreover have "mt_deletion (pod_meta sample_up) = None" "length (pod_containers sample_up) = 1"
    using sample_env.BuildPod_new [OF p] BuildPod_image [OF p] by (auto simp: sample_up_def p terminating_def)
  ultimately show ?thesis using sample_up_facts(1)
    by (auto simp: stuck_def sample_broken_def sample_failed_def image_outdated_def terminating_def pod_ended_def)
qed


end
