(* ===== verification/Gateway_Props.thy ===== *)
theory Gateway_Props
  imports Gateway Lifecycle_Props
begin

text \<open>
  What a request can make the gateway do. The handlers see the validator, the limiters and the
  lifecycle manager only through interfaces; what they rely on is the locale below, their lemmas
  are proved in it, and the gateway's own parts interpret it.
\<close>

section \<open>Kinds of effects\<close>

text \<open>Effects on workspaces, on connections to them and on recordings need an authorised caller.\<close>

fun unprivileged :: "gw_event \<Rightarrow> bool" where
  "unprivileged (KubeEffect x) = False"
| "unprivileged (Ensured n c x) = False"
| "unprivileged (EnsuredRunning n c x) = False"
| "unprivileged (Touched w) = False"
| "unprivileged (DialTCP a x) = False"
| "unprivileged (Upgraded x) = False"
| "unprivileged (DialWS u h x) = False"
| "unprivileged (ReadLimit p n) = False"
| "unprivileged (ReadMessage p x) = False"
| "unprivileged (WriteMessage p ty d x) = False"
| "unprivileged (CloseConn p) = False"
| "unprivileged (Forwarded u x) = False"
| "unprivileged (Delivered x) = False"
| "unprivileged (MkdirAll d x) = False"
| "unprivileged (OpenFile p x) = False"
| "unprivileged (FileWrite p l x) = False"
| "unprivileged (FileClose p) = False"
| "unprivileged _ = True"

text \<open>
  The effects of a request of the user with claims \<open>cl\<close>: \<open>P\<close> are the calls to the API server it
  may make, \<open>E\<close> the service endpoints it may connect to.
\<close>

fun own :: "(event \<Rightarrow> bool) \<Rightarrow> string \<Rightarrow> claims \<Rightarrow> string set \<Rightarrow> gw_event \<Rightarrow> bool" where
  "own P ns cl E (KubeEffect x) \<longleftrightarrow> P x"
| "own P ns cl E (Ensured n c x) \<longleftrightarrow> n = ns \<and> c = cl"
| "own P ns cl E (EnsuredRunning n c x) \<longleftrightarrow> n = ns \<and> c = cl"
| "own P ns cl E (DialTCP a x) \<longleftrightarrow> (\<exists>p \<in> E. a = JoinHostPort p (Itoa gw_ttydPort))"
| "own P ns cl E (DialWS u h x) \<longleftrightarrow> (\<exists>p \<in> E. u = BackendURL p)"
| "own P ns cl E (Forwarded u x) \<longleftrightarrow> (\<exists>p \<in> E. u = BackendHTTPURL p)"
| "own P ns cl E _ \<longleftrightarrow> True"

lemma own_mono: "own P ns cl E e \<Longrightarrow> E \<subseteq> F \<Longrightarrow> own P ns cl F e"
  by (cases e) auto

lemma unprivileged_own [simp]: "unprivileged e \<Longrightarrow> own P ns cl E e"
  by (cases e) auto

text \<open>The endpoints of the workspaces the lifecycle manager returned in a trace.\<close>

definition ensured_endpoints :: "gw_event list \<Rightarrow> string set" where
  "ensured_endpoints t = {st_service_endpoint (ws_status ws) | ws n c d.
     Ensured n c (d, Inr ws) \<in> set t \<or> EnsuredRunning n c (Some (d, Inr ws)) \<in> set t}"

definition own_run :: "(event \<Rightarrow> bool) \<Rightarrow> string \<Rightarrow> claims \<Rightarrow> gw_event list \<Rightarrow> bool" where
  "own_run P ns cl t \<longleftrightarrow> list_all (own P ns cl (ensured_endpoints t)) t"

text \<open>
  An authorised run: nothing privileged before the request's own token was validated and, where
  the route has a limiter, the caller was let through; after that only effects of that caller.
\<close>

definition authorised :: "(claims \<Rightarrow> event \<Rightarrow> bool) \<Rightarrow> string \<Rightarrow> bool \<Rightarrow> http_request \<Rightarrow> gw_event list \<Rightarrow> bool" where
  "authorised P ns limited r t \<longleftrightarrow> list_all unprivileged t \<or>
     (\<exists>tok cl t1 t2. extractToken r = Inr tok \<and> t = t1 @ t2 \<and> list_all unprivileged t1
        \<and> Validated tok (Inr cl) \<in> set t1 \<and> (limited \<longrightarrow> (\<exists>x. Limited (clm_sub cl) (True, x) \<in> set t1))
        \<and> own_run (P cl) ns cl t2)"

text \<open>A cookie that opens a session.\<close>

fun opens_session :: "gw_event \<Rightarrow> bool" where
  "opens_session (SetCookie c) \<longleftrightarrow> ck_name c = ''devplane_token'' \<and> ck_value c \<noteq> ''''"
| "opens_session _ \<longleftrightarrow> False"

abbreviation no_session :: "gw_event \<Rightarrow> bool" where
  "no_session e \<equiv> \<not> opens_session e"

section \<open>Actions without privilege\<close>

lemma emits_RequestID [trace_rules]: "emits (RequestID env r) unprivileged"
  unfolding RequestID_def NewString_def by (intro trace_rules) auto

lemma emits_logs [trace_rules]:
  "(\<And>m f. P (Info m f)) \<Longrightarrow> emits (log_info lg msg kvs) P"
  "(\<And>e m f. P (LogError e m f)) \<Longrightarrow> emits (log_error lg x msg kvs) P"
  "(\<And>m f. P (Info m f)) \<Longrightarrow> emits (LogAudit lg msg q ev kvs) P"
  unfolding log_defs Let_def by (intro trace_rules; simp)+

lemma emits_audits [trace_rules]:
  "(\<And>m f. P (Info m f)) \<Longrightarrow> emits (LogWorkspaceLifecycleAudit lg msg q ev n clo wso d) P"
  "(\<And>m f. P (Info m f)) \<Longrightarrow> emits (LogOIDCCallbackSuccess lg q clo) P"
  "(\<And>m f. P (Info m f)) \<Longrightarrow> emits (LogOIDCCallbackFailure lg q reason) P"
  "(\<And>m f. P (Info m f)) \<Longrightarrow> emits (LogAuthTokenRejected lg q remote reason st c) P"
  "(\<And>m f. P (Info m f)) \<Longrightarrow> emits (LogRateLimitAudit lg q endpoint scope u) P"
  unfolding LogWorkspaceLifecycleAudit_def LogOIDCCallbackSuccess_def LogOIDCCallbackFailure_def
    LogAuthTokenRejected_def LogRateLimitAudit_def by (intro trace_rules; simp)+

lemma emits_WriteJSONError [trace_rules]: "emits (WriteJSONError st c) unprivileged"
  unfolding WriteJSONError_def RecordJSONAPIError_def by (intro trace_rules) auto

lemma emits_rate_limited [trace_rules]: "emits (rate_limited lg q ep sc cl) unprivileged"
  unfolding rate_limited_def RecordRateLimitHit_def by (intro trace_rules) auto

lemma emits_loading_page [trace_rules]: "emits (serveLoadingPage d ph) unprivileged"
  unfolding serveLoadingPage_def by (intro trace_rules) auto

section \<open>Effects of a terminal session\<close>

text \<open>What a session does beside connecting: recording, logging and moving frames.\<close>

fun session_io :: "gw_event \<Rightarrow> bool" where
  "session_io (Now t) = True"
| "session_io (Uuid u) = True"
| "session_io (MkdirAll d x) = True"
| "session_io (OpenFile p x) = True"
| "session_io (FileWrite p l x) = True"
| "session_io (FileClose p) = True"
| "session_io (Info m f) = True"
| "session_io (LogError e m f) = True"
| "session_io (Touched w) = True"
| "session_io (ReadLimit p n) = True"
| "session_io (ReadMessage p x) = True"
| "session_io (WriteMessage p ty d x) = True"
| "session_io (CloseConn p) = True"
| "session_io _ = False"

lemma emits_recorder:
  assumes "\<And>e. session_io e \<Longrightarrow> Q e"
  shows "emits (NewSessionRecorder env lg cfg m) Q" "emits (RecordFrame env d ty p ro) Q" "emits (Close env e ro) Q"
  unfolding NewSessionRecorder_def fill_session_id_def fill_started_at_def NewString_def gw_now_def RecordFrame_def
    encode_frame_def Close_def Let_def by (intro trace_rules assms; simp)+

text \<open>
  The Workspace of a session is what the last stamping left; \<open>K\<close> is what stamping keeps of it.
\<close>

lemma onActivity_keeps:
  assumes "\<And>e. session_io e \<Longrightarrow> Q e" and "K (ss_ws s)"
    and "\<And>ws. K ws \<Longrightarrow> ensures (wl_touch lc ws) (\<lambda>ws' t. list_all Q t \<and> K ws')"
  shows "ensures (onActivity env lc s) (\<lambda>s' t. list_all Q t \<and> K (ss_ws s'))"
proof -
  have "ensures (do { ws \<leftarrow> call_touch lc (ss_ws s); State_Monad.return (s\<lparr>ss_last_touch := x, ss_ws := ws\<rparr>) })
     (\<lambda>s' t. list_all Q t \<and> K (ss_ws s'))" for x
    unfolding call_touch_def bind_assoc
    by (rule ensures_bind [OF ensures_emit [where Q = "\<lambda>_ t. t = [Touched (ss_ws s)]"]], simp,
        rule ensures_bind [OF assms(3) [OF assms(2)]]) (auto intro!: post_rules assms(1))
  then show ?thesis unfolding onActivity_def gw_now_def
    by (intro post_rules) (use assms(1,2) in \<open>auto elim: ensures_mono\<close>)
qed

lemma onFrame_keeps:
  assumes "\<And>e. session_io e \<Longrightarrow> Q e" and "K (ss_ws s)"
  shows "ensures (onFrame env d ty p s) (\<lambda>s' t. list_all Q t \<and> K (ss_ws s'))"
  unfolding onFrame_def
  by (rule ensures_bind [OF emits_recorder(2) [OF assms(1), unfolded emits_def]]) (auto intro!: post_rules assms(2))

lemma copyFrames_keeps:
  assumes "\<And>e. session_io e \<Longrightarrow> Q e" and "I c" and "\<And>c. I c \<Longrightarrow> ensures (act c) (\<lambda>c' t. list_all Q t \<and> I c')"
    and "\<And>d ty p c. I c \<Longrightarrow> ensures (fr d ty p c) (\<lambda>c' t. list_all Q t \<and> I c')"
  shows "ensures (copyFrames env dst src l (Some act) (Some fr) pc c) (\<lambda>x t. list_all Q t \<and> I (fst (snd x)))"
proof -
  have ret: "ensures (do { c' \<leftarrow> m; State_Monad.return (pc', c', e) }) (\<lambda>x t. list_all Q t \<and> I (fst (snd x)))"
    if "ensures m (\<lambda>c' t. list_all Q t \<and> I c')" for m and pc' :: copy_pc and e :: "go_error option"
    by (rule ensures_bind [OF that]) (auto intro!: post_rules)
  show ?thesis unfolding copyFrames_def
    by (cases pc) (auto intro!: post_rules ret assms)
qed

lemma run_tunnel_keeps:
  assumes "\<And>e. session_io e \<Longrightarrow> Q e" and "\<And>c. I c \<Longrightarrow> ensures (act c) (\<lambda>c' t. list_all Q t \<and> I c')"
    and "\<And>d ty p c. I c \<Longrightarrow> ensures (fr d ty p c) (\<lambda>c' t. list_all Q t \<and> I c')" and "I (tn_cb st)"
  shows "emits (run_tunnel env (Some act) (Some fr) ts st) Q"
  using assms(4)
proof (induction ts arbitrary: st)
  case (Cons x ts)
  have loop: "ensures (first_loop env (Some act) (Some fr) st) (\<lambda>st' t. list_all Q t \<and> I (tn_cb st'))"
    "ensures (second_loop env (Some act) (Some fr) st) (\<lambda>st' t. list_all Q t \<and> I (tn_cb st'))"
    unfolding first_loop_def second_loop_def
    by (rule ensures_bind [OF copyFrames_keeps [OF assms(1) Cons.prems assms(2,3)]]; auto intro!: post_rules)+
  have step: "emits (do { st' \<leftarrow> m; run_tunnel env (Some act) (Some fr) ts st' }) Q"
    if "ensures m (\<lambda>st' t. list_all Q t \<and> I (tn_cb st'))" for m
    unfolding emits_def by (rule ensures_bind [OF that]) (use Cons.IH in \<open>auto simp: emits_def elim: ensures_mono\<close>)
  show ?case using Cons.prems by (cases x) (auto intro!: step loop Cons.IH split: list.split)
qed simp

lemma proxy_session_keeps:
  assumes "\<And>e. session_io e \<Longrightarrow> Q e" and "K ws"
    and "\<And>ws. K ws \<Longrightarrow> ensures (wl_touch lc ws) (\<lambda>ws' t. list_all Q t \<and> K ws')"
    and "\<And>x. Q (Upgraded x)" and "\<And>h x. Q (DialWS (BackendURL (st_service_endpoint (ws_status ws))) h x)"
  shows "emits (proxy_session env sched lc ns pl lg q r cl ws) Q"
  unfolding proxy_session_def end_session_def ServeWS_def Let_def
  by (intro trace_rules emits_recorder run_tunnel_keeps [where I = "\<lambda>s. K (ss_ws s)"] onActivity_keeps onFrame_keeps;
      simp add: assms)

text \<open>With nothing to keep: a session whose stamping only has effects in \<open>Q\<close>.\<close>

lemma emits_touch_keeps: "emits (wl_touch lc ws) Q \<Longrightarrow> ensures (wl_touch lc ws) (\<lambda>ws' t. list_all Q t \<and> True)"
  by (simp add: emits_def)

lemma emits_onActivity:
  assumes "\<And>e. session_io e \<Longrightarrow> Q e" and "\<And>ws. emits (wl_touch lc ws) Q"
  shows "emits (onActivity env lc s) Q"
  using onActivity_keeps [OF assms(1), where K = "\<lambda>_. True" and lc = lc] emits_touch_keeps [OF assms(2)] by (simp add: emits_def)

lemma emits_onFrame:
  assumes "\<And>e. session_io e \<Longrightarrow> Q e"
  shows "emits (onFrame env d ty p s) Q"
  unfolding onFrame_def by (intro trace_rules emits_recorder assms)

lemma emits_run_tunnel:
  assumes "\<And>e. session_io e \<Longrightarrow> Q e" and "\<And>c. emits (act c) Q" and "\<And>d ty p c. emits (fr d ty p c) Q"
  shows "emits (run_tunnel env (Some act) (Some fr) ts st) Q"
  by (rule run_tunnel_keeps [where I = "\<lambda>_. True"]) (use assms in \<open>simp_all add: emits_def\<close>)

lemma emits_proxy_session:
  assumes "\<And>e. session_io e \<Longrightarrow> Q e" and "\<And>ws. emits (wl_touch lc ws) Q"
    and "\<And>x. Q (Upgraded x)" and "\<And>h x. Q (DialWS (BackendURL (st_service_endpoint (ws_status ws))) h x)"
  shows "emits (proxy_session env sched lc ns pl lg q r cl ws) Q"
  by (rule proxy_session_keeps [where K = "\<lambda>_. True"]) (use assms in \<open>simp_all add: emits_def\<close>)

lemma session_io_own: "session_io e \<Longrightarrow> own P ns cl E e"
  by (cases e) auto

lemma session_io_no_session: "session_io e \<Longrightarrow> no_session e"
  by (cases e) auto

section \<open>The interfaces of the handlers\<close>

locale request_interfaces =
  fixes validate :: "'w token_validator_fn" and lifecycle :: "'w workspace_lifecycle" and allow :: "'w limiter_fn"
    and ns :: string and P :: "claims \<Rightarrow> event \<Rightarrow> bool"
  assumes validate_quiet: "emits (validate tok) unprivileged"
    and allow_quiet: "emits (allow key) unprivileged"
    and exists_own: "emits (wl_ensure_exists lifecycle ns cl) (own (P cl) ns cl {})"
    and workspace_own: "ensures (wl_ensure_workspace lifecycle ns cl) (\<lambda>r t. list_all (own (P cl) ns cl {}) t
      \<and> (\<forall>d ws. r = Some (d, Inr ws) \<longrightarrow> key_of (ws_meta ws) = user_key ns cl))"
    and touch_own: "key_of (ws_meta ws) = user_key ns cl \<Longrightarrow>
      ensures (wl_touch lifecycle ws) (\<lambda>ws' t. list_all (own (P cl) ns cl {}) t \<and> key_of (ws_meta ws') = user_key ns cl)"

begin

abbreviation caller :: "claims \<Rightarrow> string set \<Rightarrow> gw_event \<Rightarrow> bool" where
  "caller cl E \<equiv> own (P cl) ns cl E"

lemma emits_caller: "emits m unprivileged \<Longrightarrow> emits m (caller cl E)" "emits m (caller cl {}) \<Longrightarrow> emits m (caller cl E)"
  by (auto elim!: emits_mono intro: own_mono)

lemma emits_BackendReady: "emits (BackendReady env p) (caller cl {p})"
  unfolding BackendReady_def Let_def by (intro trace_rules) auto

lemma emits_api_respond: "emits (api_respond env cl ws) (caller cl {st_service_endpoint (ws_status ws)})"
  unfolding api_respond_def by (intro trace_rules emits_BackendReady) auto

lemma emits_reverse_proxy:
  assumes "\<And>e. emits (h e) unprivileged"
  shows "emits (reverse_proxy env (BackendHTTPURL p) f h) (caller cl {p})"
  unfolding reverse_proxy_def by (intro trace_rules emits_caller(1) [OF assms]) auto

text \<open>The part of a handler after the checks: one lifecycle call, then work on its result.\<close>

lemma own_after:
  assumes "ensures m (\<lambda>a t. list_all (caller cl {}) t \<and> R a)" and "\<And>a. emits (mark a) (caller cl {})"
    and "\<And>a. ensures (mark a) (\<lambda>_ t. M a \<in> set t)" and "\<And>a. R a \<Longrightarrow> emits (f a) (caller cl (ensured_endpoints [M a]))"
  shows "ensures (do { a \<leftarrow> m; _ \<leftarrow> mark a; f a }) (\<lambda>_ t. own_run (P cl) ns cl t)"
proof -
  have E: "ensured_endpoints [x] \<subseteq> ensured_endpoints t" if "x \<in> set t" for x t
    using that by (auto simp: ensured_endpoints_def)
  show ?thesis
  proof (rule ensures_bind [OF assms(1)], elim conjE,
      rule ensures_bind [OF ensures_conj [OF assms(2) [unfolded emits_def] assms(3)]], elim conjE)
    fix a t b u
    assume 1: "list_all (caller cl {}) t" "R a" "list_all (caller cl {}) u" "M a \<in> set u"
    have "own_run (P cl) ns cl (t @ u @ v)" if v: "list_all (caller cl (ensured_endpoints [M a])) v" for v
    proof -
      have "ensured_endpoints [M a] \<subseteq> ensured_endpoints (t @ u @ v)" using E 1(4) by simp
      then show ?thesis using 1 v unfolding own_run_def by (auto simp: list_all_iff intro: own_mono)
    qed
    then show "ensures (f a) (\<lambda>_ v. own_run (P cl) ns cl (t @ u @ v))"
      by (rule ensures_mono [OF assms(4) [OF 1(2), unfolded emits_def]])
  qed
qed

text \<open>The two ways a handler goes on from a quiet beginning.\<close>

lemma then_quiet:
  assumes "emits m unprivileged" and "list_all unprivileged t0"
  shows "ensures m (\<lambda>_ t. authorised P ns lmt r (t0 @ t))"
  using assms by (auto simp: emits_def authorised_def elim: ensures_mono)

lemma then_own:
  assumes "ensures m (\<lambda>_ t. own_run (P cl) ns cl t)" and "list_all unprivileged t0" and "extractToken r = Inr tok"
    and "Validated tok (Inr cl) \<in> set t0" and "lmt \<longrightarrow> (\<exists>x. Limited (clm_sub cl) (True, x) \<in> set t0)"
  shows "ensures m (\<lambda>_ t. authorised P ns lmt r (t0 @ t))"
  using assms(2-5) by (intro ensures_mono [OF assms(1)]) (auto simp: authorised_def)

lemma validate_post: "ensures (call_validate validate tok) (\<lambda>v t. list_all unprivileged t \<and> Validated tok v \<in> set t)"
  unfolding call_validate_def
  by (rule ensures_bind [OF validate_quiet [unfolded emits_def]]) (auto intro!: post_rules)

lemma allow_post: "ensures (call_allow allow key) (\<lambda>a t. list_all unprivileged t \<and> Limited key a \<in> set t)"
  unfolding call_allow_def
  by (rule ensures_bind [OF allow_quiet [unfolded emits_def]]) (auto intro!: post_rules)

text \<open>
  A handler that reads its token: without one, or with one that is refused, it stays quiet; with
  validated claims it goes on, and its continuation decides.
\<close>

lemma after_validate:
  assumes "list_all unprivileged t0" and "\<And>e. emits (refuse e) unprivileged"
    and "\<And>cl t1. list_all unprivileged t1 \<Longrightarrow> Validated tok (Inr cl) \<in> set t1
          \<Longrightarrow> ensures (go cl) (\<lambda>_ t. authorised P ns lmt r (t1 @ t))"
  shows "ensures (do { v \<leftarrow> call_validate validate tok; case v of Inl e \<Rightarrow> refuse e | Inr cl \<Rightarrow> go cl })
     (\<lambda>_ t. authorised P ns lmt r (t0 @ t))"
proof (rule ensures_bind [OF validate_post], elim conjE)
  fix v t
  assume t: "list_all unprivileged t" "Validated tok v \<in> set t"
  show "ensures (case v of Inl e \<Rightarrow> refuse e | Inr cl \<Rightarrow> go cl) (\<lambda>_ u. authorised P ns lmt r (t0 @ t @ u))"
    unfolding append_assoc [symmetric]
    by (intro post_rules then_quiet assms(2) assms(3)) (use t assms(1) in auto)
qed

lemma after_allow:
  assumes "list_all unprivileged t1" and "Validated tok (Inr cl) \<in> set t1" and "extractToken r = Inr tok"
    and "\<And>a. emits (refuse a) unprivileged" and "ensures go (\<lambda>_ t. own_run (P cl) ns cl t)"
  shows "ensures (do { a \<leftarrow> call_allow allow (clm_sub cl); if \<not> fst a then refuse a else go })
     (\<lambda>_ t. authorised P ns lmt r (t1 @ t))"
proof (rule ensures_bind [OF allow_post], elim conjE)
  fix a t
  assume t: "list_all unprivileged t" "Limited (clm_sub cl) a \<in> set t"
  have "\<exists>x. Limited (clm_sub cl) (True, x) \<in> set (t1 @ t)" if "fst a" using t(2) that by (cases a) auto
  then show "ensures (if \<not> fst a then refuse a else go) (\<lambda>_ u. authorised P ns lmt r (t1 @ t @ u))"
    unfolding append_assoc [symmetric]
    by (intro post_rules then_quiet assms(4) then_own [OF assms(5) _ assms(3)]) (use t assms(1,2) in auto)
qed

lemma ensured_endpoints_mark:
  "ensured_endpoints [Ensured n c (d, Inr ws)] = {st_service_endpoint (ws_status ws)}"
  "ensured_endpoints [EnsuredRunning n c (Some (d, Inr ws))] = {st_service_endpoint (ws_status ws)}"
  by (auto simp: ensured_endpoints_def)

lemma exists_result: "ensures (wl_ensure_exists lifecycle ns cl) (\<lambda>_ t. list_all (caller cl {}) t \<and> True)"
  using exists_own [of cl] by (simp add: emits_def)

lemma own_after_exists:
  assumes "\<And>d e. emits (fail d e) unprivileged"
    and "\<And>d ws. emits (go d ws) (caller cl {st_service_endpoint (ws_status ws)})"
  shows "ensures (do { w \<leftarrow> call_ensure_exists lifecycle ns cl; case w of (d, Inl e) \<Rightarrow> fail d e | (d, Inr ws) \<Rightarrow> go d ws })
     (\<lambda>_ t. own_run (P cl) ns cl t)"
proof -
  have "emits (case w of (d, Inl e) \<Rightarrow> fail d e | (d, Inr ws) \<Rightarrow> go d ws) (caller cl (ensured_endpoints [Ensured ns cl w]))" for w
    by (cases w; cases "snd w") (auto simp: ensured_endpoints_mark intro: assms(2) emits_caller(1) [OF assms(1)])
  then show ?thesis unfolding call_ensure_exists_def
    by (simp add: own_after [OF exists_result, where M = "Ensured ns cl" and mark = "\<lambda>r. emit (Ensured ns cl r)"]
        emits_emit ensures_emit)
qed

lemma own_after_workspace:
  assumes "\<And>d e. emits (fail d e) unprivileged" and "emits wait unprivileged"
    and "\<And>d ws. key_of (ws_meta ws) = user_key ns cl \<Longrightarrow> emits (go d ws) (caller cl {st_service_endpoint (ws_status ws)})"
  shows "ensures (do { w \<leftarrow> call_ensure_workspace lifecycle ns cl;
       case w of None \<Rightarrow> wait | Some (d, Inl e) \<Rightarrow> fail d e | Some (d, Inr ws) \<Rightarrow> go d ws })
     (\<lambda>_ t. own_run (P cl) ns cl t)"
proof -
  have "emits (case w of None \<Rightarrow> wait | Some (d, Inl e) \<Rightarrow> fail d e | Some (d, Inr ws) \<Rightarrow> go d ws)
     (caller cl (ensured_endpoints [EnsuredRunning ns cl w]))"
    if "\<forall>d ws. w = Some (d, Inr ws) \<longrightarrow> key_of (ws_meta ws) = user_key ns cl" for w
    using that
    by (cases w; cases "snd (the w)")
      (auto simp: ensured_endpoints_mark intro: assms(3) emits_caller(1) [OF assms(1)] emits_caller(1) [OF assms(2)]
        split: prod.split)
  then show ?thesis unfolding call_ensure_workspace_def
    by (simp add: own_after [OF workspace_own, where M = "EnsuredRunning ns cl" and mark = "\<lambda>r. emit (EnsuredRunning ns cl r)"]
        emits_emit ensures_emit)
qed

lemma with_token:
  assumes "list_all unprivileged t0" and "\<And>e. emits (miss e) unprivileged" and "\<And>tok e. emits (refuse tok e) unprivileged"
    and "\<And>tok cl t1. extractToken r = Inr tok \<Longrightarrow> list_all unprivileged t1 \<Longrightarrow> Validated tok (Inr cl) \<in> set t1
          \<Longrightarrow> ensures (go tok cl) (\<lambda>_ t. authorised P ns lmt r (t1 @ t))"
  shows "ensures (case extractToken r of Inl e \<Rightarrow> miss e
      | Inr tok \<Rightarrow> do { v \<leftarrow> call_validate validate tok; case v of Inl e \<Rightarrow> refuse tok e | Inr cl \<Rightarrow> go tok cl })
     (\<lambda>_ t. authorised P ns lmt r (t0 @ t))"
proof (cases "extractToken r")
  case (Inl e)
  then show ?thesis using then_quiet [OF assms(2,1)] by simp
next
  case (Inr tok)
  have "ensures (do { v \<leftarrow> call_validate validate tok; case v of Inl e \<Rightarrow> refuse tok e | Inr cl \<Rightarrow> go tok cl })
     (\<lambda>_ t. authorised P ns lmt r (t0 @ t))"
    by (rule after_validate [OF assms(1,3)]) (rule assms(4) [OF Inr])
  then show ?thesis using Inr by simp
qed

text \<open>The three handlers that reach workspaces.\<close>

lemma API_authorised:
  "ensures (handleWorkspaceAPI env validate lifecycle allow ns secure lg r) (\<lambda>_ t. authorised P ns True r t)"
proof (cases "rq_method r \<noteq> ''GET'' \<and> rq_method r \<noteq> ''POST''")
  case True
  then show ?thesis by (auto simp: handleWorkspaceAPI_def authorised_def intro!: post_rules)
next
  case False
  show ?thesis unfolding handleWorkspaceAPI_def if_not_P [OF False] Let_def WriteJSONAuthError_def
    by (rule ensures_bind [OF emits_RequestID [unfolded emits_def]], erule with_token)
      (auto intro!: after_allow own_after_exists trace_rules emits_api_respond)
qed

lemma Proxy_authorised:
  "ensures (handleProxy env validate lifecycle ns secure lg r) (\<lambda>_ t. authorised P ns False r t)"
proof -
  have "ensures (handleProxy env validate lifecycle ns secure lg r) (\<lambda>_ t. authorised P ns False r ([] @ t))"
    unfolding handleProxy_def Let_def
    by (rule with_token)
      (auto intro!: then_own own_after_exists trace_rules emits_reverse_proxy emits_caller(1) [OF emits_loading_page])
  then show ?thesis by simp
qed

lemma touch_keeps:
  "key_of (ws_meta ws) = user_key ns cl \<Longrightarrow>
    ensures (wl_touch lifecycle ws) (\<lambda>ws' t. list_all (caller cl E) t \<and> key_of (ws_meta ws') = user_key ns cl)"
  by (erule ensures_mono [OF touch_own]) (auto simp: list_all_iff intro: own_mono)

lemma WS_authorised:
  "ensures (handleWS env sched validate lifecycle allow ns lg r) (\<lambda>_ t. authorised P ns True r t)"
  unfolding handleWS_def Let_def WriteJSONAuthError_def
  by (rule ensures_bind [OF emits_RequestID [unfolded emits_def]], erule with_token)
    (auto intro!: after_allow own_after_workspace trace_rules emits_BackendReady
      proxy_session_keeps [OF session_io_own _ touch_keeps] emits_caller(1) [OF emits_WriteJSONError])

end

section \<open>The gateway's own parts\<close>

lemma run_zoom:
  "run_state (zoom get put ev m) s = (fst (run_state m \<lparr>world = get (world s), trace = []\<rparr>),
     s\<lparr>world := put (world (snd (run_state m \<lparr>world = get (world s), trace = []\<rparr>))) (world s),
       trace := trace s @ map ev (trace (snd (run_state m \<lparr>world = get (world s), trace = []\<rparr>)))\<rparr>)"
  by (simp add: zoom_def case_prod_beta)

lemma ensures_zoom:
  fixes ev :: "'d \<Rightarrow> 'e" and put :: "'v \<Rightarrow> 'w \<Rightarrow> 'w"
  assumes "ensures m Q" and "\<And>a t. Q a t \<Longrightarrow> R a (map ev t)"
  shows "ensures (zoom get put ev m) R"
  unfolding ensures_def
proof
  fix s :: "('w, 'e) sys"
  let ?s = "\<lparr>world = get (world s), trace = []\<rparr>"
  from assms(1) obtain t where "trace (snd (run_state m ?s)) = trace ?s @ t" "Q (fst (run_state m ?s)) t"
    unfolding ensures_def by blast
  then show "\<exists>t. trace (snd (run_state (zoom get put ev m) s)) = trace s @ t \<and> R (fst (run_state (zoom get put ev m) s)) t"
    using assms(2) by (simp add: run_zoom)
qed

lemma emits_zoom: "emits m P \<Longrightarrow> (\<And>e. P e \<Longrightarrow> Q (ev e)) \<Longrightarrow> emits (zoom get put ev m) Q"
  unfolding emits_def by (erule ensures_zoom) (auto simp: list_all_iff)

lemma emits_True: "emits (Validate uni env tok) (\<lambda>_. True)"
  unfolding Validate_def verify_and_store_def verify_claims_def verify_token_def auth_now_def cache_action_def Let_def
  by (intro trace_rules) auto

lemma validate_unprivileged: "emits (gateway_validate g tok) unprivileged"
  unfolding gateway_validate_def
  by (cases "gc_validator (gt_cfg g)") (auto intro!: emits_zoom [OF emits_True])

lemma allow_unprivileged: "emits (lifecycle_allow g key) unprivileged" "emits (ws_allow g key) unprivileged"
  unfolding lifecycle_allow_def ws_allow_def gw_now_def by (intro trace_rules; simp)+

text \<open>The calls of the lifecycle manager for the caller, from the confinement of its operations.\<close>

definition caller_calls :: "('w, 'l) gateway \<Rightarrow> claims \<Rightarrow> event \<Rightarrow> bool" where
  "caller_calls g cl = gateway_call (user_key (gc_namespace (gt_cfg g)) cl)
     (new_workspace (gc_lifecycle (gt_cfg g)) (gc_namespace (gt_cfg g)) cl)"

locale keyed_gateway =
  fixes g :: "('w, 'l) gateway"
  assumes keyed: "keyed_client (gt_client g)"

begin

lemma lifecycle_own:
  "emits (wl_ensure_exists (gateway_lifecycle g) (gc_namespace (gt_cfg g)) cl) (own (caller_calls g cl) ns cl {})"
  "ensures (wl_ensure_workspace (gateway_lifecycle g) (gc_namespace (gt_cfg g)) cl) (\<lambda>r t.
     list_all (own (caller_calls g cl) ns cl {}) t
     \<and> (\<forall>d ws. r = Some (d, Inr ws) \<longrightarrow> key_of (ws_meta ws) = user_key (gc_namespace (gt_cfg g)) cl))"
  "key_of (ws_meta ws) = user_key (gc_namespace (gt_cfg g)) cl \<Longrightarrow> ensures (wl_touch (gateway_lifecycle g) ws) (\<lambda>ws' t.
     list_all (own (caller_calls g cl) ns cl {}) t \<and> key_of (ws_meta ws') = user_key (gc_namespace (gt_cfg g)) cl)"
  by (auto simp: gateway_lifecycle_eq kube_part_def caller_calls_def list_all_iff
      intro!: emits_zoom [OF keyed_client.EnsureExists_keyed [OF keyed]]
        ensures_zoom [OF keyed_client.EnsureWorkspace_keyed [OF keyed]] ensures_zoom [OF keyed_client.touch_keyed [OF keyed,
          where new = "new_workspace (gc_lifecycle (gt_cfg g)) (gc_namespace (gt_cfg g)) cl"]])

end

sublocale keyed_gateway \<subseteq> api: request_interfaces "gateway_validate g" "gateway_lifecycle g" "lifecycle_allow g"
  "gc_namespace (gt_cfg g)" "caller_calls g"
  by unfold_locales (rule validate_unprivileged allow_unprivileged lifecycle_own; assumption?)+

sublocale keyed_gateway \<subseteq> terminal: request_interfaces "gateway_validate g" "gateway_lifecycle g" "ws_allow g"
  "gc_namespace (gt_cfg g)" "caller_calls g"
  by unfold_locales (rule validate_unprivileged allow_unprivileged lifecycle_own; assumption?)+

section \<open>Every request\<close>

definition has_limiter :: "string \<Rightarrow> bool" where
  "has_limiter p \<longleftrightarrow> p = ''/api/workspace'' \<or> p = ''/ws''"

lemma finished_authorised: "ensures m (\<lambda>_ t. Q t) \<Longrightarrow> ensures (finished m) (\<lambda>_ t. Q t)"
  unfolding finished_def by (erule ensures_bind) (auto intro!: post_rules)

lemma finished_quiet: "emits m unprivileged \<Longrightarrow> ensures (finished m) (\<lambda>_ t. authorised P ns lmt r t)"
  by (rule finished_authorised) (auto simp: emits_def authorised_def elim: ensures_mono)

lemma emits_login: "emits (handleLogin env secure lg r) unprivileged"
  unfolding handleLogin_def NewString_def Let_def by (intro trace_rules) auto

lemma emits_callback: "emits (handleCallback env (gateway_validate g) secure lg r) unprivileged"
  unfolding handleCallback_def finish_login_def call_validate_def gw_now_def Let_def
  by (intro trace_rules validate_unprivileged) auto

lemma emits_health: "emits handleHealth unprivileged"
  unfolding handleHealth_def by (intro trace_rules) auto

context keyed_gateway
begin

lemma serve_authorised:
  "ensures (serve g sched r) (\<lambda>_ t. authorised (caller_calls g) (gc_namespace (gt_cfg g)) (has_limiter (rq_path r)) r t)"
  unfolding serve_def Let_def
  by (auto simp: has_limiter_def intro!: finished_authorised [OF api.API_authorised] terminal.WS_authorised
      finished_authorised [OF api.Proxy_authorised] finished_quiet [OF emits_login] finished_quiet [OF emits_callback]
      finished_quiet [OF emits_health] finished_quiet [OF emits_emit])

end

section \<open>What a request can reach\<close>

text \<open>
  C2: no request reaches a workspace without authorisation. For every route and every behaviour of
  identity provider, API server and backends, of the API server only that it answers the read of a
  key with the object of that key and a patch with the object patched: either the request has no
  effect on workspaces, connections or recordings at all; or it carried a token, the validator
  accepted that very token with claims \<open>cl\<close>, and on the routes with a rate limiter the subject of
  \<open>cl\<close> was let through, all before the first such effect. From then on every call to the API server
  is one for the workspace of \<open>cl\<close>'s user id in the gateway's namespace - it is read under that key,
  created from \<open>cl\<close>, and a status patch, also one that keeps a long session alive, goes to the
  object of that key and restarts it or stamps its access time -, and every connection, whether
  the probe, the HTTP proxy or the WebSocket tunnel, goes to the service endpoint of a Workspace
  the lifecycle manager returned for \<open>cl\<close>.
\<close>

theorem requests_authorised:
  assumes "keyed_client (gt_client g)"
  shows "authorised (caller_calls g) (gc_namespace (gt_cfg g)) (has_limiter (rq_path r)) r (effects_of (serve g sched r) s)"
  by (rule ensuresD [OF keyed_gateway.serve_authorised [OF keyed_gateway.intro [OF assms]]])

text \<open>The example: a gateway with a fixed identity on the cluster of the other examples.\<close>

definition in_env :: "('w \<Rightarrow> 'a \<times> 'w) \<Rightarrow> ('w, 'l) gateway_world \<Rightarrow> 'a \<times> ('w, 'l) gateway_world" where
  "in_env op w = (case op (gwd_env w) of (a, v) \<Rightarrow> (a, w\<lparr>gwd_env := v\<rparr>))"

definition env_client :: "'w kclient \<Rightarrow> ('w, 'l) gateway_world kclient" where
  "env_client c = \<lparr>cl_now = in_env (cl_now c), cl_wait = (\<lambda>d. in_env (cl_wait c d)), cl_get_ws = (\<lambda>k. in_env (cl_get_ws c k)),
     cl_create_ws = (\<lambda>x. in_env (cl_create_ws c x)), cl_update_ws = (\<lambda>x. in_env (cl_update_ws c x)),
     cl_patch_status = (\<lambda>b n. in_env (cl_patch_status c b n)), cl_get_pvc = (\<lambda>k. in_env (cl_get_pvc c k)),
     cl_create_pvc = (\<lambda>x. in_env (cl_create_pvc c x)), cl_get_pod = (\<lambda>k. in_env (cl_get_pod c k)),
     cl_create_pod = (\<lambda>x. in_env (cl_create_pod c x)), cl_delete_pod = (\<lambda>x. in_env (cl_delete_pod c x)),
     cl_ensure_sa = (\<lambda>x f. in_env (cl_ensure_sa c x f)), cl_ensure_role = (\<lambda>x f. in_env (cl_ensure_role c x f)),
     cl_ensure_rb = (\<lambda>x f. in_env (cl_ensure_rb c x f)), cl_ensure_np = (\<lambda>x f. in_env (cl_ensure_np c x f)),
     cl_ensure_svc = (\<lambda>x f. in_env (cl_ensure_svc c x f))\<rparr>"

lemma env_client_keyed: "keyed_client c \<Longrightarrow> keyed_client (env_client c)"
  by (auto simp: keyed_client_def env_client_def in_env_def split: prod.splits) (metis fst_conv)+

definition sample_gateway :: "(cluster, unit) gateway" where
  "sample_gateway = \<lparr>gt_uni = id,
     gt_env = \<lparr>ge_getenv = (\<lambda>_. ''''), ge_lower = id, ge_now = (\<lambda>w. (k_clock (gwd_env w), w)), ge_uuid = (\<lambda>w. (''id'', w)),
       ge_mkdir = (\<lambda>_ w. (Inr (), w)), ge_open = (\<lambda>_ w. (Inr (), w)), ge_write = (\<lambda>_ _ w. (Inr (), w)),
       ge_dial_tcp = (\<lambda>_ w. (Inr (), w)), ge_auth_code_url = id, ge_exchange = (\<lambda>_ w. (Inl (new_error ''refused''), w)),
       ge_upgrade = (\<lambda>_ w. (Inr '''', w)), ge_dial_ws = (\<lambda>_ _ _ _ w. (Inr (), w)),
       ge_read = (\<lambda>_ w. (Inl (new_error ''closed''), w)), ge_send = (\<lambda>_ _ _ w. (Inr (), w)), ge_is_close = (\<lambda>_ _. False),
       ge_round_trip = (\<lambda>_ w. (Inl (new_error ''refused''), w))\<rparr>,
     gt_oidc = \<lparr>oi_now = (\<lambda>w. (k_clock w, w)), oi_new_provider = (\<lambda>_ w. (Inr (), w)),
       oi_verify = (\<lambda>_ _ w. (Inl (new_error ''refused''), w))\<rparr>,
     gt_client = env_client cluster_client,
     gt_rate = \<lparr>rl_new = (\<lambda>_ _. ()), rl_allow = (\<lambda>_ _. (True, ())), rl_parse_float = (\<lambda>_. None)\<rparr>,
     gt_cfg = \<lparr>gc_client_secret = '''', gc_redirect_url = '''', gc_namespace = ''devplane'', gc_port = ''8080'',
       gc_cookie_secure = False, gc_validator = FixedIdentity (sample_claims id), gc_lifecycle = sample_lc\<rparr>\<rparr>"

interpretation sample_gate: keyed_gateway sample_gateway
  by (rule keyed_gateway.intro) (simp add: sample_gateway_def env_client_keyed [OF api_server.keyed.keyed_client_axioms])

text \<open>Its user comes back to a stopped workspace: the request restarts it, and only it.\<close>

definition sample_asleep :: workspace where
  "sample_asleep = (sample_ws ''alice'')\<lparr>ws_status := empty_status\<lparr>st_phase := WorkspacePhaseStopped\<rparr>\<rparr>"

definition sample_visit :: http_request where
  "sample_visit = \<lparr>rq_method = ''GET'', rq_path = ''/api/workspace'', rq_headers = [(''Authorization'', ''Bearer tok'')],
     rq_cookies = [], rq_query = [], rq_remote = ''10.0.0.1''\<rparr>"

definition sample_house :: "((cluster, unit) gateway_world, gw_event) sys" where
  "sample_house = \<lparr>world = \<lparr>gwd_validator = \<lparr>va_verifier = sample_cfg, va_index = [], va_lru = [], va_next = 0\<rparr>,
     gwd_lifecycle_rl = None, gwd_ws_rl = None, gwd_env = cluster_with 0 sample_asleep\<rparr>, trace = []\<rparr>"

lemma sample_gateway_simps [simp]:
  "gc_namespace (gt_cfg sample_gateway) = ''devplane''" "gc_lifecycle (gt_cfg sample_gateway) = sample_lc"
  "gt_client sample_gateway = env_client cluster_client"
  "ge_uuid (gt_env sample_gateway) = (\<lambda>w. (''id'', w))" "extractToken sample_visit = Inr ''tok''"
  "rq_path sample_visit = ''/api/workspace''" "rq_method sample_visit = ''GET''" "get_or_empty (rq_headers sample_visit) ''X-Request-ID'' = ''''"
  by (simp_all add: sample_gateway_def sample_visit_def extractToken_def get_or_empty_def HasPrefix_def TrimPrefix_def)

lemma sample_validate: "gateway_validate sample_gateway ''tok'' = State_Monad.return (Inr (sample_claims id))"
proof -
  have "TrimSpace ''tok'' = ''tok''" by code_simp
  then show ?thesis by (simp add: gateway_validate_def sample_gateway_def fixed_Validate_def)
qed

lemma sample_exists:
  assumes "gwd_env w = cluster_with 0 sample_asleep"
  shows "\<exists>s m f g. run_state (EnsureExists (env_client cluster_client) sample_lc ''devplane'' (sample_claims id)) \<lparr>world = w, trace = []\<rparr>
    = ((no_details\<lparr>ed_restarted := True\<rparr>, Inr (restarted sample_asleep)), s)
    \<and> trace s = [GetWorkspace (sample_key ''alice'') g, LogRecord m f,
        PatchStatus sample_asleep (restarted sample_asleep) (Inr (restarted sample_asleep))]"
  using assms
  by (simp add: EnsureExists_def Let_def restart_stopped_def lifecycle_calls env_client_def in_env_def cluster_client_def
      lookup_def find_in_def cluster_with_def empty_cluster_def sample_asleep_def sample_ws_def key_of_def patch_in_def
      restarted_def merge_status_def empty_status_def)

lemma sample_visit_restarts:
  "KubeEffect (PatchStatus sample_asleep (restarted sample_asleep) (Inr (restarted sample_asleep)))
     \<in> set (effects_of (serve sample_gateway [] sample_visit) sample_house)"
proof -
  have "gwd_env (world sample_house) = cluster_with 0 sample_asleep" by (simp add: sample_house_def)
  from sample_exists [OF this] obtain s m f g where
    s: "run_state (EnsureExists (env_client cluster_client) sample_lc ''devplane'' (sample_claims id)) \<lparr>world = world sample_house, trace = []\<rparr>
      = ((no_details\<lparr>ed_restarted := True\<rparr>, Inr (restarted sample_asleep)), s)"
    "trace s = [GetWorkspace (sample_key ''alice'') g, LogRecord m f,
        PatchStatus sample_asleep (restarted sample_asleep) (Inr (restarted sample_asleep))]" by blast
  have "ws_phase (restarted sample_asleep) = ''''" by (simp add: restarted_def)
  moreover have "trace sample_house = []" "gwd_lifecycle_rl (world sample_house) = None" by (simp_all add: sample_house_def)
  ultimately show ?thesis
    by (simp add: effects_of_def serve_def finished_def handleWorkspaceAPI_def RequestID_def NewString_def Let_def call_validate_def
        sample_validate call_allow_def lifecycle_allow_def Allow_def call_ensure_exists_def gateway_lifecycle_eq kube_part_def
        run_zoom s log_defs api_respond_def)
qed

theorem requests_authorised_witness:
  "KubeEffect (PatchStatus sample_asleep (restarted sample_asleep) (Inr (restarted sample_asleep)))
     \<in> set (effects_of (serve sample_gateway [] sample_visit) sample_house)
   \<and> authorised (caller_calls sample_gateway) ''devplane'' True sample_visit (effects_of (serve sample_gateway [] sample_visit) sample_house)"
  using sample_visit_restarts requests_authorised [OF sample_gate.keyed, of sample_visit "[]" sample_house]
  by (simp add: has_limiter_def)

section \<open>Session cookies\<close>

text \<open>What must have happened in the callback that set it.\<close>

definition session_justified :: "bool \<Rightarrow> http_request \<Rightarrow> cookie \<Rightarrow> gw_event list \<Rightarrow> bool" where
  "session_justified secure r c t \<longleftrightarrow>
     map_of (rq_cookies r) ''devplane_state'' = Some (get_or_empty (rq_query r) ''state'')
     \<and> (\<exists>token cl. Exchanged (get_or_empty (rq_query r) ''code'') (Inr token) \<in> set t
          \<and> tok_id_token token = Some (ck_value c) \<and> Validated (ck_value c) (Inr cl) \<in> set t)
     \<and> ck_http_only c \<and> ck_secure c = secure \<and> ck_same_site c = SameSiteLax"

text \<open>Every session cookie of a trace is justified by the effects before it.\<close>

fun sessions_justified :: "bool \<Rightarrow> http_request \<Rightarrow> gw_event list \<Rightarrow> gw_event list \<Rightarrow> bool" where
  "sessions_justified secure r seen [] = True"
| "sessions_justified secure r seen (SetCookie c # t) =
     ((opens_session (SetCookie c) \<longrightarrow> session_justified secure r c seen)
      \<and> sessions_justified secure r (seen @ [SetCookie c]) t)"
| "sessions_justified secure r seen (e # t) = sessions_justified secure r (seen @ [e]) t"

lemma sessions_append [simp]:
  "sessions_justified secure r seen (t @ u) \<longleftrightarrow> sessions_justified secure r seen t \<and> sessions_justified secure r (seen @ t) u"
  by (induction secure r seen t rule: sessions_justified.induct) auto

lemma no_session_justified: "list_all no_session t \<Longrightarrow> sessions_justified secure r seen t"
  by (induction secure r seen t rule: sessions_justified.induct) auto

lemma emits_no_session:
  "emits m no_session \<Longrightarrow> ensures m (\<lambda>_ t. sessions_justified secure r seen t)"
  by (auto simp: emits_def elim!: ensures_mono no_session_justified)

text \<open>Everything but the end of the callback sets no session cookie.\<close>

lemma validate_no_session: "emits (gateway_validate g tok) no_session"
  by (auto simp: gateway_validate_def split: validator_choice.split intro!: emits_zoom [OF emits_True])

lemma emits_kube_part: "emits m P \<Longrightarrow> emits (kube_part m) no_session"
  unfolding kube_part_def by (erule emits_zoom) simp

lemma lifecycle_no_session:
  "emits (wl_ensure_exists (gateway_lifecycle g) ns cl) no_session"
  "emits (wl_ensure_workspace (gateway_lifecycle g) ns cl) no_session"
  "emits (wl_touch (gateway_lifecycle g) ws) no_session"
  by (simp_all add: gateway_lifecycle_eq emits_kube_part [OF emits_EnsureExists] emits_kube_part [OF emits_EnsureWorkspace]
      emits_kube_part [OF emits_Touch_call])

lemma allow_no_session: "emits (lifecycle_allow g key) no_session" "emits (ws_allow g key) no_session"
  unfolding lifecycle_allow_def ws_allow_def gw_now_def by (intro trace_rules; simp)+

text \<open>What a handler does itself, beside the calls of its interfaces and a terminal session.\<close>

fun handler_event :: "gw_event \<Rightarrow> bool" where
  "handler_event (Now t) = True"
| "handler_event (Uuid u) = True"
| "handler_event (Info m f) = True"
| "handler_event (LogError e m f) = True"
| "handler_event (Inc n vs) = (length vs = 2
     \<and> (n = ''devplane_gateway_json_api_errors_total'' \<or> n = ''devplane_gateway_rate_limit_hits_total''))"
| "handler_event (SetHeader k v) = True"
| "handler_event (SetCookie c) = (ck_value c = '''' \<or> ck_name c = ''devplane_state'')"
| "handler_event (WriteHeader n) = True"
| "handler_event (Write b) = True"
| "handler_event (HttpError m n) = True"
| "handler_event (Redirect u n) = True"
| "handler_event (Validated tok x) = True"
| "handler_event (Limited k x) = True"
| "handler_event (Ensured n c x) = True"
| "handler_event (EnsuredRunning n c x) = True"
| "handler_event (DialTCP a x) = True"
| "handler_event (Exchanged c x) = True"
| "handler_event (Forwarded u x) = True"
| "handler_event (Delivered x) = True"
| "handler_event MetricsPage = True"
| "handler_event _ = False"

lemma small_emits:
  assumes "\<And>e. handler_event e \<Longrightarrow> Q e"
  shows "emits (RequestID env r) Q" "emits (WriteJSONError st c) Q" "emits (rate_limited lg q ep sc cl) Q"
    "emits (serveLoadingPage d ph) Q" "emits (BackendReady env p) Q"
  unfolding RequestID_def NewString_def WriteJSONError_def RecordJSONAPIError_def rate_limited_def RecordRateLimitHit_def
    serveLoadingPage_def BackendReady_def Let_def
  by (intro trace_rules assms; simp)+

text \<open>The routes other than the callback.\<close>

lemma routes_emit:
  assumes h: "\<And>e. handler_event e \<Longrightarrow> Q e" and s: "\<And>e. session_io e \<Longrightarrow> Q e"
    and v: "\<And>tok. emits (gateway_validate g tok) Q"
    and a: "\<And>k. emits (lifecycle_allow g k) Q" "\<And>k. emits (ws_allow g k) Q"
    and l: "\<And>cl. emits (wl_ensure_exists (gateway_lifecycle g) ns cl) Q"
      "\<And>cl. emits (wl_ensure_workspace (gateway_lifecycle g) ns cl) Q" "\<And>ws. emits (wl_touch (gateway_lifecycle g) ws) Q"
    and w: "\<And>x. Q (Upgraded x)" "\<And>u hd x. Q (DialWS u hd x)"
  shows "emits (handleWorkspaceAPI env (gateway_validate g) (gateway_lifecycle g) (lifecycle_allow g) ns secure lg r) Q"
    "emits (handleProxy env (gateway_validate g) (gateway_lifecycle g) ns secure lg r) Q"
    "emits (handleWS env sched (gateway_validate g) (gateway_lifecycle g) (ws_allow g) ns lg r) Q"
    "emits (handleLogin env secure lg r) Q" "emits handleHealth Q"
  unfolding handleWorkspaceAPI_def handleProxy_def handleWS_def handleLogin_def handleHealth_def call_validate_def call_allow_def
    call_ensure_exists_def call_ensure_workspace_def api_respond_def reverse_proxy_def WriteJSONAuthError_def NewString_def Let_def
  by (intro trace_rules v l a small_emits h emits_proxy_session [OF s l(3)] w; simp add: expired_cookie_def state_cookie_def)+

lemma routes_no_session:
  "emits (handleWorkspaceAPI env (gateway_validate g) (gateway_lifecycle g) (lifecycle_allow g) ns secure lg r) no_session"
  "emits (handleProxy env (gateway_validate g) (gateway_lifecycle g) ns secure lg r) no_session"
  "emits (handleWS env sched (gateway_validate g) (gateway_lifecycle g) (ws_allow g) ns lg r) no_session"
  "emits (handleLogin env secure lg r) no_session" "emits handleHealth no_session"
proof -
  have h: "no_session e" if "handler_event e" for e using that by (cases e) auto
  note rule = routes_emit [OF h session_io_no_session validate_no_session allow_no_session lifecycle_no_session]
  show "emits (handleWorkspaceAPI env (gateway_validate g) (gateway_lifecycle g) (lifecycle_allow g) ns secure lg r) no_session"
    "emits (handleProxy env (gateway_validate g) (gateway_lifecycle g) ns secure lg r) no_session"
    "emits (handleWS env sched (gateway_validate g) (gateway_lifecycle g) (ws_allow g) ns lg r) no_session"
    "emits (handleLogin env secure lg r) no_session" "emits handleHealth no_session"
    by (intro rule; simp)+
qed

lemma finish_login_justified:
  assumes "\<And>e. session_justified secure r (session_cookie tok e secure) seen"
  shows "ensures (finish_login env secure lg q token tok cl) (\<lambda>_ t. sessions_justified secure r seen t)"
proof -
  have j: "session_justified secure r (session_cookie tok e secure) (seen @ t)" for e t
    using assms [of e] by (auto simp: session_justified_def)
  show ?thesis unfolding finish_login_def gw_now_def log_defs Let_def
    by (auto intro!: post_rules simp: j assms)
qed

lemma callback_justified:
  "ensures (handleCallback env (gateway_validate g) secure lg r) (\<lambda>_ t. sessions_justified secure r [] t)"
proof -
  have q: "ensures (RequestID env r) (\<lambda>_ t. list_all no_session t)"
    unfolding emits_def [symmetric] RequestID_def NewString_def Let_def by (intro trace_rules) auto
  have v: "ensures (call_validate (gateway_validate g) tok) (\<lambda>x t. list_all no_session t \<and> Validated tok x \<in> set t)" for tok
    unfolding call_validate_def
    by (rule ensures_bind [OF validate_no_session [unfolded emits_def]]) (auto intro!: post_rules)
  have login: "ensures (do { x \<leftarrow> call_validate (gateway_validate g) tok; case x of Inl e \<Rightarrow> refuse e
         | Inr cl \<Rightarrow> finish_login env secure l rid token tok cl }) (\<lambda>_ t. sessions_justified secure r seen t)"
    if "\<And>e. emits (refuse e) no_session" "Exchanged (get_or_empty (rq_query r) ''code'') (Inr token) \<in> set seen"
      "map_of (rq_cookies r) ''devplane_state'' = Some (get_or_empty (rq_query r) ''state'')" "tok_id_token token = Some tok"
    for refuse l rid token tok seen
  proof -
    have j: "session_justified secure r (session_cookie tok e secure) (seen @ t)" if "Validated tok (Inr cl) \<in> set t" for t cl e
      unfolding session_justified_def using that \<open>Exchanged _ _ \<in> set seen\<close> \<open>tok_id_token token = _\<close> \<open>map_of _ _ = _\<close>
      by (simp add: session_cookie_def) blast
    show ?thesis by (rule ensures_bind [OF v], intro post_rules)
      (use that in \<open>auto simp: no_session_justified intro!: emits_no_session finish_login_justified j\<close>)
  qed
  show ?thesis unfolding handleCallback_def LogOIDCCallbackFailure_def LogAudit_def log_info_def log_error_def Let_def
    by (rule ensures_bind [OF q], intro post_rules)
      (auto simp: no_session_justified expired_cookie_def intro!: login trace_rules)
qed

lemma serve_justified:
  "ensures (serve g sched r) (\<lambda>_ t. sessions_justified (gc_cookie_secure (gt_cfg g)) r [] t)"
  unfolding serve_def Let_def
  by (auto intro!: finished_authorised emits_no_session [OF routes_no_session(3)] callback_justified emits_no_session [OF emits_emit]
      emits_no_session [OF routes_no_session(1)] emits_no_session [OF routes_no_session(2)]
      emits_no_session [OF routes_no_session(4)] emits_no_session [OF routes_no_session(5)])

text \<open>
  C3: the gateway opens a session only at the end of a login it started. Whatever route a request
  takes and whatever the outside answers, a session cookie with a token in it is set only after:
  the state of the query equals the state cookie of the browser, the code of the query was
  exchanged for a token response, the cookie's value is the ID token of that response, and the
  validator accepted it. The cookie is HTTP-only, SameSite-Lax and secure as configured.
\<close>

theorem session_cookie_verified:
  "sessions_justified (gc_cookie_secure (gt_cfg g)) r [] (effects_of (serve g sched r) s)"
  by (rule ensuresD [OF serve_justified])

end
