(* ===== verification/Recording_Props.thy ===== *)
theory Recording_Props
  imports Recording
begin

text \<open>
  Correctness of session recordings: under any behaviour of the file system the lines written are
  a hash chain that verifies from the file alone and ends in the manifest's final hash; a different
  chain with that end needs a SHA-256 collision; and what a line says of a payload.
\<close>

section \<open>Verifying a recording\<close>

text \<open>What an auditor recomputes from the fields of a line.\<close>

definition record_input :: "session_frame_record \<Rightarrow> string" where
  "record_input r = sum_input (fr_prev_hash r) (fr_seq r) (fr_direction r) (fr_message_type r)
     (fr_payload_sha r) (fr_timestamp r)"

fun chained :: "string \<Rightarrow> session_frame_record list \<Rightarrow> bool" where
  "chained p [] = True"
| "chained p (r # rs) =
     (fr_prev_hash r = p \<and> fr_entry_hash r = hash_text (record_input r) \<and> chained (fr_entry_hash r) rs)"

fun chain_end :: "string \<Rightarrow> session_frame_record list \<Rightarrow> string" where
  "chain_end p [] = p"
| "chain_end p (r # rs) = chain_end (fr_entry_hash r) rs"

lemma chained_append [simp]: "chained p (rs @ us) \<longleftrightarrow> chained p rs \<and> chained (chain_end p rs) us"
  by (induction p rs rule: chained.induct) auto

lemma chain_end_append [simp]: "chain_end p (rs @ us) = chain_end (chain_end p rs) us"
  by (induction p rs rule: chained.induct) auto

text \<open>The fields under the hash.\<close>

definition covered :: "session_frame_record \<Rightarrow> string \<times> 64 word \<times> string \<times> int \<times> string \<times> string" where
  "covered r = (fr_prev_hash r, fr_seq r, fr_direction r, fr_message_type r, fr_payload_sha r, fr_timestamp r)"

definition plain_record :: "session_frame_record \<Rightarrow> bool" where
  "plain_record r \<longleftrightarrow> list_all (\<lambda>x. CHR ''|'' \<notin> set x) [fr_direction r, fr_payload_sha r, fr_timestamp r]"

lemma count_join: "count_list (join_with c xs) c + 1 = length xs + sum_list (map (\<lambda>x. count_list x c) xs)" if "xs \<noteq> []"
  using that by (induction c xs rule: join_with.induct) simp_all

text \<open>A text with as many separators as fields ask for splits into them; so the other side does too.\<close>

lemma join_inject_length:
  assumes "join_with c xs = join_with c ys" and "xs \<noteq> []" and "length xs = length ys"
    and "list_all (\<lambda>x. c \<notin> set x) xs"
  shows "xs = ys"
proof -
  have "sum_list (map (\<lambda>x. count_list x c) xs) = 0"
    using assms(4) by (simp add: list_all_iff count_notin)
  moreover have "ys \<noteq> []" using assms(2,3) by auto
  ultimately have "sum_list (map (\<lambda>y. count_list y c) ys) = 0"
    using assms(1-3) count_join [of xs c] count_join [of ys c] by (metis add_left_cancel)
  then have "list_all (\<lambda>x. c \<notin> set x) ys"
    by (auto simp: list_all_iff sum_list_eq_0_iff count_list_0_iff)
  then show ?thesis using assms by (intro join_inject [OF assms(1)]) auto
qed

lemma hash_text_facts: "CHR ''|'' \<notin> set (hash_text s)" "hash_text s \<noteq> ''''" "length (hash_text s) = 64"
proof -
  have "\<not> is_alnum CHR ''|''" by (simp add: char_class_defs)
  then show "CHR ''|'' \<notin> set (hash_text s)" by (auto simp: hash_text_def dest: hex_alnum)
  show len: "length (hash_text s) = 64" by (simp add: hash_text_def)
  then show "hash_text s \<noteq> ''''" by (metis list.size(3) zero_neq_numeral)
qed

lemma record_input_inject:
  assumes "record_input r = record_input u" and "plain_record r" and "CHR ''|'' \<notin> set (fr_prev_hash r)"
  shows "covered r = covered u"
proof -
  let ?fs = "\<lambda>r. [fr_prev_hash r, digits_of (unat (fr_seq r)), fr_direction r, Itoa (fr_message_type r),
    fr_payload_sha r, fr_timestamp r]"
  have "?fs r = ?fs u"
    using assms by (intro join_inject_length [of "CHR ''|''"]) (simp_all add: record_input_def sum_input_def plain_record_def)
  then show ?thesis by (simp add: covered_def digits_of_inject Itoa_inject word_unat_eq_iff)
qed

text \<open>
  Two chains with the same end, one of them written by a recorder, agree on every covered field
  unless two of the hashed texts collide. The proof walks back from the end.
\<close>

lemma chained_end: "chained p rs \<Longrightarrow> rs \<noteq> [] \<Longrightarrow> chain_end p rs = hash_text (record_input (last rs))"
  by (induction p rs rule: chained.induct) (auto split: if_splits)

lemma prev_plain: "chained p rs \<Longrightarrow> CHR ''|'' \<notin> set p \<Longrightarrow> CHR ''|'' \<notin> set (chain_end p rs)"
  using chained_end [of p rs] hash_text_facts(1) by (cases "rs = []") auto

lemma chains_agree:
  assumes "chained '''' rs" and "chained '''' us" and "chain_end '''' rs = chain_end '''' us"
    and "list_all plain_record rs" and "inj_on Sum256 (record_input ` (set rs \<union> set us))"
  shows "map covered rs = map covered us"
  using assms
proof (induction rs arbitrary: us rule: rev_induct)
  case Nil
  then show ?case using chained_end [of "''''" us] hash_text_facts(2) by (cases "us = []") (auto dest: sym)
next
  case (snoc r rs)
  have "us \<noteq> []"
    using snoc.prems(1,3) chained_end [of "''''" "rs @ [r]"] hash_text_facts(2) by (auto simp del: chained_append dest: sym)
  then obtain u vs where us: "us = vs @ [u]" by (metis rev_exhaust)
  have "Sum256 (record_input r) = Sum256 (record_input u)"
    using snoc.prems(1-3) us by (simp add: hash_text_def EncodeToString_inject)
  then have eq: "record_input r = record_input u"
    by (rule inj_onD [OF snoc.prems(5)]) (simp_all add: us)
  have "CHR ''|'' \<notin> set (fr_prev_hash r)" using snoc.prems(1) prev_plain [of "''''" rs] by simp
  then have c: "covered r = covered u" using record_input_inject [OF eq] snoc.prems(4) by simp
  then have "chain_end '''' rs = chain_end '''' vs" using snoc.prems(1,2) us by (simp add: covered_def)
  moreover have "inj_on Sum256 (record_input ` (set rs \<union> set vs))"
    using snoc.prems(5) by (rule inj_on_subset) (auto simp: us)
  ultimately show ?case using snoc.IH [of vs] snoc.prems us c by simp
qed

section \<open>What a recorder writes\<close>

text \<open>The frames of a session, and the lines a trace wrote to a file.\<close>

type_synonym frame = "string \<times> int \<times> string"

fun record_all :: "'w gw_env \<Rightarrow> frame list \<Rightarrow> session_recorder option \<Rightarrow> ('w, session_recorder option) gw" where
  "record_all env [] ro = State_Monad.return ro"
| "record_all env ((d, ty, p) # fs) ro = do { ro' \<leftarrow> RecordFrame env d ty p ro; record_all env fs ro' }"

fun lines_to :: "string \<Rightarrow> gw_event list \<Rightarrow> string list" where
  "lines_to path [] = []"
| "lines_to path (FileWrite p l (Inr u) # t) = (if p = path then l # lines_to path t else lines_to path t)"
| "lines_to path (_ # t) = lines_to path t"

lemma lines_to_append [simp]: "lines_to path (t @ u) = lines_to path t @ lines_to path u"
  by (induction path t rule: lines_to.induct) auto

lemma lines_to_write [simp]: "lines_to path (FileWrite p l x # t) =
   (case x of Inl e \<Rightarrow> [] | Inr u \<Rightarrow> if p = path then [l] else []) @ lines_to path t"
  by (cases x) auto

text \<open>No write of a trace failed.\<close>

fun write_ok :: "gw_event \<Rightarrow> bool" where
  "write_ok (FileWrite p l (Inl e)) = False"
| "write_ok _ = True"

text \<open>A line tells its frame: direction, type and size, the hash of the payload, and the payload in full mode only.\<close>

fun describes :: "session_recording_mode \<Rightarrow> frame \<Rightarrow> session_frame_record \<Rightarrow> bool" where
  "describes mode (d, ty, p) r \<longleftrightarrow> fr_direction r = d \<and> fr_message_type r = ty \<and> fr_payload_bytes r = length p
     \<and> fr_payload_sha r = hash_text p
     \<and> (if mode = SessionRecordingFull then base64_decode (fr_payload_b64 r) = Some p else fr_payload_b64 r = '''')"

text \<open>The step of a recorder: everything but sequence number and last hash stays.\<close>

definition same_session :: "session_recorder \<Rightarrow> session_recorder \<Rightarrow> bool" where
  "same_session r r' \<longleftrightarrow> sr_log r' = sr_log r \<and> sr_cfg r' = sr_cfg r \<and> sr_meta r' = sr_meta r \<and> sr_file r' = sr_file r"

definition frame_written :: "string \<Rightarrow> frame \<Rightarrow> session_recorder \<Rightarrow> session_recorder \<Rightarrow> gw_event list \<Rightarrow> bool" where
  "frame_written path f r r' t \<longleftrightarrow> (\<exists>rec. lines_to path t = [frame_line rec] \<and> fr_prev_hash rec = sr_prev r
     \<and> fr_seq rec = sr_seq r' \<and> fr_entry_hash rec = hash_text (record_input rec) \<and> sr_prev r' = fr_entry_hash rec
     \<and> CHR ''|'' \<notin> set (fr_timestamp rec) \<and> describes (src_mode (sr_cfg r)) f rec) \<and> sr_enc_err r' = None"

text \<open>A frame is lost when its write fails, or one before did and the encoder kept the error.\<close>

definition frame_lost :: "string \<Rightarrow> session_recorder \<Rightarrow> session_recorder \<Rightarrow> gw_event list \<Rightarrow> bool" where
  "frame_lost path r r' t \<longleftrightarrow> lines_to path t = [] \<and> (sr_enc_err r = None \<longrightarrow> \<not> list_all write_ok t) \<and> sr_prev r' = sr_prev r"

lemma frame_writtenI:
  assumes "sr_enc_err r = None" and "lines_to path tr = [frame_line (frame_record (r\<lparr>sr_seq := sr_seq r + 1\<rparr>) d ty p t)]"
  shows "frame_written path (d, ty, p) r
    (r\<lparr>sr_seq := sr_seq r + 1, sr_prev := fr_entry_hash (frame_record (r\<lparr>sr_seq := sr_seq r + 1\<rparr>) d ty p t)\<rparr>) tr"
  unfolding frame_written_def
  by (rule conjI, rule exI [of _ "frame_record (r\<lparr>sr_seq := sr_seq r + 1\<rparr>) d ty p t"])
    (simp_all add: assms frame_record_def Let_def record_input_def base64_roundtrip RFC3339Nano_no_bar)

lemma RecordFrame_post:
  assumes "sr_file r = Some path"
  shows "ensures (RecordFrame env d ty p (Some r)) (\<lambda>ro t. \<exists>r'. ro = Some r' \<and> same_session r r' \<and> sr_seq r' = sr_seq r + 1
     \<and> (frame_written path (d, ty, p) r r' t \<or> frame_lost path r r' t))"
  unfolding RecordFrame_def gw_now_def encode_frame_def log_error_def option.case Let_def
  by (intro post_rules) (auto simp: assms same_session_def frame_lost_def intro!: post_rules frame_writtenI)

text \<open>
  The lines of a session, with the frames they describe: the chain continues the recorder's last
  hash, and leaves out frames only when a write failed.
\<close>

definition session_lines ::
  "string \<Rightarrow> frame list \<Rightarrow> session_recorder \<Rightarrow> session_recorder \<Rightarrow> gw_event list \<Rightarrow> (frame \<times> session_frame_record) list \<Rightarrow> bool" where
  "session_lines path fs r r' t ws \<longleftrightarrow> same_session r r' \<and> lines_to path t = map (frame_line \<circ> snd) ws
     \<and> chained (sr_prev r) (map snd ws) \<and> sr_prev r' = chain_end (sr_prev r) (map snd ws)
     \<and> sr_seq r' = sr_seq r + of_nat (length fs) \<and> subseq (map fst ws) fs
     \<and> (sr_enc_err r = None \<longrightarrow> list_all write_ok t \<longrightarrow> map fst ws = fs \<and> sr_enc_err r' = None)
     \<and> list_all (\<lambda>(f, rec). describes (src_mode (sr_cfg r)) f rec \<and> CHR ''|'' \<notin> set (fr_timestamp rec)) ws"

lemma session_lines_step:
  assumes "same_session r r1" and "sr_seq r1 = sr_seq r + 1" and "session_lines path fs r1 r' u ws"
    and "frame_written path f r r1 t \<or> frame_lost path r r1 t"
  shows "\<exists>ws. session_lines path (f # fs) r r' (t @ u) ws"
  using assms(4)
proof
  assume "frame_written path f r r1 t"
  then obtain rec where rec: "lines_to path t = [frame_line rec]" "fr_prev_hash rec = sr_prev r"
    "fr_entry_hash rec = hash_text (record_input rec)" "sr_prev r1 = fr_entry_hash rec"
    "CHR ''|'' \<notin> set (fr_timestamp rec)" "describes (src_mode (sr_cfg r)) f rec" "sr_enc_err r1 = None"
    by (auto simp: frame_written_def)
  have "session_lines path (f # fs) r r' (t @ u) ((f, rec) # ws)"
    using assms(1-3) rec by (auto simp: session_lines_def same_session_def)
  then show ?thesis ..
next
  assume "frame_lost path r r1 t"
  then have "session_lines path (f # fs) r r' (t @ u) ws"
    using assms(1-3) by (auto simp: session_lines_def same_session_def frame_lost_def)
  then show ?thesis ..
qed

lemma record_all_post:
  assumes "sr_file r = Some path"
  shows "ensures (record_all env fs (Some r)) (\<lambda>ro t. \<exists>r' ws. ro = Some r' \<and> session_lines path fs r r' t ws)"
  using assms
proof (induction fs arbitrary: r)
  case Nil
  show ?case by (auto intro!: post_rules exI [of _ "[]"] simp: session_lines_def same_session_def)
next
  case (Cons f fs)
  obtain d ty p where f: "f = (d, ty, p)" by (cases f) auto
  show ?case unfolding f record_all.simps
  proof (rule ensures_bind [OF RecordFrame_post [OF Cons.prems]], elim exE conjE)
    fix ro t r1
    assume r1: "ro = Some r1" "same_session r r1" "sr_seq r1 = sr_seq r + 1"
      and fw: "frame_written path (d, ty, p) r r1 t \<or> frame_lost path r r1 t"
    have "sr_file r1 = Some path" using r1(2) Cons.prems by (simp add: same_session_def)
    with session_lines_step [OF r1(2,3) _ fw] show
      "ensures (record_all env fs ro) (\<lambda>ro u. \<exists>r' ws. ro = Some r' \<and> session_lines path ((d, ty, p) # fs) r r' (t @ u) ws)"
      unfolding r1(1) by (intro ensures_mono [OF Cons.IH]) blast+
  qed
qed

section \<open>Whole sessions\<close>

text \<open>A session as \<open>handleWS\<close> records it: set up, one call per frame, close.\<close>

definition record_session ::
  "'w gw_env \<Rightarrow> log_fields \<Rightarrow> session_recording_config \<Rightarrow> session_meta \<Rightarrow> frame list \<Rightarrow> go_error option
    \<Rightarrow> ('w, session_recorder option) gw" where
  "record_session env log cfg m fs e = do {
     r0 \<leftarrow> NewSessionRecorder env log cfg m;
     r1 \<leftarrow> record_all env fs r0;
     Close env e r1 }"

definition record_path :: "session_recorder \<Rightarrow> string" where
  "record_path r = filepath_Join (src_dir (sr_cfg r)) (sm_session_id (sr_meta r) @ ''.ndjson'')"

definition manifest_path :: "session_recorder \<Rightarrow> string" where
  "manifest_path r = filepath_Join (src_dir (sr_cfg r)) (sm_session_id (sr_meta r) @ ''.manifest.json'')"

text \<open>The two files of a session are different ones, whatever the directory and the session id.\<close>

lemma clean_parts_snoc:
  "p \<noteq> '''' \<Longrightarrow> p \<noteq> ''.'' \<Longrightarrow> p \<noteq> ''..'' \<Longrightarrow> clean_parts rooted out (ps @ [p]) = clean_parts rooted out ps @ [p]"
  by (induction rooted out ps rule: clean_parts.induct) (auto split: list.splits)

lemma join_snoc: "xs \<noteq> [] \<Longrightarrow> join_with c (xs @ [x]) = join_with c xs @ c # x"
  by (induction c xs rule: join_with.induct) auto

lemma Split_suffix: "c \<notin> set e \<Longrightarrow> Split (s @ e) c = butlast (Split s c) @ [last (Split s c) @ e]"
  by (induction s) (auto simp: Split_alone split: list.splits)

lemma suffix_Join:
  assumes "CHR ''/'' \<notin> set e" and "2 < length e"
  shows "suffix e (filepath_Join a (b @ e))"
proof -
  define s where "s = (if a = '''' then b else a @ CHR ''/'' # b)"
  have e: "e \<noteq> []" using assms(2) by auto
  then have s: "filepath_Join a (b @ e) = filepath_Clean (s @ e)" by (simp add: filepath_Join_def s_def)
  let ?l = "last (Split s CHR ''/'') @ e"
  have l: "?l \<noteq> ''''" "?l \<noteq> ''.''" "?l \<noteq> ''..''" using assms(2) by (auto simp: append_eq_Cons_conv)
  have "join_with CHR ''/'' (xs @ [?l]) = (if xs = [] then [] else join_with CHR ''/'' xs @ ''/'') @ ?l" for xs
    by (simp add: join_snoc)
  then have sf: "suffix e (join_with CHR ''/'' (xs @ [?l]))" for xs by (simp add: suffix_def)
  then have "join_with CHR ''/'' (xs @ [?l]) \<noteq> []" for xs using e by (metis suffix_bot.extremum_uniqueI)
  with sf show ?thesis unfolding s filepath_Clean_def Split_suffix [OF assms(1)] clean_parts_snoc [OF l]
    using e by (auto simp: Let_def suffix_Cons)
qed

lemma paths_differ [simp]: "record_path r \<noteq> manifest_path r" "manifest_path r \<noteq> record_path r"
proof -
  have "suffix ''.ndjson'' (record_path r)" "suffix ''.manifest.json'' (manifest_path r)"
    unfolding record_path_def manifest_path_def by (rule suffix_Join; simp)+
  moreover have "\<not> suffix ''.ndjson'' ''.manifest.json''" "\<not> suffix ''.manifest.json'' ''.ndjson''"
    by (simp_all add: suffix_to_prefix)
  ultimately show "record_path r \<noteq> manifest_path r"
    using suffix_same_cases [of "''.ndjson''" "record_path r" "''.manifest.json''"] by auto
  then show "manifest_path r \<noteq> record_path r" by simp
qed

text \<open>Which files the calls write to.\<close>

definition writes_only :: "string set \<Rightarrow> gw_event \<Rightarrow> bool" where
  "writes_only ps e \<longleftrightarrow> (\<forall>p l x. e = FileWrite p l x \<longrightarrow> p \<in> ps)"

lemma writes_only_simps [simp]: "writes_only ps (FileWrite p l x) \<longleftrightarrow> p \<in> ps"
  "(\<And>p l x. e \<noteq> FileWrite p l x) \<Longrightarrow> writes_only ps e"
  by (auto simp: writes_only_def)

lemma no_lines: "list_all (writes_only ps) t \<Longrightarrow> path \<notin> ps \<Longrightarrow> lines_to path t = []"
  by (induction path t rule: lines_to.induct) auto

lemma RecordFrame_writes:
  "emits (RecordFrame env d ty p ro) (writes_only (case ro of Some r \<Rightarrow> set_option (sr_file r) | None \<Rightarrow> {}))"
  unfolding RecordFrame_def gw_now_def encode_frame_def log_error_def Let_def by (intro trace_rules) auto

lemma NewSessionRecorder_post:
  "ensures (NewSessionRecorder env log cfg m) (\<lambda>ro t. list_all (writes_only {}) t \<and>
     (\<forall>r. ro = Some r \<longrightarrow> sr_file r = Some (record_path r) \<and> sr_seq r = 0 \<and> sr_prev r = '''' \<and> sr_enc_err r = None \<and> sr_cfg r = cfg
        \<and> OpenFile (record_path r) (Inr ()) \<in> set t))"
  unfolding NewSessionRecorder_def fill_session_id_def fill_started_at_def NewString_def gw_now_def log_info_def
    log_error_def Let_def
  by (auto intro!: post_rules simp: record_path_def)

definition close_reason :: "go_error option \<Rightarrow> string" where
  "close_reason e = (case e of None \<Rightarrow> '''' | Some e \<Rightarrow> err_text e)"

lemma Close_post:
  assumes "sr_file r = Some (record_path r)"
  shows "ensures (Close env e (Some r)) (\<lambda>ro t. ro = Some (r\<lparr>sr_file := None\<rparr>) \<and> list_all (writes_only {manifest_path r}) t
     \<and> (\<exists>tm. lines_to (manifest_path r) t \<in> {[], [manifest_text (manifest_of r (close_reason e) tm)]}))"
  unfolding Close_def gw_now_def log_info_def log_error_def option.case Let_def close_reason_def [symmetric]
  by (intro post_rules)
    (auto simp: assms manifest_path_def [symmetric] intro!: post_rules split: sum.split)

lemma record_all_writes:
  assumes "\<And>r. ro = Some r \<Longrightarrow> sr_file r = Some path"
  shows "emits (record_all env fs ro) (writes_only {path})"
  using assms
proof (induction fs arbitrary: ro)
  case (Cons f fs)
  obtain d ty p where f: "f = (d, ty, p)" by (cases f) auto
  have same: "ensures (RecordFrame env d ty p ro) (\<lambda>ro' t. list_all (writes_only {path}) t \<and> (\<forall>r. ro' = Some r \<longrightarrow> sr_file r = Some path))"
  proof (cases ro)
    case None
    then show ?thesis by (auto simp: RecordFrame_def intro!: post_rules)
  next
    case (Some r)
    have "emits (RecordFrame env d ty p ro) (writes_only {path})"
      using RecordFrame_writes [of env d ty p ro] Cons.prems Some by simp
    then show ?thesis unfolding Some emits_def
      by (rule ensures_mono [OF ensures_conj [OF _ RecordFrame_post [OF Cons.prems [OF Some]]]])
        (use Cons.prems [OF Some] in \<open>auto simp: same_session_def\<close>)
  qed
  show ?case unfolding f record_all.simps emits_def
    by (rule ensures_bind [OF same]) (use Cons.IH in \<open>auto simp: emits_def elim!: ensures_mono\<close>)
qed simp

lemma record_all_None: "record_all env fs None = State_Monad.return None"
  by (induction fs) (auto simp: RecordFrame_def)

text \<open>What a whole session leaves on disk.\<close>

definition session_on_disk ::
  "session_recording_mode \<Rightarrow> frame list \<Rightarrow> go_error option \<Rightarrow> session_recorder \<Rightarrow> gw_event list
    \<Rightarrow> (frame \<times> session_frame_record) list \<Rightarrow> bool" where
  "session_on_disk mode fs e r t ws \<longleftrightarrow> lines_to (record_path r) t = map (frame_line \<circ> snd) ws
     \<and> chained '''' (map snd ws) \<and> sr_prev r = chain_end '''' (map snd ws) \<and> sr_seq r = of_nat (length fs)
     \<and> subseq (map fst ws) fs \<and> (list_all write_ok t \<longrightarrow> map fst ws = fs)
     \<and> list_all (\<lambda>(f, rec). describes mode f rec \<and> CHR ''|'' \<notin> set (fr_timestamp rec)) ws
     \<and> (\<exists>tm. lines_to (manifest_path r) t \<in> {[], [manifest_text (manifest_of r (close_reason e) tm)]})"

lemma session_close:
  assumes "list_all (writes_only {}) t0" and "sr_file r = Some (record_path r)" "sr_seq r = 0" "sr_prev r = ''''" "sr_enc_err r = None"
    and "session_lines (record_path r) fs r r1 t1 ws" and "list_all (writes_only {record_path r}) t1"
    and "list_all (writes_only {manifest_path r1}) t2"
    and "lines_to (manifest_path r1) t2 \<in> {[], [manifest_text (manifest_of r1 (close_reason e) tm)]}"
  shows "session_on_disk (src_mode (sr_cfg r)) fs e (r1\<lparr>sr_file := None\<rparr>) (t0 @ t1 @ t2) ws"
proof -
  have same: "record_path (r1\<lparr>sr_file := None\<rparr>) = record_path r" "manifest_path (r1\<lparr>sr_file := None\<rparr>) = manifest_path r1"
    "record_path r1 = record_path r" "manifest_path r1 = manifest_path r"
    "manifest_of (r1\<lparr>sr_file := None\<rparr>) = manifest_of r1"
    using assms(6) by (auto simp: session_lines_def same_session_def record_path_def manifest_path_def manifest_of_def fun_eq_iff)
  have "lines_to (record_path r) (t0 @ t2) = []" "lines_to (manifest_path r) (t0 @ t1) = []"
    using no_lines [OF assms(1)] no_lines [OF assms(8)] no_lines [OF assms(7)] paths_differ [of r] same by simp_all
  then show ?thesis using assms(3-6,9) same by (auto simp: session_on_disk_def session_lines_def)
qed

lemma record_session_post:
  "ensures (record_session env log cfg m fs e) (\<lambda>ro t. case ro of
      None \<Rightarrow> list_all (writes_only {}) t
    | Some r \<Rightarrow> \<exists>ws. session_on_disk (src_mode cfg) fs e r t ws)"
  unfolding record_session_def
proof (rule ensures_bind [OF NewSessionRecorder_post], elim conjE, goal_cases)
  case (1 ro t0)
  show ?case
  proof (cases ro)
    case None
    then show ?thesis using 1(1) by (auto simp: record_all_None Close_def intro!: post_rules)
  next
    case (Some r)
    with 1(2) have r: "sr_file r = Some (record_path r)" "sr_seq r = 0" "sr_prev r = ''''" "sr_enc_err r = None" "sr_cfg r = cfg" by auto
    have all: "ensures (record_all env fs (Some r)) (\<lambda>ro t. list_all (writes_only {record_path r}) t
        \<and> (\<exists>r' ws. ro = Some r' \<and> session_lines (record_path r) fs r r' t ws))"
      using ensures_conj [OF record_all_writes [of "Some r" "record_path r", unfolded emits_def] record_all_post [OF r(1)]] r(1)
      by simp
    show ?thesis unfolding Some
    proof (rule ensures_bind [OF all], elim conjE exE)
      fix ro1 t1 r1 ws
      assume w: "list_all (writes_only {record_path r}) t1" and ro1: "ro1 = Some r1"
        and ws: "session_lines (record_path r) fs r r1 t1 ws"
      then have r1: "sr_file r1 = Some (record_path r1)"
        using r(1) by (simp add: session_lines_def same_session_def record_path_def)
      show "ensures (Close env e ro1) (\<lambda>ro2 t2. case ro2 of None \<Rightarrow> list_all (writes_only {}) (t0 @ t1 @ t2)
          | Some r \<Rightarrow> \<exists>ws. session_on_disk (src_mode cfg) fs e r (t0 @ t1 @ t2) ws)"
        unfolding ro1
        by (rule ensures_mono [OF Close_post [OF r1]])
          (use session_close [OF 1(1) r(1-4) ws w] r(5) in auto)
    qed
  qed
qed

text \<open>
  C10: whatever the file system answers, the lines of a recorded session verify as a hash chain
  from the file alone, starting at the empty hash: each line's hash is that of its own fields and
  it names the hash of the line before. The manifest, when it could be written, carries the end
  of that chain. Frames can be missing only when a write failed; then they are missing from the
  file and still counted in the manifest.
\<close>

theorem session_chain_verifies:
  assumes "result_of (record_session env log cfg m fs e) s = Some r"
  shows "\<exists>recs. let t = effects_of (record_session env log cfg m fs e) s in
    lines_to (record_path r) t = map frame_line recs \<and> chained '''' recs
    \<and> (list_all write_ok t \<longrightarrow> length recs = length fs) \<and> length recs \<le> length fs
    \<and> (\<exists>man. lines_to (manifest_path r) t \<in> {[], [manifest_text man]}
        \<and> man_final_hash man = chain_end '''' recs \<and> man_frame_count man = of_nat (length fs))"
proof -
  obtain ws where ws: "session_on_disk (src_mode cfg) fs e r (effects_of (record_session env log cfg m fs e) s) ws"
    using ensuresD [OF record_session_post, of env log cfg m fs e s] assms by auto
  then obtain tm where tm: "lines_to (manifest_path r) (effects_of (record_session env log cfg m fs e) s)
      \<in> {[], [manifest_text (manifest_of r (close_reason e) tm)]}" by (auto simp: session_on_disk_def)
  have n: "length ws \<le> length fs" using ws by (auto simp: session_on_disk_def dest: list_emb_length)
  show ?thesis unfolding Let_def
    by (intro exI [of _ "map snd ws"] conjI exI [of _ "manifest_of r (close_reason e) tm"] tm)
      (use ws n in \<open>auto simp: session_on_disk_def manifest_of_def dest: map_eq_imp_length_eq\<close>)
qed

text \<open>Two different texts with the same hash.\<close>

definition collision :: "string set \<Rightarrow> bool" where
  "collision S \<longleftrightarrow> (\<exists>x \<in> S. \<exists>y \<in> S. x \<noteq> y \<and> Sum256 x = Sum256 y)"

lemma no_collision: "\<not> collision S \<longleftrightarrow> inj_on Sum256 S"
  by (auto simp: collision_def inj_on_def)

text \<open>
  C9: recordings are tamper evident. Take any list of records that verifies as a chain and ends in
  the recorder's final hash, the one the manifest keeps. Then either it has the same number of
  records as the file, and every record agrees with the line the gateway wrote on the previous
  hash, the sequence number, the direction, the message type, the payload's hash and the time; or
  two of the texts hashed for the two chains are a collision of SHA-256.
\<close>

theorem recording_tamper_evident:
  assumes "result_of (record_session env log cfg m fs e) s = Some r"
    and "\<forall>(d, ty, p) \<in> set fs. CHR ''|'' \<notin> set d"
    and "chained '''' forged" and "chain_end '''' forged = sr_prev r"
  shows "\<exists>recs. lines_to (record_path r) (effects_of (record_session env log cfg m fs e) s) = map frame_line recs
    \<and> (map covered forged = map covered recs \<or> collision (record_input ` (set recs \<union> set forged)))"
proof -
  obtain ws where ws: "session_on_disk (src_mode cfg) fs e r (effects_of (record_session env log cfg m fs e) s) ws"
    using ensuresD [OF record_session_post, of env log cfg m fs e s] assms(1) by auto
  have "plain_record rec" if "(f, rec) \<in> set ws" for f rec
  proof -
    have "subseq (map fst ws) fs" using ws by (simp add: session_on_disk_def)
    moreover have "f \<in> set (map fst ws)" using that by force
    ultimately have "f \<in> set fs" by (rule list_emb_set) simp
    moreover have "describes (src_mode cfg) f rec" "CHR ''|'' \<notin> set (fr_timestamp rec)"
      using ws that by (auto simp: session_on_disk_def list_all_iff)
    ultimately show ?thesis using assms(2) hash_text_facts(1) by (cases f) (auto simp: plain_record_def)
  qed
  then have "list_all plain_record (map snd ws)" by (auto simp: list_all_iff)
  then have "map covered forged = map covered (map snd ws) \<or> collision (record_input ` (set (map snd ws) \<union> set forged))"
    using chains_agree [OF _ assms(3), of "map snd ws"] ws assms(4)
    unfolding no_collision [symmetric] by (simp add: session_on_disk_def) metis
  then show ?thesis using ws by (intro exI [of _ "map snd ws"]) (auto simp: session_on_disk_def)
qed

text \<open>
  C32: in full mode every line gives its payload back: decoding its base64 field yields the bytes
  of the frame, whose length and hash it carries. In metadata mode no line has a payload field,
  and size and hash are all it tells of the bytes. With no failed write, every frame has its line.
\<close>

theorem recorded_payload_roundtrip:
  assumes "result_of (record_session env log cfg m fs e) s = Some r"
    and "list_all write_ok (effects_of (record_session env log cfg m fs e) s)"
  shows "\<exists>recs. lines_to (record_path r) (effects_of (record_session env log cfg m fs e) s) = map frame_line recs
    \<and> map (\<lambda>rec. (fr_direction rec, fr_message_type rec, fr_payload_bytes rec, fr_payload_sha rec)) recs
      = map (\<lambda>(d, ty, p). (d, ty, length p, hash_text p)) fs
    \<and> (if src_mode cfg = SessionRecordingFull
       then map (\<lambda>rec. base64_decode (fr_payload_b64 rec)) recs = map (\<lambda>(d, ty, p). Some p) fs
       else list_all (\<lambda>rec. map_of (frame_fields rec) ''payloadBase64'' = None) recs)"
proof -
  obtain ws where ws: "session_on_disk (src_mode cfg) fs e r (effects_of (record_session env log cfg m fs e) s) ws"
    using ensuresD [OF record_session_post, of env log cfg m fs e s] assms(1) by auto
  then have fs: "fs = map fst ws" and d: "list_all (\<lambda>(f, rec). describes (src_mode cfg) f rec) ws"
    using assms(2) by (auto simp: session_on_disk_def list_all_iff)
  have "map (\<lambda>rec. (fr_direction rec, fr_message_type rec, fr_payload_bytes rec, fr_payload_sha rec)) (map snd ws)
      = map (\<lambda>(d, ty, p). (d, ty, length p, hash_text p)) fs"
    using d by (auto simp: fs list_all_iff)
  moreover have "if src_mode cfg = SessionRecordingFull
       then map (\<lambda>rec. base64_decode (fr_payload_b64 rec)) (map snd ws) = map (\<lambda>(d, ty, p). Some p) fs
       else list_all (\<lambda>rec. map_of (frame_fields rec) ''payloadBase64'' = None) (map snd ws)"
    using d by (auto simp: fs list_all_iff frame_fields_def str_field_def opt_field_def)
  ultimately show ?thesis using ws by (intro exI [of _ "map snd ws"]) (auto simp: session_on_disk_def)
qed

section \<open>An example\<close>

text \<open>One frame in each direction, on a disk that takes everything.\<close>

definition sample_recording :: session_recording_config where
  "sample_recording = \<lparr>src_enabled = True, src_mode = SessionRecordingFull, src_dir = ''/tmp/devplane-sessions''\<rparr>"

definition sample_meta :: session_meta where
  "sample_meta = \<lparr>sm_session_id = ''s1'', sm_request_id = ''r1'', sm_subject = ''alice'', sm_user_id = ''alice'',
     sm_namespace = ''devplane'', sm_workspace = ''alice'', sm_backend = ''alice-workspace-svc'', sm_remote = '''',
     sm_started_at = ''2024-01-01T00:00:00Z''\<rparr>"

definition sample_frames :: "frame list" where
  "sample_frames = [(''client_to_backend'', 2, ''ls''), (''backend_to_client'', 2, ''README'')]"

definition sample_session :: "(nat, session_recorder option) gw" where
  "sample_session = record_session (sample_gw (\<lambda>_. '''')) [] sample_recording sample_meta sample_frames None"

lemma sample_session_done:
  "\<exists>r. result_of sample_session \<lparr>world = 0, trace = []\<rparr> = Some r"
  "list_all write_ok (effects_of sample_session \<lparr>world = 0, trace = []\<rparr>)"
  by (simp_all add: sample_session_def record_session_def result_of_def effects_of_def NewSessionRecorder_def
      fill_session_id_def fill_started_at_def sample_gw_def sample_recording_def sample_meta_def sample_frames_def
      RecordFrame_def gw_now_def encode_frame_def Close_def log_info_def log_error_def Let_def)

theorem session_chain_verifies_witness:
  "\<exists>recs path. lines_to path (effects_of sample_session \<lparr>world = 0, trace = []\<rparr>) = map frame_line recs
     \<and> chained '''' recs \<and> length recs = 2"
proof -
  obtain r where r: "result_of sample_session \<lparr>world = 0, trace = []\<rparr> = Some r" using sample_session_done(1) ..
  from session_chain_verifies [OF r [unfolded sample_session_def], folded sample_session_def] sample_session_done(2)
  show ?thesis by (auto simp: Let_def sample_frames_def)
qed

theorem recording_tamper_evident_witness:
  "\<exists>forged recs path. length forged = 2 \<and> chained '''' forged
     \<and> lines_to path (effects_of sample_session \<lparr>world = 0, trace = []\<rparr>) = map frame_line recs
     \<and> (map covered forged = map covered recs \<or> collision (record_input ` (set recs \<union> set forged)))"
proof -
  obtain r where r: "result_of sample_session \<lparr>world = 0, trace = []\<rparr> = Some r" using sample_session_done(1) ..
  obtain ws where ws: "session_on_disk SessionRecordingFull sample_frames None r (effects_of sample_session \<lparr>world = 0, trace = []\<rparr>) ws"
    using ensuresD [OF record_session_post, of "sample_gw (\<lambda>_. '''')" "[]" sample_recording sample_meta sample_frames None
        "\<lparr>world = 0, trace = []\<rparr>", folded sample_session_def] r by (auto simp: sample_recording_def)
  have c: "chained '''' (map snd ws)" "chain_end '''' (map snd ws) = sr_prev r" using ws by (auto simp: session_on_disk_def)
  have "map fst ws = sample_frames" using ws sample_session_done(2) by (auto simp: session_on_disk_def)
  then have n: "length (map snd ws) = 2" by (auto simp: sample_frames_def dest: map_eq_imp_length_eq)
  have "\<forall>(d, ty, p) \<in> set sample_frames. CHR ''|'' \<notin> set d" by (simp add: sample_frames_def)
  from recording_tamper_evident [OF r [unfolded sample_session_def] this c, folded sample_session_def] n c(1)
  show ?thesis by (metis (no_types, lifting))
qed

theorem recorded_payload_roundtrip_witness:
  "\<exists>recs path. lines_to path (effects_of sample_session \<lparr>world = 0, trace = []\<rparr>) = map frame_line recs
     \<and> map (\<lambda>rec. base64_decode (fr_payload_b64 rec)) recs = [Some ''ls'', Some ''README'']"
proof -
  obtain r where r: "result_of sample_session \<lparr>world = 0, trace = []\<rparr> = Some r" using sample_session_done(1) ..
  from recorded_payload_roundtrip [OF r [unfolded sample_session_def], folded sample_session_def, OF sample_session_done(2)]
  show ?thesis by (auto simp: sample_frames_def sample_recording_def)
qed

end
