(* ===== verification/Proxy_Props.thy ===== *)
theory Proxy_Props
  imports Proxy
begin

text \<open>
  Correctness of the tunnel: in each direction the messages arrive unchanged and in order under
  every interleaving of the two loops, the observer sees exactly the delivered ones, and under
  which label.
\<close>

section \<open>Messages of a trace\<close>

type_synonym message = "int \<times> string"

fun reads_from :: "peer \<Rightarrow> gw_event list \<Rightarrow> message list" where
  "reads_from p [] = []"
| "reads_from p (ReadMessage q (Inr m) # t) = (if q = p then m # reads_from p t else reads_from p t)"
| "reads_from p (_ # t) = reads_from p t"

fun writes_to :: "peer \<Rightarrow> gw_event list \<Rightarrow> message list" where
  "writes_to p [] = []"
| "writes_to p (WriteMessage q ty d (Inr u) # t) = (if q = p then (ty, d) # writes_to p t else writes_to p t)"
| "writes_to p (_ # t) = writes_to p t"

lemma reads_append [simp]: "reads_from p (t @ u) = reads_from p t @ reads_from p u"
  by (induction p t rule: reads_from.induct) auto

lemma writes_append [simp]: "writes_to p (t @ u) = writes_to p t @ writes_to p u"
  by (induction p t rule: writes_to.induct) auto

lemma reads_Cons [simp]: "reads_from p (ReadMessage q x # t) =
   (case x of Inl e \<Rightarrow> [] | Inr m \<Rightarrow> if q = p then [m] else []) @ reads_from p t"
  by (cases x) auto

lemma writes_Cons [simp]: "writes_to p (WriteMessage q ty d x # t) =
   (case x of Inl e \<Rightarrow> [] | Inr u \<Rightarrow> if q = p then [(ty, d)] else []) @ writes_to p t"
  by (cases x) auto

fun off_wire :: "gw_event \<Rightarrow> bool" where
  "off_wire (ReadMessage p x) = False"
| "off_wire (WriteMessage p ty d x) = False"
| "off_wire _ = True"

lemma off_wire_trace [simp]: "list_all off_wire t \<Longrightarrow> reads_from p t = []" "list_all off_wire t \<Longrightarrow> writes_to p t = []"
  by (induction p t rule: reads_from.induct; simp) (induction p t rule: writes_to.induct; simp)

section \<open>One direction\<close>

text \<open>
  How the messages read, written and observed relate, by where the loop is: at most one is under
  way, and after a close frame of the source the destination gets one too.
\<close>

fun flow :: "copy_pc \<Rightarrow> message list \<Rightarrow> message list \<Rightarrow> message list \<Rightarrow> bool" where
  "flow CopyRead rs ws obs \<longleftrightarrow> rs = obs \<and> ws = obs"
| "flow (CopyWrite ty d) rs ws obs \<longleftrightarrow> rs = obs @ [(ty, d)] \<and> ws = obs"
| "flow (CopyActivity ty d) rs ws obs \<longleftrightarrow> rs = obs @ [(ty, d)] \<and> ws = obs @ [(ty, d)]"
| "flow (CopyFrame ty d) rs ws obs \<longleftrightarrow> rs = obs @ [(ty, d)] \<and> ws = obs @ [(ty, d)]"
| "flow CopyEnd rs ws obs \<longleftrightarrow>
     rs = obs \<and> (ws = obs \<or> ws = obs @ [(CloseMessage, normal_close_payload)]) \<or> ws = obs \<and> (\<exists>m. rs = obs @ [m])"

text \<open>What an observer is given: label, type and payload; and the messages under one label.\<close>

type_synonym observation = "string \<times> int \<times> string"

definition labelled :: "string \<Rightarrow> observation list \<Rightarrow> message list" where
  "labelled l fs = map snd (filter (\<lambda>x. fst x = l) fs)"

lemma labelled_simps [simp]:
  "labelled l [] = []" "labelled l (fs @ gs) = labelled l fs @ labelled l gs"
  "labelled l (x # fs) = (if fst x = l then [snd x] else []) @ labelled l fs"
  by (simp_all add: labelled_def)

text \<open>The effects of the tunnel itself, beside those of the callbacks.\<close>

fun tunnel_event :: "gw_event \<Rightarrow> bool" where
  "tunnel_event (ReadMessage p x) = True"
| "tunnel_event (WriteMessage p ty d x) = True"
| "tunnel_event (Upgraded x) = True"
| "tunnel_event (DialWS u h x) = True"
| "tunnel_event (ReadLimit p n) = True"
| "tunnel_event (CloseConn p) = True"
| "tunnel_event (Info m f) = True"
| "tunnel_event _ = False"

text \<open>
  The callbacks the tunnel is given. \<open>seen c fs t\<close>: in the state \<open>c\<close>, after the effects \<open>t\<close>, the
  observer was given \<open>fs\<close>. The activity callback does not change that, a call of the observer adds
  its frame, and neither uses the connections.
\<close>

locale frame_sink =
  fixes act :: "'c \<Rightarrow> ('w, 'c) gw" and obs :: "string \<Rightarrow> int \<Rightarrow> string \<Rightarrow> 'c \<Rightarrow> ('w, 'c) gw"
    and seen :: "'c \<Rightarrow> observation list \<Rightarrow> gw_event list \<Rightarrow> bool"
  assumes act_seen: "ensures (act c) (\<lambda>c' t. list_all off_wire t \<and> (\<forall>fs t0. seen c fs t0 \<longrightarrow> seen c' fs (t0 @ t)))"
    and obs_seen: "ensures (obs d ty p c) (\<lambda>c' t. list_all off_wire t
        \<and> (\<forall>fs t0. seen c fs t0 \<longrightarrow> seen c' (fs @ [(d, ty, p)]) (t0 @ t)))"
    and tunnel_seen: "list_all tunnel_event t \<Longrightarrow> seen c fs t0 \<Longrightarrow> seen c fs (t0 @ t)"

text \<open>Messages from one peer to the other, and those of them the observer was given.\<close>

definition carried :: "peer \<Rightarrow> peer \<Rightarrow> message list \<Rightarrow> gw_event list \<Rightarrow> bool" where
  "carried src dst os t \<longleftrightarrow>
     (prefix (writes_to dst t) (reads_from src t)
      \<or> writes_to dst t = reads_from src t @ [(CloseMessage, normal_close_payload)])
     \<and> prefix os (writes_to dst t) \<and> prefix os (reads_from src t)
     \<and> length (reads_from src t) \<le> Suc (length os) \<and> length (writes_to dst t) \<le> Suc (length os)"

lemma flow_carried: "flow pc (reads_from src t) (writes_to dst t) os \<Longrightarrow> carried src dst os t"
  by (cases pc) (auto simp: carried_def)

lemma carried_off_wire [simp]:
  "list_all off_wire u \<Longrightarrow> carried src dst os (t @ u) \<longleftrightarrow> carried src dst os t"
  by (simp add: carried_def)

text \<open>Both directions, under the labels \<open>ServeWS\<close> gives them.\<close>

definition carries :: "observation list \<Rightarrow> gw_event list \<Rightarrow> bool" where
  "carries fs t \<longleftrightarrow> carried Backend Client (labelled ''client_to_backend'' fs) t
     \<and> carried Client Backend (labelled ''backend_to_client'' fs) t"

text \<open>The whole tunnel, from a trace that has not used the connections yet.\<close>

definition tunnel_post ::
  "('c \<Rightarrow> observation list \<Rightarrow> gw_event list \<Rightarrow> bool) \<Rightarrow> 'c \<Rightarrow> 'c \<Rightarrow> gw_event list \<Rightarrow> bool" where
  "tunnel_post seen c c' t \<longleftrightarrow>
     (\<forall>t0. list_all off_wire t0 \<longrightarrow> seen c [] t0 \<longrightarrow> (\<exists>fs. seen c' fs (t0 @ t) \<and> carries fs (t0 @ t)))"

context frame_sink
begin

text \<open>A turn of a loop with its label keeps its direction, and touches neither the other peers nor the other label.\<close>

definition turn_post ::
  "peer \<Rightarrow> peer \<Rightarrow> string \<Rightarrow> copy_pc \<Rightarrow> 'c \<Rightarrow> copy_pc \<times> 'c \<times> go_error option \<Rightarrow> gw_event list \<Rightarrow> bool" where
  "turn_post src dst l pc c r t \<longleftrightarrow> (case r of (pc', c', e) \<Rightarrow>
     reads_from dst t = [] \<and> writes_to src t = []
     \<and> (\<forall>fs t0. seen c fs t0 \<longrightarrow> (\<exists>gs. seen c' (fs @ gs) (t0 @ t) \<and> (\<forall>k. k \<noteq> l \<longrightarrow> labelled k gs = [])
          \<and> (\<forall>rs ws. flow pc rs ws (labelled l fs)
               \<longrightarrow> flow pc' (rs @ reads_from src t) (ws @ writes_to dst t) (labelled l (fs @ gs))))))"

lemma turn_postI:
  assumes "reads_from dst t = []" "writes_to src t = []" and "\<And>fs t0. seen c fs t0 \<Longrightarrow> seen c' (fs @ gs) (t0 @ t)"
    and "\<And>k. k \<noteq> l \<Longrightarrow> labelled k gs = []"
    and "\<And>fs rs ws. flow pc rs ws (labelled l fs) \<Longrightarrow> flow pc' (rs @ reads_from src t) (ws @ writes_to dst t) (labelled l (fs @ gs))"
  shows "turn_post src dst l pc c (pc', c', e) t"
  using assms by (auto simp: turn_post_def intro!: exI [of _ gs])

lemma turn_postE:
  assumes "turn_post src dst l pc c (pc', c', e) t" and "seen c fs t0" and "flow pc rs ws (labelled l fs)"
  obtains gs where "seen c' (fs @ gs) (t0 @ t)" "\<And>k. k \<noteq> l \<Longrightarrow> labelled k gs = []"
    "flow pc' (rs @ reads_from src t) (ws @ writes_to dst t) (labelled l (fs @ gs))"
    "reads_from dst t = []" "writes_to src t = []"
  using assms unfolding turn_post_def prod.case by meson

lemma turn_post_wire:
  assumes "reads_from dst t = []" "writes_to src t = []" "list_all tunnel_event t"
    and "\<And>os rs ws. flow pc rs ws os \<Longrightarrow> flow pc' (rs @ reads_from src t) (ws @ writes_to dst t) os"
  shows "turn_post src dst l pc c (pc', c, e) t"
  using assms tunnel_seen by (intro turn_postI [where gs = "[]"]) simp_all

lemma copyFrames_flow:
  assumes "src \<noteq> dst"
  shows "ensures (copyFrames env dst src l (Some act) (Some obs) pc c) (turn_post src dst l pc c)"
proof (cases pc)
  case (CopyActivity ty d)
  show ?thesis unfolding copyFrames_def CopyActivity copy_pc.case option.case
    by (rule ensures_bind [OF act_seen]) (auto intro!: post_rules turn_postI [where gs = "[]"])
next
  case (CopyFrame ty d)
  show ?thesis unfolding copyFrames_def CopyFrame copy_pc.case option.case
    by (rule ensures_bind [OF obs_seen]) (auto intro!: post_rules turn_postI [where gs = "[(l, ty, d)]"])
qed (auto simp: copyFrames_def assms assms [symmetric] intro!: post_rules turn_post_wire split: sum.split)

section \<open>Both directions\<close>

text \<open>The state of the tunnel against the messages so far.\<close>

definition tunnel_flow :: "'c tunnel \<Rightarrow> gw_event list \<Rightarrow> bool" where
  "tunnel_flow st t \<longleftrightarrow> (\<exists>fs. seen (tn_cb st) fs t
     \<and> flow (tn_out st) (reads_from Backend t) (writes_to Client t) (labelled ''client_to_backend'' fs)
     \<and> flow (tn_in st) (reads_from Client t) (writes_to Backend t) (labelled ''backend_to_client'' fs))"

lemma tunnel_flow_out:
  assumes "turn_post Backend Client ''client_to_backend'' (tn_out st) (tn_cb st) (pc, c, e) t" and "tunnel_flow st t0"
  shows "tunnel_flow (st\<lparr>tn_out := pc, tn_cb := c, tn_errc := es\<rparr>) (t0 @ t)"
proof -
  obtain fs where fs: "seen (tn_cb st) fs t0"
    "flow (tn_out st) (reads_from Backend t0) (writes_to Client t0) (labelled ''client_to_backend'' fs)"
    "flow (tn_in st) (reads_from Client t0) (writes_to Backend t0) (labelled ''backend_to_client'' fs)"
    using assms(2) by (auto simp: tunnel_flow_def)
  show ?thesis
    by (rule turn_postE [OF assms(1) fs(1,2)]) (use fs(3) in \<open>auto simp: tunnel_flow_def intro!: exI [of _ "fs @ _"]\<close>)
qed

lemma tunnel_flow_in:
  assumes "turn_post Client Backend ''backend_to_client'' (tn_in st) (tn_cb st) (pc, c, e) t" and "tunnel_flow st t0"
  shows "tunnel_flow (st\<lparr>tn_in := pc, tn_cb := c, tn_errc := es\<rparr>) (t0 @ t)"
proof -
  obtain fs where fs: "seen (tn_cb st) fs t0"
    "flow (tn_out st) (reads_from Backend t0) (writes_to Client t0) (labelled ''client_to_backend'' fs)"
    "flow (tn_in st) (reads_from Client t0) (writes_to Backend t0) (labelled ''backend_to_client'' fs)"
    using assms(2) by (auto simp: tunnel_flow_def)
  show ?thesis
    by (rule turn_postE [OF assms(1) fs(1,3)]) (use fs(2) in \<open>auto simp: tunnel_flow_def intro!: exI [of _ "fs @ _"]\<close>)
qed

lemma first_loop_flow:
  "ensures (first_loop env (Some act) (Some obs) st) (\<lambda>st' t. \<forall>t0. tunnel_flow st t0 \<longrightarrow> tunnel_flow st' (t0 @ t))"
  unfolding first_loop_def
  by (rule ensures_bind [OF copyFrames_flow]) (auto intro!: post_rules dest: tunnel_flow_out)

lemma second_loop_flow:
  "ensures (second_loop env (Some act) (Some obs) st) (\<lambda>st' t. \<forall>t0. tunnel_flow st t0 \<longrightarrow> tunnel_flow st' (t0 @ t))"
  unfolding second_loop_def
  by (rule ensures_bind [OF copyFrames_flow]) (auto intro!: post_rules dest: tunnel_flow_in)

lemma run_tunnel_flow:
  "ensures (run_tunnel env (Some act) (Some obs) ts st) (\<lambda>(e, st') t. \<forall>t0. tunnel_flow st t0 \<longrightarrow> tunnel_flow st' (t0 @ t))"
proof (induction ts arbitrary: st)
  case Nil
  show ?case by (auto intro!: post_rules)
next
  case (Cons x ts)
  note step = ensures_bind [OF first_loop_flow] ensures_bind [OF second_loop_flow]
  show ?case
  proof (cases x)
    case Handler
    have "tunnel_flow (st\<lparr>tn_errc := es\<rparr>) t = tunnel_flow st t" for es t by (simp add: tunnel_flow_def)
    with Handler Cons.IH show ?thesis by (cases "tn_errc st") (auto intro!: post_rules)
  qed (auto intro!: step ensures_mono [OF Cons.IH])
qed

lemma tunnel_post_off:
  assumes "list_all off_wire t" and "list_all tunnel_event t"
  shows "tunnel_post seen c c t"
  using assms tunnel_seen [OF assms(2)]
  by (auto simp: tunnel_post_def carries_def carried_def intro!: exI [of _ "[]"])

lemma tunnel_post_Cons:
  assumes "tunnel_post seen c c' u" and "off_wire e" "tunnel_event e"
  shows "tunnel_post seen c c' (e # u)"
proof (unfold tunnel_post_def, intro allI impI)
  fix t0 assume "list_all off_wire t0" "seen c [] t0"
  then have "list_all off_wire (t0 @ [e])" "seen c [] (t0 @ [e])"
    using assms(2,3) tunnel_seen [of "[e]" c "[]" t0] by simp_all
  with assms(1) have "\<exists>fs. seen c' fs ((t0 @ [e]) @ u) \<and> carries fs ((t0 @ [e]) @ u)"
    unfolding tunnel_post_def by blast
  then show "\<exists>fs. seen c' fs (t0 @ e # u) \<and> carries fs (t0 @ e # u)" by simp
qed

lemma tunnel_post_append:
  assumes "tunnel_post seen c c' u" and "list_all off_wire v" "list_all tunnel_event v"
  shows "tunnel_post seen c c' (u @ v)"
  using assms tunnel_seen [OF assms(3), of c'] unfolding tunnel_post_def carries_def
  by (simp flip: append_assoc) blast

lemma ServeWS_carries: "ensures (ServeWS env sched log url (Some act) (Some obs) c) (\<lambda>r t. tunnel_post seen c (snd r) t)"
proof -
  let ?st = "\<lparr>tn_out = CopyRead, tn_in = CopyRead, tn_errc = [], tn_cb = c\<rparr>"
  have "tunnel_flow ?st t0" if "list_all off_wire t0" "seen c [] t0" for t0
    using that by (auto simp: tunnel_flow_def intro!: exI [of _ "[]"])
  moreover have "\<exists>fs. seen (tn_cb st) fs t \<and> carries fs t" if "tunnel_flow st t" for st t
    using that by (auto simp: tunnel_flow_def carries_def dest: flow_carried)
  ultimately have "tunnel_post seen c (tn_cb st) t" if "\<forall>t0. tunnel_flow ?st t0 \<longrightarrow> tunnel_flow st (t0 @ t)" for st t
    using that unfolding tunnel_post_def by blast
  then have run: "ensures (run_tunnel env (Some act) (Some obs) sched ?st) (\<lambda>r t. tunnel_post seen c (tn_cb (snd r)) t)"
    by (intro ensures_mono [OF run_tunnel_flow]) auto
  show ?thesis unfolding ServeWS_def Let_def log_info_def
    by (auto intro!: post_rules tunnel_post_off tunnel_post_Cons tunnel_post_append ensures_bind [OF run])
qed

end

section \<open>Transparency\<close>

text \<open>An observer that notes what it is given, beside the state of the activity callback.\<close>

type_synonym 'a noted = "'a \<times> observation list"

definition noting :: "('w, 'a noted) frame_observer" where
  "noting d ty p c = State_Monad.return (fst c, snd c @ [(d, ty, p)])"

definition beside :: "('a \<Rightarrow> ('w, 'a) gw) \<Rightarrow> ('w, 'a noted) activity_fn" where
  "beside f c = do { a \<leftarrow> f (fst c); State_Monad.return (a, snd c) }"

lemma noting_sink:
  assumes "\<And>a. emits (act a) off_wire"
  shows "frame_sink (beside act) noting (\<lambda>c fs t. snd c = fs)"
proof
  fix c
  show "ensures (beside act c) (\<lambda>c' t. list_all off_wire t \<and> (\<forall>fs t0. snd c = fs \<longrightarrow> snd c' = fs))"
    unfolding beside_def using assms [unfolded emits_def] by (rule ensures_bind) (auto intro!: post_rules)
qed (auto simp: noting_def intro!: post_rules)

interpretation idle_noting: frame_sink "beside State_Monad.return" noting "\<lambda>c fs t. snd c = fs"
  by (rule noting_sink) simp

text \<open>
  C20: the tunnel is transparent. Under every schedule of the two copy loops and every behaviour of
  the peers, what one peer receives is a prefix of what the other sent, message by message and in
  order, followed by a close frame at most; at most one message is under way. The frame observer,
  that is the session recorder, is given exactly the delivered messages in order, at most one of
  each direction being not yet observed. It is given them under swapped labels: \<open>client_to_backend\<close>
  are the messages read from the backend and written to the client, \<open>backend_to_client\<close> those of the
  other direction.
\<close>

theorem tunnel_transparent:
  assumes "\<And>a. emits (act a) off_wire"
  shows "let m = ServeWS env sched log url (Some (beside act)) (Some noting) (a, []);
      fs = snd (snd (result_of m s)); t = effects_of m s in
    carried Backend Client (labelled ''client_to_backend'' fs) t \<and> carried Client Backend (labelled ''backend_to_client'' fs) t"
proof -
  have sink: "frame_sink (beside act) noting (\<lambda>c fs t. snd c = fs)" using assms by (rule noting_sink)
  let ?m = "ServeWS env sched log url (Some (beside act)) (Some noting) (a, [])"
  have "tunnel_post (\<lambda>c fs t. snd c = fs) (a, []) (snd (result_of ?m s)) (effects_of ?m s)"
    by (rule ensuresD [OF frame_sink.ServeWS_carries [OF sink]])
  then have "carries (snd (snd (result_of ?m s))) ([] @ effects_of ?m s)"
    unfolding tunnel_post_def by (metis list.pred_inject(1) snd_conv)
  then show ?thesis by (simp add: carries_def)
qed

text \<open>The example: the client types, the backend stays silent.\<close>

definition sample_typing :: "(nat, go_error option option \<times> unit noted) gw" where
  "sample_typing = ServeWS ((sample_gw (\<lambda>_. ''''))\<lparr>ge_read := (\<lambda>p w. (Inr (1, ''ls''), w))\<rparr>)
     [SecondLoop, SecondLoop, SecondLoop, SecondLoop, SecondLoop] [] ''ws://pod:7681''
     (Some (beside State_Monad.return)) (Some noting) ((), [])"

theorem tunnel_transparent_witness:
  "carried Client Backend (labelled ''backend_to_client'' (snd (snd (result_of sample_typing \<lparr>world = 0, trace = []\<rparr>))))
     (effects_of sample_typing \<lparr>world = 0, trace = []\<rparr>)
   \<and> writes_to Backend (effects_of sample_typing \<lparr>world = 0, trace = []\<rparr>) = [(1, ''ls'')]"
proof -
  have "writes_to Backend (effects_of sample_typing \<lparr>world = 0, trace = []\<rparr>) = [(1, ''ls'')]"
    by (simp add: sample_typing_def effects_of_def ServeWS_def sample_gw_def log_info_def second_loop_def copyFrames_def
        beside_def noting_def Let_def)
  moreover have "carried Client Backend (labelled ''backend_to_client'' (snd (snd (result_of sample_typing s))))
      (effects_of sample_typing s)" for s
    unfolding sample_typing_def by (rule tunnel_transparent [unfolded Let_def, THEN conjunct2]) simp
  ultimately show ?thesis by simp
qed

end
