(* ===== verification/Session.thy ===== *)
theory Session
  imports Gateway_Props Recording_Props Proxy_Props
begin

text \<open>
  A recorded terminal session as a whole (\<open>handleWS\<close> of \<open>cmd/gateway/main.go\<close> over
  \<open>pkg/gateway/proxy.go\<close> and \<open>session_recording.go\<close>): the recorder is the frame observer of the tunnel,
  and what is on disk is compared with what went over the wire.
\<close>

section \<open>The recorder as observer\<close>

text \<open>After the effects \<open>t\<close> the file of the session has the lines of \<open>fs\<close>, begun by the recorder \<open>r0\<close>.\<close>

definition recorded :: "string \<Rightarrow> session_recorder \<Rightarrow> session_state \<Rightarrow> observation list \<Rightarrow> gw_event list \<Rightarrow> bool" where
  "recorded path r0 s fs t \<longleftrightarrow>
     list_all (writes_only {path}) t
     \<and> (\<exists>r ws. ss_recorder s = Some r \<and> sr_file r = Some path \<and> session_lines path fs r0 r t ws)"

text \<open>Effects that leave the files and the connections alone.\<close>

definition quiet :: "gw_event \<Rightarrow> bool" where
  "quiet e \<longleftrightarrow> off_wire e \<and> writes_only {} e"

lemma session_lines_other:
  "list_all (writes_only {}) u \<Longrightarrow> session_lines path fs r r' t ws \<Longrightarrow> session_lines path fs r r' (t @ u) ws"
  by (auto simp: session_lines_def no_lines)

lemma quiet_no_lines: "list_all (writes_only {}) t \<Longrightarrow> lines_to path t = []"
  by (simp add: no_lines [where ps = "{}"])

lemma writes_only_mono: "list_all (writes_only {}) t \<Longrightarrow> list_all (writes_only ps) t"
  by (auto simp: list_all_iff writes_only_def)

lemma recorded_other:
  assumes "recorded path r0 c fs t" and "list_all (writes_only {}) u" and "ss_recorder c' = ss_recorder c"
  shows "recorded path r0 c' fs (t @ u)"
  using assms(1,3) session_lines_other [OF assms(2)] writes_only_mono [OF assms(2)] unfolding recorded_def
  by (metis list_all_append)

lemma quiet_trace: "list_all quiet t \<longleftrightarrow> list_all off_wire t \<and> list_all (writes_only {}) t"
  by (auto simp: quiet_def list_all_iff)

lemma session_lines_snoc:
  assumes "session_lines path fs r r1 t ws" and "same_session r1 r2" and "sr_seq r2 = sr_seq r1 + 1"
    and "frame_written path f r1 r2 u \<or> frame_lost path r1 r2 u"
  shows "\<exists>ws. session_lines path (fs @ [f]) r r2 (t @ u) ws"
  using assms(4)
proof
  assume "frame_written path f r1 r2 u"
  then obtain rec where "lines_to path u = [frame_line rec]" "fr_prev_hash rec = sr_prev r1"
    "fr_entry_hash rec = hash_text (record_input rec)" "sr_prev r2 = fr_entry_hash rec"
    "CHR ''|'' \<notin> set (fr_timestamp rec)" "describes (src_mode (sr_cfg r1)) f rec" "sr_enc_err r2 = None"
    by (auto simp: frame_written_def)
  then have "session_lines path (fs @ [f]) r r2 (t @ u) (ws @ [(f, rec)])"
    using assms(1-3) by (auto simp: session_lines_def same_session_def intro: list_emb_append_mono)
  then show ?thesis ..
next
  assume "frame_lost path r1 r2 u"
  then have "session_lines path (fs @ [f]) r r2 (t @ u) ws"
    using assms(1-3) by (auto simp: session_lines_def same_session_def frame_lost_def intro: list_emb_append2)
  then show ?thesis ..
qed

lemma RecordFrame_off_wire: "emits (RecordFrame env d ty p ro) off_wire"
  unfolding RecordFrame_def gw_now_def encode_frame_def log_error_def Let_def by (intro trace_rules) auto

lemma onActivity_quiet:
  assumes "\<And>ws. emits (wl_touch lc ws) quiet"
  shows "ensures (onActivity env lc s) (\<lambda>s' t. list_all quiet t \<and> ss_recorder s' = ss_recorder s)"
proof -
  have t: "ensures (wl_touch lc ws) (\<lambda>_. list_all quiet)" for ws using assms by (simp add: emits_def)
  show ?thesis unfolding onActivity_def call_touch_def gw_now_def
    by (auto intro!: post_rules ensures_bind [OF t] simp: quiet_def)
qed

text \<open>The callbacks \<open>handleWS\<close> gives the tunnel make a frame sink of the recorder.\<close>

lemma recorder_sink:
  assumes "\<And>ws. emits (wl_touch lc ws) quiet"
  shows "frame_sink (onActivity env lc) (onFrame env) (recorded path r0)"
proof
  fix c :: session_state
  show "ensures (onActivity env lc c) (\<lambda>c' t. list_all off_wire t \<and> (\<forall>fs t0. recorded path r0 c fs t0 \<longrightarrow> recorded path r0 c' fs (t0 @ t)))"
    by (rule ensures_mono [OF onActivity_quiet [OF assms]])
      (auto simp: quiet_trace elim: recorded_other)
next
  fix d ty p and c :: session_state
  have post: "ensures (RecordFrame env d ty p (ss_recorder c)) (\<lambda>ro t. list_all off_wire t \<and> (\<forall>r. ss_recorder c = Some r \<longrightarrow> sr_file r = Some path \<longrightarrow>
      list_all (writes_only {path}) t
      \<and> (\<exists>r'. ro = Some r' \<and> same_session r r' \<and> sr_seq r' = sr_seq r + 1 \<and> (frame_written path (d, ty, p) r r' t
        \<or> frame_lost path r r' t))))"
  proof (cases "\<exists>r. ss_recorder c = Some r \<and> sr_file r = Some path")
    case True
    then obtain r where r: "ss_recorder c = Some r" "sr_file r = Some path" by blast
    show ?thesis unfolding r(1)
      by (rule ensures_mono [OF ensures_conj [OF RecordFrame_off_wire [unfolded emits_def]
            ensures_conj [OF RecordFrame_writes [unfolded emits_def] RecordFrame_post [OF r(2)]]]])
        (use r(2) in simp)
  next
    case False
    then show ?thesis by (intro ensures_mono [OF RecordFrame_off_wire [unfolded emits_def]]) blast
  qed
  show "ensures (onFrame env d ty p c) (\<lambda>c' t. list_all off_wire t
      \<and> (\<forall>fs t0. recorded path r0 c fs t0 \<longrightarrow> recorded path r0 c' (fs @ [(d, ty, p)]) (t0 @ t)))"
    unfolding onFrame_def
    by (rule ensures_bind [OF post])
      (fastforce intro!: post_rules simp: recorded_def same_session_def dest: session_lines_snoc)
next
  show "recorded path r0 c fs (t0 @ t)" if "list_all tunnel_event t" "recorded path r0 c fs t0" for c fs t0 t
    by (rule recorded_other [OF that(2) _ refl], rule list.pred_mono_strong [OF that(1)]) (auto simp: writes_only_def)
qed

lemma touch_quiet: "emits (wl_touch (gateway_lifecycle g) ws) quiet"
  unfolding gateway_lifecycle_eq kube_part_def workspace_lifecycle.simps
  by (rule emits_zoom [OF emits_Touch_call]) (simp add: quiet_def)

interpretation gateway_recorder:
  frame_sink "onActivity (gt_env g) (gateway_lifecycle g)" "onFrame (gt_env g)" "recorded path r0"
  by (rule recorder_sink [OF touch_quiet])

section \<open>The session\<close>

text \<open>No call on the file system failed.\<close>

fun files_ok :: "gw_event \<Rightarrow> bool" where
  "files_ok (MkdirAll d (Inl e)) = False"
| "files_ok (OpenFile p (Inl e)) = False"
| "files_ok (FileWrite p l (Inl e)) = False"
| "files_ok _ = True"

lemma files_ok_answers [simp]: "files_ok (MkdirAll d x) \<longleftrightarrow> x = Inr ()" "files_ok (OpenFile p x) \<longleftrightarrow> x = Inr ()"
  "files_ok (FileWrite p l x) \<longleftrightarrow> x = Inr ()"
  by (cases x; simp)+

lemma files_ok_writes: "files_ok e \<Longrightarrow> write_ok e"
  by (cases e rule: files_ok.cases) auto

lemma files_ok_trace: "list_all files_ok t \<Longrightarrow> list_all write_ok t"
  by (auto simp: list_all_iff files_ok_writes)

lemma NewSessionRecorder_opens:
  assumes "src_enabled cfg" and "src_mode cfg \<noteq> SessionRecordingOff"
  shows "ensures (NewSessionRecorder env lg cfg m) (\<lambda>ro t. list_all off_wire t \<and> (list_all files_ok t \<longrightarrow> ro \<noteq> None))"
  unfolding NewSessionRecorder_def fill_session_id_def fill_started_at_def NewString_def gw_now_def log_info_def
    log_error_def Let_def
  using assms by (auto intro!: post_rules)

lemma Close_manifest:
  assumes "sr_file r \<noteq> None"
  shows "ensures (Close env e (Some r)) (\<lambda>ro t. list_all off_wire t \<and> (list_all files_ok t \<longrightarrow> lines_to (manifest_path r) t \<noteq> []))"
  unfolding Close_def gw_now_def log_info_def log_error_def Let_def
  using assms by (auto intro!: post_rules simp: manifest_path_def split: sum.split)

text \<open>The messages of one label as an auditor decodes them from the lines of a full recording.\<close>

definition recorded_as :: "string \<Rightarrow> session_frame_record list \<Rightarrow> message list" where
  "recorded_as l recs =
     map (\<lambda>r. (fr_message_type r, the (base64_decode (fr_payload_b64 r)))) (filter (\<lambda>r. fr_direction r = l) recs)"

lemma recorded_as_frames:
  assumes "session_lines path fs r0 r t ws" and "list_all write_ok t" and "sr_enc_err r0 = None"
    and "src_mode (sr_cfg r0) = SessionRecordingFull"
  shows "recorded_as l (map snd ws) = labelled l fs"
proof -
  have fs: "fs = map fst ws" and d: "list_all (\<lambda>(f, rec). describes SessionRecordingFull f rec) ws"
    using assms by (auto simp: session_lines_def list_all_iff)
  from d have "recorded_as l (map snd ws) = labelled l (map fst ws)"
    by (induction ws) (auto simp: recorded_as_def)
  then show ?thesis by (simp add: fs)
qed

text \<open>What a session leaves behind, against what the peers received.\<close>

definition session_recorded :: "unit option \<Rightarrow> gw_event list \<Rightarrow> bool" where
  "session_recorded res t \<longleftrightarrow> (\<exists>path recs. OpenFile path (Inr ()) \<in> set t \<and> lines_to path t = map frame_line recs
     \<and> chained '''' recs \<and> carried Backend Client (recorded_as ''client_to_backend'' recs) t
     \<and> carried Client Backend (recorded_as ''backend_to_client'' recs) t
     \<and> (res \<noteq> None \<longrightarrow> (\<exists>mpath man. lines_to mpath t = [manifest_text man]
          \<and> man_final_hash man = chain_end '''' recs \<and> man_frame_count man = of_nat (length recs))))"

lemma session_recordedI:
  assumes "OpenFile path (Inr ()) \<in> set t" and "lines_to path t = map frame_line recs" and "chained '''' recs"
    and "carries fs t" and "\<And>l. recorded_as l recs = labelled l fs"
    and "res \<noteq> None \<Longrightarrow> lines_to mpath t = [manifest_text man] \<and> man_final_hash man = chain_end '''' recs
       \<and> man_frame_count man = of_nat (length recs)"
  shows "session_recorded res t"
proof -
  have "carried Backend Client (recorded_as ''client_to_backend'' recs) t" "carried Client Backend (recorded_as ''backend_to_client'' recs) t"
    using assms(4,5) by (simp_all add: carries_def)
  with assms(1-3,6) show ?thesis unfolding session_recorded_def by metis
qed

text \<open>The tunnel of a session whose recorder has opened its file.\<close>

lemma recorded_carries:
  assumes "tunnel_post (recorded path r0) s0 s t"
    and "ss_recorder s0 = Some r0" "sr_file r0 = Some path" "list_all quiet t0"
  shows "\<exists>fs. recorded path r0 s fs (t0 @ t) \<and> carries fs (t0 @ t)"
proof -
  have "recorded path r0 s0 [] t0"
    using assms(2-4)
    by (auto simp: recorded_def session_lines_def same_session_def quiet_trace quiet_no_lines writes_only_mono intro!: exI [of _ "[]"])
  with assms(1,4) show ?thesis
    unfolding tunnel_post_def by (auto simp: quiet_trace)
qed

lemma end_audit_quiet:
  "ensures (case eo of None \<Rightarrow> State_Monad.return () | Some e \<Rightarrow> do {
     _ \<leftarrow> LogAudit lg msg q ev (kv e);
     log_info lg msg' (kv' e) }) (\<lambda>_ t. list_all quiet t)"
  unfolding LogAudit_def log_info_def Let_def by (auto intro!: post_rules simp: quiet_def)

lemma session_ends:
  assumes "recorded path r0 s fs t" "carries fs t" and "sr_prev r0 = ''''" "sr_seq r0 = 0" "sr_enc_err r0 = None" "src_mode (sr_cfg r0) = SessionRecordingFull"
    and "OpenFile path (Inr ()) \<in> set t" and "path = record_path r0"
  shows "ensures (end_session env lg q ns cl eo s) (\<lambda>res u. list_all files_ok (t @ u) \<longrightarrow> session_recorded res (t @ u))"
proof -
  obtain r ws where r: "ss_recorder s = Some r" "sr_file r = Some path" "session_lines path fs r0 r t ws"
    using assms(1) by (auto simp: recorded_def)
  then have same: "record_path r = path" "sr_prev r = chain_end '''' (map snd ws)" "sr_seq r = of_nat (length fs)"
    using assms(3,4,8) by (auto simp: session_lines_def same_session_def record_path_def)
  have close: "ensures (Close env eo (ss_recorder s)) (\<lambda>ro u. list_all off_wire u \<and> list_all (writes_only {manifest_path r}) u
      \<and> (list_all files_ok u \<longrightarrow> (\<exists>man. lines_to (manifest_path r) u = [manifest_text man]
           \<and> man_final_hash man = sr_prev r \<and> man_frame_count man = sr_seq r)))"
    unfolding r(1)
    by (rule ensures_mono [OF ensures_conj [OF Close_manifest Close_post]])
      (use r(2) same(1) in \<open>auto simp: manifest_of_def\<close>)
  have rec: "session_recorded (Some ()) (t @ u @ v)"
    if u: "list_all off_wire u" "list_all (writes_only {manifest_path r}) u" "list_all files_ok u \<longrightarrow> (\<exists>man.
        lines_to (manifest_path r) u = [manifest_text man] \<and> man_final_hash man = sr_prev r \<and> man_frame_count man = sr_seq r)"
      and v: "list_all quiet v" and ok: "list_all files_ok t" "list_all files_ok u" for u v
  proof -
    have w: "list_all write_ok t" using files_ok_trace [OF ok(1)] .
    have "list_all (writes_only {path}) t" using assms(1) by (simp add: recorded_def)
    then have m: "lines_to (manifest_path r) t = []" "lines_to (manifest_path r) v = []"
      using v same(1) paths_differ [of r] by (auto simp: quiet_trace no_lines)
    have "lines_to path (t @ u @ v) = map frame_line (map snd ws)"
      using r(3) no_lines [OF u(2), of path] v same(1) paths_differ [of r] by (auto simp: session_lines_def quiet_trace no_lines)
    moreover have "chained '''' (map snd ws)" "length (map snd ws) = length fs"
      using r(3) assms(3,5) w by (auto simp: session_lines_def dest: map_eq_imp_length_eq)
    moreover have "carries fs (t @ u @ v)" using assms(2) u(1) v by (simp add: carries_def quiet_trace)
    moreover have "recorded_as l (map snd ws) = labelled l fs" for l by (rule recorded_as_frames [OF r(3) w assms(5,6)])
    moreover obtain man where "lines_to (manifest_path r) u = [manifest_text man]" "man_final_hash man = sr_prev r"
      "man_frame_count man = sr_seq r" using u(3) ok(2) by blast
    ultimately show ?thesis using m same assms(7)
      by (intro session_recordedI [where path = path and recs = "map snd ws" and fs = fs and mpath = "manifest_path r" and man = man])
        auto
  qed
  have "ensures (end_session env lg q ns cl eo s) (\<lambda>res u. \<exists>u1 v. u = u1 @ v \<and> list_all off_wire u1
      \<and> list_all (writes_only {manifest_path r}) u1 \<and> (list_all files_ok u1 \<longrightarrow> (\<exists>man. lines_to (manifest_path r) u1 = [manifest_text man]
           \<and> man_final_hash man = sr_prev r \<and> man_frame_count man = sr_seq r)) \<and> list_all quiet v \<and> res = Some ())"
    unfolding end_session_def
    by (rule ensures_bind [OF close], rule ensures_bind [OF end_audit_quiet], rule ensures_return) auto
  then show ?thesis by (rule ensures_mono) (use rec in \<open>force simp del: append_assoc simp: append_assoc [symmetric]\<close>)
qed

lemma session_open:
  assumes "recorded path r0 s fs t" "carries fs t" and "sr_prev r0 = ''''" "sr_enc_err r0 = None" "src_mode (sr_cfg r0) = SessionRecordingFull"
    and "OpenFile path (Inr ()) \<in> set t" and "list_all files_ok t"
  shows "session_recorded None t"
proof -
  obtain r ws where ws: "session_lines path fs r0 r t ws" using assms(1) by (auto simp: recorded_def)
  have "recorded_as l (map snd ws) = labelled l fs" for l
    by (rule recorded_as_frames [OF ws files_ok_trace [OF assms(7)] assms(4,5)])
  with ws assms(2,3,6) show ?thesis
    by (intro session_recordedI [where path = path and recs = "map snd ws" and fs = fs]) (auto simp: session_lines_def)
qed

text \<open>The tunnel and what follows it, from the recorder of the session on.\<close>

definition session_rest ::
  "'w gw_env \<Rightarrow> turn list \<Rightarrow> 'w workspace_lifecycle \<Rightarrow> string \<Rightarrow> log_fields \<Rightarrow> log_fields \<Rightarrow> string \<Rightarrow> claims \<Rightarrow> workspace
    \<Rightarrow> string \<Rightarrow> session_recorder option \<Rightarrow> ('w, unit option) gw" where
  "session_rest env sched lc ns pl lg q cl ws url ro = do {
     x \<leftarrow> ServeWS env sched pl url (Some (onActivity env lc)) (Some (onFrame env))
       \<lparr>ss_last_touch = None, ss_ws = ws, ss_recorder = ro\<rparr>;
     case fst x of None \<Rightarrow> State_Monad.return None | Some eo \<Rightarrow> end_session env lg q ns cl eo (snd x) }"

lemma session_rest_emits:
  assumes "\<And>ws. emits (wl_touch lc ws) quiet"
  shows "emits (session_rest env sched lc ns pl lg q cl ws url ro) (\<lambda>_. True)"
proof -
  have "emits (wl_touch lc ws) (\<lambda>_. True)" for ws by (rule emits_mono [OF assms]) simp
  then show ?thesis unfolding session_rest_def end_session_def ServeWS_def Let_def
    by (intro trace_rules emits_recorder emits_run_tunnel emits_onActivity emits_onFrame; simp)
qed

lemma session_rest_recorded:
  assumes "\<And>ws. emits (wl_touch lc ws) quiet" and "list_all quiet t"
    and "sr_file r0 = Some (record_path r0)" "sr_seq r0 = 0" "sr_prev r0 = ''''" "sr_enc_err r0 = None" "src_mode (sr_cfg r0) = SessionRecordingFull"
    and "OpenFile (record_path r0) (Inr ()) \<in> set t"
  shows "ensures (session_rest env sched lc ns pl lg q cl ws url (Some r0))
    (\<lambda>res u. list_all files_ok (t @ u) \<longrightarrow> session_recorded res (t @ u))"
  unfolding session_rest_def
proof (rule ensures_bind [OF frame_sink.ServeWS_carries [OF recorder_sink [OF assms(1), where path = "record_path r0" and ?r0.0 = r0]]])
  fix x :: "go_error option option \<times> session_state" and u
  assume p: "tunnel_post (recorded (record_path r0) r0) \<lparr>ss_last_touch = None, ss_ws = ws, ss_recorder = Some r0\<rparr> (snd x) u"
  obtain fs where fs: "recorded (record_path r0) r0 (snd x) fs (t @ u)" "carries fs (t @ u)"
    using recorded_carries [OF p _ assms(3,2)] by auto
  have op: "OpenFile (record_path r0) (Inr ()) \<in> set (t @ u)" using assms(8) by simp
  show "ensures (case fst x of None \<Rightarrow> State_Monad.return None | Some eo \<Rightarrow> end_session env lg q ns cl eo (snd x))
      (\<lambda>res v. list_all files_ok (t @ u @ v) \<longrightarrow> session_recorded res (t @ u @ v))"
  proof (cases "fst x")
    case None
    then show ?thesis using session_open [OF fs assms(5-7) op] by (auto intro!: post_rules)
  next
    case (Some eo)
    then show ?thesis using session_ends [OF fs assms(5,4,6,7) op refl] by simp
  qed
qed

text \<open>The whole of \<open>proxy_session\<close>: set-up, tunnel, end.\<close>

lemma proxy_session_recorded:
  assumes "\<And>ws. emits (wl_touch lc ws) quiet" and "src_enabled (SessionRecordingConfigFromEnv env)"
    and "src_mode (SessionRecordingConfigFromEnv env) = SessionRecordingFull"
  shows "ensures (proxy_session env sched lc ns pl lg q r cl ws) (\<lambda>res t. list_all files_ok t \<longrightarrow> session_recorded res t)"
proof -
  let ?cfg = "SessionRecordingConfigFromEnv env"
  have on: "src_mode ?cfg \<noteq> SessionRecordingOff" using assms(3) by simp
  have new: "ensures (NewSessionRecorder env lg ?cfg m) (\<lambda>ro t. list_all quiet t \<and> (list_all files_ok t \<longrightarrow> ro \<noteq> None)
      \<and> (\<forall>r0. ro = Some r0 \<longrightarrow> sr_file r0 = Some (record_path r0) \<and> sr_seq r0 = 0 \<and> sr_prev r0 = '''' \<and> sr_enc_err r0 = None \<and> sr_cfg r0 = ?cfg
           \<and> OpenFile (record_path r0) (Inr ()) \<in> set t))" for m
    by (rule ensures_mono [OF ensures_conj [OF NewSessionRecorder_opens [OF assms(2) on] NewSessionRecorder_post]])
      (auto simp: quiet_trace)
  have logs: "ensures (LogAudit lg msg q ev kvs) (\<lambda>_ t. list_all quiet t)" "ensures (log_info lg msg kvs) (\<lambda>_ t. list_all quiet t)" for msg ev kvs
    unfolding LogAudit_def log_info_def Let_def by (auto intro!: post_rules simp: quiet_def)
  show ?thesis unfolding proxy_session_def Let_def session_rest_def [symmetric]
  proof (rule ensures_bind [OF new], rule ensures_bind [OF logs(1)], rule ensures_bind [OF logs(2)], goal_cases)
    case (1 ro t0 a t1 b t2)
    show ?case
    proof (cases ro)
      case None
      with 1 have "\<not> list_all files_ok t0" by auto
      then show ?thesis
        by (intro ensures_mono [OF session_rest_emits [OF assms(1), unfolded emits_def]]) simp
    next
      case (Some r0)
      with 1 session_rest_recorded [OF assms(1), of "t0 @ t1 @ t2" r0] assms(3) show ?thesis by simp
    qed
  qed
qed

section \<open>Completeness of a recording\<close>

text \<open>
  C12: a terminal session that is recorded in full mode is recorded completely. For every schedule of
  the tunnel and every behaviour of the peers, when no call on the file system fails, the file
  that was opened for the session holds one verifying hash chain, and the messages decoded from its
  lines are, direction by direction and in order, the messages each peer received; of each
  direction at most the last one is missing. When the session has ended, the manifest has the end
  of the chain and the number of lines. As in the tunnel, the labels are swapped:
  \<open>client_to_backend\<close> are the messages the client received.
\<close>

theorem terminal_session_recorded:
  assumes "\<And>ws. emits (wl_touch lc ws) quiet" and "src_enabled (SessionRecordingConfigFromEnv env)"
    and "src_mode (SessionRecordingConfigFromEnv env) = SessionRecordingFull"
    and "list_all files_ok (effects_of (proxy_session env sched lc ns pl lg q r cl ws) s)"
  shows "session_recorded (result_of (proxy_session env sched lc ns pl lg q r cl ws) s)
    (effects_of (proxy_session env sched lc ns pl lg q r cl ws) s)"
  using ensuresD [OF proxy_session_recorded [OF assms(1-3)]] assms(4) by blast

text \<open>The lifecycle manager of the gateway keeps to the interface.\<close>

lemma gateway_session_recorded:
  assumes "src_enabled (SessionRecordingConfigFromEnv (gt_env g))" "src_mode (SessionRecordingConfigFromEnv (gt_env g)) = SessionRecordingFull"
  shows "ensures (proxy_session (gt_env g) sched (gateway_lifecycle g) ns pl lg q r cl ws)
    (\<lambda>res t. list_all files_ok t \<longrightarrow> session_recorded res t)"
  by (rule proxy_session_recorded [OF touch_quiet assms])

text \<open>The example: the client types one line, then the backend hangs up.\<close>

definition sample_recording_env :: "nat gw_env" where
  "sample_recording_env = (sample_gw (\<lambda>k. if k = ''SESSION_RECORDING_ENABLED'' then ''true''
     else if k = ''SESSION_RECORDING_MODE'' then ''full'' else ''''))\<lparr>ge_read := (\<lambda>p w.
       (case p of Client \<Rightarrow> Inr (1, ''ls'') | Backend \<Rightarrow> Inl (new_error ''EOF''), w))\<rparr>"

definition sample_touch :: "nat workspace_lifecycle" where
  "sample_touch = \<lparr>wl_ensure_exists = (\<lambda>_ _. State_Monad.return (no_details, Inl (new_error ''''))),
     wl_ensure_workspace = (\<lambda>_ _. State_Monad.return None), wl_touch = State_Monad.return\<rparr>"

definition sample_terminal :: "(nat, unit option) gw" where
  "sample_terminal = proxy_session sample_recording_env
     [SecondLoop, SecondLoop, SecondLoop, SecondLoop, FirstLoop, Handler] sample_touch ''devplane'' [] [] ''req''
     \<lparr>rq_method = ''GET'', rq_path = ''/ws'', rq_headers = [], rq_cookies = [], rq_query = [], rq_remote = ''10.0.0.1''\<rparr>
     \<lparr>clm_sub = ''alice'', clm_email = ''a@b.c'', clm_user_id = ''alice''\<rparr> (sample_ws ''alice'')"

lemma sample_recording_cfg:
  "SessionRecordingConfigFromEnv sample_recording_env =
     \<lparr>src_enabled = True, src_mode = SessionRecordingFull, src_dir = ''/tmp/devplane-sessions''\<rparr>"
  by code_simp

lemma sample_terminal_run:
  "list_all files_ok (effects_of sample_terminal \<lparr>world = 0, trace = []\<rparr>)
   \<and> writes_to Backend (effects_of sample_terminal \<lparr>world = 0, trace = []\<rparr>) = [(1, ''ls'')]"
  unfolding sample_terminal_def proxy_session_def sample_recording_cfg
  by (simp add: effects_of_def sample_recording_env_def sample_touch_def sample_gw_def NewSessionRecorder_def
      fill_session_id_def fill_started_at_def NewString_def gw_now_def LogAudit_def log_info_def ServeWS_def first_loop_def
      second_loop_def copyFrames_def onActivity_def call_touch_def onFrame_def RecordFrame_def encode_frame_def end_session_def
      Close_def Let_def new_error_def)

theorem terminal_session_recorded_witness:
  "session_recorded (result_of sample_terminal \<lparr>world = 0, trace = []\<rparr>) (effects_of sample_terminal \<lparr>world = 0, trace = []\<rparr>)
   \<and> writes_to Backend (effects_of sample_terminal \<lparr>world = 0, trace = []\<rparr>) = [(1, ''ls'')]"
  using terminal_session_recorded [OF _ _ _ conjunct1 [OF sample_terminal_run, unfolded sample_terminal_def]]
    conjunct2 [OF sample_terminal_run] sample_recording_cfg
  by (simp add: sample_terminal_def sample_touch_def)

end
