(* ===== verification/Responses.thy ===== *)
theory Responses
  imports Gateway_Props
begin

text \<open>
  The protocol of \<open>http.ResponseWriter\<close>: headers and cookies count only before the response is
  committed, a body is written only after \<open>WriteHeader\<close>, and a response is committed once, by
  \<open>WriteHeader\<close>, \<open>http.Error\<close>, \<open>http.Redirect\<close>, the reverse proxy, the metrics page or the
  WebSocket upgrade, which answers by itself when it fails. Every handler keeps to it.
\<close>

section \<open>The state of a response\<close>

datatype response_state = Open | Body | Closed

fun respond :: "response_state \<Rightarrow> gw_event \<Rightarrow> response_state option" where
  "respond st (SetHeader k v) = (if st = Open then Some Open else None)"
| "respond st (SetCookie c) = (if st = Open then Some Open else None)"
| "respond st (WriteHeader n) = (if st = Open then Some Body else None)"
| "respond st (Write b) = (if st = Body then Some Body else None)"
| "respond st (HttpError m n) = (if st = Open then Some Closed else None)"
| "respond st (Redirect u n) = (if st = Open then Some Closed else None)"
| "respond st (Delivered x) = (if st = Open then Some Closed else None)"
| "respond st (Upgraded x) = (if st = Open then Some Closed else None)"
| "respond st MetricsPage = (if st = Open then Some Closed else None)"
| "respond st e = Some st"

fun responds :: "response_state \<Rightarrow> gw_event list \<Rightarrow> response_state option" where
  "responds st [] = Some st"
| "responds st (e # t) = (case respond st e of None \<Rightarrow> None | Some st' \<Rightarrow> responds st' t)"

lemma responds_append:
  "responds st (t @ u) = (case responds st t of None \<Rightarrow> None | Some st' \<Rightarrow> responds st' u)"
  by (induction t arbitrary: st) (auto split: option.split)

text \<open>Effects that prepare a response, that write its body, and that have nothing to do with it.\<close>

definition prepares :: "gw_event \<Rightarrow> bool" where
  "prepares e \<longleftrightarrow> respond Open e = Some Open"

definition neutral :: "gw_event \<Rightarrow> bool" where
  "neutral e \<longleftrightarrow> (\<forall>st. respond st e = Some st)"

lemma responds_prepares: "list_all prepares t \<Longrightarrow> responds Open t = Some Open"
  by (induction t) (auto simp: prepares_def)

lemma responds_neutral: "list_all neutral t \<Longrightarrow> responds st t = Some st"
  by (induction t) (auto simp: neutral_def)

lemma neutral_prepares: "neutral e \<Longrightarrow> prepares e"
  by (simp add: neutral_def prepares_def)

section \<open>Actions that answer\<close>

named_theorems answer_rules \<open>rules for actions that give the one response\<close>

text \<open>The action gives the response; an action that can be left waiting may not have got to it.\<close>

definition answers :: "('w, 'a) gw \<Rightarrow> bool" where
  "answers m \<longleftrightarrow> ensures m (\<lambda>_ t. responds Open t \<in> {Some Body, Some Closed})"

definition answers_if_done :: "('w, 'a option) gw \<Rightarrow> bool" where
  "answers_if_done m \<longleftrightarrow> ensures m (\<lambda>a t. responds Open t \<noteq> None \<and> (a \<noteq> None \<longrightarrow> responds Open t \<noteq> Some Open))"

lemma answers_before [answer_rules]:
  assumes "emits m prepares" and "\<And>a. answers (f a)"
  shows "answers (State_Monad.bind m f)"
  unfolding answers_def
  by (rule ensures_bind [OF assms(1) [unfolded emits_def]])
    (use assms(2) in \<open>auto simp: answers_def responds_append responds_prepares\<close>)

lemma answers_after:
  assumes "answers m" and "\<And>a. emits (f a) neutral"
  shows "answers (State_Monad.bind m f)"
  unfolding answers_def
proof (rule ensures_bind [OF assms(1) [unfolded answers_def]])
  fix a t assume "responds Open t \<in> {Some Body, Some Closed}"
  then show "ensures (f a) (\<lambda>_ u. responds Open (t @ u) \<in> {Some Body, Some Closed})"
    by (intro ensures_mono [OF assms(2) [unfolded emits_def]]) (auto simp: responds_append responds_neutral)
qed

lemma answers_done: "answers m \<Longrightarrow> answers_if_done m"
  unfolding answers_def answers_if_done_def by (erule ensures_mono) auto

lemma done_before [answer_rules]:
  assumes "emits m prepares" and "\<And>a. answers_if_done (f a)"
  shows "answers_if_done (State_Monad.bind m f)"
  unfolding answers_if_done_def
  by (rule ensures_bind [OF assms(1) [unfolded emits_def]])
    (use assms(2) in \<open>auto simp: answers_if_done_def responds_append responds_prepares\<close>)

lemma done_waiting [answer_rules]: "answers_if_done (State_Monad.return None)"
  unfolding answers_if_done_def by (intro post_rules) simp

lemma answers_emit: "responds Open [e] \<in> {Some Body, Some Closed} \<Longrightarrow> answers (emit e)"
  unfolding answers_def by (intro post_rules)

lemma answers_body: "answers (State_Monad.bind (emit (WriteHeader n)) (\<lambda>_. emit (Write b)))"
  unfolding answers_def by (intro post_rules) simp

lemma answers_cases [answer_rules]:
  "(b \<Longrightarrow> answers m) \<Longrightarrow> (\<not> b \<Longrightarrow> answers n) \<Longrightarrow> answers (if b then m else n)"
  "(\<And>a. x = Inl a \<Longrightarrow> answers (f a)) \<Longrightarrow> (\<And>b. x = Inr b \<Longrightarrow> answers (g b))
     \<Longrightarrow> answers (case x of Inl a \<Rightarrow> f a | Inr b \<Rightarrow> g b)"
  "(y = None \<Longrightarrow> answers m) \<Longrightarrow> (\<And>a. y = Some a \<Longrightarrow> answers (h a)) \<Longrightarrow> answers (case y of None \<Rightarrow> m | Some a \<Rightarrow> h a)"
  "(\<And>a b. p = (a, b) \<Longrightarrow> answers (k a b)) \<Longrightarrow> answers (case p of (a, b) \<Rightarrow> k a b)"
  by (auto split: sum.splits option.splits prod.splits)

lemma done_cases [answer_rules]:
  "(b \<Longrightarrow> answers_if_done m) \<Longrightarrow> (\<not> b \<Longrightarrow> answers_if_done n) \<Longrightarrow> answers_if_done (if b then m else n)"
  "(\<And>a. x = Inl a \<Longrightarrow> answers_if_done (f a)) \<Longrightarrow> (\<And>b. x = Inr b \<Longrightarrow> answers_if_done (g b))
     \<Longrightarrow> answers_if_done (case x of Inl a \<Rightarrow> f a | Inr b \<Rightarrow> g b)"
  "(y = None \<Longrightarrow> answers_if_done m) \<Longrightarrow> (\<And>a. y = Some a \<Longrightarrow> answers_if_done (h a))
     \<Longrightarrow> answers_if_done (case y of None \<Rightarrow> m | Some a \<Rightarrow> h a)"
  "(\<And>a b. p = (a, b) \<Longrightarrow> answers_if_done (k a b)) \<Longrightarrow> answers_if_done (case p of (a, b) \<Rightarrow> k a b)"
  by (auto split: sum.splits option.splits prod.splits)

section \<open>The parts of the gateway\<close>

lemma answers_WriteJSONError [answer_rules]: "answers (WriteJSONError st c)"
  unfolding WriteJSONError_def RecordJSONAPIError_def
  by (intro answers_before answers_body trace_rules) (simp_all add: prepares_def)

lemma answers_rate_limited [answer_rules]: "answers (rate_limited lg q ep sc cl)"
  unfolding rate_limited_def RecordRateLimitHit_def
  by (intro answer_rules trace_rules) (simp_all add: prepares_def)

lemma answers_loading_page [answer_rules]: "answers (serveLoadingPage d ph)"
  unfolding serveLoadingPage_def by (intro answers_before answers_body trace_rules) (simp_all add: prepares_def)

lemma answers_single [answer_rules]:
  "answers (emit (HttpError m n))" "answers (emit (Redirect u n))" "answers (emit (Delivered x))" "answers (emit MetricsPage)"
  by (rule answers_emit, simp)+

lemma BackendReady_prepares: "emits (BackendReady env p) prepares"
  unfolding BackendReady_def by (intro trace_rules) (simp_all add: prepares_def)

lemma answers_api_respond [answer_rules]: "answers (api_respond env cl ws)"
  unfolding api_respond_def
  by (intro answers_before answers_body trace_rules BackendReady_prepares) (simp_all add: prepares_def)

lemma answers_reverse_proxy [answer_rules]: "(\<And>e. answers (h e)) \<Longrightarrow> answers (reverse_proxy env u f h)"
  unfolding reverse_proxy_def by (intro answer_rules trace_rules) (simp_all add: prepares_def)

lemma RequestID_prepares: "emits (RequestID env r) prepares"
  unfolding RequestID_def NewString_def Let_def by (intro trace_rules) (simp_all add: prepares_def)

lemma kube_part_neutral: "emits m P \<Longrightarrow> emits (kube_part m) neutral"
  unfolding kube_part_def by (erule emits_zoom) (simp add: neutral_def)

lemma interfaces_prepare:
  "emits (call_validate (gateway_validate g) tok) prepares"
  "emits (call_allow (lifecycle_allow g) key) prepares" "emits (call_allow (ws_allow g) key) prepares"
  "emits (call_ensure_exists (gateway_lifecycle g) (gc_namespace (gt_cfg g)) cl) prepares"
  "emits (call_ensure_workspace (gateway_lifecycle g) (gc_namespace (gt_cfg g)) cl) prepares"
proof -
  note z = emits_mono [OF kube_part_neutral neutral_prepares]
  show "emits (call_validate (gateway_validate g) tok) prepares"
    unfolding call_validate_def gateway_validate_def
    by (intro trace_rules) (auto simp: prepares_def split: validator_choice.split intro!: emits_zoom [OF emits_True] trace_rules)
  show "emits (call_allow (lifecycle_allow g) key) prepares" "emits (call_allow (ws_allow g) key) prepares"
    unfolding call_allow_def lifecycle_allow_def ws_allow_def gw_now_def by (intro trace_rules; simp add: prepares_def)+
  show "emits (call_ensure_exists (gateway_lifecycle g) (gc_namespace (gt_cfg g)) cl) prepares"
    "emits (call_ensure_workspace (gateway_lifecycle g) (gc_namespace (gt_cfg g)) cl) prepares"
    unfolding call_ensure_exists_def call_ensure_workspace_def gateway_lifecycle_eq workspace_lifecycle.simps
    by (intro trace_rules z [OF emits_EnsureExists] z [OF emits_EnsureWorkspace]; simp add: prepares_def)+
qed

lemma session_neutral: "session_io e \<Longrightarrow> neutral e"
  by (cases e) (auto simp: neutral_def)

lemma touch_neutral: "emits (wl_touch (gateway_lifecycle g) ws) neutral"
  by (simp add: gateway_lifecycle_eq kube_part_neutral [OF emits_Touch_call])

text \<open>The upgrade answers, and nothing of the session touches the response again.\<close>

lemma answers_upgrade: "(\<And>a. emits (f a) neutral) \<Longrightarrow> answers (State_Monad.bind (ask (ge_upgrade env u) Upgraded) f)"
  by (rule answers_after) (simp_all add: answers_def ensures_ask)

lemma answers_ServeWS: "answers (ServeWS env sched lg u (Some (onActivity env (gateway_lifecycle g))) (Some (onFrame env)) c)"
  unfolding ServeWS_def Let_def
  by (intro answers_upgrade trace_rules emits_run_tunnel [OF session_neutral] emits_onActivity [OF session_neutral]
      emits_onFrame [OF session_neutral] touch_neutral) (simp_all add: neutral_def)

lemma answers_session: "answers (proxy_session env sched (gateway_lifecycle g) ns pl lg q r cl ws)"
  unfolding proxy_session_def end_session_def Let_def
  by (rule answers_before, rule emits_recorder, rule neutral_prepares, erule session_neutral)
    (rule answers_before, (intro trace_rules; simp add: prepares_def),
      rule answers_before, (intro trace_rules; simp add: prepares_def), rule answers_after [OF answers_ServeWS],
      intro trace_rules emits_recorder [OF session_neutral], simp_all add: neutral_def)

section \<open>Every route\<close>

lemma answers_API: "answers (handleWorkspaceAPI env (gateway_validate g) (gateway_lifecycle g) (lifecycle_allow g)
    (gc_namespace (gt_cfg g)) secure lg r)"
  unfolding handleWorkspaceAPI_def WriteJSONAuthError_def Let_def
  by (intro answer_rules interfaces_prepare RequestID_prepares trace_rules) (simp_all add: prepares_def)

text \<open>A failure that is logged after the answer.\<close>

lemma answers_then_log [answer_rules]: "answers (State_Monad.bind (emit (HttpError m n)) (\<lambda>_. log_error lg e msg kvs))"
  by (rule answers_after [OF answers_single(1)]) (intro trace_rules, simp add: neutral_def)

lemma answers_Proxy: "answers (handleProxy env (gateway_validate g) (gateway_lifecycle g) (gc_namespace (gt_cfg g)) secure lg r)"
  unfolding handleProxy_def Let_def
  by (intro answer_rules interfaces_prepare trace_rules) (simp_all add: prepares_def neutral_def)

lemma answers_then_more [answer_rules]:
  "(\<And>a. emits (f a) neutral) \<Longrightarrow> answers (State_Monad.bind (WriteJSONError st c) f)"
  "(\<And>a. emits (f a) neutral) \<Longrightarrow> answers (State_Monad.bind (rate_limited lg q ep sc cl) f)"
  by (rule answers_after; simp add: answers_WriteJSONError answers_rate_limited)+

lemma answers_Login: "answers (handleLogin env secure lg r)"
  unfolding handleLogin_def NewString_def Let_def
  by (intro answer_rules RequestID_prepares trace_rules) (simp_all add: prepares_def)

lemma answers_Callback: "answers (handleCallback env (gateway_validate g) secure lg r)"
  unfolding handleCallback_def finish_login_def gw_now_def Let_def
  by (intro answer_rules interfaces_prepare RequestID_prepares trace_rules) (simp_all add: prepares_def)

lemma answers_Health: "answers handleHealth"
  unfolding handleHealth_def by (rule answers_body)

lemma answers_WS: "answers_if_done (handleWS env sched (gateway_validate g) (gateway_lifecycle g) (ws_allow g)
    (gc_namespace (gt_cfg g)) lg r)"
  unfolding handleWS_def WriteJSONAuthError_def Let_def
  by (intro done_before done_cases done_waiting interfaces_prepare RequestID_prepares BackendReady_prepares trace_rules
      answers_done [OF answers_session] answers_done [OF answers_then_more(1)] answers_done [OF answers_then_more(2)])
    (simp_all add: prepares_def neutral_def)

lemma finished_answers: "answers m \<Longrightarrow> answers_if_done (finished m)"
  unfolding finished_def by (intro answers_done answers_after trace_rules)

lemma serve_answers: "answers_if_done (serve g sched r)"
  unfolding serve_def Let_def
  by (intro done_cases finished_answers answers_API answers_WS answers_Login answers_Callback answers_Proxy answers_Health answers_single)

text \<open>
  C14: every request gets one response. On every route and for every behaviour of the outside, no
  header or cookie is set after the response was committed, no body is written before its header,
  no response is committed twice; and when the handler has returned, it was committed.
\<close>

theorem every_request_answered_once:
  "responds Open (effects_of (serve g sched r) s) \<in>
     (if result_of (serve g sched r) s = None then {Some Open, Some Body, Some Closed} else {Some Body, Some Closed})"
proof -
  have "st \<in> {Some Open, Some Body, Some Closed}" if "st \<noteq> None" for st :: "response_state option"
    using that by (cases st; cases "the st") auto
  then show ?thesis
    using ensuresD [OF serve_answers [unfolded answers_if_done_def], of g sched r s] by auto
qed

end
