(* ===== verification/Metrics.thy ===== *)
theory Metrics
  imports Controller_Trace Gateway_Props
begin

text \<open>
  The Prometheus counters of both processes (\<open>pkg/observability/metrics.go\<close>,
  \<open>pkg/gateway/metrics.go\<close>): their options, their registration and the effect of an increment.
  \<open>WithLabelValues\<close> panics when the number of values is not the number of labels, and
  \<open>MustRegister\<close> when a name is taken.
\<close>

section \<open>Counters\<close>

record counter_opts =
  ct_namespace :: string
  ct_subsystem :: string
  ct_name :: string
  ct_help :: string

record counter_vec =
  cv_opts :: counter_opts
  cv_labels :: "string list"

text \<open>\<open>prometheus.BuildFQName\<close>: the parts that are not empty, joined by underscores; a name is needed.\<close>

definition BuildFQName :: "string \<Rightarrow> string \<Rightarrow> string \<Rightarrow> string" where
  "BuildFQName ns sub name =
     (if name = '''' then ''''
      else if ns \<noteq> '''' \<and> sub \<noteq> '''' then join_with CHR ''_'' [ns, sub, name]
      else if ns \<noteq> '''' then join_with CHR ''_'' [ns, name]
      else if sub \<noteq> '''' then join_with CHR ''_'' [sub, name]
      else name)"

definition fq_name :: "counter_vec \<Rightarrow> string" where
  "fq_name c = BuildFQName (ct_namespace (cv_opts c)) (ct_subsystem (cv_opts c)) (ct_name (cv_opts c))"

definition WorkspacePhaseTransitions :: counter_vec where
  "WorkspacePhaseTransitions = \<lparr>cv_opts = \<lparr>ct_namespace = ''devplane'', ct_subsystem = ''workspace'',
       ct_name = ''phase_transitions_total'',
       ct_help = ''Workspace CR status.phase changes after a successful status patch.''\<rparr>,
     cv_labels = [''from_phase'', ''to_phase'']\<rparr>"

text \<open>A plain counter is a vector without labels.\<close>

definition WorkspaceStatusPatchFailures :: counter_vec where
  "WorkspaceStatusPatchFailures = \<lparr>cv_opts = \<lparr>ct_namespace = ''devplane'', ct_subsystem = ''workspace'',
       ct_name = ''status_patch_failures_total'', ct_help = ''Failed patches to Workspace status subresource.''\<rparr>,
     cv_labels = []\<rparr>"

definition jsonAPIErrors :: counter_vec where
  "jsonAPIErrors = \<lparr>cv_opts = \<lparr>ct_namespace = ''devplane'', ct_subsystem = ''gateway'', ct_name = ''json_api_errors_total'',
       ct_help = ''JSON API responses with an error code (auth, workspace_unavailable, workspace_not_ready, ''
         @ [CHR 0xE2, CHR 0x80, CHR 0xA6] @ '').''\<rparr>,
     cv_labels = [''http_status'', ''error_code'']\<rparr>"

definition rateLimitHits :: counter_vec where
  "rateLimitHits = \<lparr>cv_opts = \<lparr>ct_namespace = ''devplane'', ct_subsystem = ''gateway'', ct_name = ''rate_limit_hits_total'',
       ct_help = ''Requests rejected by gateway rate limiting (lifecycle API or WebSocket connect).''\<rparr>,
     cv_labels = [''endpoint'', ''scope'']\<rparr>"

section \<open>Registries\<close>

text \<open>\<open>MustRegister\<close>: \<open>None\<close> is the panic for a name that is registered already.\<close>

fun MustRegister :: "counter_vec list \<Rightarrow> counter_vec list \<Rightarrow> counter_vec list option" where
  "MustRegister [] reg = Some reg"
| "MustRegister (c # cs) reg =
     (if fq_name c \<in> set (map fq_name reg) then None else MustRegister cs (reg @ [c]))"

definition operator_registry :: "counter_vec list option" where
  "operator_registry = MustRegister [WorkspacePhaseTransitions, WorkspaceStatusPatchFailures] []"

text \<open>\<open>promauto\<close> registers every counter it makes.\<close>

definition gateway_registry :: "counter_vec list option" where
  "gateway_registry = MustRegister [jsonAPIErrors, rateLimitHits] []"

text \<open>
  \<open>WithLabelValues(vs...)\<close> on a registered counter with these labels. client_golang also wants the
  values to be valid UTF-8, which is left out: they are the constants of the handlers and phases
  that came as JSON strings.
\<close>

definition counted :: "counter_vec list option \<Rightarrow> string \<Rightarrow> string list \<Rightarrow> bool" where
  "counted reg name vs = (case reg of
     None \<Rightarrow> False
   | Some cs \<Rightarrow> list_ex (\<lambda>c. fq_name c = name \<and> length (cv_labels c) = length vs) cs)"

section \<open>Increments do not panic\<close>

fun operator_count_ok :: "event \<Rightarrow> bool" where
  "operator_count_ok (Count n vs) = counted operator_registry n vs"
| "operator_count_ok _ = True"

fun gateway_count_ok :: "gw_event \<Rightarrow> bool" where
  "gateway_count_ok (Inc n vs) = counted gateway_registry n vs"
| "gateway_count_ok (KubeEffect e) = (case e of Count n vs \<Rightarrow> False | _ \<Rightarrow> True)"
| "gateway_count_ok _ = True"

lemma fq_names [simp]:
  "fq_name WorkspacePhaseTransitions = ''devplane_workspace_phase_transitions_total''"
  "fq_name WorkspaceStatusPatchFailures = ''devplane_workspace_status_patch_failures_total''"
  "fq_name jsonAPIErrors = ''devplane_gateway_json_api_errors_total''"
  "fq_name rateLimitHits = ''devplane_gateway_rate_limit_hits_total''"
  by (simp_all add: fq_name_def BuildFQName_def WorkspacePhaseTransitions_def WorkspaceStatusPatchFailures_def
      jsonAPIErrors_def rateLimitHits_def)

lemma counted_simps [simp]:
  "counted operator_registry ''devplane_workspace_phase_transitions_total'' [a, b]"
  "counted operator_registry ''devplane_workspace_status_patch_failures_total'' []"
  "counted gateway_registry ''devplane_gateway_json_api_errors_total'' [a, b]"
  "counted gateway_registry ''devplane_gateway_rate_limit_hits_total'' [a, b]"
  by (simp_all add: counted_def operator_registry_def gateway_registry_def)
    (simp_all add: WorkspacePhaseTransitions_def WorkspaceStatusPatchFailures_def jsonAPIErrors_def rateLimitHits_def)

lemma updateStatus_count: "emits (updateStatus lib c r ws smry) operator_count_ok"
  unfolding updateStatus_def report_transition_def LogWorkspacePhaseTransition_def Let_def option.case
  by (intro trace_rules) simp_all

lemma status_writes_count:
  "emits (finish_status lib c r ws smry res) operator_count_ok"
  "emits (retry_status lib c r ws smry what err) operator_count_ok"
  unfolding finish_status_def retry_status_def by (intro updateStatus_count emits_bind emits_case_option emits_return; simp)+

lemmas count_rules = emits_return emits_bind emits_emit emits_ask emits_ask_silent emits_if emits_case_sum emits_case_option
  emits_case_prod emits_let emits_calls emits_ensure_calls updateStatus_count status_writes_count

lemma access_count:
  "emits (ensureRBAC lib c ws) operator_count_ok" "emits (ensureNetworkPolicies lib c r ws) operator_count_ok"
proof -
  have "operator_count_ok e" if "is_ensure e" for e using that by (cases e) auto
  then show "emits (ensureRBAC lib c ws) operator_count_ok" "emits (ensureNetworkPolicies lib c r ws) operator_count_ok"
    by (intro emits_access; simp)+
qed

lemma Reconcile_count: "emits (Reconcile lib c r nn) operator_count_ok"
  unfolding Reconcile_def reconcileDelete_def reconcile_access_def reconcile_pvc_def create_missing_pvc_def
    reconcile_pod_def create_missing_pod_def reconcile_service_def reconcile_idle_def seed_last_accessed_def
    reconcile_status_def stop_idle_def Let_def
  by (intro count_rules access_count) simp_all

lemma kube_part_count: "emits m lifecycle_kind \<Longrightarrow> emits (kube_part m) gateway_count_ok"
  unfolding kube_part_def by (erule emits_zoom) (auto split: event.splits)

lemma lifecycle_count:
  "emits (wl_ensure_exists (gateway_lifecycle g) ns cl) gateway_count_ok"
  "emits (wl_ensure_workspace (gateway_lifecycle g) ns cl) gateway_count_ok"
  "emits (wl_touch (gateway_lifecycle g) ws) gateway_count_ok"
  by (simp_all add: gateway_lifecycle_eq kube_part_count [OF emits_EnsureExists] kube_part_count [OF emits_EnsureWorkspace]
      kube_part_count [OF emits_Touch_call])

lemma handler_count: "handler_event e \<Longrightarrow> gateway_count_ok e"
  by (cases e) (auto simp: length_Suc_conv numeral_2_eq_2)

lemma session_count: "session_io e \<Longrightarrow> gateway_count_ok e"
  by (cases e) auto

lemma interfaces_count:
  "emits (gateway_validate g tok) gateway_count_ok" "emits (lifecycle_allow g key) gateway_count_ok"
  "emits (ws_allow g key) gateway_count_ok"
  by (auto simp: gateway_validate_def lifecycle_allow_def ws_allow_def gw_now_def split: validator_choice.split
      intro!: trace_rules emits_zoom [OF emits_True])

lemmas routes_count = routes_emit [OF handler_count session_count interfaces_count lifecycle_count]

lemma callback_count: "emits (handleCallback env (gateway_validate g) secure lg r) gateway_count_ok"
  unfolding handleCallback_def finish_login_def call_validate_def gw_now_def Let_def
  by (intro trace_rules interfaces_count small_emits(1) [OF handler_count]) auto

lemma finished_emits: "emits m Q \<Longrightarrow> emits (finished m) Q"
  unfolding finished_def by (intro trace_rules)

lemma serve_count: "emits (serve g sched r) gateway_count_ok"
  unfolding serve_def Let_def
  by (intro trace_rules finished_emits routes_count callback_count) simp_all

text \<open>
  C40: counting never brings a process down. Registration meets no name twice; and in every
  reconcile and every request, for every behaviour of the outside, each counter that is incremented
  is one the process registered, under its full name, with as many label values as it has labels.
\<close>

theorem counters_never_panic:
  "operator_registry \<noteq> None \<and> gateway_registry \<noteq> None
   \<and> list_all operator_count_ok (effects_of (Reconcile lib c rc nn) s)
   \<and> list_all gateway_count_ok (effects_of (serve g sched r) s')"
proof (intro conjI)
  show "operator_registry \<noteq> None" "gateway_registry \<noteq> None" by (simp_all add: operator_registry_def gateway_registry_def)
  show "list_all operator_count_ok (effects_of (Reconcile lib c rc nn) s)" by (rule emitsD [OF Reconcile_count])
  show "list_all gateway_count_ok (effects_of (serve g sched r) s')" by (rule emitsD [OF serve_count])
qed

end
