(* ===== verification/Go_Duration.thy ===== *)
theory Go_Duration
  imports Go_Format
begin

text \<open>
  \<open>Duration.String\<close>: hours, minutes and seconds without leading zero units, or one number with a
  smaller unit below a second. A duration of whole seconds is read back by \<open>ParseDuration\<close>.
\<close>

definition duration_fraction :: "nat \<Rightarrow> int \<Rightarrow> string" where
  "duration_fraction prec u =
     (let f = u mod 10 ^ prec in if f = 0 then [] else ''.'' @ TrimRight (pad_int prec f) CHR ''0'')"

definition sub_second :: "int \<Rightarrow> string" where
  "sub_second u =
     (if u = 0 then ''0s''
      else if u < 1000 then Itoa u @ ''ns''
      else if u < 1000000 then Itoa (u div 1000) @ duration_fraction 3 u @ [CHR 0xC2, CHR 0xB5] @ ''s''
      else Itoa (u div 1000000) @ duration_fraction 6 u @ ''ms'')"

definition Duration_String :: "duration \<Rightarrow> string" where
  "Duration_String d =
     (let u = \<bar>d\<bar>; secs = u div Second; mins = secs div 60; hours = mins div 60 in
      (if d < 0 then ''-'' else [])
      @ (if u < Second then sub_second u
         else (if hours > 0 then Itoa hours @ ''h'' else [])
              @ (if mins > 0 then Itoa (mins mod 60) @ ''m'' else [])
              @ Itoa (secs mod 60) @ duration_fraction 9 u @ ''s''))"

section \<open>Whole seconds are read back\<close>

lemma leadingInt_digits:
  assumes "list_all is_digit s" and "parse_digits a s = Some n" and "n \<le> 2 ^ 63" and "rest = [] \<or> \<not> is_digit (hd rest)"
  shows "leadingInt a (s @ rest) = Some (n, rest)"
  using assms
proof (induction s arbitrary: a)
  case Nil
  then show ?case by (cases rest) auto
next
  case (Cons c s)
  let ?y = "10 * a + (code c - 48)"
  have p: "parse_digits ?y s = Some n" using Cons.prems(1,2) by (simp add: mult.commute)
  have "?y \<le> n" using p
  proof -
    have "parse_digits y t = Some n \<Longrightarrow> y \<le> n" for y t
      by (induction y t rule: parse_digits.induct) (auto split: if_splits)
    then show ?thesis using p by blast
  qed
  then have "\<not> ?y > 2 ^ 63" "\<not> a > 2 ^ 63 div 10" using Cons.prems(3) by auto
  then show ?case using Cons.IH [OF _ p] Cons.prems by (simp add: Let_def)
qed

text \<open>One whole number with a unit at the front of a duration.\<close>

lemma duration_item_whole:
  assumes u: "map_of unit_map u = Some k" "u \<noteq> []" "list_all (\<lambda>c. \<not> is_number_char c) u"
    and n: "n * k < 2 ^ 63" and rest: "rest = [] \<or> is_number_char (hd rest)"
  shows "duration_item orig (digits_of n @ u @ rest) = Inr (n * k, rest)"
proof -
  have k: "0 < k" using u(1) by (auto simp: unit_map_def split: if_splits)
  have "n * 1 \<le> n * k" using k by (intro mult_le_mono) auto
  then have n63: "n \<le> 2 ^ 63" using n by linarith
  obtain c cs where uc: "u = c # cs" using u(2) by (cases u) auto
  have c: "\<not> is_digit c" "c \<noteq> CHR ''.''" using u(3) uc by (auto simp: is_number_char_def)
  have li: "leadingInt 0 (digits_of n @ u @ rest) = Some (n, u @ rest)"
    by (rule leadingInt_digits [OF digits_of_all parse_digits_of n63]) (simp add: uc c)
  have h: "is_number_char (hd (digits_of n @ u @ rest))"
    using digits_of_all [of n] digits_of_nonempty [of n] by (cases "digits_of n") (auto simp: is_number_char_def)
  have fr: "fraction (u @ rest) = (0, 1, False, u @ rest)" by (simp add: fraction_def uc c)
  have tw: "takeWhile (\<lambda>c. \<not> is_number_char c) (u @ rest) = u" "dropWhile (\<lambda>c. \<not> is_number_char c) (u @ rest) = rest"
    using u(3) rest by (cases rest; auto simp: list_all_iff)+
  have le: "\<not> n > 2 ^ 63 div k" using n k by (simp add: less_eq_div_iff_mult_less_eq not_less)
  have len: "length (u @ rest) \<noteq> length (digits_of n @ u @ rest)" using digits_of_nonempty [of n] by simp
  show ?thesis
    using h li fr tw u(1,2) le n len digits_of_nonempty [of n]
    by (simp add: duration_item_def Let_def split: prod.splits)
qed

lemma duration_loop_whole:
  assumes "map_of unit_map u = Some k" "u \<noteq> []" "list_all (\<lambda>c. \<not> is_number_char c) u"
    and "d + n * k < 2 ^ 63" and "rest = [] \<or> is_number_char (hd rest)"
  shows "duration_loop orig d (digits_of n @ u @ rest) = duration_loop orig (d + n * k) rest"
proof -
  have "duration_item orig (digits_of n @ u @ rest) = Inr (n * k, rest)"
    using assms by (intro duration_item_whole) auto
  then show ?thesis using assms(4) digits_of_nonempty [of n]
    by (simp add: duration_loop.simps [of orig d "digits_of n @ u @ rest"])
qed

lemma units [simp]:
  "map_of unit_map ''s'' = Some 1000000000" "map_of unit_map ''m'' = Some (60 * 1000000000)"
  "map_of unit_map ''h'' = Some (3600 * 1000000000)"
  "\<not> is_number_char CHR ''s''" "\<not> is_number_char CHR ''m''" "\<not> is_number_char CHR ''h''"
  by (simp_all add: unit_map_def is_number_char_def is_digit_def)

lemma digits_number [simp]: "is_number_char (hd (digits_of n))" "is_number_char (hd (digits_of n @ r))"
  using digits_of_all [of n] digits_of_nonempty [of n] by (cases "digits_of n"; simp add: is_number_char_def)+

lemma Itoa_nat: "0 \<le> i \<Longrightarrow> Itoa i = digits_of (nat i)"
  by (simp add: Itoa_def)

lemma Duration_String_seconds:
  assumes "0 < n"
  shows "Duration_String (int n * Second) =
    (if n div 60 div 60 > 0 then digits_of (n div 60 div 60) @ ''h'' else [])
    @ (if n div 60 > 0 then digits_of (n div 60 mod 60) @ ''m'' else []) @ digits_of (n mod 60) @ ''s''"
proof -
  have "int n * Second div Second = int n" by (simp add: Second_def)
  moreover have "duration_fraction 9 (int n * Second) = []" by (simp add: duration_fraction_def Second_def)
  moreover have "\<not> int n * Second < Second" "\<not> int n * Second < 0" using assms by (simp_all add: Second_def)
  moreover have "int n div 60 = int (n div 60)" "int (n div 60) div 60 = int (n div 60 div 60)"
    "int (n div 60) mod 60 = int (n div 60 mod 60)" "int n mod 60 = int (n mod 60)"
    by (simp_all add: zdiv_int zmod_int)
  ultimately show ?thesis by (simp add: Duration_String_def Let_def Itoa_nat)
qed

lemma duration_loop_seconds:
  assumes "n * 1000000000 < 2 ^ 63" and "0 < n"
  shows "duration_loop orig 0 (Duration_String (int n * Second)) = Inr (n * 1000000000)"
proof -
  let ?h = "n div 60 div 60" and ?m = "n div 60 mod 60" and ?t = "n mod 60"
  have "n = 60 * (n div 60) + ?t" "n div 60 = 60 * ?h + ?m" by simp_all
  then have "n = 3600 * ?h + 60 * ?m + ?t" by linarith
  then have eq: "?h * (3600 * 1000000000) + ?m * (60 * 1000000000) + ?t * 1000000000 = n * 1000000000" by linarith
  have S: "duration_loop orig d (digits_of ?t @ ''s'') = Inr (d + ?t * 1000000000)"
    if "d + ?t * 1000000000 < 2 ^ 63" for d
    using duration_loop_whole [of "''s''" 1000000000 d ?t "[]" orig] that by (simp add: duration_loop.simps [of _ _ "[]"])
  have M: "duration_loop orig d (digits_of ?m @ ''m'' @ digits_of ?t @ ''s'') = Inr (d + ?m * (60 * 1000000000) + ?t * 1000000000)"
    if "d + ?m * (60 * 1000000000) + ?t * 1000000000 < 2 ^ 63" for d
    using duration_loop_whole [of "''m''" "60 * 1000000000" d ?m "digits_of ?t @ ''s''" orig] that S by simp
  show ?thesis
  proof (cases "?h > 0")
    case True
    then have "n div 60 > 0" by simp
    then show ?thesis
      using True M [of "?h * (3600 * 1000000000)"] eq assms
        duration_loop_whole [of "''h''" "3600 * 1000000000" 0 ?h "digits_of ?m @ ''m'' @ digits_of ?t @ ''s''" orig]
      by (simp add: Duration_String_seconds)
  next
    case False
    show ?thesis
    proof (cases "n div 60 > 0")
      case True
      then show ?thesis using False M [of 0] eq assms by (simp add: Duration_String_seconds)
    next
      case m: False
      then show ?thesis using False S [of 0] eq assms by (simp add: Duration_String_seconds)
    qed
  qed
qed

lemma duration_roundtrip:
  assumes "0 \<le> s" and "s * Second < 2 ^ 63"
  shows "ParseDuration (Duration_String (s * Second)) = Inr (s * Second)"
proof (cases "s = 0")
  case True
  have z: "digits_of 0 = ''0''" by code_simp
  have "duration_loop ''0s'' 0 ''0s'' = Inr 0"
    using duration_loop_whole [of "''s''" 1000000000 0 0 "[]" "''0s''"] z by (simp add: duration_loop.simps [of _ _ "[]"])
  then show ?thesis using True by (simp add: ParseDuration_def Duration_String_def sub_second_def Second_def HasPrefix_def Let_def)
next
  case False
  define n where "n = nat s"
  have s: "s = int n" "0 < n" using False assms(1) by (auto simp: n_def)
  have b: "n * 1000000000 < 2 ^ 63" using assms(2) s by (simp add: Second_def)
  let ?o = "Duration_String (s * Second)"
  obtain i r where o: "?o = digits_of i @ r" "r \<noteq> []" using s Duration_String_seconds [OF s(2)] by (auto split: if_splits)
  have d: "is_digit (hd ?o)" "?o \<noteq> []" using o digits_of_all [of i] digits_of_nonempty [of i] by (cases "digits_of i"; simp)+
  have "\<not> HasPrefix ?o ''-''" "\<not> HasPrefix ?o ''+''"
    using d by (cases ?o; auto simp: HasPrefix_def is_digit_def)+
  moreover have "?o \<noteq> ''0''" using o digits_of_nonempty [of i] by (cases "digits_of i") auto
  ultimately show ?thesis
    using d duration_loop_seconds [OF b s(2), of ?o] b s by (simp add: ParseDuration_def Let_def Second_def)
qed

end
