(* ===== verification/Process.thy ===== *)
theory Process
  imports Prelude
begin

text \<open>
  How the two processes start and end: a list of what was done and the outcome, and the pattern
  \<open>if err := call(); err != nil { report(err); os.Exit(1) }\<close>.
\<close>

datatype process_end = Exit int | Return

definition or_die :: "'e list \<Rightarrow> 'a res \<Rightarrow> (go_error \<Rightarrow> 'e) \<Rightarrow> ('a \<Rightarrow> 'e list \<times> process_end) \<Rightarrow> 'e list \<times> process_end" where
  "or_die es r report k = (case r of
     Inl e \<Rightarrow> (es @ [report e], Exit 1)
   | Inr a \<Rightarrow> (es @ fst (k a), snd (k a)))"

text \<open>
  A run that ended well returned without a fatal report, or has one fatal report, the last, and
  the status 1.
\<close>

definition well_ended :: "('e \<Rightarrow> bool) \<Rightarrow> 'e list \<times> process_end \<Rightarrow> bool" where
  "well_ended F p \<longleftrightarrow> (case snd p of
     Return \<Rightarrow> list_all (\<lambda>x. \<not> F x) (fst p)
   | Exit n \<Rightarrow> n = 1 \<and> (\<exists>es e. fst p = es @ [e] \<and> F e \<and> list_all (\<lambda>x. \<not> F x) es))"

named_theorems ended_rules \<open>rules for how a process ends\<close>

lemma well_ended_or_die [ended_rules]:
  assumes "list_all (\<lambda>x. \<not> F x) es" and "\<And>e. r = Inl e \<Longrightarrow> F (report e)" and "\<And>a. r = Inr a \<Longrightarrow> well_ended F (k a)"
  shows "well_ended F (or_die es r report k)"
proof (cases r)
  case (Inl e)
  then show ?thesis using assms by (auto simp: or_die_def well_ended_def)
next
  case (Inr a)
  then have k: "well_ended F (k a)" using assms(3) by simp
  show ?thesis
  proof (cases "snd (k a)")
    case (Exit n)
    then obtain es' e where "fst (k a) = es' @ [e]" "F e" "list_all (\<lambda>x. \<not> F x) es'" "n = 1"
      using k by (auto simp: well_ended_def)
    then show ?thesis using Exit Inr assms(1)
      by (auto simp: or_die_def well_ended_def intro!: exI [where x = "es @ es'"])
  next
    case Return
    then show ?thesis using k Inr assms(1) by (simp add: or_die_def well_ended_def)
  qed
qed

lemma well_ended_Return [ended_rules]: "list_all (\<lambda>x. \<not> F x) es \<Longrightarrow> well_ended F (es, Return)"
  by (simp add: well_ended_def)

lemma well_ended_Exit [ended_rules]: "list_all (\<lambda>x. \<not> F x) es \<Longrightarrow> F e \<Longrightarrow> well_ended F (es @ [e], Exit 1)"
  by (auto simp: well_ended_def)

text \<open>
  A run against the list of its steps and the reports of the calls that fail, in the order of the
  calls: without a failure every step was made and the process returned; otherwise the steps
  stop, the first failure is reported last, and the status is 1.
\<close>

definition failures_of :: "'a res \<Rightarrow> (go_error \<Rightarrow> 'e) \<Rightarrow> 'e list" where
  "failures_of r report = (case r of Inl e \<Rightarrow> [report e] | Inr _ \<Rightarrow> [])"

definition ran :: "'e list \<times> process_end \<Rightarrow> 'e list \<Rightarrow> 'e list \<Rightarrow> bool" where
  "ran p steps fails \<longleftrightarrow> (case fails of
     [] \<Rightarrow> p = (steps, Return)
   | f # _ \<Rightarrow> \<exists>made rest. steps = made @ rest \<and> p = (made @ [f], Exit 1))"

lemma ran_or_die:
  assumes "\<And>a. r = Inr a \<Longrightarrow> ran (k a) steps fails"
  shows "ran (or_die es r report k) (es @ steps) (failures_of r report @ fails)"
proof (cases r)
  case (Inr a)
  with assms have "ran (k a) steps fails" by simp
  then show ?thesis
    by (cases fails) (auto simp: Inr ran_def or_die_def failures_of_def intro: exI [where x = "es @ _"])
qed (auto simp: ran_def or_die_def failures_of_def)

lemma ran_Return: "ran ([], Return) [] []"
  by (simp add: ran_def)

lemma failures_of_Nil [simp]: "failures_of r report = [] \<longleftrightarrow> (\<exists>a. r = Inr a)"
  by (simp add: failures_of_def split: sum.split)

lemma ran_Return_iff: "ran p steps fails \<Longrightarrow> snd p = Return \<longleftrightarrow> fails = []"
  by (auto simp: ran_def split: list.splits)

text \<open>A step is reached only through the successes before it.\<close>

lemma or_die_reached:
  "e \<in> set (fst (or_die es r report k)) \<longleftrightarrow>
     e \<in> set es \<or> (\<exists>x. r = Inl x \<and> e = report x) \<or> (\<exists>a. r = Inr a \<and> e \<in> set (fst (k a)))"
  by (auto simp: or_die_def split: sum.splits)

lemma or_die_returns:
  "snd (or_die es r report k) = Return \<longleftrightarrow> (\<exists>a. r = Inr a \<and> snd (k a) = Return)"
  by (auto simp: or_die_def split: sum.splits)

end
