(* ===== verification/Api_Group.thy ===== *)
theory Api_Group
  imports Prelude
begin

text \<open>
  The API group (\<open>api/v1alpha1/groupversion_info.go\<close> and \<open>init\<close> of \<open>workspace_types.go\<close>): a scheme is
  the list of the types a client knows, each with its group and version.
\<close>

record group_version =
  gv_group :: string
  gv_version :: string

definition GroupVersion :: group_version where
  "GroupVersion = \<lparr>gv_group = ''workspace.devplane.io'', gv_version = ''v1alpha1''\<rparr>"

type_synonym scheme = "(group_version \<times> string) list"

text \<open>\<open>SchemeBuilder\<close> and the types \<open>init\<close> registers with it.\<close>

record scheme_builder =
  sb_group_version :: group_version
  sb_types :: "string list"

definition SchemeBuilder :: scheme_builder where
  "SchemeBuilder = \<lparr>sb_group_version = GroupVersion, sb_types = []\<rparr>"

definition Register :: "string list \<Rightarrow> scheme_builder \<Rightarrow> scheme_builder" where
  "Register types b = b\<lparr>sb_types := sb_types b @ types\<rparr>"

definition api_init :: scheme_builder where
  "api_init = Register [''Workspace'', ''WorkspaceList''] SchemeBuilder"

text \<open>\<open>AddToScheme\<close> makes the registered types known under the group and version.\<close>

definition AddToScheme :: "scheme \<Rightarrow> scheme" where
  "AddToScheme scheme = scheme @ map (\<lambda>t. (sb_group_version api_init, t)) (sb_types api_init)"

lemma AddToScheme_types:
  "AddToScheme s = s @ [(GroupVersion, ''Workspace''), (GroupVersion, ''WorkspaceList'')]"
  by (simp add: AddToScheme_def api_init_def Register_def SchemeBuilder_def)

end
