(* ===== verification/Gateway_Start.thy ===== *)
theory Gateway_Start
  imports Gateway Go_Duration Process Api_Group
begin

text \<open>
  The gateway process from its first line to its end (\<open>main\<close> of \<open>cmd/gateway/main.go\<close>): logger,
  settings, validator, OAuth2 and Kubernetes clients, server, and the wait for a signal or for the
  server to fail. go-oidc, the Kubernetes client, the listener and the signal are arguments.
\<close>

section \<open>What is set up\<close>

record oauth2_config =
  o2_client_id :: string
  o2_client_secret :: string
  o2_redirect_url :: string
  o2_endpoint :: string
  o2_scopes :: "string list"

text \<open>The server has no write timeout: WebSocket connections are long-lived.\<close>

record http_server =
  hs_addr :: string
  hs_read_timeout :: duration
  hs_write_timeout :: "duration option"

text \<open>What woke the \<open>select\<close>: the signal, or the end of \<open>ListenAndServe\<close> with an error other than \<open>ErrServerClosed\<close>, if any.\<close>

datatype wake = ContextDone | ServerEnded "go_error option"

datatype start_event =
    Stderr string
  | StartInfo string log_fields
  | StartError go_error string log_fields
  | ValidatorReady validator_choice
  | OAuthReady oauth2_config
  | ClientReady scheme
  | Listening http_server
  | Shutdown duration

record 'w start_env =
  se_logger :: "unit res"
  se_getenv :: "string \<Rightarrow> string"
  se_uni :: "string \<Rightarrow> string"
  se_unmarshal :: "string \<Rightarrow> ai_provider list res"
  se_oidc :: "'w oidc_env"
  se_endpoint :: "string \<Rightarrow> string"
  se_client_scheme :: scheme
  se_kube_config :: "unit res"
  se_kube_client :: "unit res"
  se_wake :: wake
  se_shutdown :: "unit res"

section \<open>The start\<close>

text \<open>The validator of the configuration, the record about it and the state of the identity provider.\<close>

definition start_validator ::
  "'w start_env \<Rightarrow> gateway_config \<Rightarrow> 'w \<Rightarrow> (validator option res \<times> start_event list) \<times> 'w" where
  "start_validator env cfg w = (case gc_validator cfg of
     FixedIdentity cl \<Rightarrow>
       ((Inr None, [StartInfo ''DEV ONLY: fixed-identity auth enabled; OIDC JWT verification is disabled''
          [(''devUserSub'', envOr (se_getenv env) ''GATEWAY_DEV_USER_SUB'' ''dev-user'')]]), w)
   | OIDCValidator oc \<Rightarrow>
       (case NewValidatorWithOIDC (se_oidc env) oc w of
          (Inl e, w') \<Rightarrow> ((Inl e, []), w')
        | (Inr v, w') \<Rightarrow> ((Inr (Some v), [StartInfo ''OIDC validator ready''
             [(''issuer'', oc_issuer_url oc), (''audience'', if oc_audience oc = '''' then oc_client_id oc else oc_audience oc),
              (''clockSkew'', Duration_String (oc_clock_skew oc))]]), w')))"

definition oauth2_of :: "'w start_env \<Rightarrow> gateway_config \<Rightarrow> oauth2_config" where
  "oauth2_of env cfg = \<lparr>o2_client_id = se_getenv env ''OIDC_CLIENT_ID'', o2_client_secret = gc_client_secret cfg,
     o2_redirect_url = gc_redirect_url cfg, o2_endpoint = se_endpoint env (se_getenv env ''OIDC_ISSUER_URL''),
     o2_scopes = [''openid'', ''email'', ''profile'']\<rparr>"

definition server_of :: "gateway_config \<Rightarrow> http_server" where
  "server_of cfg = \<lparr>hs_addr = '':'' @ gc_port cfg, hs_read_timeout = 30 * Second, hs_write_timeout = None\<rparr>"

text \<open>The end: a graceful shutdown after a signal, or the error of the server.\<close>

definition serve_until :: "'w start_env \<Rightarrow> gateway_config \<Rightarrow> start_event list \<times> process_end" where
  "serve_until env cfg =
     (let started = [StartInfo ''Gateway listening'' [(''addr'', hs_addr (server_of cfg)), (''namespace'', gc_namespace cfg)],
                     Listening (server_of cfg)] in
      case se_wake env of
        ContextDone \<Rightarrow>
          (started @ [StartInfo ''Shutting down gateway server'' [], Shutdown (30 * Second)]
           @ (case se_shutdown env of Inl e \<Rightarrow> [StartError e ''Server shutdown error'' []] | Inr _ \<Rightarrow> []), Return)
      | ServerEnded (Some e) \<Rightarrow> (started @ [StartError e ''Server failed'' []], Exit 1)
      | ServerEnded None \<Rightarrow> (started, Return))"

text \<open>The scheme \<open>init\<close> leaves behind: the types of client-go and the API group.\<close>

definition gateway_init :: "'w start_env \<Rightarrow> scheme" where
  "gateway_init env = AddToScheme (se_client_scheme env)"

definition gateway_main :: "'w start_env \<Rightarrow> 'w \<Rightarrow> start_event list \<times> process_end" where
  "gateway_main env w =
     or_die [] (se_logger env) (\<lambda>e. Stderr (''init logger: '' @ err_text e @ [CHR 0x0A])) (\<lambda>_.
     case gateway_config_from_env (se_uni env) (se_unmarshal env) (se_getenv env) of
       Inl msg \<Rightarrow> ([Stderr msg], Exit 1)
     | Inr cfg \<Rightarrow>
         (case start_validator env cfg w of ((v, es), w1) \<Rightarrow>
          or_die [] v (\<lambda>e. StartError e ''Failed to initialize OIDC validator'' []) (\<lambda>_.
          or_die (ValidatorReady (gc_validator cfg) # es) (fst (oi_new_provider (se_oidc env) (se_getenv env ''OIDC_ISSUER_URL'') w1))
            (\<lambda>e. StartError e ''Failed to initialize OIDC provider for OAuth2 flow'' []) (\<lambda>_.
          or_die [OAuthReady (oauth2_of env cfg)] (se_kube_config env)
            (\<lambda>e. StartError e ''Failed to get Kubernetes config'' []) (\<lambda>_.
          or_die [] (se_kube_client env) (\<lambda>e. StartError e ''Failed to create Kubernetes client'' []) (\<lambda>_.
            (ClientReady (gateway_init env) # fst (serve_until env cfg), snd (serve_until env cfg))))))))"

section \<open>How it ends\<close>

fun start_failure :: "start_event \<Rightarrow> bool" where
  "start_failure (Stderr m) = True"
| "start_failure (StartError e m f) = (m \<noteq> ''Server shutdown error'')"
| "start_failure _ = False"

lemma start_validator_quiet: "start_validator env cfg w = ((v, es), w') \<Longrightarrow> list_all (\<lambda>x. \<not> start_failure x) es"
  by (auto simp: start_validator_def split: validator_choice.splits prod.splits sum.splits)

lemma start_validator_no_listen: "start_validator env cfg w = ((v, es), w') \<Longrightarrow> Listening s \<notin> set es"
  by (auto simp: start_validator_def split: validator_choice.splits prod.splits sum.splits)

lemma well_ended_Cons: "\<not> F e \<Longrightarrow> well_ended F (es, r) \<Longrightarrow> well_ended F (e # es, r)"
  by (fastforce simp: well_ended_def split: process_end.splits intro: exI [where x = "e # _"])

lemma serve_until_ended: "well_ended start_failure (serve_until env cfg)"
  by (auto simp: serve_until_def Let_def well_ended_def split: wake.splits option.splits sum.splits)

lemma gateway_main_ended: "well_ended start_failure (gateway_main env w)"
  unfolding gateway_main_def
  using serve_until_ended [of env]
  by (auto intro!: ended_rules well_ended_Cons well_ended_Exit [where es = "[]", simplified]
      dest: start_validator_quiet split: sum.splits prod.splits)

lemma mustEnv_Inr: "mustEnv getenv k = Inr v \<longleftrightarrow> v = getenv k \<and> getenv k \<noteq> ''''"
  by (auto simp: mustEnv_def Let_def)

lemma or_exit_Inr: "or_exit x f = Inr b \<longleftrightarrow> (\<exists>a. x = Inr a \<and> f a = Inr b)"
  by (auto simp: or_exit_def split: sum.splits)

lemma choose_validator_Inr:
  assumes "choose_validator uni getenv issuer client = Inr v"
  shows "case v of
      FixedIdentity cl \<Rightarrow> getenv ''GATEWAY_DEV_INSECURE_FIXED_IDENTITY'' = ''1''
    | OIDCValidator oc \<Rightarrow> getenv ''GATEWAY_DEV_INSECURE_FIXED_IDENTITY'' \<noteq> ''1'' \<and> 0 \<le> oc_clock_skew oc
        \<and> oc_issuer_url oc = issuer \<and> oc_client_id oc = client \<and> oc_audience oc = TrimSpace (getenv ''OIDC_AUDIENCE'')"
proof -
  have "0 \<le> d" if "parseOIDCClockSkew getenv = Inr d" for d
    using that by (auto simp: parseOIDCClockSkew_def Let_def Second_def split: if_splits sum.splits)
  then show ?thesis using assms by (auto simp: choose_validator_def split: if_splits sum.splits)
qed

lemma config_Inr:
  assumes "gateway_config_from_env uni um getenv = Inr cfg"
  shows "list_all (\<lambda>k. getenv k \<noteq> '''') [''OIDC_ISSUER_URL'', ''OIDC_CLIENT_ID'', ''OIDC_CLIENT_SECRET'', ''OIDC_REDIRECT_URL'']"
    and "choose_validator uni getenv (getenv ''OIDC_ISSUER_URL'') (getenv ''OIDC_CLIENT_ID'') = Inr (gc_validator cfg)"
  using assms by (auto simp: gateway_config_from_env_def or_exit_Inr mustEnv_Inr split: sum.splits)

lemma NewValidatorWithOIDC_verifier:
  "NewValidatorWithOIDC env oc w = (Inr v, w') \<Longrightarrow> 0 \<le> oc_clock_skew oc \<Longrightarrow>
     va_verifier v = \<lparr>vc_issuer = oc_issuer_url oc,
       vc_client_id = (if oc_audience oc = '''' then oc_client_id oc else oc_audience oc), vc_now_skew = oc_clock_skew oc\<rparr>"
  by (auto simp: NewValidatorWithOIDC_def Let_def split: if_splits prod.splits sum.splits)

lemma start_validator_built:
  assumes "start_validator env cfg w = ((Inr v, es), w1)" and "gc_validator cfg = OIDCValidator oc"
  shows "\<exists>v. NewValidatorWithOIDC (se_oidc env) oc w = (Inr v, w1)"
  using assms by (auto simp: start_validator_def split: prod.splits sum.splits)

text \<open>Everything that has to succeed before the server listens, in the order of the code.\<close>

definition startable :: "'w start_env \<Rightarrow> 'w \<Rightarrow> gateway_config \<Rightarrow> start_event list \<Rightarrow> bool" where
  "startable env w cfg es \<longleftrightarrow> se_logger env = Inr ()
     \<and> gateway_config_from_env (se_uni env) (se_unmarshal env) (se_getenv env) = Inr cfg
     \<and> (\<exists>v w1. start_validator env cfg w = ((Inr v, es), w1)
          \<and> fst (oi_new_provider (se_oidc env) (se_getenv env ''OIDC_ISSUER_URL'') w1) = Inr ())
     \<and> se_kube_config env = Inr () \<and> se_kube_client env = Inr ()"

lemma startable_main:
  assumes "startable env w cfg es"
  shows "gateway_main env w = (ValidatorReady (gc_validator cfg) # es @ OAuthReady (oauth2_of env cfg)
      # ClientReady (gateway_init env) # fst (serve_until env cfg), snd (serve_until env cfg))"
  using assms by (auto simp: startable_def gateway_main_def or_die_def)

lemma listening_served: "Listening s \<in> set (fst (serve_until env cfg)) \<longleftrightarrow> s = server_of cfg"
  by (auto simp: serve_until_def Let_def split: wake.splits option.splits sum.splits)

lemma listening_step: "Listening s \<in> set (fst (gateway_main env w)) \<longleftrightarrow> (\<exists>cfg es. startable env w cfg es \<and> s = server_of cfg)"
proof
  assume "Listening s \<in> set (fst (gateway_main env w))"
  then show "\<exists>cfg es. startable env w cfg es \<and> s = server_of cfg"
    unfolding gateway_main_def startable_def
    by (auto simp: or_die_reached listening_served split: sum.splits prod.splits dest: start_validator_no_listen)
qed (auto simp: startable_main listening_served)

lemma returns_listening:
  "snd (gateway_main env w) = Return \<Longrightarrow> \<exists>s. Listening s \<in> set (fst (gateway_main env w))"
proof -
  have l: "Listening (server_of cfg) \<in> set (fst (serve_until env cfg))" for cfg
    by (simp add: serve_until_def Let_def split: wake.splits option.splits)
  assume "snd (gateway_main env w) = Return"
  then show ?thesis
    unfolding gateway_main_def by (fastforce simp: or_die_reached or_die_returns split: sum.splits prod.splits intro: l)
qed

text \<open>The validator a configuration stands for exists and checks what the settings say.\<close>

definition validator_configured :: "'w start_env \<Rightarrow> 'w \<Rightarrow> gateway_config \<Rightarrow> bool" where
  "validator_configured env w cfg = (case gc_validator cfg of
     FixedIdentity cl \<Rightarrow> se_getenv env ''GATEWAY_DEV_INSECURE_FIXED_IDENTITY'' = ''1''
   | OIDCValidator oc \<Rightarrow> se_getenv env ''GATEWAY_DEV_INSECURE_FIXED_IDENTITY'' \<noteq> ''1'' \<and> 0 \<le> oc_clock_skew oc
       \<and> (\<exists>v w'. NewValidatorWithOIDC (se_oidc env) oc w = (Inr v, w')
            \<and> va_verifier v = \<lparr>vc_issuer = se_getenv env ''OIDC_ISSUER_URL'',
                 vc_client_id = (if TrimSpace (se_getenv env ''OIDC_AUDIENCE'') = '''' then se_getenv env ''OIDC_CLIENT_ID''
                   else TrimSpace (se_getenv env ''OIDC_AUDIENCE'')), vc_now_skew = oc_clock_skew oc\<rparr>))"

lemma started_configured:
  assumes c: "gateway_config_from_env (se_uni env) (se_unmarshal env) (se_getenv env) = Inr cfg"
    and v: "start_validator env cfg w = ((Inr v, es), w1)"
  shows "validator_configured env w cfg"
proof (cases "gc_validator cfg")
  case (FixedIdentity cl)
  then show ?thesis using choose_validator_Inr [OF config_Inr(2) [OF c]] by (simp add: validator_configured_def)
next
  case (OIDCValidator oc)
  then obtain u where "NewValidatorWithOIDC (se_oidc env) oc w = (Inr u, w1)" using start_validator_built [OF v] by blast
  then show ?thesis
    using OIDCValidator choose_validator_Inr [OF config_Inr(2) [OF c]] NewValidatorWithOIDC_verifier
    by (fastforce simp: validator_configured_def)
qed

text \<open>
  C24: the gateway listens exactly when it is fully set up: the logger was made, the environment is a
  valid configuration, the validator of that configuration was made, the identity provider for the
  OAuth2 flow answered its discovery, and the configuration and the client of the API server were
  made. Then the four OIDC settings are there, the validator is the fixed identity only if
  \<open>GATEWAY_DEV_INSECURE_FIXED_IDENTITY\<close> is exactly \<open>1\<close>, else a verifier of the configured issuer and
  of the audience or client id with a clock skew that is not negative; before it listens it has set
  up the validator, the OAuth2 client with the configured credentials, and a client that knows the
  Workspace types, in this order. Whatever fails, the process ends with status 1 right after
  reporting it; it returns only after it has listened.
\<close>

theorem gateway_listens_only_configured:
  "well_ended start_failure (gateway_main env w)
   \<and> (Listening s \<in> set (fst (gateway_main env w)) \<longleftrightarrow> (\<exists>cfg es. startable env w cfg es \<and> s = server_of cfg))
   \<and> (\<forall>cfg es. startable env w cfg es \<longrightarrow> validator_configured env w cfg
       \<and> list_all (\<lambda>k. se_getenv env k \<noteq> '''') [''OIDC_ISSUER_URL'', ''OIDC_CLIENT_ID'', ''OIDC_CLIENT_SECRET'', ''OIDC_REDIRECT_URL'']
       \<and> prefix (ValidatorReady (gc_validator cfg) # es @ [OAuthReady (oauth2_of env cfg), ClientReady (gateway_init env),
            StartInfo ''Gateway listening'' [(''addr'', hs_addr (server_of cfg)), (''namespace'', gc_namespace cfg)],
            Listening (server_of cfg)]) (fst (gateway_main env w))
       \<and> {(GroupVersion, ''Workspace''), (GroupVersion, ''WorkspaceList'')} \<subseteq> set (gateway_init env))
   \<and> (snd (gateway_main env w) = Return \<longrightarrow> (\<exists>s. Listening s \<in> set (fst (gateway_main env w))))"
proof (intro conjI impI allI)
  show "well_ended start_failure (gateway_main env w)" by (rule gateway_main_ended)
  show "\<exists>s. Listening s \<in> set (fst (gateway_main env w))" if "snd (gateway_main env w) = Return"
    using that by (rule returns_listening)
  show "Listening s \<in> set (fst (gateway_main env w)) \<longleftrightarrow> (\<exists>cfg es. startable env w cfg es \<and> s = server_of cfg)"
    by (rule listening_step)
  fix cfg es
  assume st: "startable env w cfg es"
  then show "validator_configured env w cfg"
    "list_all (\<lambda>k. se_getenv env k \<noteq> '''') [''OIDC_ISSUER_URL'', ''OIDC_CLIENT_ID'', ''OIDC_CLIENT_SECRET'', ''OIDC_REDIRECT_URL'']"
    by (auto simp: startable_def dest: config_Inr(1) started_configured)
  show "prefix (ValidatorReady (gc_validator cfg) # es @ [OAuthReady (oauth2_of env cfg), ClientReady (gateway_init env),
            StartInfo ''Gateway listening'' [(''addr'', hs_addr (server_of cfg)), (''namespace'', gc_namespace cfg)],
            Listening (server_of cfg)]) (fst (gateway_main env w))"
    by (simp add: startable_main [OF st] serve_until_def Let_def split: wake.split option.split)
  show "{(GroupVersion, ''Workspace''), (GroupVersion, ''WorkspaceList'')} \<subseteq> set (gateway_init env)"
    by (simp add: gateway_init_def AddToScheme_types)
qed

definition sample_start :: "nat start_env" where
  "sample_start = \<lparr>se_logger = Inr (), se_getenv = (\<lambda>k.
       if k = ''OIDC_ISSUER_URL'' then ''https://idp'' else if k = ''OIDC_CLIENT_ID'' then ''devplane''
       else if k = ''OIDC_CLIENT_SECRET'' then ''s3cret'' else if k = ''OIDC_REDIRECT_URL'' then ''https://dev/callback'' else ''''),
     se_uni = id, se_unmarshal = (\<lambda>_. Inr []),
     se_oidc = \<lparr>oi_now = (\<lambda>w. (0, w)), oi_new_provider = (\<lambda>_ w. (Inr (), Suc w)), oi_verify = (\<lambda>_ _ w. (Inl (new_error ''no''), w))\<rparr>,
     se_endpoint = id, se_client_scheme = [], se_kube_config = Inr (), se_kube_client = Inr (), se_wake = ContextDone, se_shutdown = Inr ()\<rparr>"

theorem gateway_listens_only_configured_witness:
  "\<exists>cfg es. startable sample_start 0 cfg es \<and> validator_configured sample_start 0 cfg \<and> hs_addr (server_of cfg) = '':8080''
     \<and> OAuthReady (oauth2_of sample_start cfg) \<in> set (fst (gateway_main sample_start 0))
     \<and> Listening (server_of cfg) \<in> set (fst (gateway_main sample_start 0))"
proof -
  let ?s = "\<lparr>hs_addr = '':8080'', hs_read_timeout = 30 * Second, hs_write_timeout = None\<rparr>"
  have l: "Listening ?s \<in> set (fst (gateway_main sample_start 0))" by code_simp
  with gateway_listens_only_configured [of sample_start 0 ?s] obtain cfg es where c: "startable sample_start 0 cfg es" "?s = server_of cfg"
    by blast
  have "hs_addr (server_of cfg) = '':8080''" by (simp flip: c(2))
  moreover have v: "validator_configured sample_start 0 cfg"
    and p: "prefix (ValidatorReady (gc_validator cfg) # es @ [OAuthReady (oauth2_of sample_start cfg), ClientReady (gateway_init sample_start),
            StartInfo ''Gateway listening'' [(''addr'', hs_addr (server_of cfg)), (''namespace'', gc_namespace cfg)],
            Listening (server_of cfg)]) (fst (gateway_main sample_start 0))"
    using gateway_listens_only_configured [of sample_start 0 ?s] c(1) by blast+
  moreover have "OAuthReady (oauth2_of sample_start cfg) \<in> set (fst (gateway_main sample_start 0))"
    using set_mono_prefix [OF p] by simp
  ultimately show ?thesis using c l by auto
qed

end
