(* ===== verification/Operator_Main.thy ===== *)
theory Operator_Main
  imports Controller Go_Format
begin

text \<open>
  The start of the operator (\<open>main.go\<close>): the settings it reads from the environment and the
  reconciler it builds from them. Flags, the manager and its probes belong to controller-runtime.
\<close>

section \<open>Settings\<close>

definition workspace_image_env :: "(string \<Rightarrow> string) \<Rightarrow> string" where
  "workspace_image_env getenv =
     (let v = getenv ''WORKSPACE_IMAGE'' in if v = '''' then ''workspace:latest'' else v)"

text \<open>\<open>LLM_NAMESPACES\<close>: names separated by commas, blank ones dropped.\<close>

definition llm_namespaces_env :: "(string \<Rightarrow> string) \<Rightarrow> string list" where
  "llm_namespaces_env getenv =
     (let raw = getenv ''LLM_NAMESPACES'' in
      if raw = '''' then [] else filter (\<lambda>ns. ns \<noteq> '''') (map TrimSpace (Split raw CHR '','')))"

text \<open>\<open>EGRESS_PORTS\<close>: an entry that is not a port number is ignored with a log record.\<close>

definition egress_port :: "string \<Rightarrow> int option" where
  "egress_port raw = (case ParseInt32 raw of
     None \<Rightarrow> None
   | Some p \<Rightarrow> if p < 1 \<or> p > 65535 then None else Some p)"

fun egress_ports_loop :: "string list \<Rightarrow> int list \<Rightarrow> string list \<Rightarrow> int list \<times> string list" where
  "egress_ports_loop [] ports ignored = (ports, ignored)"
| "egress_ports_loop (r # rs) ports ignored =
     (let raw = TrimSpace r in
      if raw = '''' then egress_ports_loop rs ports ignored
      else case egress_port raw of
        None \<Rightarrow> egress_ports_loop rs ports (ignored @ [raw])
      | Some p \<Rightarrow> egress_ports_loop rs (ports @ [p]) ignored)"

definition egress_ports_env :: "(string \<Rightarrow> string) \<Rightarrow> int list \<times> string list" where
  "egress_ports_env getenv =
     (let raw = getenv ''EGRESS_PORTS'' in
      if raw = '''' then ([], []) else egress_ports_loop (Split raw CHR '','') [] [])"

text \<open>\<open>IDLE_TIMEOUT\<close>: a duration, zero when absent or malformed.\<close>

definition idle_timeout_env :: "(string \<Rightarrow> string) \<Rightarrow> duration" where
  "idle_timeout_env getenv =
     (let raw = getenv ''IDLE_TIMEOUT'' in
      if raw = '''' then 0 else case ParseDuration raw of Inl e \<Rightarrow> 0 | Inr d \<Rightarrow> d)"

definition reconciler_from_env :: "(string \<Rightarrow> string) \<Rightarrow> reconciler" where
  "reconciler_from_env getenv =
     \<lparr>rc_workspace_image = workspace_image_env getenv, rc_llm_namespaces = llm_namespaces_env getenv,
      rc_egress_ports = fst (egress_ports_env getenv), rc_idle_timeout = idle_timeout_env getenv,
      rc_gateway_namespace = getenv ''GATEWAY_NAMESPACE'', rc_default_ca_bundle = getenv ''DEFAULT_CA_BUNDLE_CONFIGMAP'',
      rc_pip_index_url = getenv ''PIP_INDEX_URL'', rc_pip_trusted_host = getenv ''PIP_TRUSTED_HOST'',
      rc_npm_registry = getenv ''NPM_REGISTRY'', rc_has_recorder = True\<rparr>"

section \<open>What the settings can be\<close>

text \<open>The loop in one piece: every entry is a port, is blank, or is reported.\<close>

definition entries :: "string list \<Rightarrow> string list" where
  "entries rs = filter (\<lambda>r. r \<noteq> '''') (map TrimSpace rs)"

lemma egress_ports_loop_eq:
  "egress_ports_loop rs ps ig = (ps @ List.map_filter egress_port (entries rs),
     ig @ filter (\<lambda>r. egress_port r = None) (entries rs))"
  by (induction rs ps ig rule: egress_ports_loop.induct)
    (auto simp: entries_def Let_def List.map_filter_simps split: option.split)

lemma egress_port_range: "egress_port r = Some p \<Longrightarrow> 1 \<le> p \<and> p \<le> 65535"
  by (auto simp: egress_port_def split: option.splits if_splits)

lemma egress_ports_range: "p \<in> set (fst (egress_ports_env getenv)) \<Longrightarrow> 1 \<le> p \<and> p \<le> 65535"
  by (auto simp: egress_ports_env_def Let_def egress_ports_loop_eq List.map_filter_def dest: egress_port_range split: if_splits)

lemma llm_namespaces_nonempty: "'''' \<notin> set (llm_namespaces_env getenv)"
  by (simp add: llm_namespaces_env_def Let_def)

section \<open>Printed settings are read back\<close>

lemma strip_nothing:
  assumes "list_all is_digit s" and "list_all (\<lambda>p. p \<noteq> [] \<and> \<not> is_digit (hd p)) ps"
  shows "strip_prefixes ps s = s"
proof -
  have "find (\<lambda>p. p \<noteq> [] \<and> HasPrefix s p) ps = None"
    using assms by (cases s) (auto simp: find_None_iff list_all_iff HasPrefix_prefix prefix_Cons)
  then show ?thesis by (simp add: strip_prefixes.simps)
qed

lemma TrimSpace_digits: "list_all is_digit s \<Longrightarrow> TrimSpace s = s"
  unfolding TrimSpace_def by (subst (1 2) strip_nothing) (simp_all add: space_runes_def is_digit_def)

lemma egress_port_Itoa:
  assumes "1 \<le> p" and "p \<le> 65535"
  shows "egress_port (TrimSpace (Itoa p)) = Some p" and "TrimSpace (Itoa p) \<noteq> ''''"
proof -
  have i: "Itoa p = digits_of (nat p)" using assms by (simp add: Itoa_def)
  have t: "TrimSpace (Itoa p) = digits_of (nat p)" by (simp add: i TrimSpace_digits digits_of_all)
  have s: "\<not> HasPrefix (digits_of (nat p)) [c]" if "\<not> is_digit c" for c
    using digits_of_all [of "nat p"] that by (cases "digits_of (nat p)") (auto simp: HasPrefix_def)
  have "parse_signed (digits_of (nat p)) = Some p"
    using s [of "CHR ''-''"] s [of "CHR ''+''"] assms
    by (simp add: parse_signed_def parse_unsigned_def parse_digits_of is_digit_def)
  then show "egress_port (TrimSpace (Itoa p)) = Some p" using assms by (simp add: t egress_port_def ParseInt32_def)
  show "TrimSpace (Itoa p) \<noteq> ''''" by (simp add: t)
qed

lemma entries_Itoa:
  "list_all (\<lambda>p. 1 \<le> p \<and> p \<le> 65535) ps \<Longrightarrow>
     List.map_filter egress_port (entries (map Itoa ps)) = ps
     \<and> filter (\<lambda>r. egress_port r = None) (entries (map Itoa ps)) = []"
  by (induction ps) (simp_all add: entries_def List.map_filter_simps egress_port_Itoa)

text \<open>
  A list of ports between 1 and 65535, printed with commas into \<open>EGRESS_PORTS\<close>, is read back
  as it was, in order, and no entry is reported as ignored.
\<close>

lemma egress_ports_roundtrip:
  assumes "getenv ''EGRESS_PORTS'' = join_with CHR '','' (map Itoa ps)"
    and "list_all (\<lambda>p. 1 \<le> p \<and> p \<le> 65535) ps"
  shows "rc_egress_ports (reconciler_from_env getenv) = ps \<and> snd (egress_ports_env getenv) = []"
proof (cases "ps = []")
  case True
  then show ?thesis using assms(1) by (simp add: reconciler_from_env_def egress_ports_env_def)
next
  case False
  have comma: "CHR '','' \<notin> set (Itoa p)" for p
  proof -
    have "\<not> is_digit CHR '',''" by (simp add: is_digit_def)
    then show ?thesis using digits_of_chars [of "nat \<bar>p\<bar>"] by (auto simp: Itoa_def)
  qed
  have "Split (getenv ''EGRESS_PORTS'') CHR '','' = map Itoa ps"
    unfolding assms(1) by (rule Split_join) (use False comma in \<open>auto simp: list_all_iff\<close>)
  moreover have "getenv ''EGRESS_PORTS'' \<noteq> ''''"
    using calculation False by (cases ps) (auto simp: Itoa_def split: if_splits dest: sym)
  ultimately show ?thesis
    using entries_Itoa [OF assms(2)] by (simp add: reconciler_from_env_def egress_ports_env_def Let_def egress_ports_loop_eq)
qed

end
