(* ===== verification/Go_Flag.thy ===== *)
theory Go_Flag
  imports Go_Format
begin

text \<open>
  Go's \<open>flag\<close> package as far as \<open>main.go\<close> uses it: \<open>flag.Parse\<close> on the command line, with flags of
  boolean and of other type. A flag is its name, whether it is boolean, and the error its \<open>Set\<close>
  returns for a value, if any; the result is the list of settings in the order they were made. The command line exits
  on an error: with 0 when help was asked for, with 2 otherwise.
\<close>

record flag_def =
  fd_bool :: bool
  fd_set :: "string \<Rightarrow> string option"

datatype flag_error = ErrHelp | FlagError string

type_synonym flag_set = "(string \<times> flag_def) list"
type_synonym flag_values = "(string \<times> string) list"

definition ParseBool :: "string \<Rightarrow> bool option" where
  "ParseBool s =
     (if s \<in> {''1'', ''t'', ''T'', ''true'', ''TRUE'', ''True''} then Some True
      else if s \<in> {''0'', ''f'', ''F'', ''false'', ''FALSE'', ''False''} then Some False
      else None)"

text \<open>The name and the value of \<open>name=value\<close>; the equals sign cannot be the first character.\<close>

definition split_value :: "string \<Rightarrow> string \<times> string option" where
  "split_value s = (case s of
     [] \<Rightarrow> ([], None)
   | c # cs \<Rightarrow> (case dropWhile (\<lambda>x. x \<noteq> CHR ''='') cs of
       [] \<Rightarrow> (c # cs, None)
     | _ # v \<Rightarrow> (c # takeWhile (\<lambda>x. x \<noteq> CHR ''='') cs, Some v)))"

text \<open>The text after one or two dashes; \<open>None\<close> for an argument that is not a flag.\<close>

definition flag_text :: "string \<Rightarrow> string option" where
  "flag_text s =
     (if length s < 2 \<or> hd s \<noteq> CHR ''-'' then None
      else if s ! 1 = CHR ''-'' then Some (drop 2 s) else Some (drop 1 s))"

fun parse_flags :: "flag_set \<Rightarrow> string list \<Rightarrow> flag_values \<Rightarrow> flag_error + flag_values \<times> string list" where
  "parse_flags fs [] acc = Inr (acc, [])"
| "parse_flags fs (s # args) acc = (case flag_text s of
     None \<Rightarrow> Inr (acc, s # args)
   | Some name \<Rightarrow>
       if s = ''--'' then Inr (acc, args)
       else if name = [] \<or> hd name = CHR ''-'' \<or> hd name = CHR ''='' then Inl (FlagError (''bad flag syntax: '' @ s))
       else case split_value name of (n, v) \<Rightarrow> (case map_of fs n of
         None \<Rightarrow> if n = ''help'' \<or> n = ''h'' then Inl ErrHelp
                 else Inl (FlagError (''flag provided but not defined: -'' @ n))
       | Some d \<Rightarrow>
           if fd_bool d then
             (let x = (case v of None \<Rightarrow> ''true'' | Some x \<Rightarrow> x) in
              case fd_set d x of
                None \<Rightarrow> parse_flags fs args (acc @ [(n, x)])
              | Some e \<Rightarrow> Inl (FlagError (''invalid boolean value '' @ Quote x @ '' for -'' @ n @ '': '' @ e)))
           else (case v of
             Some x \<Rightarrow> (case fd_set d x of
                 None \<Rightarrow> parse_flags fs args (acc @ [(n, x)])
               | Some e \<Rightarrow> Inl (FlagError (''invalid value '' @ Quote x @ '' for flag -'' @ n @ '': '' @ e)))
           | None \<Rightarrow> (case args of
               [] \<Rightarrow> Inl (FlagError (''flag needs an argument: -'' @ n))
             | x # rest \<Rightarrow> (case fd_set d x of
                 None \<Rightarrow> parse_flags fs rest (acc @ [(n, x)])
               | Some e \<Rightarrow> Inl (FlagError (''invalid value '' @ Quote x @ '' for flag -'' @ n @ '': '' @ e)))))))"

text \<open>The flags \<open>StringVar\<close> and \<open>BoolVar\<close> define.\<close>

definition string_flag :: flag_def where
  "string_flag = \<lparr>fd_bool = False, fd_set = (\<lambda>_. None)\<rparr>"

definition bool_flag :: flag_def where
  "bool_flag = \<lparr>fd_bool = True, fd_set = (\<lambda>s. if ParseBool s = None then Some ''parse error'' else None)\<rparr>"

text \<open>The value of a flag: the last setting, or its default.\<close>

definition flag_value :: "flag_values \<Rightarrow> string \<Rightarrow> string \<Rightarrow> string" where
  "flag_value vs n dflt = (case map_of (rev vs) n of None \<Rightarrow> dflt | Some v \<Rightarrow> v)"

definition flag_exit :: "flag_error \<Rightarrow> int" where
  "flag_exit e = (case e of ErrHelp \<Rightarrow> 0 | FlagError _ \<Rightarrow> 2)"

section \<open>Settings on the command line\<close>

lemma split_value_eq:
  "n \<noteq> [] \<Longrightarrow> CHR ''='' \<notin> set n \<Longrightarrow> split_value (n @ CHR ''='' # v) = (n, Some v)"
proof (cases n)
  case (Cons c cs)
  assume "CHR ''='' \<notin> set n"
  then have "dropWhile (\<lambda>x. x \<noteq> CHR ''='') (cs @ CHR ''='' # v) = CHR ''='' # v"
    "takeWhile (\<lambda>x. x \<noteq> CHR ''='') (cs @ CHR ''='' # v) = cs"
    using Cons by (auto simp: dropWhile_append takeWhile_append)
  then show ?thesis using Cons by (simp add: split_value_def)
qed simp

text \<open>A flag that is given as \<open>--name=value\<close> with a value it accepts is set.\<close>

lemma parse_flags_set:
  assumes "map_of fs n = Some d" and "fd_set d v = None" and "n \<noteq> []" and "CHR ''='' \<notin> set n" and "hd n \<noteq> CHR ''-''"
  shows "parse_flags fs ((''--'' @ n @ ''='' @ v) # args) acc = parse_flags fs args (acc @ [(n, v)])"
proof -
  have "hd n \<noteq> CHR ''=''" using assms(3,4) by (cases n) auto
  then show ?thesis using assms split_value_eq [OF assms(3,4), of v] by (simp add: flag_text_def)
qed

end
