(* ===== verification/Operator_Start.thy ===== *)
theory Operator_Start
  imports Operator_Main Go_Flag Process Api_Group
begin

text \<open>
  The operator process (\<open>main\<close> of \<open>main.go\<close> and \<open>SetupWithManager\<close> of
  \<open>controllers/workspace_controller.go\<close>):
  what it asks of controller-runtime, in order, what it logs, and how it ends. What the manager
  answers is an argument.
\<close>

section \<open>The controller\<close>

text \<open>What \<open>SetupWithManager\<close> builds: the watched type, the owned types and the reconciler.\<close>

record controller_registration =
  cr_for :: string
  cr_owns :: "string list"
  cr_reconciler :: reconciler

definition SetupWithManager :: "reconciler \<Rightarrow> controller_registration" where
  "SetupWithManager r = \<lparr>cr_for = ''Workspace'',
     cr_owns = [''Pod'', ''PersistentVolumeClaim'', ''Service'', ''ServiceAccount'', ''Role'', ''RoleBinding'', ''NetworkPolicy''],
     cr_reconciler = r\<rparr>"

section \<open>The process\<close>

datatype log_value = LogText string | LogDuration duration | LogErr go_error

record manager_options =
  mo_scheme :: scheme
  mo_metrics_address :: string
  mo_probe_address :: string
  mo_leader_election :: bool
  mo_leader_election_id :: string

datatype op_event =
    FlagFailure flag_error
  | SetLogger flag_values
  | ConfigFailure go_error
  | NewManager manager_options
  | SetupInfo string "(string \<times> log_value) list"
  | SetupError go_error string "(string \<times> log_value) list"
  | EventRecorder string
  | CompleteController controller_registration
  | AddHealthzCheck string
  | AddReadyzCheck string
  | StartManager


text \<open>
  The command line, the environment, the flags of zap and of the client configuration, the types
  of client-go, and the answers of the libraries.
\<close>

record op_env =
  oe_args :: "string list"
  oe_getenv :: "string \<Rightarrow> string"
  oe_library_flags :: flag_set
  oe_client_scheme :: scheme
  oe_config :: "unit res"
  oe_new_manager :: "unit res"
  oe_complete :: "unit res"
  oe_healthz :: "unit res"
  oe_readyz :: "unit res"
  oe_start :: "unit res"


definition operator_flags :: flag_set where
  "operator_flags = [(''metrics-bind-address'', string_flag), (''health-probe-bind-address'', string_flag),
     (''leader-elect'', bool_flag)]"

text \<open>The scheme \<open>init\<close> leaves behind.\<close>

definition operator_init :: "op_env \<Rightarrow> scheme" where
  "operator_init env = AddToScheme (oe_client_scheme env)"

definition manager_options_of :: "op_env \<Rightarrow> flag_values \<Rightarrow> manager_options" where
  "manager_options_of env fl = \<lparr>mo_scheme = operator_init env,
     mo_metrics_address = flag_value fl ''metrics-bind-address'' '':8080'',
     mo_probe_address = flag_value fl ''health-probe-bind-address'' '':8081'',
     mo_leader_election = (ParseBool (flag_value fl ''leader-elect'' ''false'') = Some True),
     mo_leader_election_id = ''workspace.devplane.io''\<rparr>"

text \<open>The records about the settings, in the order they are read.\<close>

definition settings_log :: "(string \<Rightarrow> string) \<Rightarrow> op_event list" where
  "settings_log getenv =
     map (\<lambda>raw. SetupInfo ''Ignoring invalid EGRESS_PORTS entry'' [(''value'', LogText raw)]) (snd (egress_ports_env getenv))
     @ (let raw = getenv ''IDLE_TIMEOUT'' in
        if raw = '''' then [] else case ParseDuration raw of
          Inl e \<Rightarrow> [SetupInfo ''Ignoring invalid IDLE_TIMEOUT'' [(''value'', LogText raw), (''error'', LogErr e)]]
        | Inr d \<Rightarrow> [SetupInfo ''Idle timeout configured'' [(''idleTimeout'', LogDuration d)]])
     @ (if getenv ''GATEWAY_NAMESPACE'' = ''''
        then [SetupInfo ''GATEWAY_NAMESPACE not set; ingress-gateway NetworkPolicy will only allow gateway pods in the workspace namespace'' []]
        else [])"

definition operator_main :: "op_env \<Rightarrow> op_event list \<times> process_end" where
  "operator_main env = (case parse_flags (operator_flags @ oe_library_flags env) (oe_args env) [] of
     Inl e \<Rightarrow> ([FlagFailure e], Exit (flag_exit e))
   | Inr (fl, _) \<Rightarrow>
       or_die [SetLogger fl] (oe_config env) ConfigFailure (\<lambda>_.
       or_die [NewManager (manager_options_of env fl)] (oe_new_manager env)
         (\<lambda>e. SetupError e ''Unable to start manager'' []) (\<lambda>_.
       or_die (settings_log (oe_getenv env) @ [EventRecorder ''workspace-controller'',
           CompleteController (SetupWithManager (reconciler_from_env (oe_getenv env)))]) (oe_complete env)
         (\<lambda>e. SetupError e ''Unable to create controller'' [(''controller'', LogText ''Workspace'')]) (\<lambda>_.
       or_die [AddHealthzCheck ''healthz''] (oe_healthz env) (\<lambda>e. SetupError e ''Unable to set up health check'' []) (\<lambda>_.
       or_die [AddReadyzCheck ''readyz''] (oe_readyz env) (\<lambda>e. SetupError e ''Unable to set up ready check'' []) (\<lambda>_.
       or_die [SetupInfo ''Starting manager'' [], StartManager] (oe_start env)
         (\<lambda>e. SetupError e ''Problem running manager'' []) (\<lambda>_. ([], Return))))))))"

section \<open>How it ends\<close>


lemma settings_log_quiet: "e \<in> set (settings_log getenv) \<Longrightarrow> \<exists>m f. e = SetupInfo m f"
  by (auto simp: settings_log_def Let_def split: if_splits sum.splits)

text \<open>The steps of a start that gets as far as the manager.\<close>

definition start_steps :: "op_env \<Rightarrow> flag_values \<Rightarrow> op_event list" where
  "start_steps env fl = [SetLogger fl, NewManager (manager_options_of env fl)] @ settings_log (oe_getenv env)
     @ [EventRecorder ''workspace-controller'', CompleteController (SetupWithManager (reconciler_from_env (oe_getenv env))),
        AddHealthzCheck ''healthz'', AddReadyzCheck ''readyz'', SetupInfo ''Starting manager'' [], StartManager]"

text \<open>The reports of the calls that fail, in the order of the calls.\<close>

definition start_failures :: "op_env \<Rightarrow> op_event list" where
  "start_failures env = failures_of (oe_config env) ConfigFailure
     @ failures_of (oe_new_manager env) (\<lambda>e. SetupError e ''Unable to start manager'' [])
     @ failures_of (oe_complete env) (\<lambda>e. SetupError e ''Unable to create controller'' [(''controller'', LogText ''Workspace'')])
     @ failures_of (oe_healthz env) (\<lambda>e. SetupError e ''Unable to set up health check'' [])
     @ failures_of (oe_readyz env) (\<lambda>e. SetupError e ''Unable to set up ready check'' [])
     @ failures_of (oe_start env) (\<lambda>e. SetupError e ''Problem running manager'' [])"

lemma operator_ran:
  assumes "parse_flags (operator_flags @ oe_library_flags env) (oe_args env) [] = Inr (fl, args)"
  shows "ran (operator_main env) (start_steps env fl) (start_failures env)"
proof -
  have s: "start_steps env fl = [SetLogger fl] @ [NewManager (manager_options_of env fl)]
      @ (settings_log (oe_getenv env) @ [EventRecorder ''workspace-controller'',
          CompleteController (SetupWithManager (reconciler_from_env (oe_getenv env)))])
      @ [AddHealthzCheck ''healthz''] @ [AddReadyzCheck ''readyz''] @ [SetupInfo ''Starting manager'' [], StartManager] @ []"
    by (simp add: start_steps_def)
  have f: "start_failures env = failures_of (oe_config env) ConfigFailure
     @ (failures_of (oe_new_manager env) (\<lambda>e. SetupError e ''Unable to start manager'' [])
     @ (failures_of (oe_complete env) (\<lambda>e. SetupError e ''Unable to create controller'' [(''controller'', LogText ''Workspace'')])
     @ (failures_of (oe_healthz env) (\<lambda>e. SetupError e ''Unable to set up health check'' [])
     @ (failures_of (oe_readyz env) (\<lambda>e. SetupError e ''Unable to set up ready check'' [])
     @ (failures_of (oe_start env) (\<lambda>e. SetupError e ''Problem running manager'' []) @ [])))))"
    by (simp add: start_failures_def)
  show ?thesis unfolding operator_main_def assms sum.case prod.case s f by (intro ran_or_die ran_Return)
qed

text \<open>
  C25: the operator process, once the flags are parsed. If no call fails, it makes exactly these
  steps in this order: set the logger, make the manager with the options of the flags and a scheme
  that knows Workspace and WorkspaceList, report the settings, register the reconciler built from
  the environment, add both probes, start the manager; and it returns. Otherwise it stops within
  these steps, the last thing it does is to report the error of the first call that failed, with
  the message of that call, and the status is 1. So it returns exactly if the client
  configuration, the manager, the controller, both probes and the run of the manager succeeded,
  and the manager is started exactly if all before it did.
\<close>

theorem operator_start:
  assumes "parse_flags (operator_flags @ oe_library_flags env) (oe_args env) [] = Inr (fl, args)"
  shows "ran (operator_main env) (start_steps env fl) (start_failures env)
    \<and> {(GroupVersion, ''Workspace''), (GroupVersion, ''WorkspaceList'')} \<subseteq> set (mo_scheme (manager_options_of env fl))
    \<and> (snd (operator_main env) = Return \<longleftrightarrow> oe_config env = Inr () \<and> oe_new_manager env = Inr () \<and> oe_complete env = Inr ()
         \<and> oe_healthz env = Inr () \<and> oe_readyz env = Inr () \<and> oe_start env = Inr ())
    \<and> (StartManager \<in> set (fst (operator_main env)) \<longleftrightarrow> oe_config env = Inr () \<and> oe_new_manager env = Inr ()
         \<and> oe_complete env = Inr () \<and> oe_healthz env = Inr () \<and> oe_readyz env = Inr ())"
proof -
  have q: "StartManager \<notin> set (settings_log (oe_getenv env))" by (force dest: settings_log_quiet)
  note r = operator_ran [OF assms]
  moreover have "snd (operator_main env) = Return \<longleftrightarrow> oe_config env = Inr () \<and> oe_new_manager env = Inr () \<and> oe_complete env = Inr ()
         \<and> oe_healthz env = Inr () \<and> oe_readyz env = Inr () \<and> oe_start env = Inr ()"
    using ran_Return_iff [OF r] by (simp add: start_failures_def)
  moreover have "StartManager \<in> set (fst (operator_main env)) \<longleftrightarrow> oe_config env = Inr () \<and> oe_new_manager env = Inr ()
         \<and> oe_complete env = Inr () \<and> oe_healthz env = Inr () \<and> oe_readyz env = Inr ()"
    using q by (auto simp: operator_main_def assms or_die_reached)
  moreover have "{(GroupVersion, ''Workspace''), (GroupVersion, ''WorkspaceList'')} \<subseteq> set (mo_scheme (manager_options_of env fl))"
    by (simp add: manager_options_of_def operator_init_def AddToScheme_types)
  ultimately show ?thesis by blast
qed

definition sample_op_env :: op_env where
  "sample_op_env = \<lparr>oe_args = [''--metrics-bind-address=:9090'', ''--leader-elect''],
     oe_getenv = (\<lambda>k. if k = ''IDLE_TIMEOUT'' then ''24h'' else ''''), oe_library_flags = [(''kubeconfig'', string_flag)],
     oe_client_scheme = [], oe_config = Inr (), oe_new_manager = Inr (), oe_complete = Inr (), oe_healthz = Inr (),
     oe_readyz = Inr (), oe_start = Inl (new_error ''lost lease'')\<rparr>"

theorem operator_start_witness:
  "snd (operator_main sample_op_env) \<noteq> Return \<and> StartManager \<in> set (fst (operator_main sample_op_env))
   \<and> ran (operator_main sample_op_env)
       (start_steps sample_op_env [(''metrics-bind-address'', '':9090''), (''leader-elect'', ''true'')])
       [SetupError (new_error ''lost lease'') ''Problem running manager'' []]
   \<and> mo_metrics_address (manager_options_of sample_op_env [(''metrics-bind-address'', '':9090''), (''leader-elect'', ''true'')]) = '':9090''"
proof -
  have p: "parse_flags (operator_flags @ oe_library_flags sample_op_env) (oe_args sample_op_env) []
      = Inr ([(''metrics-bind-address'', '':9090''), (''leader-elect'', ''true'')], [])" by code_simp
  have "start_failures sample_op_env = [SetupError (new_error ''lost lease'') ''Problem running manager'' []]"
    by (simp add: start_failures_def failures_of_def sample_op_env_def)
  then show ?thesis using operator_start [OF p] by (simp add: manager_options_of_def flag_value_def sample_op_env_def)
qed

end
