(* ===== verification/Deepcopy.thy ===== *)
theory Deepcopy
  imports Api_Types
begin

text \<open>
  The generated deep copies of the API types (\<open>api/v1alpha1/zz_generated.deepcopy.go\<close>), over an
  explicit memory: an address holds an array, a slice is a window on an array, a pointer is an
  element of one. A nil slice or pointer is \<open>None\<close>. \<open>DeepCopyInto\<close> takes the struct behind \<open>in\<close> and
  returns the struct it leaves behind \<open>out\<close> with the memory. The copies of \<open>metav1.ObjectMeta\<close>,
  \<open>ListMeta\<close>, \<open>Condition\<close> and \<open>Time\<close> are code of the API machinery: they are the fields of \<open>foreign\<close>.
\<close>

section \<open>Memory\<close>

type_synonym addr = nat

record slice =
  sl_array :: addr
  sl_off :: nat
  sl_len :: nat
  sl_cap :: nat

record pointer =
  pt_array :: addr
  pt_index :: nat

record 'c memory =
  mem_next :: addr
  mem_cells :: "addr \<Rightarrow> 'c"

text \<open>How an array of elements of one type is kept in a cell.\<close>

record ('c, 'a) region =
  rg_wrap :: "'a list \<Rightarrow> 'c"
  rg_open :: "'c \<Rightarrow> 'a list option"
  rg_zero :: "'a"

definition array_at :: "('c, 'a) region \<Rightarrow> 'c memory \<Rightarrow> addr \<Rightarrow> 'a list" where
  "array_at r m a = (case rg_open r (mem_cells m a) of Some xs \<Rightarrow> xs | None \<Rightarrow> [])"

definition put_array :: "('c, 'a) region \<Rightarrow> addr \<Rightarrow> 'a list \<Rightarrow> 'c memory \<Rightarrow> 'c memory" where
  "put_array r a xs m = m\<lparr>mem_cells := (mem_cells m)(a := rg_wrap r xs)\<rparr>"

text \<open>The elements a slice shows; \<open>make([]T, n)\<close>; \<open>copy(dst, src)\<close>; \<open>s[i] = v\<close>.\<close>

definition elems :: "('c, 'a) region \<Rightarrow> 'c memory \<Rightarrow> slice \<Rightarrow> 'a list" where
  "elems r m s = take (sl_len s) (drop (sl_off s) (array_at r m (sl_array s)))"

definition make_slice :: "('c, 'a) region \<Rightarrow> nat \<Rightarrow> 'c memory \<Rightarrow> slice \<times> 'c memory" where
  "make_slice r n m = (\<lparr>sl_array = mem_next m, sl_off = 0, sl_len = n, sl_cap = n\<rparr>,
     put_array r (mem_next m) (replicate n (rg_zero r)) (m\<lparr>mem_next := mem_next m + 1\<rparr>))"

definition copy_elems :: "('c, 'a) region \<Rightarrow> slice \<Rightarrow> slice \<Rightarrow> 'c memory \<Rightarrow> 'c memory" where
  "copy_elems r dst src m =
     (let n = min (sl_len dst) (sl_len src); a = array_at r m (sl_array dst)
      in put_array r (sl_array dst)
           (take (sl_off dst) a @ take n (elems r m src) @ drop (sl_off dst + n) a) m)"

definition set_elem :: "('c, 'a) region \<Rightarrow> slice \<Rightarrow> nat \<Rightarrow> 'a \<Rightarrow> 'c memory \<Rightarrow> 'c memory" where
  "set_elem r s i v m = put_array r (sl_array s) ((array_at r m (sl_array s))[sl_off s + i := v]) m"

text \<open>\<open>new(T)\<close>, \<open>*p\<close> and \<open>*p = v\<close>.\<close>

definition new_cell :: "('c, 'a) region \<Rightarrow> 'c memory \<Rightarrow> pointer \<times> 'c memory" where
  "new_cell r m = (\<lparr>pt_array = mem_next m, pt_index = 0\<rparr>,
     put_array r (mem_next m) [rg_zero r] (m\<lparr>mem_next := mem_next m + 1\<rparr>))"

definition load :: "('c, 'a) region \<Rightarrow> 'c memory \<Rightarrow> pointer \<Rightarrow> 'a" where
  "load r m p = array_at r m (pt_array p) ! pt_index p"

definition store :: "('c, 'a) region \<Rightarrow> pointer \<Rightarrow> 'a \<Rightarrow> 'c memory \<Rightarrow> 'c memory" where
  "store r p v m = put_array r (pt_array p) ((array_at r m (pt_array p))[pt_index p := v]) m"

section \<open>The statements the generator emits\<close>

text \<open>\<open>if in.X != nil { *out = make([]T, len( *in)); copy( *out, *in) }\<close>.\<close>

definition copy_flat :: "('c, 'a) region \<Rightarrow> slice option \<Rightarrow> 'c memory \<Rightarrow> slice option \<times> 'c memory" where
  "copy_flat r s m = (case s of
     None \<Rightarrow> (None, m)
   | Some src \<Rightarrow> let (dst, m1) = make_slice r (sl_len src) m in (Some dst, copy_elems r dst src m1))"

text \<open>\<open>if in.X != nil { *out = make([]T, len( *in)); for i := range *in { ( *in)[i].DeepCopyInto(&( *out)[i]) } }\<close>.\<close>

fun copy_loop ::
  "('c, 'a) region \<Rightarrow> ('a \<Rightarrow> 'c memory \<Rightarrow> 'a \<times> 'c memory) \<Rightarrow> slice \<Rightarrow> slice \<Rightarrow> nat list \<Rightarrow> 'c memory \<Rightarrow> 'c memory"
where
  "copy_loop r into src dst [] m = m"
| "copy_loop r into src dst (i # is) m =
     (let (v, m1) = into (elems r m src ! i) m in copy_loop r into src dst is (set_elem r dst i v m1))"

definition copy_each ::
  "('c, 'a) region \<Rightarrow> ('a \<Rightarrow> 'c memory \<Rightarrow> 'a \<times> 'c memory) \<Rightarrow> slice option \<Rightarrow> 'c memory \<Rightarrow> slice option \<times> 'c memory"
where
  "copy_each r into s m = (case s of
     None \<Rightarrow> (None, m)
   | Some src \<Rightarrow> let (dst, m1) = make_slice r (sl_len src) m
                 in (Some dst, copy_loop r into src dst [0..<sl_len src] m1))"

text \<open>\<open>DeepCopy\<close>: nil stays nil, otherwise \<open>out := new(T); in.DeepCopyInto(out); return out\<close>.\<close>

definition deep_copy ::
  "('c, 'a) region \<Rightarrow> ('a \<Rightarrow> 'c memory \<Rightarrow> 'a \<times> 'c memory) \<Rightarrow> pointer option \<Rightarrow> 'c memory \<Rightarrow> pointer option \<times> 'c memory"
where
  "deep_copy r into p m = (case p of
     None \<Rightarrow> (None, m)
   | Some q \<Rightarrow> let (out, m1) = new_cell r m; (v, m2) = into (load r m1 q) m1 in (Some out, store r out v m2))"

section \<open>The API types in memory\<close>

record go_ai_provider =
  gp_name :: string
  gp_endpoint :: string
  gp_models :: "slice option"

record go_ai_configuration =
  ga_providers :: "slice option"
  ga_egress_namespaces :: "slice option"
  ga_egress_ports :: "slice option"

record go_tls_config =
  gt_custom_ca_bundle :: "pointer option"

record go_workspace_spec =
  gs_user :: user_info
  gs_resources :: resource_requirements
  gs_ai_config :: go_ai_configuration
  gs_persistence :: persistence_config
  gs_tls :: go_tls_config
  gs_lifecycle :: lifecycle_spec

record go_workspace_status =
  gu_phase :: workspace_phase
  gu_pod_name :: string
  gu_service_endpoint :: string
  gu_message :: string
  gu_remediation_hint :: string
  gu_conditions :: "slice option"
  gu_last_accessed :: "instant option"

record type_meta =
  tm_kind :: string
  tm_api_version :: string

record 'm go_workspace =
  gw_type :: type_meta
  gw_meta :: 'm
  gw_spec :: go_workspace_spec
  gw_status :: go_workspace_status

record 'l go_workspace_list =
  gl_type :: type_meta
  gl_meta :: 'l
  gl_items :: "slice option"

text \<open>One kind of array for each element type; \<open>Foreign\<close> is what the metadata of the API machinery refers to.\<close>

datatype ('m, 'l, 'o) cell =
    Strings "string list"
  | Int32s "int list"
  | AIProviders "go_ai_provider list"
  | AIConfigurations "go_ai_configuration list"
  | CABundleRefs "ca_bundle_ref list"
  | PersistenceConfigs "persistence_config list"
  | ResourceRequirementss "resource_requirements list"
  | TLSConfigs "go_tls_config list"
  | UserInfos "user_info list"
  | WorkspaceLifecycleSpecs "lifecycle_spec list"
  | WorkspaceSpecs "go_workspace_spec list"
  | Conditions "condition list"
  | WorkspaceStatuses "go_workspace_status list"
  | Workspaces "'m go_workspace list"
  | WorkspaceLists "'l go_workspace_list list"
  | Foreign 'o

type_synonym ('m, 'l, 'o) go_memory = "('m, 'l, 'o) cell memory"

record ('m, 'l, 'o) foreign =
  ObjectMeta_DeepCopyInto :: "'m \<Rightarrow> ('m, 'l, 'o) go_memory \<Rightarrow> 'm \<times> ('m, 'l, 'o) go_memory"
  ListMeta_DeepCopyInto :: "'l \<Rightarrow> ('m, 'l, 'o) go_memory \<Rightarrow> 'l \<times> ('m, 'l, 'o) go_memory"
  Condition_DeepCopyInto :: "condition \<Rightarrow> ('m, 'l, 'o) go_memory \<Rightarrow> condition \<times> ('m, 'l, 'o) go_memory"
  Time_DeepCopyInto :: "instant option \<Rightarrow> ('m, 'l, 'o) go_memory \<Rightarrow> instant option \<times> ('m, 'l, 'o) go_memory"
  ObjectMeta_zero :: 'm
  ListMeta_zero :: 'l

subsection \<open>Zero values and regions\<close>

definition zero_ai_provider :: go_ai_provider where
  "zero_ai_provider = \<lparr>gp_name = '''', gp_endpoint = '''', gp_models = None\<rparr>"

definition zero_ai_configuration :: go_ai_configuration where
  "zero_ai_configuration = \<lparr>ga_providers = None, ga_egress_namespaces = None, ga_egress_ports = None\<rparr>"

definition zero_tls_config :: go_tls_config where
  "zero_tls_config = \<lparr>gt_custom_ca_bundle = None\<rparr>"

definition zero_workspace_spec :: go_workspace_spec where
  "zero_workspace_spec = \<lparr>gs_user = \<lparr>user_id = '''', user_email = ''''\<rparr>,
     gs_resources = \<lparr>res_cpu = '''', res_memory = '''', res_storage = ''''\<rparr>,
     gs_ai_config = zero_ai_configuration, gs_persistence = \<lparr>pers_storage_class = ''''\<rparr>,
     gs_tls = zero_tls_config, gs_lifecycle = \<lparr>life_idle_timeout = ''''\<rparr>\<rparr>"

definition zero_condition :: condition where
  "zero_condition = \<lparr>cond_type = '''', cond_status = '''', cond_generation = 0, cond_reason = '''',
     cond_message = '''', cond_transition = None\<rparr>"

definition zero_workspace_status :: go_workspace_status where
  "zero_workspace_status = \<lparr>gu_phase = '''', gu_pod_name = '''', gu_service_endpoint = '''', gu_message = '''',
     gu_remediation_hint = '''', gu_conditions = None, gu_last_accessed = None\<rparr>"

definition zero_type_meta :: type_meta where
  "zero_type_meta = \<lparr>tm_kind = '''', tm_api_version = ''''\<rparr>"

definition strings_region :: "(('m, 'l, 'o) cell, string) region" where
  "strings_region = \<lparr>rg_wrap = Strings, rg_open = (\<lambda>c. case c of Strings xs \<Rightarrow> Some xs | _ \<Rightarrow> None), rg_zero = ''''\<rparr>"

definition int32s_region :: "(('m, 'l, 'o) cell, int) region" where
  "int32s_region = \<lparr>rg_wrap = Int32s, rg_open = (\<lambda>c. case c of Int32s xs \<Rightarrow> Some xs | _ \<Rightarrow> None), rg_zero = 0\<rparr>"

definition ai_providers_region :: "(('m, 'l, 'o) cell, go_ai_provider) region" where
  "ai_providers_region = \<lparr>rg_wrap = AIProviders,
     rg_open = (\<lambda>c. case c of AIProviders xs \<Rightarrow> Some xs | _ \<Rightarrow> None), rg_zero = zero_ai_provider\<rparr>"

definition ai_configurations_region :: "(('m, 'l, 'o) cell, go_ai_configuration) region" where
  "ai_configurations_region = \<lparr>rg_wrap = AIConfigurations,
     rg_open = (\<lambda>c. case c of AIConfigurations xs \<Rightarrow> Some xs | _ \<Rightarrow> None), rg_zero = zero_ai_configuration\<rparr>"

definition ca_bundle_refs_region :: "(('m, 'l, 'o) cell, ca_bundle_ref) region" where
  "ca_bundle_refs_region = \<lparr>rg_wrap = CABundleRefs,
     rg_open = (\<lambda>c. case c of CABundleRefs xs \<Rightarrow> Some xs | _ \<Rightarrow> None), rg_zero = \<lparr>ca_name = ''''\<rparr>\<rparr>"

definition persistence_configs_region :: "(('m, 'l, 'o) cell, persistence_config) region" where
  "persistence_configs_region = \<lparr>rg_wrap = PersistenceConfigs,
     rg_open = (\<lambda>c. case c of PersistenceConfigs xs \<Rightarrow> Some xs | _ \<Rightarrow> None),
     rg_zero = gs_persistence zero_workspace_spec\<rparr>"

definition resource_requirements_region :: "(('m, 'l, 'o) cell, resource_requirements) region" where
  "resource_requirements_region = \<lparr>rg_wrap = ResourceRequirementss,
     rg_open = (\<lambda>c. case c of ResourceRequirementss xs \<Rightarrow> Some xs | _ \<Rightarrow> None),
     rg_zero = gs_resources zero_workspace_spec\<rparr>"

definition tls_configs_region :: "(('m, 'l, 'o) cell, go_tls_config) region" where
  "tls_configs_region = \<lparr>rg_wrap = TLSConfigs,
     rg_open = (\<lambda>c. case c of TLSConfigs xs \<Rightarrow> Some xs | _ \<Rightarrow> None), rg_zero = zero_tls_config\<rparr>"

definition user_infos_region :: "(('m, 'l, 'o) cell, user_info) region" where
  "user_infos_region = \<lparr>rg_wrap = UserInfos,
     rg_open = (\<lambda>c. case c of UserInfos xs \<Rightarrow> Some xs | _ \<Rightarrow> None), rg_zero = gs_user zero_workspace_spec\<rparr>"

definition lifecycle_specs_region :: "(('m, 'l, 'o) cell, lifecycle_spec) region" where
  "lifecycle_specs_region = \<lparr>rg_wrap = WorkspaceLifecycleSpecs,
     rg_open = (\<lambda>c. case c of WorkspaceLifecycleSpecs xs \<Rightarrow> Some xs | _ \<Rightarrow> None),
     rg_zero = gs_lifecycle zero_workspace_spec\<rparr>"

definition workspace_specs_region :: "(('m, 'l, 'o) cell, go_workspace_spec) region" where
  "workspace_specs_region = \<lparr>rg_wrap = WorkspaceSpecs,
     rg_open = (\<lambda>c. case c of WorkspaceSpecs xs \<Rightarrow> Some xs | _ \<Rightarrow> None), rg_zero = zero_workspace_spec\<rparr>"

definition conditions_region :: "(('m, 'l, 'o) cell, condition) region" where
  "conditions_region = \<lparr>rg_wrap = Conditions,
     rg_open = (\<lambda>c. case c of Conditions xs \<Rightarrow> Some xs | _ \<Rightarrow> None), rg_zero = zero_condition\<rparr>"

definition workspace_statuses_region :: "(('m, 'l, 'o) cell, go_workspace_status) region" where
  "workspace_statuses_region = \<lparr>rg_wrap = WorkspaceStatuses,
     rg_open = (\<lambda>c. case c of WorkspaceStatuses xs \<Rightarrow> Some xs | _ \<Rightarrow> None), rg_zero = zero_workspace_status\<rparr>"

definition workspaces_region :: "'m \<Rightarrow> (('m, 'l, 'o) cell, 'm go_workspace) region" where
  "workspaces_region z = \<lparr>rg_wrap = Workspaces,
     rg_open = (\<lambda>c. case c of Workspaces xs \<Rightarrow> Some xs | _ \<Rightarrow> None),
     rg_zero = \<lparr>gw_type = zero_type_meta, gw_meta = z, gw_spec = zero_workspace_spec, gw_status = zero_workspace_status\<rparr>\<rparr>"

definition workspace_lists_region :: "'l \<Rightarrow> (('m, 'l, 'o) cell, 'l go_workspace_list) region" where
  "workspace_lists_region z = \<lparr>rg_wrap = WorkspaceLists,
     rg_open = (\<lambda>c. case c of WorkspaceLists xs \<Rightarrow> Some xs | _ \<Rightarrow> None),
     rg_zero = \<lparr>gl_type = zero_type_meta, gl_meta = z, gl_items = None\<rparr>\<rparr>"

lemmas region_defs = strings_region_def int32s_region_def ai_providers_region_def ai_configurations_region_def
  ca_bundle_refs_region_def persistence_configs_region_def resource_requirements_region_def tls_configs_region_def
  user_infos_region_def lifecycle_specs_region_def workspace_specs_region_def conditions_region_def
  workspace_statuses_region_def workspaces_region_def workspace_lists_region_def

section \<open>DeepCopyInto and DeepCopy of each type\<close>

type_synonym ('a, 'm, 'l, 'o) into = "'a \<Rightarrow> ('m, 'l, 'o) go_memory \<Rightarrow> 'a \<times> ('m, 'l, 'o) go_memory"
type_synonym ('m, 'l, 'o) copy_of =
  "pointer option \<Rightarrow> ('m, 'l, 'o) go_memory \<Rightarrow> pointer option \<times> ('m, 'l, 'o) go_memory"

definition AIProvider_DeepCopyInto :: "(go_ai_provider, 'm, 'l, 'o) into" where
  "AIProvider_DeepCopyInto inp m =
     (let out = inp; (models, m1) = copy_flat strings_region (gp_models inp) m
      in (out\<lparr>gp_models := models\<rparr>, m1))"

definition AIProvider_DeepCopy :: "('m, 'l, 'o) copy_of" where
  "AIProvider_DeepCopy = deep_copy ai_providers_region AIProvider_DeepCopyInto"

definition AIConfiguration_DeepCopyInto :: "(go_ai_configuration, 'm, 'l, 'o) into" where
  "AIConfiguration_DeepCopyInto inp m =
     (let out = inp;
        (provs, m1) = copy_each ai_providers_region AIProvider_DeepCopyInto (ga_providers inp) m;
        out = out\<lparr>ga_providers := provs\<rparr>;
        (namespaces, m2) = copy_flat strings_region (ga_egress_namespaces inp) m1;
        out = out\<lparr>ga_egress_namespaces := namespaces\<rparr>;
        (ports, m3) = copy_flat int32s_region (ga_egress_ports inp) m2
      in (out\<lparr>ga_egress_ports := ports\<rparr>, m3))"

definition AIConfiguration_DeepCopy :: "('m, 'l, 'o) copy_of" where
  "AIConfiguration_DeepCopy = deep_copy ai_configurations_region AIConfiguration_DeepCopyInto"

definition CABundleRef_DeepCopyInto :: "(ca_bundle_ref, 'm, 'l, 'o) into" where
  "CABundleRef_DeepCopyInto inp m = (inp, m)"

definition CABundleRef_DeepCopy :: "('m, 'l, 'o) copy_of" where
  "CABundleRef_DeepCopy = deep_copy ca_bundle_refs_region CABundleRef_DeepCopyInto"

definition PersistenceConfig_DeepCopyInto :: "(persistence_config, 'm, 'l, 'o) into" where
  "PersistenceConfig_DeepCopyInto inp m = (inp, m)"

definition PersistenceConfig_DeepCopy :: "('m, 'l, 'o) copy_of" where
  "PersistenceConfig_DeepCopy = deep_copy persistence_configs_region PersistenceConfig_DeepCopyInto"

definition ResourceRequirements_DeepCopyInto :: "(resource_requirements, 'm, 'l, 'o) into" where
  "ResourceRequirements_DeepCopyInto inp m = (inp, m)"

definition ResourceRequirements_DeepCopy :: "('m, 'l, 'o) copy_of" where
  "ResourceRequirements_DeepCopy = deep_copy resource_requirements_region ResourceRequirements_DeepCopyInto"

text \<open>\<open>*out = new(CABundleRef); **out = **in\<close>: the pointer is replaced by one to a copy of its struct.\<close>

definition TLSConfig_DeepCopyInto :: "(go_tls_config, 'm, 'l, 'o) into" where
  "TLSConfig_DeepCopyInto inp m =
     (let out = inp in case gt_custom_ca_bundle inp of
        None \<Rightarrow> (out, m)
      | Some src \<Rightarrow> let (dst, m1) = new_cell ca_bundle_refs_region m;
                        m2 = store ca_bundle_refs_region dst (load ca_bundle_refs_region m1 src) m1
                    in (out\<lparr>gt_custom_ca_bundle := Some dst\<rparr>, m2))"

definition TLSConfig_DeepCopy :: "('m, 'l, 'o) copy_of" where
  "TLSConfig_DeepCopy = deep_copy tls_configs_region TLSConfig_DeepCopyInto"

definition UserInfo_DeepCopyInto :: "(user_info, 'm, 'l, 'o) into" where
  "UserInfo_DeepCopyInto inp m = (inp, m)"

definition UserInfo_DeepCopy :: "('m, 'l, 'o) copy_of" where
  "UserInfo_DeepCopy = deep_copy user_infos_region UserInfo_DeepCopyInto"

definition WorkspaceLifecycleSpec_DeepCopyInto :: "(lifecycle_spec, 'm, 'l, 'o) into" where
  "WorkspaceLifecycleSpec_DeepCopyInto inp m = (inp, m)"

definition WorkspaceLifecycleSpec_DeepCopy :: "('m, 'l, 'o) copy_of" where
  "WorkspaceLifecycleSpec_DeepCopy = deep_copy lifecycle_specs_region WorkspaceLifecycleSpec_DeepCopyInto"

definition WorkspaceSpec_DeepCopyInto :: "(go_workspace_spec, 'm, 'l, 'o) into" where
  "WorkspaceSpec_DeepCopyInto inp m =
     (let out = inp;
        out = out\<lparr>gs_user := gs_user inp\<rparr>;
        out = out\<lparr>gs_resources := gs_resources inp\<rparr>;
        (ai, m1) = AIConfiguration_DeepCopyInto (gs_ai_config inp) m;
        out = out\<lparr>gs_ai_config := ai\<rparr>;
        out = out\<lparr>gs_persistence := gs_persistence inp\<rparr>;
        (tls, m2) = TLSConfig_DeepCopyInto (gs_tls inp) m1;
        out = out\<lparr>gs_tls := tls\<rparr>
      in (out\<lparr>gs_lifecycle := gs_lifecycle inp\<rparr>, m2))"

definition WorkspaceSpec_DeepCopy :: "('m, 'l, 'o) copy_of" where
  "WorkspaceSpec_DeepCopy = deep_copy workspace_specs_region WorkspaceSpec_DeepCopyInto"

definition WorkspaceStatus_DeepCopyInto :: "('m, 'l, 'o) foreign \<Rightarrow> (go_workspace_status, 'm, 'l, 'o) into" where
  "WorkspaceStatus_DeepCopyInto F inp m =
     (let out = inp;
        (conds, m1) = copy_each conditions_region (Condition_DeepCopyInto F) (gu_conditions inp) m;
        out = out\<lparr>gu_conditions := conds\<rparr>;
        (accessed, m2) = Time_DeepCopyInto F (gu_last_accessed inp) m1
      in (out\<lparr>gu_last_accessed := accessed\<rparr>, m2))"

definition WorkspaceStatus_DeepCopy :: "('m, 'l, 'o) foreign \<Rightarrow> ('m, 'l, 'o) copy_of" where
  "WorkspaceStatus_DeepCopy F = deep_copy workspace_statuses_region (WorkspaceStatus_DeepCopyInto F)"

definition Workspace_DeepCopyInto :: "('m, 'l, 'o) foreign \<Rightarrow> ('m go_workspace, 'm, 'l, 'o) into" where
  "Workspace_DeepCopyInto F inp m =
     (let out = inp;
        out = out\<lparr>gw_type := gw_type inp\<rparr>;
        (mt, m1) = ObjectMeta_DeepCopyInto F (gw_meta inp) m;
        out = out\<lparr>gw_meta := mt\<rparr>;
        (spec, m2) = WorkspaceSpec_DeepCopyInto (gw_spec inp) m1;
        out = out\<lparr>gw_spec := spec\<rparr>;
        (status, m3) = WorkspaceStatus_DeepCopyInto F (gw_status inp) m2
      in (out\<lparr>gw_status := status\<rparr>, m3))"

definition Workspace_DeepCopy :: "('m, 'l, 'o) foreign \<Rightarrow> ('m, 'l, 'o) copy_of" where
  "Workspace_DeepCopy F = deep_copy (workspaces_region (ObjectMeta_zero F)) (Workspace_DeepCopyInto F)"

definition WorkspaceList_DeepCopyInto :: "('m, 'l, 'o) foreign \<Rightarrow> ('l go_workspace_list, 'm, 'l, 'o) into" where
  "WorkspaceList_DeepCopyInto F inp m =
     (let out = inp;
        out = out\<lparr>gl_type := gl_type inp\<rparr>;
        (mt, m1) = ListMeta_DeepCopyInto F (gl_meta inp) m;
        out = out\<lparr>gl_meta := mt\<rparr>;
        (items, m2) = copy_each (workspaces_region (ObjectMeta_zero F)) (Workspace_DeepCopyInto F) (gl_items inp) m1
      in (out\<lparr>gl_items := items\<rparr>, m2))"

definition WorkspaceList_DeepCopy :: "('m, 'l, 'o) foreign \<Rightarrow> ('m, 'l, 'o) copy_of" where
  "WorkspaceList_DeepCopy F = deep_copy (workspace_lists_region (ListMeta_zero F)) (WorkspaceList_DeepCopyInto F)"

text \<open>
  \<open>DeepCopyObject\<close> returns a \<open>runtime.Object\<close>: the nil interface for a nil copy, never an interface
  that holds a nil pointer.
\<close>

datatype runtime_object = Nil_Interface | Holds_Workspace "pointer option" | Holds_WorkspaceList "pointer option"

definition Workspace_DeepCopyObject ::
  "('m, 'l, 'o) foreign \<Rightarrow> pointer option \<Rightarrow> ('m, 'l, 'o) go_memory \<Rightarrow> runtime_object \<times> ('m, 'l, 'o) go_memory"
where
  "Workspace_DeepCopyObject F inp m =
     (let (c, m1) = Workspace_DeepCopy F inp m
      in if c \<noteq> None then (Holds_Workspace c, m1) else (Nil_Interface, m1))"

definition WorkspaceList_DeepCopyObject ::
  "('m, 'l, 'o) foreign \<Rightarrow> pointer option \<Rightarrow> ('m, 'l, 'o) go_memory \<Rightarrow> runtime_object \<times> ('m, 'l, 'o) go_memory"
where
  "WorkspaceList_DeepCopyObject F inp m =
     (let (c, m1) = WorkspaceList_DeepCopy F inp m
      in if c \<noteq> None then (Holds_WorkspaceList c, m1) else (Nil_Interface, m1))"

end
