(* ===== verification/Deepcopy_Props.thy ===== *)
theory Deepcopy_Props
  imports Deepcopy
begin

text \<open>
  What the generated deep copies promise. \<open>copier\<close> is the contract of one copying function: the
  memory only grows, the copy has the value of the original, and every address the copy reaches is
  new. Slices, pointers and structs of copiers are copiers, which gives the contract of every API
  type, and with it that original and copy share nothing.
\<close>

section \<open>Memory that grows\<close>

definition extends :: "'c memory \<Rightarrow> 'c memory \<Rightarrow> bool" where
  "extends m m' = (mem_next m \<le> mem_next m' \<and> (\<forall>a < mem_next m. mem_cells m' a = mem_cells m a))"

definition agree :: "addr set \<Rightarrow> 'c memory \<Rightarrow> 'c memory \<Rightarrow> bool" where
  "agree A m m' = (\<forall>a \<in> A. mem_cells m' a = mem_cells m a)"

lemma extends_refl [simp]: "extends m m"
  by (simp add: extends_def)

lemma extends_trans: "extends m m1 \<Longrightarrow> extends m1 m2 \<Longrightarrow> extends m m2"
  by (auto simp: extends_def)

lemma extends_next: "extends m m' \<Longrightarrow> mem_next m \<le> mem_next m'"
  by (simp add: extends_def)

lemma extends_agree: "extends m m' \<Longrightarrow> A \<subseteq> {..<mem_next m} \<Longrightarrow> agree A m m'"
  by (auto simp: extends_def agree_def)

lemma agree_mono: "agree B m m' \<Longrightarrow> A \<subseteq> B \<Longrightarrow> agree A m m'"
  by (auto simp: agree_def)

lemma agree_Un [simp]: "agree (A \<union> B) m m' = (agree A m m' \<and> agree B m m')"
  by (auto simp: agree_def)

lemma agree_empty [simp]: "agree {} m m'"
  by (simp add: agree_def)

lemma agree_insert [simp]: "agree (insert a A) m m' = (mem_cells m' a = mem_cells m a \<and> agree A m m')"
  by (auto simp: agree_def)

lemma agree_UN: "agree (\<Union>x \<in> S. f x) m m' = (\<forall>x \<in> S. agree (f x) m m')"
  by (auto simp: agree_def)

lemma put_array_next [simp]: "mem_next (put_array r a xs m) = mem_next m"
  by (simp add: put_array_def)

lemma put_array_cells [simp]: "mem_cells (put_array r a xs m) = (mem_cells m)(a := rg_wrap r xs)"
  by (simp add: put_array_def)

lemma extends_put: "extends m m' \<Longrightarrow> mem_next m \<le> a \<Longrightarrow> extends m (put_array r a xs m')"
  by (auto simp: extends_def)

section \<open>Regions\<close>

text \<open>The law of a region: an array put into a cell is the array read from it.\<close>

locale region_laws =
  fixes r :: "('c, 'a) region"
  assumes open_wrap [simp]: "rg_open r (rg_wrap r xs) = Some xs"
begin

lemma array_at_put [simp]: "array_at r (put_array r a xs m) b = (if b = a then xs else array_at r m b)"
  by (simp add: array_at_def)

end

interpretation strings: region_laws strings_region by unfold_locales (simp add: region_defs)
interpretation int32s: region_laws int32s_region by unfold_locales (simp add: region_defs)
interpretation ai_providers: region_laws ai_providers_region by unfold_locales (simp add: region_defs)
interpretation ai_configurations: region_laws ai_configurations_region by unfold_locales (simp add: region_defs)
interpretation ca_bundle_refs: region_laws ca_bundle_refs_region by unfold_locales (simp add: region_defs)
interpretation persistence_configs: region_laws persistence_configs_region by unfold_locales (simp add: region_defs)
interpretation resource_requirements: region_laws resource_requirements_region
  by unfold_locales (simp add: region_defs)
interpretation tls_configs: region_laws tls_configs_region by unfold_locales (simp add: region_defs)
interpretation user_infos: region_laws user_infos_region by unfold_locales (simp add: region_defs)
interpretation lifecycle_specs: region_laws lifecycle_specs_region by unfold_locales (simp add: region_defs)
interpretation workspace_specs: region_laws workspace_specs_region by unfold_locales (simp add: region_defs)
interpretation conditions: region_laws conditions_region by unfold_locales (simp add: region_defs)
interpretation workspace_statuses: region_laws workspace_statuses_region by unfold_locales (simp add: region_defs)
interpretation workspaces: region_laws "workspaces_region z" for z by unfold_locales (simp add: region_defs)
interpretation workspace_lists: region_laws "workspace_lists_region z" for z by unfold_locales (simp add: region_defs)

section \<open>The contract of a copying function\<close>

text \<open>
  \<open>value m x\<close> is what \<open>x\<close> stands for in memory \<open>m\<close>, \<open>foot m x\<close> the addresses it reaches, and
  \<open>ok m x\<close> that they are allocated and typed, which the Go runtime guarantees of every value.
\<close>

locale copier =
  fixes copy :: "'a \<Rightarrow> 'c memory \<Rightarrow> 'a \<times> 'c memory"
    and val :: "'c memory \<Rightarrow> 'a \<Rightarrow> 'v"
    and foot :: "'c memory \<Rightarrow> 'a \<Rightarrow> addr set"
    and ok :: "'c memory \<Rightarrow> 'a \<Rightarrow> bool"
  assumes allocated: "ok m x \<Longrightarrow> foot m x \<subseteq> {..<mem_next m}"
    and val_local: "agree (foot m x) m m' \<Longrightarrow> val m' x = val m x"
    and foot_local: "agree (foot m x) m m' \<Longrightarrow> foot m' x = foot m x"
    and ok_local: "ok m x \<Longrightarrow> agree (foot m x) m m' \<Longrightarrow> mem_next m \<le> mem_next m' \<Longrightarrow> ok m' x"
    and grows: "ok m x \<Longrightarrow> copy x m = (y, m') \<Longrightarrow> extends m m'"
    and copy_ok: "ok m x \<Longrightarrow> copy x m = (y, m') \<Longrightarrow> ok m' y"
    and same_val: "ok m x \<Longrightarrow> copy x m = (y, m') \<Longrightarrow> val m' y = val m x"
    and fresh: "ok m x \<Longrightarrow> copy x m = (y, m') \<Longrightarrow> foot m' y \<subseteq> {mem_next m..<mem_next m'}"
begin

lemma kept:
  assumes "ok m x" and "extends m m'"
  shows "val m' x = val m x" and "foot m' x = foot m x" and "ok m' x"
proof -
  have "agree (foot m x) m m'" using assms allocated extends_agree by blast
  then show "val m' x = val m x" "foot m' x = foot m x" "ok m' x"
    using assms val_local foot_local ok_local extends_next by blast+
qed

text \<open>Whatever is written to the memory of the original, the copy keeps its value, and conversely.\<close>

lemma copy_isolated:
  assumes "ok m x" and "copy x m = (y, m')" and "agree {mem_next m..<mem_next m'} m' n"
  shows "val n y = val m x"
  using assms val_local [of m' y n] same_val fresh agree_mono by metis

lemma original_isolated:
  assumes "ok m x" and "copy x m = (y, m')" and "agree {..<mem_next m} m' n"
  shows "val n x = val m x"
proof -
  have "val m' x = val m x" "foot m' x = foot m x" using assms kept grows by blast+
  then show ?thesis using val_local [of m' x n] assms allocated agree_mono by metis
qed

end

text \<open>A type without references is copied by assignment.\<close>

lemma copier_assign: "copier (\<lambda>x m. (x, m)) (\<lambda>m x. x) (\<lambda>m x. {}) (\<lambda>m x. True)"
  by unfold_locales auto

text \<open>Two copies one after the other.\<close>

definition copy_pair ::
  "('a \<Rightarrow> 'c memory \<Rightarrow> 'a \<times> 'c memory) \<Rightarrow> ('b \<Rightarrow> 'c memory \<Rightarrow> 'b \<times> 'c memory) \<Rightarrow>
     'a \<times> 'b \<Rightarrow> 'c memory \<Rightarrow> ('a \<times> 'b) \<times> 'c memory" where
  "copy_pair f g p m = (let (x, m1) = f (fst p) m; (y, m2) = g (snd p) m1 in ((x, y), m2))"

lemma copier_pair:
  assumes f: "copier f vf ff kf" and g: "copier g vg fg kg"
  shows "copier (copy_pair f g) (\<lambda>m p. (vf m (fst p), vg m (snd p))) (\<lambda>m p. ff m (fst p) \<union> fg m (snd p))
           (\<lambda>m p. kf m (fst p) \<and> kg m (snd p))"
proof
  fix m m' p q
  assume k: "kf m (fst p) \<and> kg m (snd p)" and e: "copy_pair f g p m = (q, m')"
  obtain x m1 y where 1: "f (fst p) m = (x, m1)" and 2: "g (snd p) m1 = (y, m')" and q: "q = (x, y)"
    using e by (auto simp: copy_pair_def split: prod.splits)
  have e1: "extends m m1" using copier.grows [OF f] k 1 by blast
  have k2: "kg m1 (snd p)" "vg m1 (snd p) = vg m (snd p)" using copier.kept [OF g _ e1] k by blast+
  have e2: "extends m1 m'" using copier.grows [OF g] k2 2 by blast
  have x: "kf m1 x" "vf m1 x = vf m (fst p)" "ff m1 x \<subseteq> {mem_next m..<mem_next m1}"
    using copier.copy_ok [OF f] copier.same_val [OF f] copier.fresh [OF f] k 1 by blast+
  have y: "kg m' y" "vg m' y = vg m1 (snd p)" "fg m' y \<subseteq> {mem_next m1..<mem_next m'}"
    using copier.copy_ok [OF g] copier.same_val [OF g] copier.fresh [OF g] k2 2 by blast+
  note x' = copier.kept [OF f x(1) e2]
  show "extends m m'" using e1 e2 by (rule extends_trans)
  show "kf m' (fst q) \<and> kg m' (snd q)" using x' y q by simp
  show "(vf m' (fst q), vg m' (snd q)) = (vf m (fst p), vg m (snd p))" using x x' y k2 q by simp
  show "ff m' (fst q) \<union> fg m' (snd q) \<subseteq> {mem_next m..<mem_next m'}"
    using x x' y q extends_next [OF e1] extends_next [OF e2] by auto
qed (auto simp: copier.val_local [OF f] copier.val_local [OF g] copier.foot_local [OF f] copier.foot_local [OF g]
    intro: copier.ok_local [OF f] copier.ok_local [OF g] dest: copier.allocated [OF f] copier.allocated [OF g])

text \<open>A struct whose references are the part \<open>get\<close> reads and \<open>put\<close> replaces.\<close>

lemma copier_struct:
  assumes f: "copier f vf ff kf" and get_put: "\<And>x b. get (put x b) = b" and rest_put: "\<And>x b. rest (put x b) = rest x"
    and copy: "\<And>x m. copy x m = (let (b, m') = f (get x) m in (put x b, m'))"
  shows "copier copy (\<lambda>m x. v (rest x) (vf m (get x))) (\<lambda>m x. ff m (get x)) (\<lambda>m x. kf m (get x))"
proof
  fix m m' x y
  assume k: "kf m (get x)" and "copy x m = (y, m')"
  then obtain b where b: "f (get x) m = (b, m')" and y: "y = put x b" by (auto simp: copy split: prod.splits)
  show "extends m m'" by (rule copier.grows [OF f k b])
  show "kf m' (get y)" using copier.copy_ok [OF f k b] by (simp add: y get_put)
  show "v (rest y) (vf m' (get y)) = v (rest x) (vf m (get x))"
    using copier.same_val [OF f k b] by (simp add: y get_put rest_put)
  show "ff m' (get y) \<subseteq> {mem_next m..<mem_next m'}" using copier.fresh [OF f k b] by (simp add: y get_put)
qed (simp_all add: copier.val_local [OF f] copier.foot_local [OF f] copier.ok_local [OF f] copier.allocated [OF f])

section \<open>Slices\<close>

definition slice_ok :: "('c, 'a) region \<Rightarrow> 'c memory \<Rightarrow> slice \<Rightarrow> bool" where
  "slice_ok r m s = (sl_array s < mem_next m \<and> sl_len s \<le> sl_cap s
     \<and> sl_off s + sl_cap s \<le> length (array_at r m (sl_array s)))"

definition flat_val :: "('c, 'a) region \<Rightarrow> 'c memory \<Rightarrow> slice option \<Rightarrow> 'a list option" where
  "flat_val r m s = map_option (elems r m) s"

definition flat_foot :: "'c memory \<Rightarrow> slice option \<Rightarrow> addr set" where
  "flat_foot m s = (case s of None \<Rightarrow> {} | Some sl \<Rightarrow> {sl_array sl})"

definition flat_ok :: "('c, 'a) region \<Rightarrow> 'c memory \<Rightarrow> slice option \<Rightarrow> bool" where
  "flat_ok r m s = (case s of None \<Rightarrow> True | Some sl \<Rightarrow> slice_ok r m sl)"

definition each_val ::
  "('c, 'a) region \<Rightarrow> ('c memory \<Rightarrow> 'a \<Rightarrow> 'v) \<Rightarrow> 'c memory \<Rightarrow> slice option \<Rightarrow> 'v list option" where
  "each_val r v m s = map_option (\<lambda>sl. map (v m) (elems r m sl)) s"

definition each_foot ::
  "('c, 'a) region \<Rightarrow> ('c memory \<Rightarrow> 'a \<Rightarrow> addr set) \<Rightarrow> 'c memory \<Rightarrow> slice option \<Rightarrow> addr set" where
  "each_foot r f m s = (case s of None \<Rightarrow> {} | Some sl \<Rightarrow> insert (sl_array sl) (\<Union>x \<in> set (elems r m sl). f m x))"

definition each_ok ::
  "('c, 'a) region \<Rightarrow> ('c memory \<Rightarrow> 'a \<Rightarrow> bool) \<Rightarrow> 'c memory \<Rightarrow> slice option \<Rightarrow> bool" where
  "each_ok r k m s = (case s of None \<Rightarrow> True | Some sl \<Rightarrow> slice_ok r m sl \<and> (\<forall>x \<in> set (elems r m sl). k m x))"

definition pointer_val ::
  "('c, 'a) region \<Rightarrow> ('c memory \<Rightarrow> 'a \<Rightarrow> 'v) \<Rightarrow> 'c memory \<Rightarrow> pointer option \<Rightarrow> 'v option" where
  "pointer_val r v m p = map_option (\<lambda>q. v m (load r m q)) p"

definition pointer_foot ::
  "('c, 'a) region \<Rightarrow> ('c memory \<Rightarrow> 'a \<Rightarrow> addr set) \<Rightarrow> 'c memory \<Rightarrow> pointer option \<Rightarrow> addr set" where
  "pointer_foot r f m p = (case p of None \<Rightarrow> {} | Some q \<Rightarrow> insert (pt_array q) (f m (load r m q)))"

definition pointer_ok ::
  "('c, 'a) region \<Rightarrow> ('c memory \<Rightarrow> 'a \<Rightarrow> bool) \<Rightarrow> 'c memory \<Rightarrow> pointer option \<Rightarrow> bool" where
  "pointer_ok r k m p = (case p of None \<Rightarrow> True
     | Some q \<Rightarrow> pt_array q < mem_next m \<and> pt_index q < length (array_at r m (pt_array q)) \<and> k m (load r m q))"

lemmas pointer_defs = pointer_val_def pointer_foot_def pointer_ok_def

lemma array_at_cong: "mem_cells m' a = mem_cells m a \<Longrightarrow> array_at r m' a = array_at r m a"
  by (simp add: array_at_def)

lemma elems_cong: "mem_cells m' (sl_array s) = mem_cells m (sl_array s) \<Longrightarrow> elems r m' s = elems r m s"
  by (simp add: elems_def array_at_def)

lemma slice_ok_cong:
  "slice_ok r m s \<Longrightarrow> mem_cells m' (sl_array s) = mem_cells m (sl_array s) \<Longrightarrow> mem_next m \<le> mem_next m' \<Longrightarrow> slice_ok r m' s"
  by (auto simp: slice_ok_def array_at_def)

lemma elems_length: "slice_ok r m s \<Longrightarrow> length (elems r m s) = sl_len s"
  by (auto simp: slice_ok_def elems_def)

context region_laws
begin

lemma make_slice:
  assumes "make_slice r n m = (s, m')"
  shows "extends m m'" and "sl_array s = mem_next m" and "mem_next m' = mem_next m + 1"
    and "sl_off s = 0" and "sl_len s = n" and "sl_cap s = n" and "array_at r m' (mem_next m) = replicate n (rg_zero r)"
  using assms by (auto simp: make_slice_def extends_def)

lemma copy_flat_Some:
  assumes ok: "slice_ok r m src" and c: "copy_flat r (Some src) m = (y, m')"
  obtains dst where "y = Some dst" "extends m m'" "sl_array dst = mem_next m" "mem_next m' = mem_next m + 1"
    "slice_ok r m' dst" "elems r m' dst = elems r m src"
proof -
  obtain dst m1 where mk: "make_slice r (sl_len src) m = (dst, m1)" by fastforce
  note d = make_slice [OF mk]
  have y: "y = Some dst" and m': "m' = copy_elems r dst src m1" using c mk by (auto simp: copy_flat_def)
  have src: "elems r m1 src = elems r m src"
    using ok d(1) by (intro elems_cong) (auto simp: slice_ok_def extends_def)
  have arr: "array_at r m' (mem_next m) = elems r m src"
    using d elems_length [OF ok] by (simp add: m' copy_elems_def Let_def src)
  have next': "mem_next m' = mem_next m + 1" using d by (simp add: m' copy_elems_def Let_def)
  show ?thesis
  proof (rule that [of dst])
    show "extends m m'" using d(1,2) by (simp add: m' copy_elems_def Let_def extends_put)
    show "slice_ok r m' dst" "elems r m' dst = elems r m src"
      using d next' arr elems_length [OF ok] by (auto simp: slice_ok_def elems_def)
  qed (use y d next' in auto)
qed

lemma copier_flat: "copier (copy_flat r) (flat_val r) flat_foot (flat_ok r)"
proof
  fix m m' s y
  assume ok: "flat_ok r m s" and c: "copy_flat r s m = (y, m')"
  have "extends m m' \<and> flat_ok r m' y \<and> flat_val r m' y = flat_val r m s \<and> flat_foot m' y \<subseteq> {mem_next m..<mem_next m'}"
  proof (cases s)
    case None
    then show ?thesis using c by (simp add: copy_flat_def flat_ok_def flat_val_def flat_foot_def)
  next
    case (Some src)
    then have k: "slice_ok r m src" "copy_flat r (Some src) m = (y, m')" using ok c by (auto simp: flat_ok_def)
    obtain dst where "y = Some dst" "extends m m'" "sl_array dst = mem_next m" "mem_next m' = mem_next m + 1"
      "slice_ok r m' dst" "elems r m' dst = elems r m src" by (rule copy_flat_Some [OF k])
    then show ?thesis using Some by (simp add: flat_ok_def flat_val_def flat_foot_def)
  qed
  then show "extends m m'" "flat_ok r m' y" "flat_val r m' y = flat_val r m s" "flat_foot m' y \<subseteq> {mem_next m..<mem_next m'}"
    by blast+
qed (auto simp: flat_ok_def flat_val_def flat_foot_def slice_ok_def elems_def array_at_def split: option.splits)

end

text \<open>Slices of values that hold references themselves.\<close>

locale slice_copier = region_laws r + copier f v ft k
  for r :: "('c, 'a) region" and f :: "'a \<Rightarrow> 'c memory \<Rightarrow> 'a \<times> 'c memory"
    and v :: "'c memory \<Rightarrow> 'a \<Rightarrow> 'v" and ft :: "'c memory \<Rightarrow> 'a \<Rightarrow> addr set" and k :: "'c memory \<Rightarrow> 'a \<Rightarrow> bool"
begin

text \<open>
  One element: it is read from the original slice, copied, and put into the new array at \<open>d\<close>.
\<close>

lemma copied_element:
  assumes x: "k m0 x" and e: "extends m0 m" and c: "f x m = (y, m1)"
    and d: "d < mem_next m" and n: "mem_next m1 \<le> mem_next n"
    and a: "\<forall>a < mem_next m1. a \<noteq> d \<longrightarrow> mem_cells n a = mem_cells m1 a"
  shows "k n y" and "v n y = v m0 x" and "ft n y \<subseteq> {mem_next m..<mem_next m1}"
proof -
  note x' = kept [OF x e]
  have y: "k m1 y" "v m1 y = v m0 x" "ft m1 y \<subseteq> {mem_next m..<mem_next m1}"
    using copy_ok same_val fresh x' c by metis+
  then have ag: "agree (ft m1 y) m1 n" using a d by (auto simp: agree_def subset_iff)
  then show "k n y" "v n y = v m0 x" "ft n y \<subseteq> {mem_next m..<mem_next m1}"
    using y ok_local [OF _ ag n] val_local [OF ag] foot_local [OF ag] by auto
qed

lemma copy_loop:
  assumes "extends m0 m" and "sl_off dst = 0" and "mem_next m0 \<le> sl_array dst" and "sl_array dst < mem_next m"
    and "slice_ok r m0 src" and "\<forall>x \<in> set (elems r m0 src). k m0 x"
    and "length (array_at r m (sl_array dst)) = sl_len src" and "set is \<subseteq> {..<sl_len src}" and "distinct is"
    and "m' = copy_loop r f src dst is m"
  shows "mem_next m \<le> mem_next m' \<and> (\<forall>a < mem_next m. a \<noteq> sl_array dst \<longrightarrow> mem_cells m' a = mem_cells m a)
     \<and> length (array_at r m' (sl_array dst)) = sl_len src
     \<and> (\<forall>i. i \<notin> set is \<longrightarrow> array_at r m' (sl_array dst) ! i = array_at r m (sl_array dst) ! i)
     \<and> (\<forall>i \<in> set is. k m' (array_at r m' (sl_array dst) ! i)
          \<and> v m' (array_at r m' (sl_array dst) ! i) = v m0 (elems r m0 src ! i)
          \<and> ft m' (array_at r m' (sl_array dst) ! i) \<subseteq> {mem_next m..<mem_next m'})"
  using assms
proof (induction "is" arbitrary: m)
  case Nil
  then show ?case by simp
next
  case (Cons i "is")
  let ?d = "sl_array dst"
  have src: "elems r m src = elems r m0 src"
    using Cons.prems(1,5) by (intro elems_cong) (auto simp: slice_ok_def extends_def)
  obtain y m1 where c: "f (elems r m0 src ! i) m = (y, m1)" by fastforce
  define m2 where "m2 = set_elem r dst i y m1"
  have x: "k m0 (elems r m0 src ! i)" using Cons.prems(5,6,8) by (simp add: elems_length)
  have e1: "extends m m1" using grows [OF _ c] kept(3) [OF x Cons.prems(1)] by blast
  have "array_at r m1 ?d = array_at r m ?d" using e1 Cons.prems(4) by (intro array_at_cong) (simp add: extends_def)
  then have m2: "mem_next m2 = mem_next m1" "\<forall>a. a \<noteq> ?d \<longrightarrow> mem_cells m2 a = mem_cells m1 a"
    "array_at r m2 ?d = (array_at r m ?d)[i := y]"
    using Cons.prems(2) by (auto simp: m2_def set_elem_def)
  have e2: "extends m0 m2" using extends_trans [OF Cons.prems(1) e1] Cons.prems(2,3)
    by (simp add: m2_def set_elem_def extends_put)
  have IH: "mem_next m2 \<le> mem_next m' \<and> (\<forall>a < mem_next m2. a \<noteq> ?d \<longrightarrow> mem_cells m' a = mem_cells m2 a)
     \<and> length (array_at r m' ?d) = sl_len src
     \<and> (\<forall>j. j \<notin> set is \<longrightarrow> array_at r m' ?d ! j = array_at r m2 ?d ! j)
     \<and> (\<forall>j \<in> set is. k m' (array_at r m' ?d ! j) \<and> v m' (array_at r m' ?d ! j) = v m0 (elems r m0 src ! j)
          \<and> ft m' (array_at r m' ?d ! j) \<subseteq> {mem_next m2..<mem_next m'})"
    using Cons.prems e2 m2 extends_next [OF e1] by (intro Cons.IH) (auto simp: src c m2_def)
  have yi: "array_at r m' ?d ! i = y" using IH m2(3) Cons.prems(7,8,9) by simp
  have y: "k m' y" "v m' y = v m0 (elems r m0 src ! i)" "ft m' y \<subseteq> {mem_next m..<mem_next m1}"
    using copied_element [OF x Cons.prems(1) c Cons.prems(4)] IH m2(1,2) by metis+
  have le: "mem_next m \<le> mem_next m1" "mem_next m1 \<le> mem_next m'" using extends_next [OF e1] IH m2(1) by auto
  have rest: "\<forall>a < mem_next m. a \<noteq> ?d \<longrightarrow> mem_cells m' a = mem_cells m a"
    using IH m2(1,2) e1 by (auto simp: extends_def)
  have others: "\<forall>j. j \<notin> set (i # is) \<longrightarrow> array_at r m' ?d ! j = array_at r m ?d ! j"
    using IH m2(3) by simp
  have "{mem_next m2..<mem_next m'} \<subseteq> {mem_next m..<mem_next m'}" "{mem_next m..<mem_next m1} \<subseteq> {mem_next m..<mem_next m'}"
    using le m2(1) by auto
  with IH y(3) have "ft m' y \<subseteq> {mem_next m..<mem_next m'}"
    "\<forall>j \<in> set is. ft m' (array_at r m' ?d ! j) \<subseteq> {mem_next m..<mem_next m'}" by blast+
  then have "\<forall>j \<in> set (i # is). k m' (array_at r m' ?d ! j) \<and> v m' (array_at r m' ?d ! j) = v m0 (elems r m0 src ! j)
      \<and> ft m' (array_at r m' ?d ! j) \<subseteq> {mem_next m..<mem_next m'}"
    using IH y(1,2) yi by simp
  then show ?case using IH le rest others by simp
qed

lemma copy_each_Some:
  assumes ok: "slice_ok r m src" "\<forall>x \<in> set (elems r m src). k m x" and c: "copy_each r f (Some src) m = (y, m')"
  obtains dst where "y = Some dst" "extends m m'" "mem_next m < mem_next m'" "sl_array dst = mem_next m"
    "slice_ok r m' dst" "map (v m') (elems r m' dst) = map (v m) (elems r m src)"
    "\<forall>x \<in> set (elems r m' dst). k m' x \<and> ft m' x \<subseteq> {mem_next m..<mem_next m'}"
proof -
  obtain dst m1 where mk: "make_slice r (sl_len src) m = (dst, m1)" by fastforce
  note d = make_slice [OF mk]
  have y: "y = Some dst" and m': "m' = copy_loop r f src dst [0..<sl_len src] m1"
    using c mk by (auto simp: copy_each_def)
  let ?a = "array_at r m' (sl_array dst)"
  have L: "mem_next m1 \<le> mem_next m'" "\<forall>a < mem_next m1. a \<noteq> sl_array dst \<longrightarrow> mem_cells m' a = mem_cells m1 a"
    "length ?a = sl_len src" "\<forall>i < sl_len src. k m' (?a ! i) \<and> v m' (?a ! i) = v m (elems r m src ! i)
        \<and> ft m' (?a ! i) \<subseteq> {mem_next m1..<mem_next m'}"
    using copy_loop [OF d(1) d(4) _ _ ok _ _ _ m'] d by (simp_all add: atLeast_upt lessThan_atLeast0)
  have el: "elems r m' dst = ?a" using d L(3) by (simp add: elems_def)
  show ?thesis
  proof (rule that [OF y])
    show "extends m m'" using d(1,2,3) L(1,2) by (auto simp: extends_def)
    show "slice_ok r m' dst" using d L(1,3) by (auto simp: slice_ok_def)
    show "map (v m') (elems r m' dst) = map (v m) (elems r m src)"
      using L(3,4) elems_length [OF ok(1)] by (intro nth_equalityI) (auto simp: el)
    show "\<forall>x \<in> set (elems r m' dst). k m' x \<and> ft m' x \<subseteq> {mem_next m..<mem_next m'}"
    proof
      fix x assume "x \<in> set (elems r m' dst)"
      then obtain i where "i < sl_len src" "x = ?a ! i" using L(3) by (auto simp: el in_set_conv_nth)
      then have "k m' x" "ft m' x \<subseteq> {mem_next m1..<mem_next m'}" using L(4) by auto
      then show "k m' x \<and> ft m' x \<subseteq> {mem_next m..<mem_next m'}" using d(3) by auto
    qed
  qed (use d L(1) in auto)
qed

lemma each_local:
  assumes "agree (each_foot r ft m (Some s)) m m'"
  shows "elems r m' s = elems r m s" and "x \<in> set (elems r m s) \<Longrightarrow> agree (ft m x) m m'"
proof -
  have "mem_cells m' (sl_array s) = mem_cells m (sl_array s)" using assms by (simp add: each_foot_def)
  then show "elems r m' s = elems r m s" by (rule elems_cong)
  show "x \<in> set (elems r m s) \<Longrightarrow> agree (ft m x) m m'" using assms by (simp add: each_foot_def agree_UN)
qed

lemma copier_each: "copier (copy_each r f) (each_val r v) (each_foot r ft) (each_ok r k)"
proof
  fix m m' s y
  assume ok: "each_ok r k m s" and c: "copy_each r f s m = (y, m')"
  have "extends m m' \<and> each_ok r k m' y \<and> each_val r v m' y = each_val r v m s \<and> each_foot r ft m' y \<subseteq> {mem_next m..<mem_next m'}"
  proof (cases s)
    case None
    then show ?thesis using c by (simp add: copy_each_def each_ok_def each_val_def each_foot_def)
  next
    case (Some src)
    then have q: "slice_ok r m src" "\<forall>x \<in> set (elems r m src). k m x" "copy_each r f (Some src) m = (y, m')"
      using ok c by (auto simp: each_ok_def)
    obtain dst where "y = Some dst" "extends m m'" "mem_next m < mem_next m'" "sl_array dst = mem_next m"
      "slice_ok r m' dst" "map (v m') (elems r m' dst) = map (v m) (elems r m src)"
      "\<forall>x \<in> set (elems r m' dst). k m' x \<and> ft m' x \<subseteq> {mem_next m..<mem_next m'}"
      by (rule copy_each_Some [OF q])
    then show ?thesis using Some by (simp add: each_ok_def each_val_def each_foot_def UN_least)
  qed
  then show "extends m m'" "each_ok r k m' y" "each_val r v m' y = each_val r v m s"
    "each_foot r ft m' y \<subseteq> {mem_next m..<mem_next m'}" by blast+
next
  fix m s
  assume "each_ok r k m s"
  then show "each_foot r ft m s \<subseteq> {..<mem_next m}"
    using allocated by (fastforce simp: each_ok_def each_foot_def slice_ok_def split: option.splits)
next
  fix m m' s
  assume ag: "agree (each_foot r ft m s) m m'"
  have el: "elems r m' sl = elems r m sl" "\<forall>x \<in> set (elems r m sl). agree (ft m x) m m'" if "s = Some sl" for sl
    using each_local ag that by blast+
  show "each_val r v m' s = each_val r v m s"
    using el val_local by (cases s) (simp_all add: each_val_def)
  show "each_foot r ft m' s = each_foot r ft m s"
  proof (cases s)
    case (Some sl)
    have "\<forall>x \<in> set (elems r m sl). ft m' x = ft m x" using el [OF Some] foot_local by blast
    then show ?thesis using Some el [OF Some] by (simp add: each_foot_def)
  qed (simp add: each_foot_def)
  assume ok: "each_ok r k m s" and le: "mem_next m \<le> mem_next m'"
  show "each_ok r k m' s"
  proof (cases s)
    case (Some sl)
    have "mem_cells m' (sl_array sl) = mem_cells m (sl_array sl)" using ag Some by (simp add: each_foot_def)
    then show ?thesis using ok Some el [OF Some] slice_ok_cong ok_local le by (fastforce simp: each_ok_def)
  qed (simp add: each_ok_def)
qed

text \<open>A pointer to such a value: \<open>DeepCopy\<close>.\<close>

lemma deep_copy_Some:
  assumes p: "pt_array p < mem_next m" "pt_index p < length (array_at r m (pt_array p))" "k m (load r m p)"
    and c: "deep_copy r f (Some p) m = (y, m')"
  obtains q where "y = Some q" "extends m m'" "mem_next m < mem_next m'" "pt_array q = mem_next m" "pt_index q = 0"
    "length (array_at r m' (mem_next m)) = 1" "k m' (load r m' q)" "v m' (load r m' q) = v m (load r m p)"
    "ft m' (load r m' q) \<subseteq> {mem_next m..<mem_next m'}"
proof -
  define q where "q = \<lparr>pt_array = mem_next m, pt_index = 0\<rparr>"
  define m1 where "m1 = put_array r (mem_next m) [rg_zero r] (m\<lparr>mem_next := mem_next m + 1\<rparr>)"
  have e: "extends m m1" and n1: "mem_next m1 = mem_next m + 1" and a1: "array_at r m1 (mem_next m) = [rg_zero r]"
    by (simp_all add: m1_def extends_def)
  have ld: "load r m1 p = load r m p"
    using e p(1) array_at_cong [of m1 "pt_array p" m r] by (simp add: load_def extends_def)
  obtain z m2 where z: "f (load r m p) m1 = (z, m2)" by fastforce
  have y: "y = Some q" and m': "m' = store r q z m2"
    using c ld z by (auto simp: deep_copy_def new_cell_def q_def m1_def)
  have e2: "extends m1 m2" using grows [OF _ z] kept(3) [OF p(3) e] by blast
  have n': "mem_next m' = mem_next m2" and a': "array_at r m' (mem_next m) = [z]"
    using a1 e2 n1 array_at_cong [of m2 "mem_next m" m1 r] by (simp_all add: m' store_def q_def extends_def)
  have cells: "\<forall>a < mem_next m2. a \<noteq> mem_next m \<longrightarrow> mem_cells m' a = mem_cells m2 a"
    by (simp add: m' store_def q_def)
  have zz: "k m' z" "v m' z = v m (load r m p)" "ft m' z \<subseteq> {mem_next m1..<mem_next m2}"
    using copied_element [OF p(3) e z _ _ cells] n1 n' by simp_all
  have lq: "load r m' q = z" using a' by (simp add: load_def q_def)
  show ?thesis
  proof (rule that [OF y])
    show "extends m m'" using e e2 cells n' n1 by (auto simp: extends_def)
    show "ft m' (load r m' q) \<subseteq> {mem_next m..<mem_next m'}" using zz(3) n1 n' by (auto simp: lq)
  qed (use zz lq a' n' n1 extends_next [OF e2] in \<open>simp_all add: q_def\<close>)
qed

lemma copier_pointer: "copier (deep_copy r f) (pointer_val r v) (pointer_foot r ft) (pointer_ok r k)"
proof
  fix m m' p y
  assume ok: "pointer_ok r k m p" and c: "deep_copy r f p m = (y, m')"
  have "extends m m' \<and> pointer_ok r k m' y \<and> pointer_val r v m' y = pointer_val r v m p
     \<and> pointer_foot r ft m' y \<subseteq> {mem_next m..<mem_next m'}"
  proof (cases p)
    case None
    then show ?thesis using c by (simp add: deep_copy_def pointer_defs)
  next
    case (Some s)
    have k: "pt_array s < mem_next m" "pt_index s < length (array_at r m (pt_array s))" "k m (load r m s)"
      "deep_copy r f (Some s) m = (y, m')" using ok c Some by (auto simp: pointer_defs)
    obtain q where "y = Some q" "extends m m'" "mem_next m < mem_next m'" "pt_array q = mem_next m" "pt_index q = 0"
      "length (array_at r m' (mem_next m)) = 1" "k m' (load r m' q)" "v m' (load r m' q) = v m (load r m s)"
      "ft m' (load r m' q) \<subseteq> {mem_next m..<mem_next m'}" by (rule deep_copy_Some [OF k])
    then show ?thesis using Some by (simp add: pointer_defs)
  qed
  then show "extends m m'" "pointer_ok r k m' y" "pointer_val r v m' y = pointer_val r v m p"
    "pointer_foot r ft m' y \<subseteq> {mem_next m..<mem_next m'}" by blast+
next
  fix m p
  assume "pointer_ok r k m p"
  then show "pointer_foot r ft m p \<subseteq> {..<mem_next m}"
    using allocated by (cases p) (auto simp: pointer_defs)
next
  fix m m' p
  assume ag: "agree (pointer_foot r ft m p) m m'"
  have a: "load r m' q = load r m q" "array_at r m' (pt_array q) = array_at r m (pt_array q)"
    "agree (ft m (load r m q)) m m'" if "p = Some q" for q
    using ag that by (auto simp: pointer_defs load_def array_at_def)
  show "pointer_val r v m' p = pointer_val r v m p"
    using a val_local by (cases p) (simp_all add: pointer_defs)
  show "pointer_foot r ft m' p = pointer_foot r ft m p"
    using a foot_local by (cases p) (simp_all add: pointer_defs)
  assume "pointer_ok r k m p" and "mem_next m \<le> mem_next m'"
  then show "pointer_ok r k m' p" using a by (cases p) (auto simp: pointer_defs intro: ok_local)
qed

end

section \<open>The contract of every API type\<close>

subsection \<open>Structs without references\<close>

lemmas assigned_defs = CABundleRef_DeepCopyInto_def PersistenceConfig_DeepCopyInto_def
  ResourceRequirements_DeepCopyInto_def UserInfo_DeepCopyInto_def WorkspaceLifecycleSpec_DeepCopyInto_def

definition self :: "'c memory \<Rightarrow> 'a \<Rightarrow> 'a" where
  "self m x = x"

definition nothing :: "'c memory \<Rightarrow> 'a \<Rightarrow> addr set" where
  "nothing m x = {}"

definition always :: "'c memory \<Rightarrow> 'a \<Rightarrow> bool" where
  "always m x = True"

lemma copier_assigned: "(\<And>x m. f x m = (x, m)) \<Longrightarrow> copier f self nothing always"
  by unfold_locales (auto simp: self_def nothing_def always_def)

interpretation ca_bundle_ref: slice_copier ca_bundle_refs_region CABundleRef_DeepCopyInto self nothing always
  by (intro slice_copier.intro copier_assigned ca_bundle_refs.region_laws_axioms) (simp add: assigned_defs)

interpretation persistence_config: slice_copier persistence_configs_region PersistenceConfig_DeepCopyInto self nothing always
  by (intro slice_copier.intro copier_assigned persistence_configs.region_laws_axioms) (simp add: assigned_defs)

interpretation resource_requirement:
  slice_copier resource_requirements_region ResourceRequirements_DeepCopyInto self nothing always
  by (intro slice_copier.intro copier_assigned resource_requirements.region_laws_axioms) (simp add: assigned_defs)

interpretation user_info: slice_copier user_infos_region UserInfo_DeepCopyInto self nothing always
  by (intro slice_copier.intro copier_assigned user_infos.region_laws_axioms) (simp add: assigned_defs)

interpretation lifecycle_spec:
  slice_copier lifecycle_specs_region WorkspaceLifecycleSpec_DeepCopyInto self nothing always
  by (intro slice_copier.intro copier_assigned lifecycle_specs.region_laws_axioms) (simp add: assigned_defs)

subsection \<open>The spec\<close>

definition AIProvider_val :: "('m, 'l, 'o) go_memory \<Rightarrow> go_ai_provider \<Rightarrow> (string \<times> string) \<times> string list option" where
  "AIProvider_val m x = ((gp_name x, gp_endpoint x), flat_val strings_region m (gp_models x))"

definition AIProvider_foot :: "('m, 'l, 'o) go_memory \<Rightarrow> go_ai_provider \<Rightarrow> addr set" where
  "AIProvider_foot m x = flat_foot m (gp_models x)"

definition AIProvider_ok :: "('m, 'l, 'o) go_memory \<Rightarrow> go_ai_provider \<Rightarrow> bool" where
  "AIProvider_ok m x = flat_ok strings_region m (gp_models x)"

lemma AIProvider_copier: "copier AIProvider_DeepCopyInto AIProvider_val AIProvider_foot AIProvider_ok"
  unfolding AIProvider_val_def [abs_def] AIProvider_foot_def [abs_def] AIProvider_ok_def [abs_def]
  by (rule copier_struct [OF strings.copier_flat, where v = Pair and put = "\<lambda>x b. x\<lparr>gp_models := b\<rparr>"
        and rest = "\<lambda>x. (gp_name x, gp_endpoint x)"])
    (simp_all add: AIProvider_DeepCopyInto_def Let_def)

interpretation ai_provider: slice_copier ai_providers_region AIProvider_DeepCopyInto AIProvider_val AIProvider_foot AIProvider_ok
  by (intro slice_copier.intro AIProvider_copier ai_providers.region_laws_axioms)

definition AIConfiguration_get :: "go_ai_configuration \<Rightarrow> slice option \<times> slice option \<times> slice option" where
  "AIConfiguration_get x = (ga_providers x, ga_egress_namespaces x, ga_egress_ports x)"

definition AIConfiguration_val where
  "AIConfiguration_val m x = (each_val ai_providers_region AIProvider_val m (ga_providers x),
     flat_val strings_region m (ga_egress_namespaces x), flat_val int32s_region m (ga_egress_ports x))"

definition AIConfiguration_foot where
  "AIConfiguration_foot m x = each_foot ai_providers_region AIProvider_foot m (ga_providers x)
     \<union> (flat_foot m (ga_egress_namespaces x) \<union> flat_foot m (ga_egress_ports x))"

definition AIConfiguration_ok where
  "AIConfiguration_ok m x = (each_ok ai_providers_region AIProvider_ok m (ga_providers x)
     \<and> flat_ok strings_region m (ga_egress_namespaces x) \<and> flat_ok int32s_region m (ga_egress_ports x))"

lemma AIConfiguration_copier:
  "copier AIConfiguration_DeepCopyInto AIConfiguration_val AIConfiguration_foot AIConfiguration_ok"
proof -
  note c = copier_struct [OF copier_pair [OF ai_provider.copier_each copier_pair [OF strings.copier_flat int32s.copier_flat]],
      where get = AIConfiguration_get and v = "\<lambda>u w. w" and rest = "\<lambda>x. ()" and copy = AIConfiguration_DeepCopyInto
        and put = "\<lambda>x b. x\<lparr>ga_providers := fst b, ga_egress_namespaces := fst (snd b), ga_egress_ports := snd (snd b)\<rparr>"]
  show ?thesis unfolding AIConfiguration_val_def [abs_def] AIConfiguration_foot_def [abs_def] AIConfiguration_ok_def [abs_def]
    by (rule c [unfolded AIConfiguration_get_def fst_conv snd_conv])
      (simp_all add: AIConfiguration_DeepCopyInto_def copy_pair_def Let_def split: prod.splits)
qed

interpretation ai_configuration:
  slice_copier ai_configurations_region AIConfiguration_DeepCopyInto AIConfiguration_val AIConfiguration_foot AIConfiguration_ok
  by (intro slice_copier.intro AIConfiguration_copier ai_configurations.region_laws_axioms)

definition TLSConfig_val where
  "TLSConfig_val m x = pointer_val ca_bundle_refs_region self m (gt_custom_ca_bundle x)"

definition TLSConfig_foot where
  "TLSConfig_foot m x = pointer_foot ca_bundle_refs_region nothing m (gt_custom_ca_bundle x)"

definition TLSConfig_ok where
  "TLSConfig_ok m x = pointer_ok ca_bundle_refs_region always m (gt_custom_ca_bundle x)"

lemma TLSConfig_copier: "copier TLSConfig_DeepCopyInto TLSConfig_val TLSConfig_foot TLSConfig_ok"
  unfolding TLSConfig_val_def [abs_def] TLSConfig_foot_def [abs_def] TLSConfig_ok_def [abs_def]
  by (rule copier_struct [OF ca_bundle_ref.copier_pointer, where v = "\<lambda>u w. w" and rest = "\<lambda>x. ()"
        and put = "\<lambda>x b. x\<lparr>gt_custom_ca_bundle := b\<rparr>"])
    (auto simp: TLSConfig_DeepCopyInto_def deep_copy_def assigned_defs Let_def split: prod.splits option.splits)

interpretation tls_config: slice_copier tls_configs_region TLSConfig_DeepCopyInto TLSConfig_val TLSConfig_foot TLSConfig_ok
  by (intro slice_copier.intro TLSConfig_copier tls_configs.region_laws_axioms)

definition WorkspaceSpec_val where
  "WorkspaceSpec_val m x = ((gs_user x, gs_resources x, gs_persistence x, gs_lifecycle x),
     AIConfiguration_val m (gs_ai_config x), TLSConfig_val m (gs_tls x))"

definition WorkspaceSpec_foot where
  "WorkspaceSpec_foot m x = AIConfiguration_foot m (gs_ai_config x) \<union> TLSConfig_foot m (gs_tls x)"

definition WorkspaceSpec_ok where
  "WorkspaceSpec_ok m x = (AIConfiguration_ok m (gs_ai_config x) \<and> TLSConfig_ok m (gs_tls x))"

lemma WorkspaceSpec_copier: "copier WorkspaceSpec_DeepCopyInto WorkspaceSpec_val WorkspaceSpec_foot WorkspaceSpec_ok"
proof -
  note c = copier_struct [OF copier_pair [OF AIConfiguration_copier TLSConfig_copier],
      where get = "\<lambda>x. (gs_ai_config x, gs_tls x)" and v = Pair and copy = WorkspaceSpec_DeepCopyInto
        and rest = "\<lambda>x. (gs_user x, gs_resources x, gs_persistence x, gs_lifecycle x)"
        and put = "\<lambda>x b. x\<lparr>gs_ai_config := fst b, gs_tls := snd b\<rparr>"]
  show ?thesis unfolding WorkspaceSpec_val_def [abs_def] WorkspaceSpec_foot_def [abs_def] WorkspaceSpec_ok_def [abs_def]
    by (rule c [unfolded fst_conv snd_conv]) (simp_all add: WorkspaceSpec_DeepCopyInto_def copy_pair_def Let_def split: prod.splits)
qed

interpretation workspace_spec:
  slice_copier workspace_specs_region WorkspaceSpec_DeepCopyInto WorkspaceSpec_val WorkspaceSpec_foot WorkspaceSpec_ok
  by (intro slice_copier.intro WorkspaceSpec_copier workspace_specs.region_laws_axioms)

subsection \<open>The status, the Workspace and the list\<close>

text \<open>
  What the API machinery documents of its own deep copies: those of \<open>ObjectMeta\<close> and \<open>ListMeta\<close> are
  copiers, for some reading \<open>mv\<close>, \<open>lv\<close> of what they refer to; conditions and times hold no references.
\<close>

definition apimachinery where
  "apimachinery F mv mf mk lv lf lk =
     (copier (ObjectMeta_DeepCopyInto F) mv mf mk \<and> copier (ListMeta_DeepCopyInto F) lv lf lk
      \<and> copier (Condition_DeepCopyInto F) self nothing always \<and> copier (Time_DeepCopyInto F) self nothing always)"

definition WorkspaceStatus_val where
  "WorkspaceStatus_val m x =
     ((gu_phase x, gu_pod_name x, gu_service_endpoint x, gu_message x, gu_remediation_hint x),
      each_val conditions_region self m (gu_conditions x), self m (gu_last_accessed x))"

definition WorkspaceStatus_foot where
  "WorkspaceStatus_foot m x =
     each_foot conditions_region nothing m (gu_conditions x) \<union> nothing m (gu_last_accessed x)"

definition WorkspaceStatus_ok where
  "WorkspaceStatus_ok m x = (each_ok conditions_region always m (gu_conditions x) \<and> always m (gu_last_accessed x))"

lemma WorkspaceStatus_copier:
  assumes "apimachinery F mv mf mk lv lf lk"
  shows "copier (WorkspaceStatus_DeepCopyInto F) WorkspaceStatus_val WorkspaceStatus_foot WorkspaceStatus_ok"
proof -
  have cond: "slice_copier conditions_region (Condition_DeepCopyInto F) self nothing always"
    and time: "copier (Time_DeepCopyInto F) self nothing always"
    using assms by (auto simp: apimachinery_def intro: slice_copier.intro conditions.region_laws_axioms)
  note c = copier_struct [OF copier_pair [OF slice_copier.copier_each [OF cond] time],
      where get = "\<lambda>x. (gu_conditions x, gu_last_accessed x)" and v = Pair and copy = "WorkspaceStatus_DeepCopyInto F"
        and rest = "\<lambda>x. (gu_phase x, gu_pod_name x, gu_service_endpoint x, gu_message x, gu_remediation_hint x)"
        and put = "\<lambda>x b. x\<lparr>gu_conditions := fst b, gu_last_accessed := snd b\<rparr>"]
  show ?thesis unfolding WorkspaceStatus_val_def [abs_def] WorkspaceStatus_foot_def [abs_def] WorkspaceStatus_ok_def [abs_def]
    by (rule c [unfolded fst_conv snd_conv]) (simp_all add: WorkspaceStatus_DeepCopyInto_def copy_pair_def Let_def split: prod.splits)
qed

definition Workspace_val where
  "Workspace_val mv m x = (gw_type x, mv m (gw_meta x), WorkspaceSpec_val m (gw_spec x), WorkspaceStatus_val m (gw_status x))"

definition Workspace_foot where
  "Workspace_foot mf m x = mf m (gw_meta x) \<union> (WorkspaceSpec_foot m (gw_spec x) \<union> WorkspaceStatus_foot m (gw_status x))"

definition Workspace_ok where
  "Workspace_ok mk m x = (mk m (gw_meta x) \<and> WorkspaceSpec_ok m (gw_spec x) \<and> WorkspaceStatus_ok m (gw_status x))"

lemma Workspace_copier:
  assumes "apimachinery F mv mf mk lv lf lk"
  shows "copier (Workspace_DeepCopyInto F) (Workspace_val mv) (Workspace_foot mf) (Workspace_ok mk)"
proof -
  have meta: "copier (ObjectMeta_DeepCopyInto F) mv mf mk" using assms by (simp add: apimachinery_def)
  note c = copier_struct [OF copier_pair [OF meta copier_pair [OF WorkspaceSpec_copier WorkspaceStatus_copier [OF assms]]],
      where get = "\<lambda>x. (gw_meta x, gw_spec x, gw_status x)" and v = Pair and copy = "Workspace_DeepCopyInto F"
        and rest = gw_type and put = "\<lambda>x b. x\<lparr>gw_meta := fst b, gw_spec := fst (snd b), gw_status := snd (snd b)\<rparr>"]
  show ?thesis unfolding Workspace_val_def [abs_def] Workspace_foot_def [abs_def] Workspace_ok_def [abs_def]
    by (rule c [unfolded fst_conv snd_conv]) (simp_all add: Workspace_DeepCopyInto_def copy_pair_def Let_def split: prod.splits)
qed

lemma Workspace_slice_copier:
  assumes "apimachinery F mv mf mk lv lf lk"
  shows "slice_copier (workspaces_region z) (Workspace_DeepCopyInto F) (Workspace_val mv) (Workspace_foot mf) (Workspace_ok mk)"
  using Workspace_copier [OF assms] workspaces.region_laws_axioms by (rule slice_copier.intro [rotated])

definition WorkspaceList_val where
  "WorkspaceList_val mv lv z m x =
     (gl_type x, lv m (gl_meta x), each_val (workspaces_region z) (Workspace_val mv) m (gl_items x))"

definition WorkspaceList_foot where
  "WorkspaceList_foot mf lf z m x = lf m (gl_meta x) \<union> each_foot (workspaces_region z) (Workspace_foot mf) m (gl_items x)"

definition WorkspaceList_ok where
  "WorkspaceList_ok mk lk z m x = (lk m (gl_meta x) \<and> each_ok (workspaces_region z) (Workspace_ok mk) m (gl_items x))"

lemma WorkspaceList_copier:
  assumes "apimachinery F mv mf mk lv lf lk"
  shows "copier (WorkspaceList_DeepCopyInto F) (WorkspaceList_val mv lv (ObjectMeta_zero F))
    (WorkspaceList_foot mf lf (ObjectMeta_zero F)) (WorkspaceList_ok mk lk (ObjectMeta_zero F))"
proof -
  have meta: "copier (ListMeta_DeepCopyInto F) lv lf lk" using assms by (simp add: apimachinery_def)
  note c = copier_struct [OF copier_pair [OF meta slice_copier.copier_each [OF Workspace_slice_copier [OF assms]]],
      where get = "\<lambda>x. (gl_meta x, gl_items x)" and v = Pair and copy = "WorkspaceList_DeepCopyInto F"
        and rest = gl_type and put = "\<lambda>x b. x\<lparr>gl_meta := fst b, gl_items := snd b\<rparr>"]
  show ?thesis unfolding WorkspaceList_val_def [abs_def] WorkspaceList_foot_def [abs_def] WorkspaceList_ok_def [abs_def]
    by (rule c [unfolded fst_conv snd_conv]) (simp_all add: WorkspaceList_DeepCopyInto_def copy_pair_def Let_def split: prod.splits)
qed

section \<open>Original and copy share nothing\<close>

definition Workspace_at where
  "Workspace_at F mv = pointer_val (workspaces_region (ObjectMeta_zero F)) (Workspace_val mv)"

definition Workspace_allocated where
  "Workspace_allocated F mk = pointer_ok (workspaces_region (ObjectMeta_zero F)) (Workspace_ok mk)"

lemma pointer_val_None [simp]: "pointer_val r v m p = None \<longleftrightarrow> p = None"
  by (simp add: pointer_val_def)

text \<open>
  C26: \<open>ws.DeepCopy()\<close>, the base of every status patch of the controller and of the gateway. The copy
  of a Workspace has the value of the original, nil slices and pointers staying nil; whatever is
  written afterwards to the memory the original was in (by the code that goes on to change
  \<open>ws.Status\<close>), the copy keeps that value; and whatever is written to the memory of the copy, the
  original keeps it.
\<close>

theorem Workspace_DeepCopy_isolated:
  assumes "apimachinery F mv mf mk lv lf lk" and "Workspace_allocated F mk m p"
    and "Workspace_DeepCopy F p m = (q, m')"
  shows "Workspace_at F mv m' q = Workspace_at F mv m p
    \<and> (\<forall>n. agree {mem_next m..<mem_next m'} m' n \<longrightarrow> Workspace_at F mv n q = Workspace_at F mv m p)
    \<and> (\<forall>n. agree {..<mem_next m} m' n \<longrightarrow> Workspace_at F mv n p = Workspace_at F mv m p)"
proof -
  note c = slice_copier.copier_pointer [OF Workspace_slice_copier [OF assms(1), where z = "ObjectMeta_zero F"]]
  note k = assms(2,3) [unfolded Workspace_allocated_def Workspace_DeepCopy_def]
  show ?thesis unfolding Workspace_at_def
    using copier.same_val [OF c k] copier.copy_isolated [OF c k] copier.original_isolated [OF c k] by blast
qed

lemma WorkspaceList_DeepCopy_isolated:
  assumes "apimachinery F mv mf mk lv lf lk"
    and k: "pointer_ok (workspace_lists_region (ListMeta_zero F)) (WorkspaceList_ok mk lk (ObjectMeta_zero F)) m p"
    and "WorkspaceList_DeepCopy F p m = (q, m')"
  defines "at \<equiv> pointer_val (workspace_lists_region (ListMeta_zero F)) (WorkspaceList_val mv lv (ObjectMeta_zero F))"
  shows "at m' q = at m p \<and> (\<forall>n. agree {mem_next m..<mem_next m'} m' n \<longrightarrow> at n q = at m p)
    \<and> (\<forall>n. agree {..<mem_next m} m' n \<longrightarrow> at n p = at m p)"
proof -
  note c = slice_copier.copier_pointer [OF slice_copier.intro [OF workspace_lists.region_laws_axioms
      [where z = "ListMeta_zero F"] WorkspaceList_copier [OF assms(1)]]]
  note e = assms(3) [unfolded WorkspaceList_DeepCopy_def]
  show ?thesis unfolding at_def
    using copier.same_val [OF c k e] copier.copy_isolated [OF c k e] copier.original_isolated [OF c k e] by blast
qed

lemma Workspace_DeepCopyObject_nil:
  "fst (Workspace_DeepCopyObject F p m) = Nil_Interface \<longleftrightarrow> p = None"
  by (auto simp: Workspace_DeepCopyObject_def Workspace_DeepCopy_def deep_copy_def split: prod.splits option.splits if_splits)

lemma WorkspaceList_DeepCopyObject_nil:
  "fst (WorkspaceList_DeepCopyObject F p m) = Nil_Interface \<longleftrightarrow> p = None"
  by (auto simp: WorkspaceList_DeepCopyObject_def WorkspaceList_DeepCopy_def deep_copy_def split: prod.splits option.splits if_splits)

text \<open>A machinery whose object metadata is a list of finalizers, and a Workspace with two egress ports and a finalizer.\<close>

definition sample_foreign :: "(slice option, unit, unit) foreign" where
  "sample_foreign = \<lparr>ObjectMeta_DeepCopyInto = copy_flat strings_region, ListMeta_DeepCopyInto = (\<lambda>x m. (x, m)),
     Condition_DeepCopyInto = (\<lambda>x m. (x, m)), Time_DeepCopyInto = (\<lambda>x m. (x, m)), ObjectMeta_zero = None, ListMeta_zero = ()\<rparr>"

definition sample_go_workspace :: "slice option go_workspace" where
  "sample_go_workspace = \<lparr>gw_type = zero_type_meta,
     gw_meta = Some \<lparr>sl_array = 1, sl_off = 0, sl_len = 1, sl_cap = 2\<rparr>,
     gw_spec = zero_workspace_spec\<lparr>gs_ai_config := zero_ai_configuration
       \<lparr>ga_egress_ports := Some \<lparr>sl_array = 2, sl_off = 1, sl_len = 2, sl_cap = 2\<rparr>\<rparr>\<rparr>,
     gw_status = zero_workspace_status\<rparr>"

definition sample_memory :: "(slice option, unit, unit) go_memory" where
  "sample_memory = \<lparr>mem_next = 3, mem_cells = (\<lambda>_. Foreign ())(0 := Workspaces [sample_go_workspace],
     1 := Strings [''keep'', ''spare''], 2 := Int32s [1, 22, 443])\<rparr>"

lemma sample_apimachinery:
  "apimachinery sample_foreign (flat_val strings_region) flat_foot (flat_ok strings_region) self nothing always"
  by (simp add: apimachinery_def sample_foreign_def strings.copier_flat copier_assigned)

theorem Workspace_DeepCopy_isolated_witness:
  "let p = Some \<lparr>pt_array = 0, pt_index = 0\<rparr>;
       (q, m') = Workspace_DeepCopy sample_foreign p sample_memory;
       n = put_array int32s_region 2 [0, 0, 0] m';
       value = Workspace_at sample_foreign (flat_val strings_region)
   in value n q = value sample_memory p \<and> value n p \<noteq> value sample_memory p"
proof -
  let ?p = "Some \<lparr>pt_array = 0, pt_index = 0\<rparr> :: pointer option"
  obtain q m' where c: "Workspace_DeepCopy sample_foreign ?p sample_memory = (q, m')" by fastforce
  let ?n = "put_array int32s_region 2 [0, 0, 0] m'"
  have k: "Workspace_allocated sample_foreign (flat_ok strings_region) sample_memory ?p" by code_simp
  have "agree {mem_next sample_memory..<mem_next m'} m' ?n" by (simp add: agree_def sample_memory_def)
  then have 1: "Workspace_at sample_foreign (flat_val strings_region) ?n q
      = Workspace_at sample_foreign (flat_val strings_region) sample_memory ?p"
    using Workspace_DeepCopy_isolated [OF sample_apimachinery k c] by blast
  have "(let (q, m') = Workspace_DeepCopy sample_foreign ?p sample_memory
     in Workspace_at sample_foreign (flat_val strings_region) (put_array int32s_region 2 [0, 0, 0] m') ?p
        \<noteq> Workspace_at sample_foreign (flat_val strings_region) sample_memory ?p)" by code_simp
  with 1 c show ?thesis by simp
qed

end
