(* ===== verification/Spec2Isabelle.thy ===== *)
theory Spec2Isabelle
  imports Keepalive Healing Session Responses Metrics Gateway_Start Operator_Start Deepcopy_Props
begin

text \<open>
  \<^bold>\<open>DevPlane: verification of the workspace operator and of the gateway\<close>

  DevPlane gives every user of a cluster a terminal workspace. A user is a \<open>Workspace\<close> resource; the
  operator turns it into a pod with a persistent claim, a headless Service, a ServiceAccount with a
  read-only Role and three NetworkPolicies, and stops it when it is idle. The gateway authenticates
  the user with OIDC, creates or wakes the user's \<open>Workspace\<close> and connects the browser to the pod's
  terminal server over HTTP and WebSocket, recording the session when asked to. The two processes
  share nothing but the API server.

  \<^bold>\<open>How the model is built.\<close> Everything is translated function by function from the Go sources,
  with their names. Pure functions are HOL functions on records; a Go \<open>error\<close> is a record of its text
  and of the classes \<open>errors.Is\<close> finds, and a fallible result is \<open>go_error + 'a\<close>. Code with effects is
  an action of \<open>State_Monad\<close> over the state \<open>'w\<close> of whatever answers it (API server, identity
  provider, file system, peers, clock) and a trace of the calls with the answers they got. So a
  property about the trace holds for every behaviour of the outside. Code that is not in the
  repository is an argument: \<open>k8s_lib\<close> and \<open>kclient\<close> for the Kubernetes libraries and the client,
  \<open>oidc_env\<close> for go-oidc, \<open>rate_lib\<close> for \<open>x/time/rate\<close>, \<open>gw_env\<close> for the operating system, the network
  and gorilla/websocket. What is relied on of them is a locale (\<open>kube_client\<close>, \<open>keyed_client\<close>,
  \<open>token_bucket\<close> and others) with an interpretation on executable definitions.

  \<^bold>\<open>Foundations.\<close>
  \<^item> \<open>Prelude\<close>: errors, traced actions, and the rules \<open>trace_rules\<close> (a property of every effect),
    \<open>post_rules\<close> (of result and effects) and \<open>wp_simps\<close> (weakest preconditions).
  \<^item> \<open>Go_Strings\<close>, \<open>Go_Time\<close>, \<open>Go_Json\<close>, \<open>Go_Format\<close>, \<open>Go_Crypto\<close>: what the program uses of Go's
    \<open>strings\<close>, \<open>strconv\<close>, \<open>time\<close>, \<open>encoding/json\<close>, \<open>crypto/sha256\<close>, \<open>encoding/hex\<close> and
    \<open>encoding/base64\<close>, on byte strings. SHA-256 is computed on 32-bit words.
  \<^item> \<open>Go_Flag\<close>, \<open>Go_Duration\<close>, \<open>Process\<close>: \<open>flag.Parse\<close>, \<open>Duration.String\<close> with its round trip through
    \<open>ParseDuration\<close>, and processes that end with a report and an exit code.
  \<^item> \<open>Api_Types\<close> (\<open>api/v1alpha1/workspace_types.go\<close>) and \<open>Kube_Types\<close>: the resources as records.
    \<open>Api_Group\<close> (\<open>groupversion_info.go\<close>): the group and the types it registers.
  \<^item> \<open>Deepcopy\<close> and \<open>Deepcopy_Props\<close> (\<open>zz_generated.deepcopy.go\<close>): the generated copies over an
    explicit memory of arrays, slices and pointers. The locale \<open>copier\<close> says what a copy promises
    (same value, fresh memory, the rest unchanged) and is closed under structs, slices and pointers;
    a copied Workspace and its original never see each other's writes. This is what lets the other
    theories treat resources as values.
  \<^item> \<open>Kube_Client\<close>: the API calls, their effects, the meaning of a status patch (a \<open>metav1.Time\<close> goes
    over the wire in whole seconds), and the contract of the client: \<open>keyed_client\<close> says that a read
    answers with the object asked for and a patch with the object patched, \<open>kube_client\<close> adds the rest.

  \<^bold>\<open>Operator.\<close>
  \<^item> \<open>Resources\<close> (\<open>pkg/workspace/resources.go\<close>): names, labels, builders of claim, pod and Service,
    \<open>ValidateSpec\<close>. Shown: validation is a declarative predicate, it differs from the documented rules
    exactly by provider names that occur twice, the derived names are labels, the pods are hardened
    and share no claim, and a validated spec can be built.
  \<^item> \<open>Diagnostics\<close> (\<open>diagnostics.go\<close>, \<open>status_summary.go\<close>): classification of errors and the Ready
    condition.
  \<^item> \<open>Netpol\<close> and \<open>Rbac\<close> (\<open>pkg/security\<close>): the policies with a semantics of the traffic they admit,
    and the access the Role grants.
  \<^item> \<open>Controller\<close> (\<open>controllers/workspace_controller.go\<close>, \<open>pkg/observability\<close>): \<open>Reconcile\<close> with every
    stage, early return and requeue. \<open>Controller_Trace\<close> has the order of its effects for every client.
  \<^item> \<open>Cluster\<close>, \<open>Cluster_Frames\<close>, \<open>Convergence\<close>: an executable API server, which interprets the client's
    contract, a kubelet, and runs of the operator on them. It is the server of a good day: no call
    fails, reads are never stale, a deleted pod is gone at once. The kubelet removes a pod in
    deletion, leaves one that has ended as it is, and starts any other. The properties about single
    reconciles and requests do not rest on this server, but hold for every client.
  \<^item> \<open>Controller_Props\<close>: pods are created behind their policies and deleted only for a cause, Running
    means ready, errors are reported, claims survive, a new workspace comes up.
  \<^item> \<open>Healing\<close>: a rank of the repairs a workspace still needs falls with every reconcile, so the operator
    brings it to Running in five rounds and keeps it there, unless its pod has ended on the
    configured image: such a pod is reported and stays.
  \<^item> \<open>Operator_Main\<close> and \<open>Operator_Start\<close> (\<open>main.go\<close>, \<open>SetupWithManager\<close>): the settings of the operator
    and the reconciler built from them; the process with its flags, manager, probes and exit codes.

  \<^bold>\<open>Gateway.\<close>
  \<^item> \<open>Auth\<close> and \<open>Auth_Props\<close> (\<open>pkg/gateway/auth.go\<close>, \<open>auth_http.go\<close>, \<open>auth_dev.go\<close>): user ids, the
    validator with its LRU token cache. The critical sections of concurrent validations and sweeps
    are the steps of an inductive relation; the cache invariant holds in every reachable state and
    \<open>Validate\<close> refines that system. The interface \<open>token_validator\<close> is interpreted by both validators.
  \<^item> \<open>Ratelimit\<close> (\<open>ratelimit.go\<close>): the endpoint limiter, bounded in every window of time under the
    token-bucket contract, the cap at the burst included.
  \<^item> \<open>Lifecycle\<close> and \<open>Lifecycle_Props\<close> (\<open>lifecycle.go\<close>): \<open>EnsureExists\<close>, \<open>EnsureWorkspace\<close> and
    \<open>TouchLastAccessed\<close>. The wait polls with fuel: 31 passes, since 30 polls of two seconds reach the
    deadline of a minute and one more sees it. It is proved that this always gives a result when
    time passes, and that more fuel gives the same.
  \<^item> \<open>Gateway_Env\<close> (\<open>audit.go\<close>, \<open>metrics.go\<close>, \<open>requestid.go\<close>, \<open>auth_http.go\<close>): the environment and the
    effects of the gateway, audit records, counters, request ids, JSON errors.
  \<^item> \<open>Recording\<close> and \<open>Recording_Props\<close> (\<open>session_recording.go\<close>): the recorder, its lines and manifest;
    the lines are a verifying hash chain, tampering needs a SHA-256 collision, payloads come back.
  \<^item> \<open>Proxy\<close> and \<open>Proxy_Props\<close> (\<open>proxy.go\<close>): the tunnel. Its two copy loops take turns under an
    arbitrary schedule; a schedule that ends early leaves the tunnel open (\<open>None\<close>). The locale
    \<open>frame_sink\<close> is what the tunnel relies on of its callbacks.
  \<^item> \<open>Pages\<close>, \<open>Handlers\<close>, \<open>Gateway\<close> (\<open>cmd/gateway/main.go\<close>): loading page and injected style sheet,
    the handlers over the interfaces of validator, lifecycle manager and limiter, the settings, and
    the process with its concrete parts and routes.
  \<^item> \<open>Gateway_Props\<close>: the locale \<open>request_interfaces\<close> is what the handlers rely on; it is a sublocale of
    \<open>keyed_gateway\<close>, a gateway whose client is a \<open>keyed_client\<close>. No route has an effect on a workspace before the caller is validated and let
    through, and then only on the caller's own; session cookies only follow a verified login.
  \<^item> \<open>Session\<close>: the recorder as the frame sink of the tunnel. What a session leaves on disk is what
    went over the wire.
  \<^item> \<open>Responses\<close>: the protocol of a response writer as an automaton; every route follows it and every
    request that has ended got exactly one response.
  \<^item> \<open>Gateway_Start\<close>: the process from its first line to its end. It listens only when it is fully
    configured.
  \<^item> \<open>Metrics\<close> (\<open>observability/metrics.go\<close>, \<open>gateway/metrics.go\<close>): the counters of both processes, their
    registration, and that no increment can panic.

  \<^bold>\<open>Both together.\<close> \<open>System\<close> runs operator, gateway, kubelet, provisioner, garbage collector and users
  on one cluster, in any order: pods stay hardened, and a claim stays unless its Workspace goes, when
  the garbage collector may take it; a first login comes to Running; a workspace stopped for
  inactivity and woken by the gateway is stopped again, because its access time is not renewed.
  \<open>Keepalive\<close> runs a terminal session beside the operator: frames stamp the access time at most once
  a minute, in whole seconds, and as long as the pauses stay a minute and a second below the idle
  timeout the pod stays up.

  \<^bold>\<open>Bounds and simplifications.\<close> Durations and instants are integers counted in nanoseconds, with
  Go's overflow checks in \<open>ParseDuration\<close>; a time in a status is cut to whole seconds when it is
  patched. A short write to a recording counts as a failed one: the encoder keeps the error, so
  that its fragment is the last thing in the file. The sequence number of a recording is a 64-bit word. \<open>strings.ToLower\<close> beyond ASCII, \<open>ParseFloat\<close> and
  \<open>json.Unmarshal\<close> of the provider list are arguments. A call of \<open>RecordFrame\<close> is one step, as its mutex
  makes it; so is a call of \<open>onActivity\<close>, which the code does not lock. A URL the gateway built from a
  service endpoint is taken to parse; paths of requests are taken in canonical form.

  \<^bold>\<open>Not modelled.\<close> Grace periods of pods, stale caches and failures of the API server in the runs on
  the concrete cluster (for every single reconcile and request they are covered by the arbitrary
  client); the copying of bytes after an answer 101 to the HTTP proxy; the check of label values for
  UTF-8 in client_golang; the redirects \<open>http.ServeMux\<close> sends for a path that is not clean; the progress
  records of \<open>netpol.go\<close> about skipped ports; what the libraries do behind the arguments listed
  above, the deep copies of the API machinery's metadata types among them; the struct and
  constructor that only hold a logger (\<open>Proxy\<close>, \<open>NewProxy\<close>); Helm chart, manifests, images and
  scripts, which are not Go code.
\<close>

end
